(* ===== verification/Prelude.thy ===== *)
theory Prelude
  imports Main "HOL-Library.Word"
begin

text \<open>
  Shared vocabulary of the development: what the sources use of Python itself.

  \<^item> \<open>py_error\<close> lists the exceptions the sources raise or let escape, and
    \<open>'a res\<close> is the type of a call that either raises (\<open>Inl\<close>) or returns (\<open>Inr\<close>);
    \<open>bindR\<close>, \<open>assertR\<close> and \<open>mapR\<close> are sequencing, the \<open>assert\<close> statement and a list
    comprehension whose body may raise.
  \<^item> \<open>bytes\<close> are lists of 8-bit words, \<open>str\<close> values are HOL strings, integers are \<open>int\<close>.
  \<^item> Indexing (with Python's negative indices), assignment to an index,
    \<open>int.from_bytes\<close>/\<open>int.to_bytes\<close>, \<open>bytes.hex\<close>/\<open>bytes.fromhex\<close>, \<open>int(s, base)\<close>,
    binary formatting and \<open>str.split\<close>/\<open>str.startswith\<close>.
  The collections \<open>res_simps\<close> and \<open>codec\<close> gather the rewrite rules that the component
  proofs share.
\<close>

named_theorems res_simps "evaluation of result-valued code"
named_theorems codec "encoding and decoding facts"

section \<open>Exceptions and results\<close>

datatype py_error =
    AssertionError
  | ValueError
  | IndexError
  | KeyError
  | OverflowError
  | TypeError
  | ZeroDivisionError
  | FileNotFoundError
  | InvalidSignature
  | PyException string
  | ClickException string

type_synonym 'a res = "py_error + 'a"
type_synonym byte = "8 word"
type_synonym bytes = "byte list"

definition bindR :: "'a res \<Rightarrow> ('a \<Rightarrow> 'b res) \<Rightarrow> 'b res" where
  "bindR r f = (case r of Inl e \<Rightarrow> Inl e | Inr x \<Rightarrow> f x)"

definition assertR :: "bool \<Rightarrow> 'b res \<Rightarrow> 'b res" where
  "assertR b r = (if b then r else Inl AssertionError)"

fun mapR :: "('a \<Rightarrow> 'b res) \<Rightarrow> 'a list \<Rightarrow> 'b list res" where
  "mapR f [] = Inr []"
| "mapR f (x # xs) = bindR (f x) (\<lambda>y. bindR (mapR f xs) (\<lambda>ys. Inr (y # ys)))"

lemma bindR_simps [simp, res_simps]:
  "bindR (Inl e) f = Inl e" "bindR (Inr x) f = f x"
  by (simp_all add: bindR_def)

lemma bindR_eq_Inr [res_simps]: "bindR r f = Inr y \<longleftrightarrow> (\<exists>x. r = Inr x \<and> f x = Inr y)"
  by (cases r) auto

lemma bindR_cong [fundef_cong]:
  "r = r' \<Longrightarrow> (\<And>x. r' = Inr x \<Longrightarrow> f x = g x) \<Longrightarrow> bindR r f = bindR r' g"
  by (cases r') auto

lemma assertR_simps [simp, res_simps]:
  "assertR True r = r" "assertR False r = Inl AssertionError"
  by (simp_all add: assertR_def)

lemma assertR_eq_Inr [res_simps]: "assertR b r = Inr y \<longleftrightarrow> b \<and> r = Inr y"
  by (simp add: assertR_def)

lemma mapR_Inr: "(\<And>x. x \<in> set xs \<Longrightarrow> f x = Inr (g x)) \<Longrightarrow> mapR f xs = Inr (map g xs)"
  by (induction xs) auto

lemma mapR_Inl: "mapR f xs = Inl e \<Longrightarrow> \<exists>x \<in> set xs. f x = Inl e"
  by (induction xs) (auto simp: bindR_def split: sum.splits)

lemma mapR_map: "mapR f (map g xs) = mapR (\<lambda>x. f (g x)) xs"
  by (induction xs) auto

lemma mapR_length: "mapR f xs = Inr ys \<Longrightarrow> length ys = length xs"
  by (induction xs arbitrary: ys) (auto simp: bindR_eq_Inr)

lemma mapR_nth: "mapR f xs = Inr ys \<Longrightarrow> i < length xs \<Longrightarrow> f (xs ! i) = Inr (ys ! i)"
  by (induction xs arbitrary: ys i) (auto simp: bindR_eq_Inr nth_Cons split: nat.splits)

text \<open>
  Code with state: an exception leaves the state as it is when it is raised.
\<close>

definition bindS :: "'s \<times> 'a res \<Rightarrow> ('s \<Rightarrow> 'a \<Rightarrow> 's \<times> 'b res) \<Rightarrow> 's \<times> 'b res" where
  "bindS x f = (case snd x of Inl e \<Rightarrow> (fst x, Inl e) | Inr a \<Rightarrow> f (fst x) a)"

lemma bindS_simps [res_simps]: "bindS (s, Inl e) f = (s, Inl e)" "bindS (s, Inr x) f = f s x"
  by (simp_all add: bindS_def)

lemma bindS_eq_Inr: "bindS x f = (s, Inr y) \<longleftrightarrow> (\<exists>s' a. x = (s', Inr a) \<and> f s' a = (s, Inr y))"
  by (cases x; cases "snd x") (auto simp: bindS_def)

section \<open>Sequences\<close>

definition py_pos :: "nat \<Rightarrow> int \<Rightarrow> nat option" where
  "py_pos len i =
     (if i < - int len \<or> int len \<le> i then None
      else Some (nat (if i < 0 then i + int len else i)))"

definition py_index :: "'a list \<Rightarrow> int \<Rightarrow> 'a res" where
  "py_index xs i = (case py_pos (length xs) i of None \<Rightarrow> Inl IndexError | Some k \<Rightarrow> Inr (xs ! k))"

definition py_set :: "'a list \<Rightarrow> int \<Rightarrow> 'a \<Rightarrow> 'a list res" where
  "py_set xs i v = (case py_pos (length xs) i of None \<Rightarrow> Inl IndexError | Some k \<Rightarrow> Inr (xs[k := v]))"

lemma py_index_nat [simp]: "i < length xs \<Longrightarrow> py_index xs (int i) = Inr (xs ! i)"
  by (simp add: py_index_def py_pos_def)

lemma py_index_in [simp]: "0 \<le> i \<Longrightarrow> i < int (length xs) \<Longrightarrow> py_index xs i = Inr (xs ! nat i)"
  by (simp add: py_index_def py_pos_def)

lemma py_index_out: "int (length xs) \<le> i \<Longrightarrow> py_index xs i = Inl IndexError"
  by (simp add: py_index_def py_pos_def)

lemma py_set_nat [simp]: "i < length xs \<Longrightarrow> py_set xs (int i) v = Inr (xs[i := v])"
  by (simp add: py_set_def py_pos_def)

lemma py_set_in [simp]: "0 \<le> i \<Longrightarrow> i < int (length xs) \<Longrightarrow> py_set xs i v = Inr (xs[nat i := v])"
  by (simp add: py_set_def py_pos_def)

text \<open>\<open>s.startswith(p)\<close> and \<open>s.split(c)\<close> for a one-character separator.\<close>

definition startswith :: "string \<Rightarrow> string \<Rightarrow> bool" where
  "startswith s p \<longleftrightarrow> take (length p) s = p"

lemma startswith_append [simp]: "startswith (p @ s) p"
  by (simp add: startswith_def)

fun split_on :: "char \<Rightarrow> string \<Rightarrow> string list" where
  "split_on c [] = [[]]"
| "split_on c (x # xs) =
     (if x = c then [] # split_on c xs
      else case split_on c xs of
             [] \<Rightarrow> [[x]]
           | y # ys \<Rightarrow> (x # y) # ys)"

lemma sep_unique:
  assumes "c \<notin> set a" "c \<notin> set a'"
  shows "a @ c # x = a' @ c # y \<longleftrightarrow> a = a' \<and> x = y"
proof
  assume eq: "a @ c # x = a' @ c # y"
  have "takeWhile (\<lambda>d. d \<noteq> c) (a @ c # x) = a" "takeWhile (\<lambda>d. d \<noteq> c) (a' @ c # y) = a'"
    using assms by (auto simp: takeWhile_tail)
  with eq show "a = a' \<and> x = y" by auto
qed auto

lemma split_on_nonempty [simp]: "split_on c s \<noteq> []"
  by (cases s) (auto split: list.splits)

lemma split_on_no_sep: "c \<notin> set s \<Longrightarrow> split_on c s = [s]"
  by (induction s) auto

lemma split_on_append_sep:
  "c \<notin> set s \<Longrightarrow> split_on c (s @ c # t) = s # split_on c t"
  by (induction s) auto

lemma split_on_join: "concat (map (\<lambda>p. p @ [c]) (butlast (split_on c s))) @ last (split_on c s) = s"
  by (induction s) (auto split: list.splits)

section \<open>Bytes and integers\<close>

text \<open>\<open>int.from_bytes(bs, 'big')\<close>.\<close>

definition int_from_bytes :: "bytes \<Rightarrow> int" where
  "int_from_bytes bs = foldl (\<lambda>a b. a * 256 + uint b) 0 bs"

text \<open>The \<open>n\<close> low-order bytes of a value, most significant first.\<close>

fun be_bytes :: "nat \<Rightarrow> int \<Rightarrow> bytes" where
  "be_bytes 0 v = []"
| "be_bytes (Suc n) v = be_bytes n (v div 256) @ [word_of_int v]"

text \<open>\<open>v.to_bytes(n, 'big')\<close>: raises if the value does not fit or is negative.\<close>

definition int_to_bytes :: "int \<Rightarrow> nat \<Rightarrow> bytes res" where
  "int_to_bytes v n = (if v < 0 \<or> 256 ^ n \<le> v then Inl OverflowError else Inr (be_bytes n v))"

lemma length_be_bytes [simp]: "length (be_bytes n v) = n"
  by (induction n arbitrary: v) auto

lemma int_from_bytes_Nil [simp]: "int_from_bytes [] = 0"
  by (simp add: int_from_bytes_def)

lemma int_from_bytes_snoc [codec]: "int_from_bytes (bs @ [b]) = int_from_bytes bs * 256 + uint b"
  by (simp add: int_from_bytes_def)

lemma uint_byte_bounds [simp]: "0 \<le> uint (b :: byte)" "uint (b :: byte) < 256"
  using uint_bounded [of b] by simp_all

lemma int_from_bytes_nonneg [simp]: "0 \<le> int_from_bytes bs"
  by (induction bs rule: rev_induct) (simp_all add: codec)

lemma int_from_bytes_not_neg [simp]: "\<not> int_from_bytes bs < 0"
  by (simp add: not_less)

lemma int_from_bytes_less: "int_from_bytes bs < 256 ^ length bs"
proof (induction bs rule: rev_induct)
  case Nil
  then show ?case by simp
next
  case (snoc b bs)
  have "int_from_bytes bs * 256 + uint b < (int_from_bytes bs + 1) * 256"
    using uint_byte_bounds(2) [of b] by (simp add: algebra_simps)
  also have "\<dots> \<le> 256 ^ length bs * 256"
    using snoc by (intro mult_right_mono) auto
  finally show ?case by (simp add: codec mult.commute)
qed

lemma uint_word_of_int_byte: "uint (word_of_int v :: byte) = v mod 256"
  by (simp add: uint_word_of_int)

lemma int_from_be_bytes: "int_from_bytes (be_bytes n v) = v mod 256 ^ n"
proof (induction n arbitrary: v)
  case 0
  then show ?case by simp
next
  case (Suc n)
  have "v mod 256 ^ Suc n = v mod (256 * 256 ^ n)"
    by simp
  also have "\<dots> = 256 * (v div 256 mod 256 ^ n) + v mod 256"
    by (rule zmod_zmult2_eq) simp
  finally show ?case
    by (simp add: codec Suc uint_word_of_int_byte)
qed

lemma be_bytes_from_bytes: "be_bytes (length bs) (int_from_bytes bs) = bs"
proof (induction bs rule: rev_induct)
  case Nil
  then show ?case by simp
next
  case (snoc b bs)
  have "(int_from_bytes bs * 256 + uint b) div 256 = int_from_bytes bs"
    by (simp add: div_pos_pos_trivial)
  moreover have "(word_of_int (int_from_bytes bs * 256 + uint b) :: byte) = b"
  proof (rule word_uint_eqI)
    show "uint (word_of_int (int_from_bytes bs * 256 + uint b) :: byte) = uint b"
      unfolding uint_word_of_int_byte by simp
  qed
  ultimately show ?case by (simp add: codec snoc)
qed

text \<open>Encoding and decoding a fixed-width integer are inverse to each other.\<close>

lemma int_to_bytes_ok [codec]: "0 \<le> v \<Longrightarrow> v < 256 ^ n \<Longrightarrow> int_to_bytes v n = Inr (be_bytes n v)"
  by (simp add: int_to_bytes_def)

lemma int_from_to_bytes: "int_to_bytes v n = Inr bs \<Longrightarrow> int_from_bytes bs = v"
  by (auto simp: int_to_bytes_def int_from_be_bytes split: if_splits)

lemma int_to_from_bytes: "int_to_bytes (int_from_bytes bs) (length bs) = Inr bs"
  using int_from_bytes_less [of bs]
  by (simp add: int_to_bytes_def be_bytes_from_bytes)

lemma int_to_bytes_length: "int_to_bytes v n = Inr bs \<Longrightarrow> length bs = n"
  by (auto simp: int_to_bytes_def split: if_splits)

lemma int_from_bytes_inj: "length a = length b \<Longrightarrow> int_from_bytes a = int_from_bytes b \<Longrightarrow> a = b"
  by (metis be_bytes_from_bytes)

section \<open>Integer division\<close>

lemma int_div_less_mult: "0 < b \<Longrightarrow> v < n * b \<Longrightarrow> v div b < (n :: int)"
proof (rule ccontr)
  assume b: "0 < b" and v: "v < n * b" and "\<not> v div b < n"
  then have "n * b \<le> v div b * b"
    by (intro mult_right_mono) auto
  also have "\<dots> \<le> v"
    using b div_mult_mod_eq [of v b] pos_mod_sign [of b v] by linarith
  finally show False using v by simp
qed

lemma int_mult_add_div: "0 \<le> r \<Longrightarrow> r < m \<Longrightarrow> (a * m + r) div m = (a :: int)"
  by (simp add: div_pos_pos_trivial)

section \<open>Generators\<close>

text \<open>
  A generator that is run to its end: the values it yields and the exception that ends it, if
  one does. The consumer sees the values before the exception.
\<close>

type_synonym 'a gen = "'a list \<times> py_error option"

definition gen_then :: "'a gen \<Rightarrow> 'a gen \<Rightarrow> 'a gen" where
  "gen_then g h = (case g of (xs, None) \<Rightarrow> (xs @ fst h, snd h) | (xs, Some e) \<Rightarrow> (xs, Some e))"

definition gen_raise :: "py_error \<Rightarrow> 'a gen" where
  "gen_raise e = ([], Some e)"

definition gen_yield :: "'a \<Rightarrow> 'a gen" where
  "gen_yield x = ([x], None)"

definition gen_done :: "'a gen" where
  "gen_done = ([], None)"

definition gen_map :: "('a \<Rightarrow> 'b) \<Rightarrow> 'a gen \<Rightarrow> 'b gen" where
  "gen_map f g = (map f (fst g), snd g)"

text \<open>\<open>list(g)\<close>.\<close>

definition gen_list :: "'a gen \<Rightarrow> 'a list res" where
  "gen_list g = (case g of (xs, Some e) \<Rightarrow> Inl e | (xs, None) \<Rightarrow> Inr xs)"

lemma gen_then_assoc: "gen_then (gen_then f g) h = gen_then f (gen_then g h)"
  by (auto simp: gen_then_def split: prod.splits option.splits)

lemma gen_then_simps [simp]:
  "gen_then gen_done g = g" "gen_then g gen_done = g" "gen_then (gen_raise e) g = gen_raise e"
  by (auto simp: gen_then_def gen_done_def gen_raise_def split: prod.splits option.splits)

end
