(* ===== verification/Py_Text.thy ===== *)
theory Py_Text
  imports Prelude
begin

text \<open>
  Text conversions of Python used by the sources: hexadecimal (\<open>bytes.hex\<close>,
  \<open>bytes.fromhex\<close>, \<open>int(s, 16)\<close>), binary and decimal formatting, with the round trips
  that the serialisation code relies on.
\<close>

section \<open>Characters and digits\<close>

definition is_space :: "char \<Rightarrow> bool" where
  "is_space c \<longleftrightarrow> (let n = (of_char c :: int) in n = 32 \<or> 9 \<le> n \<and> n \<le> 13)"

text \<open>The value of an alphanumeric digit, in either case.\<close>

definition digit_val :: "char \<Rightarrow> int option" where
  "digit_val c =
     (let n = (of_char c :: int) in
      if 48 \<le> n \<and> n \<le> 57 then Some (n - 48)
      else if 97 \<le> n \<and> n \<le> 122 then Some (n - 87)
      else if 65 \<le> n \<and> n \<le> 90 then Some (n - 55)
      else None)"

definition hex_val :: "char \<Rightarrow> int option" where
  "hex_val c = (case digit_val c of Some d \<Rightarrow> if d < 16 then Some d else None | None \<Rightarrow> None)"

text \<open>Lower-case digit of a value below 36.\<close>

definition digit_char :: "int \<Rightarrow> char" where
  "digit_char d = char_of (if d < 10 then d + 48 else d + 87)"

lemma of_char_char_of_int: "0 \<le> n \<Longrightarrow> n < 256 \<Longrightarrow> (of_char (char_of n :: char) :: int) = n"
  by simp

lemma digit_val_digit_char: "0 \<le> d \<Longrightarrow> d < 36 \<Longrightarrow> digit_val (digit_char d) = Some d"
  by (simp add: digit_val_def digit_char_def Let_def)

lemma hex_val_digit_char [simp]: "0 \<le> d \<Longrightarrow> d < 16 \<Longrightarrow> hex_val (digit_char d) = Some d"
  by (simp add: hex_val_def digit_val_digit_char)

lemma of_char_digit_char: "0 \<le> d \<Longrightarrow> d < 36 \<Longrightarrow> (of_char (digit_char d) :: int) = (if d < 10 then d + 48 else d + 87)"
  by (simp add: digit_char_def)

lemma digit_char_neq:
  assumes "0 \<le> d" "d < 36" "(of_char c :: int) < 48 \<or> 57 < (of_char c :: int) \<and> (of_char c :: int) < 97"
  shows "digit_char d \<noteq> c"
  using of_char_digit_char [OF assms(1,2)] assms by (auto split: if_splits)

lemma digit_char_not_space [simp]: "0 \<le> d \<Longrightarrow> d < 36 \<Longrightarrow> \<not> is_space (digit_char d)"
  by (simp add: is_space_def Let_def of_char_digit_char)

section \<open>Hexadecimal strings of bytes\<close>

definition hex_byte :: "byte \<Rightarrow> string" where
  "hex_byte b = [digit_char (uint b div 16), digit_char (uint b mod 16)]"

text \<open>\<open>bs.hex()\<close>.\<close>

definition bytes_hex :: "bytes \<Rightarrow> string" where
  "bytes_hex bs = concat (map hex_byte bs)"

text \<open>\<open>bytes.fromhex(s)\<close>: pairs of hexadecimal digits, white space allowed between pairs.\<close>

fun bytes_fromhex :: "string \<Rightarrow> bytes res" where
  "bytes_fromhex [] = Inr []"
| "bytes_fromhex [c] = (if is_space c then Inr [] else Inl ValueError)"
| "bytes_fromhex (c # d # s) =
     (if is_space c then bytes_fromhex (d # s)
      else case (hex_val c, hex_val d) of
             (Some h, Some l) \<Rightarrow> bindR (bytes_fromhex s) (\<lambda>bs. Inr (word_of_int (16 * h + l) # bs))
           | _ \<Rightarrow> Inl ValueError)"

lemma hex_val_bounds: "hex_val c = Some d \<Longrightarrow> 0 \<le> d \<and> d < 16"
  by (auto simp: hex_val_def digit_val_def Let_def split: option.splits if_splits)

lemma byte_nibbles [simp]:
  "0 \<le> uint (b :: byte) div 16" "uint (b :: byte) div 16 < 16"
  "0 \<le> uint (b :: byte) mod 16" "uint (b :: byte) mod 16 < 16"
  "16 * (uint (b :: byte) div 16) + uint b mod 16 = uint b"
  using uint_byte_bounds [of b] by (linarith | simp)+

lemma bytes_fromhex_hex_byte:
  "bytes_fromhex (hex_byte b @ s) = bindR (bytes_fromhex s) (\<lambda>bs. Inr (b # bs))"
proof -
  have "\<not> is_space (digit_char (uint b div 16))"
    by (rule digit_char_not_space) (use byte_nibbles(1,2) [of b] in linarith)+
  moreover have "hex_val (digit_char (uint b div 16)) = Some (uint b div 16)"
    by (rule hex_val_digit_char) (fact byte_nibbles)+
  moreover have "hex_val (digit_char (uint b mod 16)) = Some (uint b mod 16)"
    by (rule hex_val_digit_char) (fact byte_nibbles)+
  moreover have "(word_of_int (16 * (uint b div 16) + uint b mod 16) :: byte) = b"
    by (simp only: byte_nibbles word_of_int_uint)
  ultimately show ?thesis
    unfolding hex_byte_def by (simp del: byte_nibbles)
qed

lemma bytes_hex_simps [simp]:
  "bytes_hex [] = []" "bytes_hex (b # bs) = hex_byte b @ bytes_hex bs"
  "bytes_hex (as @ bs) = bytes_hex as @ bytes_hex bs"
  by (simp_all add: bytes_hex_def)

lemma length_bytes_hex [simp]: "length (bytes_hex bs) = 2 * length bs"
  by (induction bs) (simp_all add: hex_byte_def)

text \<open>Decoding the hexadecimal form of a byte string returns the byte string.\<close>

lemma fromhex_hex_append [simp]:
  "bytes_fromhex (bytes_hex bs @ s) = bindR (bytes_fromhex s) (\<lambda>cs. Inr (bs @ cs))"
  by (induction bs) (auto simp: bytes_fromhex_hex_byte bindR_def split: sum.splits)

lemma fromhex_hex [simp, codec]: "bytes_fromhex (bytes_hex bs) = Inr bs"
  using fromhex_hex_append [of bs "[]"] by simp

lemma bytes_hex_inj: "bytes_hex a = bytes_hex b \<Longrightarrow> a = b"
  by (metis fromhex_hex sum.inject(2))

lemma bytes_hex_chars: "c \<in> set (bytes_hex bs) \<Longrightarrow> \<exists>d. 0 \<le> d \<and> d < 16 \<and> c = digit_char d"
proof (induction bs)
  case (Cons b bs)
  from Cons.prems consider "c = digit_char (uint b div 16)" | "c = digit_char (uint b mod 16)"
    | "c \<in> set (bytes_hex bs)"
    by (auto simp: hex_byte_def)
  then show ?case
    using byte_nibbles(1-4) [of b] Cons.IH by cases blast+
qed simp

lemma bytes_hex_not_in:
  assumes "(of_char c :: int) < 48 \<or> 57 < (of_char c :: int) \<and> (of_char c :: int) < 97"
  shows "c \<notin> set (bytes_hex bs)"
proof
  assume "c \<in> set (bytes_hex bs)"
  then obtain d where "0 \<le> d" "d < 16" "c = digit_char d"
    using bytes_hex_chars by blast
  with assms show False
    using digit_char_neq [of d c] by simp
qed

section \<open>Integers from text\<close>

text \<open>\<open>s.rstrip()\<close>.\<close>

definition rstrip :: "string \<Rightarrow> string" where
  "rstrip s = rev (dropWhile is_space (rev s))"

text \<open>
  \<open>int(s, base)\<close>: surrounding white space, a sign, a \<open>0x\<close> prefix when the base is 16
  (\<open>0b\<close> when it is 2), and single underscores between digits are accepted. The flag of
  \<open>py_digits\<close> says that a digit must come next.
\<close>

fun py_digits :: "int \<Rightarrow> int \<Rightarrow> bool \<Rightarrow> string \<Rightarrow> int option" where
  "py_digits base acc need [] = (if need then None else Some acc)"
| "py_digits base acc need (c # cs) =
     (if c = CHR ''_'' then (if need then None else py_digits base acc True cs)
      else case digit_val c of
             Some d \<Rightarrow> if d < base then py_digits base (acc * base + d) False cs else None
           | None \<Rightarrow> None)"

definition strip_space :: "string \<Rightarrow> string" where
  "strip_space s = rev (dropWhile is_space (rev (dropWhile is_space s)))"

definition strip_prefix :: "int \<Rightarrow> string \<Rightarrow> string" where
  "strip_prefix base s =
     (let t = drop 2 s; u = (if startswith t ''_'' then drop 1 t else t)
      in if base = 16 \<and> (startswith s ''0x'' \<or> startswith s ''0X'') then u
         else if base = 2 \<and> (startswith s ''0b'' \<or> startswith s ''0B'') then u
         else s)"

definition py_int_str :: "string \<Rightarrow> int \<Rightarrow> int res" where
  "py_int_str s base =
     (let t = strip_space s;
          sg = (if startswith t ''-'' then -1 else 1 :: int);
          u = (if startswith t ''-'' \<or> startswith t ''+'' then drop 1 t else t)
      in case py_digits base 0 True (strip_prefix base u) of
           None \<Rightarrow> Inl ValueError
         | Some v \<Rightarrow> Inr (sg * v))"

text \<open>A non-empty string of digits of the base, and its value.\<close>

definition all_digits :: "int \<Rightarrow> string \<Rightarrow> bool" where
  "all_digits base s \<longleftrightarrow> (\<forall>c \<in> set s. case digit_val c of Some d \<Rightarrow> d < base | None \<Rightarrow> False)"

definition digits_value :: "int \<Rightarrow> string \<Rightarrow> int" where
  "digits_value base s = foldl (\<lambda>a c. a * base + the (digit_val c)) 0 s"

lemma all_digits_simps [simp]:
  "all_digits base []"
  "all_digits base (c # s) \<longleftrightarrow> (\<exists>d. digit_val c = Some d \<and> d < base) \<and> all_digits base s"
  "all_digits base (s @ t) \<longleftrightarrow> all_digits base s \<and> all_digits base t"
  by (auto simp: all_digits_def split: option.splits)

lemma digit_val_special [simp]:
  "digit_val CHR ''_'' = None" "digit_val CHR ''-'' = None" "digit_val CHR ''+'' = None"
  "digit_val CHR ''x'' = Some 33" "digit_val CHR ''X'' = Some 33"
  "digit_val CHR ''b'' = Some 11" "digit_val CHR ''B'' = Some 11"
  by (simp_all add: digit_val_def Let_def)

lemma digit_val_not_space: "digit_val c = Some d \<Longrightarrow> \<not> is_space c"
  by (auto simp: digit_val_def is_space_def Let_def split: if_splits)

lemma is_space_special [simp]:
  "\<not> is_space CHR ''-''" "\<not> is_space CHR ''0''" "\<not> is_space CHR ''x''" "\<not> is_space CHR ''X''"
  by (simp_all add: is_space_def Let_def)

lemma all_digits_no_space: "all_digits base s \<Longrightarrow> c \<in> set s \<Longrightarrow> \<not> is_space c"
  by (auto simp: all_digits_def split: option.splits dest: digit_val_not_space)

lemma py_digits_all:
  "all_digits base s \<Longrightarrow> s \<noteq> [] \<or> \<not> need \<Longrightarrow>
   py_digits base acc need s = Some (foldl (\<lambda>a c. a * base + the (digit_val c)) acc s)"
  by (induction s arbitrary: acc need) auto

lemma dropWhile_none: "(\<And>c. c \<in> set s \<Longrightarrow> \<not> P c) \<Longrightarrow> dropWhile P s = s"
  by (cases s) auto

lemma strip_space_id:
  assumes "\<And>c. c \<in> set s \<Longrightarrow> \<not> is_space c"
  shows "strip_space s = s"
proof -
  have "dropWhile is_space s = s" "dropWhile is_space (rev s) = rev s"
    using assms by (auto intro: dropWhile_none)
  then show ?thesis by (simp add: strip_space_def)
qed

lemma startswith_Cons: "startswith s (c # p) \<longleftrightarrow> (\<exists>t. s = c # t \<and> startswith t p)"
  by (cases s) (auto simp: startswith_def)

lemma startswith_Nil [simp]: "startswith s []"
  by (simp add: startswith_def)

lemma py_int_str_digits:
  assumes "all_digits base s" "s \<noteq> []" "base \<le> 16"
  shows "py_int_str s base = Inr (digits_value base s)"
proof -
  have "strip_space s = s"
    using all_digits_no_space [OF assms(1)] by (rule strip_space_id)
  moreover have "\<not> startswith s ''-''" "\<not> startswith s ''+''"
    using assms(1) by (auto simp: startswith_Cons)
  moreover have "strip_prefix base s = s"
    using assms(1,3) by (auto simp: strip_prefix_def startswith_Cons Let_def)
  ultimately show ?thesis
    using assms(1,2) by (simp add: py_int_str_def py_digits_all digits_value_def Let_def)
qed

lemma digits_value_snoc:
  "digit_val c = Some d \<Longrightarrow> digits_value base (s @ [c]) = digits_value base s * base + d"
  by (simp add: digits_value_def)

lemma digits_value_Nil [simp]: "digits_value base [] = 0"
  by (simp add: digits_value_def)

lemma all_digits_bytes_hex [simp]: "all_digits 16 (bytes_hex bs)"
proof (induction bs)
  case (Cons b bs)
  moreover have "digit_val (digit_char (uint b div 16)) = Some (uint b div 16)"
    using byte_nibbles(1,2) [of b] by (intro digit_val_digit_char) linarith+
  moreover have "digit_val (digit_char (uint b mod 16)) = Some (uint b mod 16)"
    using byte_nibbles(3,4) [of b] by (intro digit_val_digit_char) linarith+
  ultimately show ?case
    by (simp add: hex_byte_def)
qed simp

lemma digits_value_bytes_hex: "digits_value 16 (bytes_hex bs) = int_from_bytes bs"
proof (induction bs rule: rev_induct)
  case (snoc b bs)
  have h: "digit_val (digit_char (uint b div 16)) = Some (uint b div 16)"
    using byte_nibbles(1,2) [of b] by (intro digit_val_digit_char) linarith+
  have l: "digit_val (digit_char (uint b mod 16)) = Some (uint b mod 16)"
    using byte_nibbles(3,4) [of b] by (intro digit_val_digit_char) linarith+
  have "bytes_hex (bs @ [b]) =
      (bytes_hex bs @ [digit_char (uint b div 16)]) @ [digit_char (uint b mod 16)]"
    by (simp add: hex_byte_def)
  then have "digits_value 16 (bytes_hex (bs @ [b])) =
      (digits_value 16 (bytes_hex bs) * 16 + uint b div 16) * 16 + uint b mod 16"
    by (simp only: digits_value_snoc [OF h] digits_value_snoc [OF l])
  also have "\<dots> = int_from_bytes bs * 256 + uint b"
    using snoc byte_nibbles(5) [of b] by (simp add: algebra_simps)
  finally show ?case by (simp add: codec)
qed simp

text \<open>Reading the hexadecimal form of a byte string as a number.\<close>

lemma py_int_bytes_hex: "bs \<noteq> [] \<Longrightarrow> py_int_str (bytes_hex bs) 16 = Inr (int_from_bytes bs)"
  using py_int_str_digits [OF all_digits_bytes_hex, of bs] digits_value_bytes_hex [of bs]
  by (cases bs) (auto simp: hex_byte_def)

section \<open>Formatting integers\<close>

text \<open>The digits of a non-negative value, most significant first.\<close>

function num_digits :: "int \<Rightarrow> int \<Rightarrow> int list" where
  "num_digits base v =
     (if base < 2 \<or> v < base then [v] else num_digits base (v div base) @ [v mod base])"
  by pat_completeness auto
termination
proof (relation "measure (\<lambda>(base, v). nat v)")
  fix base v :: int
  assume "\<not> (base < 2 \<or> v < base)"
  then have "v div base < v" "0 < v"
    by (auto intro: int_div_less_self)
  then show "((base, v div base), base, v) \<in> measure (\<lambda>(base, v). nat v)"
    by simp
qed simp

declare num_digits.simps [simp del]

definition num_str :: "int \<Rightarrow> int \<Rightarrow> string" where
  "num_str base v = map digit_char (num_digits base v)"

text \<open>\<open>str(v)\<close> and \<open>hex(v)\<close>.\<close>

definition str_int :: "int \<Rightarrow> string" where
  "str_int v = (if v < 0 then ''-'' @ num_str 10 (- v) else num_str 10 v)"

definition py_hex :: "int \<Rightarrow> string" where
  "py_hex v = (if v < 0 then ''-0x'' @ num_str 16 (- v) else ''0x'' @ num_str 16 v)"

definition pad_left :: "nat \<Rightarrow> char \<Rightarrow> string \<Rightarrow> string" where
  "pad_left w c s = replicate (w - length s) c @ s"

lemma num_digits_nonempty [simp]: "num_digits base v \<noteq> []"
  by (subst num_digits.simps) simp

lemma num_digits_bounds:
  "2 \<le> base \<Longrightarrow> 0 \<le> v \<Longrightarrow> d \<in> set (num_digits base v) \<Longrightarrow> 0 \<le> d \<and> d < base"
proof (induction base v rule: num_digits.induct)
  case (1 base v)
  show ?case
  proof (cases "v < base")
    case True
    with "1.prems" show ?thesis by (subst (asm) num_digits.simps) simp
  next
    case False
    with "1.prems" "1.IH" show ?thesis
      by (subst (asm) num_digits.simps) (auto simp: pos_imp_zdiv_nonneg_iff)
  qed
qed

lemma num_str_all_digits:
  "2 \<le> base \<Longrightarrow> base \<le> 36 \<Longrightarrow> 0 \<le> v \<Longrightarrow> all_digits base (num_str base v)"
  using num_digits_bounds [of base v]
  by (force simp: all_digits_def num_str_def digit_val_digit_char split: option.splits)

lemma num_str_value:
  "2 \<le> base \<Longrightarrow> base \<le> 36 \<Longrightarrow> 0 \<le> v \<Longrightarrow> digits_value base (num_str base v) = v"
proof (induction base v rule: num_digits.induct)
  case (1 base v)
  show ?case
  proof (cases "v < base")
    case True
    with "1.prems" show ?thesis
      by (subst num_str_def, subst num_digits.simps)
        (simp add: digits_value_def digit_val_digit_char)
  next
    case False
    have "num_str base v = num_str base (v div base) @ [digit_char (v mod base)]"
      using False "1.prems" by (simp add: num_str_def num_digits.simps [of base v])
    moreover have "digit_val (digit_char (v mod base)) = Some (v mod base)"
      using "1.prems" pos_mod_bound [of base v] pos_mod_sign [of base v]
      by (intro digit_val_digit_char) linarith+
    moreover have "digits_value base (num_str base (v div base)) = v div base"
      using False "1.prems" "1.IH" by (simp add: pos_imp_zdiv_nonneg_iff)
    ultimately show ?thesis
      by (simp add: digits_value_snoc)
  qed
qed

lemma num_str_nonempty [simp]: "num_str base v \<noteq> []"
  by (simp add: num_str_def)

lemma py_int_num_str:
  "2 \<le> base \<Longrightarrow> base \<le> 16 \<Longrightarrow> 0 \<le> v \<Longrightarrow> py_int_str (num_str base v) base = Inr v"
  by (simp add: py_int_str_digits num_str_all_digits num_str_value)

lemma py_int_str_int: "py_int_str (str_int v) 10 = Inr v"
proof (cases "v < 0")
  case True
  let ?s = "num_str 10 (- v)"
  have d: "all_digits 10 ?s"
    using True by (intro num_str_all_digits) auto
  have "\<not> is_space c" if "c \<in> set (''-'' @ ?s)" for c
    using all_digits_no_space [OF d] that by auto
  then have "strip_space (''-'' @ ?s) = ''-'' @ ?s" by (rule strip_space_id)
  with True d show ?thesis
    by (simp add: str_int_def py_int_str_def startswith_Cons strip_prefix_def py_digits_all
        num_str_value flip: digits_value_def)
next
  case False
  then show ?thesis by (simp add: str_int_def py_int_num_str)
qed

lemma py_int_str_0x:
  assumes "all_digits 16 s" "s \<noteq> []"
  shows "py_int_str (''0x'' @ s) 16 = Inr (digits_value 16 s)"
proof -
  have "\<not> is_space c" if "c \<in> set (''0x'' @ s)" for c
    using all_digits_no_space [OF assms(1)] that by auto
  then have "strip_space (''0x'' @ s) = ''0x'' @ s" by (rule strip_space_id)
  moreover have "\<not> startswith s ''_''"
    using assms(1) by (auto simp: startswith_Cons)
  ultimately show ?thesis
    using assms by (simp add: py_int_str_def startswith_Cons strip_prefix_def py_digits_all
        flip: digits_value_def)
qed

lemma py_int_py_hex: "0 \<le> v \<Longrightarrow> py_int_str (py_hex v) 16 = Inr v"
  using py_int_str_0x [of "num_str 16 v"]
  by (simp add: py_hex_def num_str_all_digits num_str_value)

end
