(* ===== verification/Py_Float.thy ===== *)
theory Py_Float
  imports Prelude
begin

text \<open>
  Python's \<open>int(a / b)\<close> on integers. The operator \<open>/\<close> is true division: the exact quotient is
  rounded to the nearest IEEE double (53 significant bits, ties to even) and \<open>int\<close> then
  truncates. The sources use this form where an integer division is meant, so the model keeps
  the rounding. \<open>int_truediv_pow2\<close> and \<open>int_truediv_exact\<close> say where it agrees with integer
  division.
\<close>

text \<open>\<open>n.bit_length()\<close>.\<close>

fun bit_length :: "nat \<Rightarrow> nat" where
  "bit_length n = (if n = 0 then 0 else Suc (bit_length (n div 2)))"

declare bit_length.simps [simp del]

text \<open>Round-half-even of the rational \<open>a / b\<close>.\<close>

definition round_half_even :: "nat \<Rightarrow> nat \<Rightarrow> nat" where
  "round_half_even a b =
     (let q = a div b; r = a mod b
      in if 2 * r < b then q else if b < 2 * r then q + 1 else if even q then q else q + 1)"

text \<open>
  Truncation of the double nearest to \<open>a / b\<close> for \<open>b > 0\<close>. The binary exponent of the
  quotient fixes the scaling that leaves 53 significant bits; a quotient below one half
  truncates to zero whatever its rounding.
\<close>

definition trunc_float_quot :: "nat \<Rightarrow> nat \<Rightarrow> nat" where
  "trunc_float_quot a b =
     (let q = a div b; k = bit_length q
      in if q = 0 then (if 2 * a < b then 0 else round_half_even (a * 2 ^ 53) b div 2 ^ 53)
         else if k \<le> 53 then round_half_even (a * 2 ^ (53 - k)) b div 2 ^ (53 - k)
         else round_half_even a (b * 2 ^ (k - 53)) * 2 ^ (k - 53))"

definition int_truediv :: "int \<Rightarrow> int \<Rightarrow> int res" where
  "int_truediv a b =
     (if b = 0 then Inl ZeroDivisionError
      else let m = trunc_float_quot (nat \<bar>a\<bar>) (nat \<bar>b\<bar>)
           in if 2 ^ 1024 \<le> m then Inl OverflowError else Inr (sgn a * sgn b * int m))"

lemma bit_length_0 [simp]: "bit_length 0 = 0"
  by (simp add: bit_length.simps)

lemma bit_length_pos: "0 < n \<Longrightarrow> bit_length n = Suc (bit_length (n div 2))"
  by (subst bit_length.simps) simp

lemma bit_length_le: "n < 2 ^ k \<Longrightarrow> bit_length n \<le> k"
proof (induction n arbitrary: k rule: bit_length.induct)
  case (1 n)
  show ?case
  proof (cases "n = 0")
    case False
    with "1.prems" obtain j where "k = Suc j"
      by (cases k) auto
    with "1.prems" have "n div 2 < 2 ^ j" by simp
    with False \<open>k = Suc j\<close> "1.IH" show ?thesis
      by (simp add: bit_length_pos)
  qed simp
qed

lemma bit_length_bound: "n < 2 ^ bit_length n"
proof (induction n rule: bit_length.induct)
  case (1 n)
  show ?case
  proof (cases "n = 0")
    case False
    with "1.IH" have "n div 2 < 2 ^ bit_length (n div 2)" by simp
    with False show ?thesis by (simp add: bit_length_pos)
  qed simp
qed

lemma round_half_even_exact: "0 < b \<Longrightarrow> b dvd a \<Longrightarrow> round_half_even a b = a div b"
  by (simp add: round_half_even_def dvd_imp_mod_0)

text \<open>Scaling by a power of two does not change the quotient of an exact division.\<close>

lemma scaled_div: "0 < s \<Longrightarrow> a * s div b div s = a div (b :: nat)"
proof -
  assume s: "0 < s"
  have "a * s div b div s = a * s div (b * s)"
    by (rule div_mult2_eq [symmetric])
  also have "\<dots> = a div b"
    using s by simp
  finally show ?thesis .
qed

lemma trunc_float_quot_scaled:
  assumes "0 < b" "a div b < 2 ^ 53"
    and "b dvd a * 2 ^ (53 - bit_length (a div b))"
  shows "trunc_float_quot a b = a div b"
proof -
  have k: "bit_length (a div b) \<le> 53"
    using assms(2) by (rule bit_length_le)
  show ?thesis
  proof (cases "a div b = 0")
    case True
    with assms show ?thesis
      by (simp add: trunc_float_quot_def round_half_even_exact scaled_div Let_def)
  next
    case False
    with assms k show ?thesis
      by (simp add: trunc_float_quot_def round_half_even_exact scaled_div Let_def)
  qed
qed

lemma trunc_float_quot_exact:
  "0 < b \<Longrightarrow> b dvd a \<Longrightarrow> a div b < 2 ^ 53 \<Longrightarrow> trunc_float_quot a b = a div b"
  by (rule trunc_float_quot_scaled) (auto intro: dvd_mult2)

lemma trunc_float_quot_pow2:
  assumes "a < 2 ^ 53" "j \<le> 53"
  shows "trunc_float_quot a (2 ^ j) = a div 2 ^ j"
proof (rule trunc_float_quot_scaled)
  have p: "(2 :: nat) ^ 53 = 2 ^ (53 - j) * 2 ^ j"
    using assms(2) by (simp add: power_add [symmetric])
  then have "a div 2 ^ j < 2 ^ (53 - j)"
    using assms(1) by (simp add: less_mult_imp_div_less)
  then have "bit_length (a div 2 ^ j) \<le> 53 - j"
    by (rule bit_length_le)
  then have "j \<le> 53 - bit_length (a div 2 ^ j)"
    using assms(2) by linarith
  then show "2 ^ j dvd a * 2 ^ (53 - bit_length (a div 2 ^ j))"
    by (intro dvd_mult le_imp_power_dvd)
  show "a div 2 ^ j < 2 ^ 53"
    using assms(1) div_le_dividend [of a "2 ^ j"] by linarith
qed simp

lemma pow53_lt_1024: "(m :: nat) < 2 ^ 53 \<Longrightarrow> \<not> 2 ^ 1024 \<le> m"
proof -
  assume "m < 2 ^ 53"
  also have "(2 :: nat) ^ 53 \<le> 2 ^ 1024"
    by (rule power_increasing) auto
  finally show ?thesis by simp
qed

text \<open>Division by a power of two of a value below \<open>2 ^ 53\<close> is exact.\<close>

lemma int_truediv_pow2:
  assumes "0 \<le> a" "a < 2 ^ 53" "j \<le> 53"
  shows "int_truediv a (2 ^ j) = Inr (a div 2 ^ j)"
proof -
  have a: "nat a < 2 ^ 53"
    using assms by (simp add: nat_less_iff)
  have "nat a div 2 ^ j < 2 ^ 53"
    using a div_le_dividend [of "nat a" "2 ^ j"] by linarith
  then have "\<not> 2 ^ 1024 \<le> nat a div 2 ^ j"
    by (rule pow53_lt_1024)
  moreover have "int (nat a div 2 ^ j) = a div 2 ^ j"
    using assms(1) by (simp add: zdiv_int)
  moreover have "nat (2 ^ j :: int) = 2 ^ j"
    by (simp add: nat_power_eq)
  moreover have "sgn a * (a div 2 ^ j) = a div 2 ^ j"
    using assms(1) by (cases "a = 0") auto
  moreover have "trunc_float_quot (nat a) (2 ^ j) = nat a div 2 ^ j"
    using a assms(3) by (rule trunc_float_quot_pow2)
  ultimately show ?thesis
    using assms(1) by (auto simp: int_truediv_def Let_def nat_power_eq simp del: power_numeral)
qed

lemma int_truediv_2: "0 \<le> a \<Longrightarrow> a < 2 ^ 53 \<Longrightarrow> int_truediv a 2 = Inr (a div 2)"
  using int_truediv_pow2 [of a 1] by simp

text \<open>An exact quotient below \<open>2 ^ 53\<close> is returned unchanged.\<close>

lemma int_truediv_exact:
  assumes "0 < b" "0 \<le> q" "q < 2 ^ 53"
  shows "int_truediv (q * b) b = Inr q"
proof -
  have n: "nat (q * b) = nat q * nat b"
    using assms by (simp add: nat_mult_distrib)
  have q: "nat q < 2 ^ 53"
    using assms by (simp add: nat_less_iff)
  have "trunc_float_quot (nat q * nat b) (nat b) = nat q"
    using assms q by (subst trunc_float_quot_exact) auto
  moreover have "sgn (q * b) * q = q"
    using assms by (cases "q = 0") (auto simp: sgn_mult)
  ultimately show ?thesis
    using assms n pow53_lt_1024 [OF q] by (simp add: int_truediv_def Let_def)
qed

end
