(* ===== verification/Utils.thy ===== *)
theory Utils
  imports Py_Text Py_Float
begin

text \<open>
  \<open>client/zeth/core/constants.py\<close> and \<open>client/zeth/core/utils.py\<close>: the constants, the
  \<open>EtherValue\<close> type, and the conversions between integers, byte strings, hexadecimal and
  binary text used to build the inputs of the hashes and of the contract calls.
  \<open>Web3.toWei\<close> and \<open>eth_abi.encode_single\<close> are third-party code and arguments of the
  definitions that call them.
\<close>

section \<open>Constants\<close>

definition bit_length_to_byte_length :: "int \<Rightarrow> int res" where
  "bit_length_to_byte_length n = assertR (0 \<le> n \<and> n mod 8 = 0) (int_truediv n 8)"

definition ZETH_MERKLE_TREE_DEPTH :: nat where "ZETH_MERKLE_TREE_DEPTH = 32"
definition JS_INPUTS :: nat where "JS_INPUTS = 2"
definition JS_OUTPUTS :: nat where "JS_OUTPUTS = 2"
definition DIGEST_LENGTH :: int where "DIGEST_LENGTH = 256"
definition PUBLIC_VALUE_LENGTH :: int where "PUBLIC_VALUE_LENGTH = 64"
definition PUBLIC_VALUE_MASK :: int where "PUBLIC_VALUE_MASK = 2 ^ nat PUBLIC_VALUE_LENGTH - 1"
definition PHI_LENGTH :: int where "PHI_LENGTH = 256"
definition APK_LENGTH :: int where "APK_LENGTH = 256"
definition RHO_LENGTH :: int where "RHO_LENGTH = 256"
definition TRAPR_LENGTH :: int where "TRAPR_LENGTH = 256"
definition NOTE_LENGTH :: int where
  "NOTE_LENGTH = APK_LENGTH + PUBLIC_VALUE_LENGTH + RHO_LENGTH + TRAPR_LENGTH"
definition RESIDUAL_BITS_INDEX :: nat where "RESIDUAL_BITS_INDEX = 2 * JS_INPUTS + JS_OUTPUTS + 2"
definition NUM_INPUT_DIGESTS :: nat where "NUM_INPUT_DIGESTS = 2 * JS_INPUTS + 1"
definition SOL_COMPILER_VERSION :: string where "SOL_COMPILER_VERSION = ''v0.8.1''"

text \<open>The lengths in bytes are the values that \<open>bit_length_to_byte_length\<close> has for those in bits (\<open>byte_lengths\<close> below).\<close>

definition PHI_LENGTH_BYTES :: nat where "PHI_LENGTH_BYTES = 32"
definition APK_LENGTH_BYTES :: nat where "APK_LENGTH_BYTES = 32"
definition PUBLIC_VALUE_LENGTH_BYTES :: nat where "PUBLIC_VALUE_LENGTH_BYTES = 8"
definition RHO_LENGTH_BYTES :: nat where "RHO_LENGTH_BYTES = 32"
definition TRAPR_LENGTH_BYTES :: nat where "TRAPR_LENGTH_BYTES = 32"
definition NOTE_LENGTH_BYTES :: nat where
  "NOTE_LENGTH_BYTES =
     APK_LENGTH_BYTES + PUBLIC_VALUE_LENGTH_BYTES + RHO_LENGTH_BYTES + TRAPR_LENGTH_BYTES"
definition ZETH_PUBLIC_UNIT_VALUE :: int where "ZETH_PUBLIC_UNIT_VALUE = 1000000000000"

lemmas constants_defs = JS_INPUTS_def JS_OUTPUTS_def APK_LENGTH_BYTES_def
  PUBLIC_VALUE_LENGTH_BYTES_def RHO_LENGTH_BYTES_def TRAPR_LENGTH_BYTES_def NOTE_LENGTH_BYTES_def

lemma bit_length_to_byte_length_exact:
  "0 \<le> n \<Longrightarrow> n < 2 ^ 53 \<Longrightarrow> bit_length_to_byte_length (8 * n) = Inr n"
  using int_truediv_exact [of 8 n] by (simp add: bit_length_to_byte_length_def assertR_def mult.commute)

lemma byte_lengths:
  "bit_length_to_byte_length APK_LENGTH = Inr (int APK_LENGTH_BYTES)" "bit_length_to_byte_length PHI_LENGTH = Inr (int PHI_LENGTH_BYTES)"
  "bit_length_to_byte_length RHO_LENGTH = Inr (int RHO_LENGTH_BYTES)" "bit_length_to_byte_length TRAPR_LENGTH = Inr (int TRAPR_LENGTH_BYTES)"
  "bit_length_to_byte_length PUBLIC_VALUE_LENGTH = Inr (int PUBLIC_VALUE_LENGTH_BYTES)"
  "bit_length_to_byte_length NOTE_LENGTH = Inr (int NOTE_LENGTH_BYTES)"
  using bit_length_to_byte_length_exact [of 32] bit_length_to_byte_length_exact [of 8] bit_length_to_byte_length_exact [of 104]
  by (simp_all add: constants_defs APK_LENGTH_def PHI_LENGTH_def PHI_LENGTH_BYTES_def RHO_LENGTH_def TRAPR_LENGTH_def
      PUBLIC_VALUE_LENGTH_def NOTE_LENGTH_def)

section \<open>Ether values\<close>

text \<open>The argument of the constructor is an integer, a decimal text or a float: \<open>NumFloat m k\<close> is \<open>m / 2 ^ k\<close>.\<close>

datatype num_arg = NumInt int | NumStr string | NumFloat int nat

record EtherValue =
  wei :: int

type_synonym to_wei = "num_arg \<Rightarrow> string \<Rightarrow> int res"

text \<open>Documented behaviour of \<open>Web3.toWei\<close>: a number of Wei in the 256-bit range is itself.\<close>

definition to_wei_law :: "to_wei \<Rightarrow> bool" where
  "to_wei_law toWei \<longleftrightarrow> (\<forall>n. 0 \<le> n \<and> n < 2 ^ 256 \<longrightarrow> toWei (NumInt n) ''wei'' = Inr n)"

definition ether_value :: "to_wei \<Rightarrow> num_arg \<Rightarrow> string \<Rightarrow> EtherValue res" where
  "ether_value toWei val units = bindR (toWei val units) (\<lambda>w. Inr \<lparr>wei = w\<rparr>)"

definition ether_add :: "to_wei \<Rightarrow> EtherValue \<Rightarrow> EtherValue \<Rightarrow> EtherValue res" where
  "ether_add toWei a b = ether_value toWei (NumInt (wei a + wei b)) ''wei''"

definition ether_sub :: "to_wei \<Rightarrow> EtherValue \<Rightarrow> EtherValue \<Rightarrow> EtherValue res" where
  "ether_sub toWei a b = ether_value toWei (NumInt (wei a - wei b)) ''wei''"

definition ether_str :: "EtherValue \<Rightarrow> string" where
  "ether_str a = str_int (wei a)"

definition ether_eq :: "EtherValue \<Rightarrow> EtherValue \<Rightarrow> bool" where
  "ether_eq a b \<longleftrightarrow> wei a = wei b"

definition ether_ne :: "EtherValue \<Rightarrow> EtherValue \<Rightarrow> bool" where
  "ether_ne a b \<longleftrightarrow> \<not> ether_eq a b"

text \<open>Equality of the amounts is equality of the values, so that the model compares values by \<open>=\<close>.\<close>

lemma ether_eq_iff: "ether_eq a b \<longleftrightarrow> a = b" "ether_ne a b \<longleftrightarrow> a \<noteq> b"
  by (auto simp: ether_eq_def ether_ne_def)

definition ether_bool :: "EtherValue \<Rightarrow> bool" where
  "ether_bool a \<longleftrightarrow> wei a \<noteq> 0"

text \<open>Comparison is comparison of the Wei amounts, and gives the order of the type.\<close>

definition ether_le :: "'a EtherValue_scheme \<Rightarrow> 'a EtherValue_scheme \<Rightarrow> bool" where
  "ether_le a b \<longleftrightarrow> wei a \<le> wei b"

definition ether_lt :: "'a EtherValue_scheme \<Rightarrow> 'a EtherValue_scheme \<Rightarrow> bool" where
  "ether_lt a b \<longleftrightarrow> wei a < wei b"

definition ether_gt :: "'a EtherValue_scheme \<Rightarrow> 'a EtherValue_scheme \<Rightarrow> bool" where
  "ether_gt a b \<longleftrightarrow> wei a > wei b"

definition ether_ge :: "'a EtherValue_scheme \<Rightarrow> 'a EtherValue_scheme \<Rightarrow> bool" where
  "ether_ge a b \<longleftrightarrow> wei a \<ge> wei b"

instantiation EtherValue_ext :: (type) preorder
begin

definition less_eq_EtherValue_ext_def: "(\<le>) = (ether_le :: 'a EtherValue_scheme \<Rightarrow> _)"

definition less_EtherValue_ext_def: "(<) = (ether_lt :: 'a EtherValue_scheme \<Rightarrow> _)"

instance
  by standard (auto simp: less_eq_EtherValue_ext_def less_EtherValue_ext_def ether_le_def ether_lt_def)

end

definition to_zeth_units :: "EtherValue \<Rightarrow> int res" where
  "to_zeth_units value = int_truediv (wei value) ZETH_PUBLIC_UNIT_VALUE"

definition from_zeth_units :: "to_wei \<Rightarrow> int \<Rightarrow> EtherValue res" where
  "from_zeth_units toWei zeth_units =
     ether_value toWei (NumInt (zeth_units * ZETH_PUBLIC_UNIT_VALUE)) ''wei''"

section \<open>Byte strings and hexadecimal text\<close>

definition eth_address_to_bytes :: "string \<Rightarrow> bytes res" where
  "eth_address_to_bytes eth_addr =
     assertR (length eth_addr = 42)
       (assertR (startswith eth_addr ''0x'') (bytes_fromhex (drop 2 eth_addr)))"

definition extend_32bytes :: "bytes \<Rightarrow> bytes res" where
  "extend_32bytes value = assertR (length value \<le> 32) (Inr (replicate (32 - length value) 0 @ value))"

definition eth_address_to_bytes32 :: "string \<Rightarrow> bytes res" where
  "eth_address_to_bytes32 eth_addr = bindR (eth_address_to_bytes eth_addr) extend_32bytes"

definition hex_extend_32bytes :: "string \<Rightarrow> string res" where
  "hex_extend_32bytes element =
     (let res = (if length element mod 2 \<noteq> 0 then ''0'' @ element else element)
      in bindR (bytes_fromhex res) (\<lambda>bs. bindR (extend_32bytes bs) (\<lambda>ext. Inr (bytes_hex ext))))"

definition eth_uint256_to_int :: "string \<Rightarrow> int res" where
  "eth_uint256_to_int eth_uint256 =
     assertR (startswith eth_uint256 ''0x'')
       (bindR (hex_extend_32bytes (drop 2 eth_uint256)) (\<lambda>h.
          bindR (bytes_fromhex h) (\<lambda>bs. Inr (int_from_bytes bs))))"

definition int_and_bytelen_from_hex :: "string \<Rightarrow> (int \<times> int) res" where
  "int_and_bytelen_from_hex value_hex =
     assertR (length value_hex mod 2 = 0)
       (bindR (if startswith value_hex ''0x'' then int_truediv (int (length value_hex) - 2) 2
               else int_truediv (int (length value_hex)) 2) (\<lambda>num_bytes.
          bindR (py_int_str value_hex 16) (\<lambda>v. Inr (v, num_bytes))))"

definition int_to_hex :: "int \<Rightarrow> int \<Rightarrow> string res" where
  "int_to_hex value num_bytes =
     (if num_bytes < 0 then Inl ValueError
      else bindR (int_to_bytes value (nat num_bytes)) (\<lambda>bs. Inr (''0x'' @ bytes_hex bs)))"

definition int64_to_bytes :: "int \<Rightarrow> bytes res" where
  "int64_to_bytes number = int_to_bytes number 8"

definition int64_to_hex :: "int \<Rightarrow> string res" where
  "int64_to_hex number = bindR (int64_to_bytes number) (\<lambda>bs. Inr (bytes_hex bs))"

section \<open>Binary text\<close>

definition hex_digest_to_binary_string :: "string \<Rightarrow> string res" where
  "hex_digest_to_binary_string digest =
     (let digest' = (if length digest mod 2 = 1 then ''0'' @ digest else digest)
      in bindR (mapR (\<lambda>c. bindR (py_int_str [c] 16) (\<lambda>v. Inr (pad_left 4 CHR ''0'' (num_str 2 v)))) digest')
           (\<lambda>parts. Inr (concat parts)))"

definition digest_to_binary_string :: "bytes \<Rightarrow> string" where
  "digest_to_binary_string digest =
     concat (map (\<lambda>b. pad_left 8 CHR ''0'' (num_str 2 (uint b))) digest)"

section \<open>Contract words\<close>

function uint256_chunks :: "string \<Rightarrow> nat \<Rightarrow> nat \<Rightarrow> int list res" where
  "uint256_chunks hex_str start_idx next_idx =
     (if next_idx \<le> length hex_str then
        bindR (py_int_str (take (next_idx - start_idx) (drop start_idx hex_str)) 16) (\<lambda>v.
          bindR (uint256_chunks hex_str next_idx (next_idx + 64)) (\<lambda>vs. Inr (v # vs)))
      else Inr [])"
  by pat_completeness auto
termination
  by (relation "measure (\<lambda>(h, s, n). length h + 64 - n)") auto

declare uint256_chunks.simps [simp del]

definition hex_to_uint256_list :: "string \<Rightarrow> int list res" where
  "hex_to_uint256_list hex_str =
     (let s = (if startswith hex_str ''0x'' then drop 2 hex_str else hex_str)
      in assertR (length s mod 2 = 0)
           (bindR (int_truediv (int (length s) - 1) 64) (\<lambda>k.
              uint256_chunks s 0 (nat (int (length s) - k * 64)))))"

datatype 'a nested = Leaf 'a | Nest "'a list"

definition string_list_flatten :: "'a nested list \<Rightarrow> 'a list" where
  "string_list_flatten str_list =
     concat (map (\<lambda>el. case el of Leaf s \<Rightarrow> [s] | Nest ss \<Rightarrow> ss) str_list)"

definition hex_list_to_uint256_list :: "string nested list \<Rightarrow> int list res" where
  "hex_list_to_uint256_list elements =
     bindR (mapR hex_to_uint256_list (string_list_flatten elements)) (\<lambda>xss. Inr (concat xss))"

text \<open>The elements of a message: integers or hexadecimal text.\<close>

datatype message_item = MInt int | MStr string

definition upper_digit :: "int \<Rightarrow> char" where
  "upper_digit d = char_of (if d < 10 then d + 48 else d + 55)"

definition format_0_4X :: "int \<Rightarrow> string" where
  "format_0_4X m =
     pad_left 4 CHR ''0''
       (if m < 0 then ''-'' @ map upper_digit (num_digits 16 (- m)) else map upper_digit (num_digits 16 m))"

definition message_item_hex :: "message_item \<Rightarrow> string res" where
  "message_item_hex m =
     (case m of
        MInt i \<Rightarrow> Inr (format_0_4X i)
      | MStr s \<Rightarrow> bindR (py_index s 1) (\<lambda>c. Inr (if c = CHR ''x'' then drop 2 s else s)))"

text \<open>Documented behaviour of \<open>eth_abi.encode_single\<close> on a full \<open>bytes32\<close>.\<close>

definition encode_bytes32_law :: "(string \<Rightarrow> bytes \<Rightarrow> bytes res) \<Rightarrow> bool" where
  "encode_bytes32_law encode_single \<longleftrightarrow>
     (\<forall>bs. length bs = 32 \<longrightarrow> encode_single ''bytes32'' bs = Inr bs)"

definition message_to_bytes ::
  "(string \<Rightarrow> bytes \<Rightarrow> bytes res) \<Rightarrow> message_item nested list \<Rightarrow> bytes res" where
  "message_to_bytes encode_single message_list =
     bindR (mapR (\<lambda>m.
              bindR (message_item_hex m) (\<lambda>m_hex.
              bindR (hex_extend_32bytes m_hex) (\<lambda>h.
              bindR (bytes_fromhex h) (encode_single ''bytes32''))))
            (string_list_flatten message_list))
       (\<lambda>parts. Inr (concat parts))"

definition short_commitment :: "bytes \<Rightarrow> string" where
  "short_commitment cm = bytes_hex (take 4 cm)"

section \<open>Values of digit strings\<close>

lemma foldl_digits:
  "foldl (\<lambda>a c. a * base + f c) acc s = acc * base ^ length s + foldl (\<lambda>a c. a * base + f c) (0 :: int) s"
proof (induction s arbitrary: acc)
  case (Cons c s)
  have "foldl (\<lambda>a c. a * base + f c) acc (c # s) =
      (acc * base + f c) * base ^ length s + foldl (\<lambda>a c. a * base + f c) 0 s"
    using Cons.IH [of "acc * base + f c"] by simp
  also have "\<dots> = acc * base ^ length (c # s) +
      (f c * base ^ length s + foldl (\<lambda>a c. a * base + f c) 0 s)"
    by (simp add: algebra_simps)
  also have "f c * base ^ length s + foldl (\<lambda>a c. a * base + f c) 0 s =
      foldl (\<lambda>a c. a * base + f c) 0 (c # s)"
    using Cons.IH [of "f c"] by simp
  finally show ?case .
qed simp

lemma digits_value_append:
  "digits_value base (s @ t) = digits_value base s * base ^ length t + digits_value base t"
  using foldl_digits [of base "\<lambda>c. the (digit_val c)" "digits_value base s" t]
  by (simp add: digits_value_def)

lemma digits_value_zeros: "digits_value base (replicate n CHR ''0'' @ s) = digits_value base s"
proof -
  have "digits_value base (replicate n CHR ''0'') = 0"
    by (induction n) (simp_all add: digits_value_append [of base "[CHR ''0'']", simplified]
        digits_value_def digit_val_def)
  then show ?thesis by (simp add: digits_value_append)
qed

lemma all_digits_replicate_0 [simp]: "0 < base \<Longrightarrow> all_digits base (replicate n CHR ''0'')"
  by (induction n) (simp_all add: digit_val_def)

lemma digit_val_nonneg: "digit_val c = Some d \<Longrightarrow> 0 \<le> d"
  by (auto simp: digit_val_def Let_def split: if_splits)

lemma digits_value_bounds:
  "all_digits base s \<Longrightarrow> 0 < base \<Longrightarrow> 0 \<le> digits_value base s \<and> digits_value base s < base ^ length s"
proof (induction s rule: rev_induct)
  case (snoc c s)
  then obtain d where d: "digit_val c = Some d" "d < base" "0 \<le> d"
    by (auto dest: digit_val_nonneg)
  have v: "0 \<le> digits_value base s" "digits_value base s < base ^ length s"
    using snoc by auto
  have "digits_value base s * base + d < (digits_value base s + 1) * base"
    using d by (simp add: algebra_simps)
  also have "\<dots> \<le> base ^ length s * base"
    using v snoc.prems by (intro mult_right_mono) auto
  finally show ?case
    using v d snoc.prems by (simp add: digits_value_snoc [OF d(1)] mult.commute)
qed simp

lemma length_num_digits:
  "2 \<le> base \<Longrightarrow> 0 \<le> v \<Longrightarrow> v < base ^ Suc k \<Longrightarrow> length (num_digits base v) \<le> Suc k"
proof (induction k arbitrary: v)
  case 0
  then show ?case by (subst num_digits.simps) simp
next
  case (Suc k)
  show ?case
  proof (cases "v < base")
    case True
    then show ?thesis by (subst num_digits.simps) simp
  next
    case False
    have "v div base < base ^ Suc k"
      using Suc.prems by (intro int_div_less_mult) (simp_all add: mult_ac)
    with False Suc show ?thesis
      by (subst num_digits.simps) (simp add: pos_imp_zdiv_nonneg_iff)
  qed
qed

lemma pad_left_num_str:
  assumes "2 \<le> base" "base \<le> 36" "0 \<le> v" "v < base ^ w" "0 < w"
  shows "length (pad_left w CHR ''0'' (num_str base v)) = w"
    and "all_digits base (pad_left w CHR ''0'' (num_str base v))"
    and "digits_value base (pad_left w CHR ''0'' (num_str base v)) = v"
proof -
  obtain k where "w = Suc k"
    using assms(5) by (cases w) auto
  with assms show "length (pad_left w CHR ''0'' (num_str base v)) = w"
    using length_num_digits [of base v k] by (simp add: pad_left_def num_str_def)
  show "all_digits base (pad_left w CHR ''0'' (num_str base v))"
    using assms by (simp add: pad_left_def num_str_all_digits)
  show "digits_value base (pad_left w CHR ''0'' (num_str base v)) = v"
    using assms by (simp add: pad_left_def digits_value_zeros num_str_value)
qed

lemma uint_byte_lt [simp]: "uint (b :: byte) < 2 ^ 8"
  using uint_byte_bounds(2) [of b] by simp

lemmas pad8 = pad_left_num_str [of 2 "uint b" 8 for b :: byte, simplified]

lemma digest_to_binary_string_simps [simp]:
  "digest_to_binary_string [] = []"
  "digest_to_binary_string (as @ bs) = digest_to_binary_string as @ digest_to_binary_string bs"
  by (simp_all add: digest_to_binary_string_def)

lemma length_digest_to_binary_string [simp]: "length (digest_to_binary_string bs) = 8 * length bs"
  by (induction bs) (simp_all add: digest_to_binary_string_def pad8(1))

lemma all_digits_digest_to_binary_string [simp]: "all_digits 2 (digest_to_binary_string bs)"
  by (induction bs) (simp_all add: digest_to_binary_string_def pad8(2))

text \<open>The binary text of a byte string denotes its big-endian value.\<close>

lemma digest_to_binary_string_value:
  "digits_value 2 (digest_to_binary_string bs) = int_from_bytes bs"
proof (induction bs rule: rev_induct)
  case (snoc b bs)
  have "digest_to_binary_string [b] = pad_left 8 CHR ''0'' (num_str 2 (uint b))"
    by (simp add: digest_to_binary_string_def)
  with snoc show ?case
    by (simp add: digits_value_append pad8(1,3) codec)
qed simp

text \<open>Dropping the last \<open>k\<close> digits divides the value.\<close>

lemma digits_value_take:
  assumes "all_digits base s" "0 < base" "k \<le> length s"
  shows "digits_value base (take (length s - k) s) = digits_value base s div base ^ k"
proof -
  let ?t = "drop (length s - k) s"
  have d: "all_digits base ?t"
    using assms(1) by (auto simp: all_digits_def dest: in_set_dropD)
  have l: "length ?t = k"
    using assms(3) by simp
  have "digits_value base s =
      digits_value base (take (length s - k) s) * base ^ k + digits_value base ?t"
    by (metis append_take_drop_id digits_value_append l)
  then show ?thesis
    using digits_value_bounds [OF d assms(2)] l by (simp add: int_mult_add_div)
qed

section \<open>Splitting into contract words\<close>

text \<open>The number denoted by a list of 256-bit words, most significant first.\<close>

definition uint256_value :: "int list \<Rightarrow> int" where
  "uint256_value vs = foldl (\<lambda>a v. a * 2 ^ 256 + v) 0 vs"

lemma uint256_value_Cons: "uint256_value (v # vs) = v * (2 ^ 256) ^ length vs + uint256_value vs"
  using foldl_digits [of "2 ^ 256" "\<lambda>v. v" v vs] by (simp add: uint256_value_def)

lemma all_digits_take [simp]: "all_digits base s \<Longrightarrow> all_digits base (take n s)"
  by (auto simp: all_digits_def dest: in_set_takeD)

lemma all_digits_drop [simp]: "all_digits base s \<Longrightarrow> all_digits base (drop n s)"
  by (auto simp: all_digits_def dest: in_set_dropD)

lemma pow16_64: "(16 :: int) ^ (64 * k) = (2 ^ 256) ^ k"
proof -
  have "(16 :: int) ^ (64 * k) = (2 ^ 4) ^ (64 * k)" by simp
  then show ?thesis by (simp only: power_mult [symmetric]) simp
qed

lemma hex_chunk_value:
  assumes "all_digits 16 s" "s \<noteq> []" "length s \<le> 64"
  shows "py_int_str s 16 = Inr (digits_value 16 s)"
    and "0 \<le> digits_value 16 s \<and> digits_value 16 s < 2 ^ 256"
proof -
  show "py_int_str s 16 = Inr (digits_value 16 s)"
    using assms by (intro py_int_str_digits) auto
  have "(16 :: int) ^ length s \<le> 16 ^ (64 * 1)"
    using assms(3) by (intro power_increasing) auto
  then show "0 \<le> digits_value 16 s \<and> digits_value 16 s < 2 ^ 256"
    using digits_value_bounds [OF assms(1)] by (simp only: pow16_64) simp
qed

lemma uint256_chunks_ok:
  assumes "all_digits 16 s" "start < nxt" "nxt \<le> start + 64" "length s = nxt + 64 * k"
  shows "\<exists>vs. uint256_chunks s start nxt = Inr vs \<and> length vs = Suc k
    \<and> (\<forall>v \<in> set vs. 0 \<le> v \<and> v < 2 ^ 256) \<and> uint256_value vs = digits_value 16 (drop start s)"
  using assms
proof (induction k arbitrary: start nxt)
  case 0
  let ?v = "digits_value 16 (drop start s)"
  have "take (nxt - start) (drop start s) = drop start s"
    using 0 by simp
  moreover have "uint256_chunks s nxt (nxt + 64) = Inr []"
    using 0 by (subst uint256_chunks.simps) simp
  moreover have "py_int_str (drop start s) 16 = Inr ?v" "0 \<le> ?v \<and> ?v < 2 ^ 256"
    using 0 by (intro hex_chunk_value; simp)+
  ultimately have "uint256_chunks s start nxt = Inr [?v]"
    using 0 by (subst uint256_chunks.simps) simp
  with \<open>0 \<le> ?v \<and> ?v < 2 ^ 256\<close> show ?case
    by (simp add: uint256_value_def)
next
  case (Suc k)
  let ?c = "take (nxt - start) (drop start s)"
  let ?v = "digits_value 16 ?c"
  obtain vs where vs: "uint256_chunks s nxt (nxt + 64) = Inr vs" "length vs = Suc k"
    "\<forall>v \<in> set vs. 0 \<le> v \<and> v < 2 ^ 256" "uint256_value vs = digits_value 16 (drop nxt s)"
    using Suc.IH [of nxt "nxt + 64"] Suc.prems by auto
  have c: "py_int_str ?c 16 = Inr ?v" "0 \<le> ?v \<and> ?v < 2 ^ 256"
    using Suc.prems by (intro hex_chunk_value; simp)+
  have eq: "uint256_chunks s start nxt = Inr (?v # vs)"
    using Suc.prems vs(1) c(1) by (subst uint256_chunks.simps) simp
  have "drop start s = ?c @ drop nxt s"
    using Suc.prems by (metis append_take_drop_id drop_drop le_add_diff_inverse2 less_imp_le)
  then have "digits_value 16 (drop start s) = ?v * 16 ^ (64 * Suc k) + digits_value 16 (drop nxt s)"
    using Suc.prems(4) by (metis add_diff_cancel_left' digits_value_append length_drop)
  then have "uint256_value (?v # vs) = digits_value 16 (drop start s)"
    using vs(2,4) by (simp only: uint256_value_Cons pow16_64)
  with eq vs c(2) show ?case
    by (intro exI [of _ "?v # vs"]) auto
qed

lemma hex_to_uint256_list_ok:
  assumes "all_digits 16 s" "s \<noteq> []" "even (length s)" "length s \<le> 2 ^ 53" "hex = s \<or> hex = ''0x'' @ s"
  shows "\<exists>vs. hex_to_uint256_list hex = Inr vs \<and> length vs = (length s + 63) div 64
    \<and> (\<forall>v \<in> set vs. 0 \<le> v \<and> v < 2 ^ 256) \<and> uint256_value vs = digits_value 16 s"
proof -
  let ?k = "(length s - 1) div 64"
  have pos: "0 < length s"
    using assms(2) by simp
  have "int_truediv (int (length s) - 1) (2 ^ 6) = Inr ((int (length s) - 1) div 2 ^ 6)"
    using pos assms(4) by (intro int_truediv_pow2) auto
  then have td: "int_truediv (int (length s) - 1) 64 = Inr (int ?k)"
    using pos by (simp add: zdiv_int of_nat_diff Suc_le_eq del: length_greater_0_conv)
  have le: "?k * 64 < length s" "length s \<le> ?k * 64 + 64"
    using pos by linarith+
  then have nxt: "nat (int (length s) - int ?k * 64) = length s - ?k * 64"
    by linarith
  obtain vs where vs: "uint256_chunks s 0 (length s - ?k * 64) = Inr vs" "length vs = Suc ?k"
    "\<forall>v \<in> set vs. 0 \<le> v \<and> v < 2 ^ 256" "uint256_value vs = digits_value 16 s"
  proof -
    have "0 < length s - ?k * 64" "length s - ?k * 64 \<le> 0 + 64"
      "length s = length s - ?k * 64 + 64 * ?k"
      using le by linarith+
    from uint256_chunks_ok [OF assms(1) this] show ?thesis
      using that by auto
  qed
  have "\<not> startswith s ''0x''"
    using assms(1) by (auto simp: startswith_Cons)
  then have strip: "(if startswith hex ''0x'' then drop 2 hex else hex) = s"
    using assms(5) by (auto simp: startswith_Cons)
  have "hex_to_uint256_list hex = Inr vs"
    unfolding hex_to_uint256_list_def strip Let_def using assms(3) td nxt vs(1) by simp
  moreover have "Suc ?k = (length s + 63) div 64"
    using pos by linarith
  ultimately show ?thesis
    using vs by auto
qed

section \<open>Padding to 32 bytes\<close>

lemma int_from_bytes_append:
  "int_from_bytes (as @ bs) = int_from_bytes as * 256 ^ length bs + int_from_bytes bs"
  using foldl_digits [of 256 uint "int_from_bytes as" bs] by (simp add: int_from_bytes_def)

lemma int_from_bytes_zeros [simp]: "int_from_bytes (replicate n 0 @ bs) = int_from_bytes bs"
proof -
  have "int_from_bytes (replicate n 0) = 0"
    by (induction n) (simp_all add: int_from_bytes_append [of "[0]", simplified]
        int_from_bytes_def)
  then show ?thesis by (simp add: int_from_bytes_append)
qed

lemma extend_32bytes_ok:
  "extend_32bytes bs = Inr ext \<longleftrightarrow> length bs \<le> 32 \<and> ext = replicate (32 - length bs) 0 @ bs"
  by (auto simp: extend_32bytes_def assertR_def)

lemma extend_32bytes_value:
  "extend_32bytes bs = Inr ext \<Longrightarrow> length ext = 32 \<and> int_from_bytes ext = int_from_bytes bs"
  by (auto simp: extend_32bytes_ok)

lemma extend_32bytes_be:
  "length bs \<le> 32 \<Longrightarrow> extend_32bytes bs = Inr (be_bytes 32 (int_from_bytes bs))"
proof -
  assume l: "length bs \<le> 32"
  then obtain ext where e: "extend_32bytes bs = Inr ext"
    by (simp add: extend_32bytes_def)
  then have "length ext = 32" "int_from_bytes ext = int_from_bytes bs"
    by (auto dest: extend_32bytes_value)
  then show ?thesis
    using e be_bytes_from_bytes [of ext] by simp
qed

lemma hex_extend_32bytes_hex:
  "length bs \<le> 32 \<Longrightarrow> hex_extend_32bytes (bytes_hex bs) = Inr (bytes_hex (be_bytes 32 (int_from_bytes bs)))"
  by (simp add: hex_extend_32bytes_def extend_32bytes_be)

section \<open>Decoding digit strings to bytes\<close>

lemma int_from_bytes_Cons: "int_from_bytes (b # bs) = uint b * 256 ^ length bs + int_from_bytes bs"
  using int_from_bytes_append [of "[b]" bs] by (simp add: int_from_bytes_def)

lemma digits_value_Cons2:
  assumes "digit_val c = Some h" "digit_val d = Some l"
  shows "digits_value 16 (c # d # s) = (16 * h + l) * 16 ^ length s + digits_value 16 s"
  using digits_value_append [of 16 "[c, d]" s] assms by (simp add: digits_value_def)

lemma fromhex_digits:
  "all_digits 16 s \<Longrightarrow> even (length s) \<Longrightarrow>
   \<exists>bs. bytes_fromhex s = Inr bs \<and> 2 * length bs = length s \<and> int_from_bytes bs = digits_value 16 s"
proof (induction s rule: bytes_fromhex.induct)
  case (3 c d s)
  obtain h l where hl: "digit_val c = Some h" "digit_val d = Some l" "h < 16" "l < 16" "0 \<le> h" "0 \<le> l"
    using "3.prems" by (auto dest: digit_val_nonneg)
  then have hex: "hex_val c = Some h" "hex_val d = Some l" "\<not> is_space c"
    by (auto simp: hex_val_def dest: digit_val_not_space)
  obtain bs where bs: "bytes_fromhex s = Inr bs" "2 * length bs = length s"
    "int_from_bytes bs = digits_value 16 s"
    using "3.IH"(2) "3.prems" hex by auto
  let ?b = "word_of_int (16 * h + l) :: byte"
  have u: "uint ?b = 16 * h + l"
    using hl by (simp only: uint_word_of_int_byte) (auto intro!: mod_pos_pos_trivial)
  have "(256 :: int) ^ length bs = 16 ^ (2 * length bs)"
    by (simp add: power_mult)
  then have "int_from_bytes (?b # bs) = digits_value 16 (c # d # s)"
    using bs by (simp only: int_from_bytes_Cons u digits_value_Cons2 [OF hl(1,2)])
  moreover have "bytes_fromhex (c # d # s) = Inr (?b # bs)"
    using hex bs(1) by simp
  ultimately show ?case
    using bs(2) by (intro exI [of _ "?b # bs"]) auto
qed auto

lemma digit_val_upper_digit: "0 \<le> d \<Longrightarrow> d < 16 \<Longrightarrow> digit_val (upper_digit d) = Some d"
  by (simp add: digit_val_def upper_digit_def Let_def)

lemma upper_digits_value:
  "(\<And>d. d \<in> set ds \<Longrightarrow> 0 \<le> d \<and> d < 16) \<Longrightarrow>
   all_digits 16 (map upper_digit ds) \<and>
   digits_value 16 (map upper_digit ds) = digits_value 16 (map digit_char ds)"
proof (induction ds rule: rev_induct)
  case (snoc d ds)
  then have "0 \<le> d" "d < 16" "d < 36" by fastforce+
  with snoc show ?case
    using digits_value_snoc [OF digit_val_upper_digit [of d], of 16 "map upper_digit ds"]
      digits_value_snoc [OF digit_val_digit_char [of d], of 16 "map digit_char ds"]
    by (simp add: digit_val_upper_digit)
qed simp

lemma format_0_4X_digits:
  assumes "0 \<le> m" "m < 2 ^ 256"
  shows "all_digits 16 (format_0_4X m)" "digits_value 16 (format_0_4X m) = m"
    "length (format_0_4X m) \<le> 64"
proof -
  let ?u = "map upper_digit (num_digits 16 m)"
  have u: "all_digits 16 ?u" "digits_value 16 ?u = digits_value 16 (num_str 16 m)"
    using upper_digits_value [of "num_digits 16 m"] num_digits_bounds [of 16 m] assms(1)
    by (auto simp: num_str_def)
  have f: "format_0_4X m = pad_left 4 CHR ''0'' ?u"
    using assms(1) by (simp add: format_0_4X_def)
  show "all_digits 16 (format_0_4X m)"
    using u by (simp add: f pad_left_def)
  show "digits_value 16 (format_0_4X m) = m"
    using u assms(1) by (simp add: f pad_left_def digits_value_zeros num_str_value)
  have "m < 16 ^ Suc 63"
    using assms(2) by simp
  then have "length (num_digits 16 m) \<le> Suc 63"
    using assms(1) by (intro length_num_digits) auto
  then show "length (format_0_4X m) \<le> 64"
    by (simp add: f pad_left_def)
qed

text \<open>An integer of at most 256 bits becomes its 32-byte big-endian form.\<close>

lemma hex_extend_32bytes_digits:
  assumes "all_digits 16 s" "length s \<le> 64"
  shows "hex_extend_32bytes s = Inr (bytes_hex (be_bytes 32 (digits_value 16 s)))"
proof -
  let ?r = "if length s mod 2 \<noteq> 0 then ''0'' @ s else s"
  have zero: "digits_value 16 (CHR ''0'' # s) = digits_value 16 s"
    using digits_value_zeros [of 16 1 s] by simp
  have "all_digits 16 ?r" "even (length ?r)" "digits_value 16 ?r = digits_value 16 s" "length ?r \<le> 64"
    using assms zero by (auto simp: digit_val_def odd_iff_mod_2_eq_one even_iff_mod_2_eq_zero)
      presburger+
  then obtain bs where "bytes_fromhex ?r = Inr bs" "length bs \<le> 32"
    "int_from_bytes bs = digits_value 16 s"
    using fromhex_digits [of ?r] by fastforce
  then show ?thesis
    unfolding hex_extend_32bytes_def Let_def by (simp add: extend_32bytes_be)
qed

lemma message_to_bytes_ints:
  assumes "\<And>m. m \<in> set ms \<Longrightarrow> 0 \<le> m \<and> m < 2 ^ 256"
    and "encode_bytes32_law encode_single"
  shows "message_to_bytes encode_single (map (\<lambda>m. Leaf (MInt m)) ms) = Inr (concat (map (be_bytes 32) ms))"
proof -
  have flat: "string_list_flatten (map (\<lambda>m. Leaf (MInt m)) ms) = map MInt ms"
    by (induction ms) (simp_all add: string_list_flatten_def)
  have "mapR (\<lambda>m. bindR (message_item_hex m) (\<lambda>m_hex. bindR (hex_extend_32bytes m_hex) (\<lambda>h.
          bindR (bytes_fromhex h) (encode_single ''bytes32'')))) (map MInt ms)
      = Inr (map (be_bytes 32) ms)"
    unfolding mapR_map
    using assms(1) format_0_4X_digits
    by (intro mapR_Inr) (simp add: message_item_hex_def hex_extend_32bytes_digits
        assms(2) [unfolded encode_bytes32_law_def])
  then show ?thesis
    unfolding message_to_bytes_def flat by simp
qed

section \<open>Units and fixed-width values\<close>

lemma from_zeth_units_ok:
  assumes "to_wei_law toWei"
    and "0 \<le> n" "n < 2 ^ 64"
  shows "from_zeth_units toWei n = Inr \<lparr>wei = n * ZETH_PUBLIC_UNIT_VALUE\<rparr>"
proof -
  have "n * ZETH_PUBLIC_UNIT_VALUE < 2 ^ 64 * ZETH_PUBLIC_UNIT_VALUE"
    using assms(3) by (simp add: ZETH_PUBLIC_UNIT_VALUE_def)
  then show ?thesis
    using assms(1,2)
    by (simp add: to_wei_law_def from_zeth_units_def ether_value_def ZETH_PUBLIC_UNIT_VALUE_def)
qed

lemma to_zeth_units_exact:
  "0 \<le> n \<Longrightarrow> n < 2 ^ 53 \<Longrightarrow> to_zeth_units \<lparr>wei = n * ZETH_PUBLIC_UNIT_VALUE\<rparr> = Inr n"
  by (simp add: to_zeth_units_def int_truediv_exact ZETH_PUBLIC_UNIT_VALUE_def)

lemma int64_to_hex_ok:
  "0 \<le> n \<Longrightarrow> n < 2 ^ 64 \<Longrightarrow> int64_to_hex n = Inr (bytes_hex (be_bytes 8 n))"
  by (simp add: int64_to_hex_def int64_to_bytes_def int_to_bytes_def)

lemma int64_to_hex_error: "n < 0 \<or> 2 ^ 64 \<le> n \<Longrightarrow> int64_to_hex n = Inl OverflowError"
  by (auto simp: int64_to_hex_def int64_to_bytes_def int_to_bytes_def)

text \<open>
  C37. Zeth units survive the conversion to Wei and back as long as the number of units is
  below \<open>2 ^ 53\<close>, although \<open>to_zeth_units\<close> divides in floating point.
\<close>

theorem zeth_units_roundtrip:
  assumes "to_wei_law toWei"
    and "0 \<le> n" "n < 2 ^ 53"
  shows "bindR (from_zeth_units toWei n) to_zeth_units = Inr n"
  using from_zeth_units_ok [OF assms(1,2)] to_zeth_units_exact [OF assms(2,3)] assms(3) by simp

theorem zeth_units_roundtrip_witness:
  "bindR (from_zeth_units (\<lambda>v u. case v of NumInt k \<Rightarrow> Inr k | NumStr s \<Rightarrow> Inl ValueError) 1500000)
     to_zeth_units = Inr 1500000"
  by (rule zeth_units_roundtrip) (simp_all add: to_wei_law_def)


text \<open>
  \<open>hex_to_uint256_list\<close> splits a hexadecimal string (with or without its \<open>0x\<close> prefix)
  into the least number of 256-bit words, every word in range, and the words denote the
  same number.
\<close>

theorem hex_to_uint256_list_correct:
  assumes "all_digits 16 s" "s \<noteq> []" "even (length s)" "length s \<le> 2 ^ 53"
    and "hex = s \<or> hex = ''0x'' @ s"
  shows "\<exists>vs. hex_to_uint256_list hex = Inr vs \<and> length vs = (length s + 63) div 64
    \<and> (\<forall>v \<in> set vs. 0 \<le> v \<and> v < 2 ^ 256) \<and> uint256_value vs = digits_value 16 s"
  using assms by (rule hex_to_uint256_list_ok)

theorem hex_to_uint256_list_correct_witness:
  "\<exists>vs. hex_to_uint256_list ''0x12ab'' = Inr vs \<and> length vs = (length ''12ab'' + 63) div 64
    \<and> (\<forall>v \<in> set vs. 0 \<le> v \<and> v < 2 ^ 256) \<and> uint256_value vs = digits_value 16 ''12ab''"
  by (rule hex_to_uint256_list_correct) (simp_all add: digit_val_def)

text \<open>
  The message bytes of a list of unsigned 256-bit integers are their 32-byte big-endian
  encodings in order, provided the ABI encoder leaves a 32-byte string unchanged.
\<close>

theorem message_to_bytes_correct:
  assumes "\<And>m. m \<in> set ms \<Longrightarrow> 0 \<le> m \<and> m < 2 ^ 256"
    and "encode_bytes32_law encode_single"
  shows "message_to_bytes encode_single (map (\<lambda>m. Leaf (MInt m)) ms) = Inr (concat (map (be_bytes 32) ms))"
  using assms by (rule message_to_bytes_ints)

theorem message_to_bytes_correct_witness:
  "message_to_bytes (\<lambda>t bs. Inr bs) (map (\<lambda>m. Leaf (MInt m)) [1, 65535]) =
     Inr (concat (map (be_bytes 32) [1, 65535]))"
  by (rule message_to_bytes_correct) (auto simp: encode_bytes32_law_def)

end
