(* ===== verification/Merkle_Tree.thy ===== *)
theory Merkle_Tree
  imports Utils
begin

text \<open>
  \<open>client/zeth/core/merkle_tree.py\<close>: the append-only Merkle tree of the client. The layers are
  lists that grow with the leaves, nodes that were never written are the default value of their
  layer, and \<open>recompute_root\<close> rehashes only what the new leaves touch. The reference is
  \<open>spec_node\<close>, the plain recursive definition of the nodes of the complete tree; the main
  results are that the incremental update computes exactly those nodes, and that the path
  returned by \<open>compute_merkle_path\<close> authenticates its leaf against the root.
  The depth and the counters are natural numbers (a negative depth raises at once); node
  indices are integers, read with Python's rules.
\<close>

section \<open>Data\<close>

definition ZERO_ENTRY :: bytes where
  "ZERO_ENTRY = replicate 32 0"

record MerkleTreeData =
  data_depth :: nat
  default_values :: "bytes list"
  layers :: "bytes list list"

record MerkleTree =
  max_num_leaves :: nat
  tree_depth :: nat
  tree_data :: MerkleTreeData
  num_new_leaves :: nat

type_synonym tree_hash_fn = "bytes \<Rightarrow> bytes \<Rightarrow> bytes"

definition to_list_bytes :: "string list \<Rightarrow> bytes list res" where
  "to_list_bytes list_str = mapR bytes_fromhex list_str"

definition to_list_str :: "bytes list \<Rightarrow> string list" where
  "to_list_str list_bytes = map bytes_hex list_bytes"

text \<open>The persisted form: the depth, the default values and the layers as text.\<close>

record MerkleTreeJson =
  json_depth :: nat
  json_default_values :: "string list"
  json_layers :: "string list list"

definition tree_data_to_json_dict :: "MerkleTreeData \<Rightarrow> MerkleTreeJson" where
  "tree_data_to_json_dict td =
     \<lparr>json_depth = data_depth td, json_default_values = to_list_str (default_values td),
      json_layers = map to_list_str (layers td)\<rparr>"

definition tree_data_from_json_dict :: "MerkleTreeJson \<Rightarrow> MerkleTreeData res" where
  "tree_data_from_json_dict d =
     bindR (to_list_bytes (json_default_values d)) (\<lambda>dv.
     bindR (mapR to_list_bytes (json_layers d)) (\<lambda>ls.
       Inr \<lparr>data_depth = json_depth d, default_values = dv, layers = ls\<rparr>))"

section \<open>Construction\<close>

definition merkle_tree_init :: "MerkleTreeData \<Rightarrow> nat \<Rightarrow> MerkleTree" where
  "merkle_tree_init td depth =
     \<lparr>max_num_leaves = 2 ^ depth, tree_depth = data_depth td, tree_data = td, num_new_leaves = 0\<rparr>"

text \<open>The loop over \<open>range(depth - 1, -1, -1)\<close>: index \<open>i\<close> is filled from index \<open>i + 1\<close>.\<close>

fun fill_defaults :: "tree_hash_fn \<Rightarrow> nat \<Rightarrow> bytes list \<Rightarrow> bytes list" where
  "fill_defaults h 0 dv = dv"
| "fill_defaults h (Suc i) dv = fill_defaults h i (dv[i := h (dv ! Suc i) (dv ! Suc i)])"

definition empty_data_with_depth :: "nat \<Rightarrow> tree_hash_fn \<Rightarrow> MerkleTreeData" where
  "empty_data_with_depth depth h =
     (let dv = fill_defaults h depth (replicate (depth + 1) ZERO_ENTRY)
      in \<lparr>data_depth = depth, default_values = dv, layers = [dv ! 0] # replicate depth []\<rparr>)"

definition empty_with_depth :: "nat \<Rightarrow> tree_hash_fn \<Rightarrow> MerkleTree" where
  "empty_with_depth depth h = merkle_tree_init (empty_data_with_depth depth h) depth"

text \<open>\<open>int(math.log(n, 2))\<close> is a floating-point library result, hence an argument.\<close>

definition empty_with_size :: "(nat \<Rightarrow> nat) \<Rightarrow> nat \<Rightarrow> tree_hash_fn \<Rightarrow> MerkleTree res" where
  "empty_with_size int_log2 num_leaves h =
     (let depth = int_log2 num_leaves
      in assertR (2 ^ depth = num_leaves) (Inr (empty_with_depth depth h)))"

section \<open>Queries\<close>

definition layer_at :: "MerkleTree \<Rightarrow> nat \<Rightarrow> bytes list res" where
  "layer_at t i = py_index (layers (tree_data t)) (int i)"

definition get_leaves :: "MerkleTree \<Rightarrow> bytes list res" where
  "get_leaves t = layer_at t (tree_depth t)"

definition get_num_entries :: "MerkleTree \<Rightarrow> nat res" where
  "get_num_entries t = bindR (layer_at t (tree_depth t)) (\<lambda>leaves. Inr (length leaves))"

definition get_leaf :: "MerkleTree \<Rightarrow> int \<Rightarrow> bytes res" where
  "get_leaf t index =
     bindR (layer_at t (tree_depth t)) (\<lambda>leaves.
       if index < int (length leaves) then py_index leaves index else Inr ZERO_ENTRY)"

definition get_node :: "MerkleTree \<Rightarrow> nat \<Rightarrow> int \<Rightarrow> bytes res" where
  "get_node t layer_idx node_idx =
     assertR (layer_idx \<le> tree_depth t)
       (assertR (num_new_leaves t = 0)
          (let i = tree_depth t - layer_idx
           in bindR (layer_at t i) (\<lambda>layer.
                if node_idx < int (length layer) then py_index layer node_idx
                else py_index (default_values (tree_data t)) (int i))))"

text \<open>The layers with their default values, leaves first.\<close>

definition get_layers :: "MerkleTree \<Rightarrow> (bytes \<times> bytes list) list res" where
  "get_layers t =
     mapR (\<lambda>i. bindR (py_index (default_values (tree_data t)) (int i)) (\<lambda>d.
               bindR (layer_at t i) (\<lambda>l. Inr (d, l)))) (rev [0 ..< tree_depth t + 1])"

definition get_layers_public :: "MerkleTree \<Rightarrow> (bytes \<times> bytes list) list res" where
  "get_layers_public t = assertR (num_new_leaves t = 0) (get_layers t)"

definition get_root :: "MerkleTree \<Rightarrow> bytes res" where
  "get_root t = assertR (num_new_leaves t = 0) (bindR (layer_at t 0) (\<lambda>l. py_index l 0))"

section \<open>Insertion and recomputation\<close>

definition insert_leaf :: "MerkleTree \<Rightarrow> bytes \<Rightarrow> MerkleTree res" where
  "insert_leaf t value =
     bindR (layer_at t (tree_depth t)) (\<lambda>leaves.
       assertR (length leaves < max_num_leaves t)
         (Inr (t\<lparr>tree_data := (tree_data t)\<lparr>layers := (layers (tree_data t))[tree_depth t := leaves @ [value]]\<rparr>,
                 num_new_leaves := num_new_leaves t + 1\<rparr>)))"

text \<open>The \<open>while\<close> loop of \<open>_recompute_layer\<close>, right to left over the populated pairs.\<close>

function recompute_pairs ::
  "tree_hash_fn \<Rightarrow> bytes list \<Rightarrow> int \<Rightarrow> int \<Rightarrow> bytes list \<Rightarrow> bytes list res" where
  "recompute_pairs h child_layer child_left_idx child_left_idx_rend parent_layer =
     (if child_left_idx > child_left_idx_rend then
        let i = child_left_idx - 2
        in bindR (py_index child_layer i) (\<lambda>l.
           bindR (py_index child_layer (i + 1)) (\<lambda>r.
           bindR (py_set parent_layer (i div 2) (h l r)) (\<lambda>parent'.
             recompute_pairs h child_layer i child_left_idx_rend parent')))
      else Inr parent_layer)"
  by pat_completeness auto
termination
  by (relation "measure (\<lambda>(h, c, l, r, p). nat (l - r))") auto

declare recompute_pairs.simps [simp del]

definition recompute_layer ::
  "tree_hash_fn \<Rightarrow> bytes list \<Rightarrow> int \<Rightarrow> int \<Rightarrow> bytes \<Rightarrow> bytes list \<Rightarrow> (bytes list \<times> int \<times> int) res" where
  "recompute_layer h child_layer child_start_idx child_end_idx child_default_value parent_layer =
     bindR (int_truediv (child_end_idx + 1) 2) (\<lambda>new_len.
     bindR (int_truediv child_start_idx 2) (\<lambda>half.
       let parent0 = parent_layer @ replicate (nat (new_len - int (length parent_layer))) ZERO_ENTRY;
           child_left_idx_rend = half * 2
       in bindR (if child_end_idx mod 2 = 1 then
                   bindR (py_index child_layer (child_end_idx - 1)) (\<lambda>l.
                   bindR (py_set parent0 ((child_end_idx - 1) div 2) (h l child_default_value)) (\<lambda>p.
                     Inr (p, child_end_idx - 1)))
                 else Inr (parent0, child_end_idx)) (\<lambda>(parent1, child_left_idx).
          bindR (recompute_pairs h child_layer child_left_idx child_left_idx_rend parent1) (\<lambda>parent2.
            Inr (parent2, child_start_idx div 2, new_len)))))"

text \<open>
  The loop of \<open>recompute_root\<close> over the parent layers. The Python code updates each parent list
  in place; here the updated layers are returned, leaves first, with the last layer reached and
  the running layer size.
\<close>

fun recompute_layers ::
  "tree_hash_fn \<Rightarrow> bytes \<Rightarrow> bytes list \<Rightarrow> int \<Rightarrow> int \<Rightarrow> int \<Rightarrow> (bytes \<times> bytes list) list \<Rightarrow>
   (bytes list list \<times> bytes list \<times> int) res" where
  "recompute_layers h layer_default layer start_idx end_idx layer_size [] = Inr ([], layer, layer_size)"
| "recompute_layers h layer_default layer start_idx end_idx layer_size ((parent_default, parent_layer) # rest) =
     bindR (recompute_layer h layer start_idx end_idx layer_default parent_layer) (\<lambda>(parent', s, e).
     bindR (int_truediv layer_size 2) (\<lambda>size'.
     bindR (recompute_layers h parent_default parent' s e size' rest) (\<lambda>(ls, last_layer, sz).
       Inr (parent' # ls, last_layer, sz))))"

definition recompute_root :: "tree_hash_fn \<Rightarrow> MerkleTree \<Rightarrow> (MerkleTree \<times> bytes) res" where
  "recompute_root h t =
     (if num_new_leaves t = 0 then bindR (get_root t) (\<lambda>r. Inr (t, r))
      else bindR (get_layers t) (\<lambda>its. case its of
             [] \<Rightarrow> Inl IndexError
           | (layer_default, layer) # parents \<Rightarrow>
               let end_idx = int (length layer); start_idx = end_idx - int (num_new_leaves t)
               in bindR (recompute_layers h layer_default layer start_idx end_idx
                           (int (max_num_leaves t)) parents) (\<lambda>(new_parents, last_layer, layer_size).
                  let t' = t\<lparr>tree_data := (tree_data t)\<lparr>layers := rev (layer # new_parents) @ drop (tree_depth t + 1) (layers (tree_data t))\<rparr>,
                             num_new_leaves := 0\<rparr>
                  in assertR (length last_layer = 1) (assertR (layer_size = 1)
                       (bindR (py_index last_layer 0) (\<lambda>r. Inr (t', r)))))))"

section \<open>Paths and addresses\<close>

fun merkle_path_loop :: "MerkleTree \<Rightarrow> nat \<Rightarrow> nat \<Rightarrow> int \<Rightarrow> string list res" where
  "merkle_path_loop t 0 d address = Inr []"
| "merkle_path_loop t (Suc n) d address =
     bindR (get_node t d (if address mod 2 = 1 then address - 1 else address + 1)) (\<lambda>node.
     bindR (merkle_path_loop t n (Suc d) (address div 2)) (\<lambda>rest. Inr (bytes_hex node # rest)))"

definition compute_merkle_path :: "int \<Rightarrow> MerkleTree \<Rightarrow> string list res" where
  "compute_merkle_path address t =
     (if address = -1 then Inr [] else merkle_path_loop t (tree_depth t) 0 address)"

definition leaf_address_to_node_address :: "int \<Rightarrow> nat \<Rightarrow> int" where
  "leaf_address_to_node_address address_leaf depth =
     (let address = address_leaf + (2 ^ depth - 1)
      in if address > 2 ^ (depth + 1) - 1 then -1 else address)"

section \<open>Persistence\<close>

text \<open>\<open>PersistentMerkleTree.open\<close>: the file contents, if the file exists, as an option.\<close>

definition persistent_open ::
  "(nat \<Rightarrow> nat) \<Rightarrow> MerkleTreeJson option \<Rightarrow> nat \<Rightarrow> tree_hash_fn \<Rightarrow> MerkleTree res" where
  "persistent_open int_log2 file max_leaves h =
     (let depth = int_log2 max_leaves
      in assertR (max_leaves = 2 ^ depth)
           (case file of
              Some json_dict \<Rightarrow>
                bindR (tree_data_from_json_dict json_dict) (\<lambda>td.
                  assertR (depth = data_depth td) (Inr (merkle_tree_init td depth)))
            | None \<Rightarrow> Inr (merkle_tree_init (empty_data_with_depth depth h) depth)))"

definition persistent_save :: "MerkleTree \<Rightarrow> MerkleTreeJson" where
  "persistent_save t = tree_data_to_json_dict (tree_data t)"

section \<open>Reference tree\<close>

text \<open>
  The nodes of the complete tree over a list of leaves, by height above the leaves, and the
  node of an empty subtree.
\<close>

fun spec_node :: "tree_hash_fn \<Rightarrow> bytes list \<Rightarrow> nat \<Rightarrow> nat \<Rightarrow> bytes" where
  "spec_node h xs 0 i = (if i < length xs then xs ! i else ZERO_ENTRY)"
| "spec_node h xs (Suc l) i = h (spec_node h xs l (2 * i)) (spec_node h xs l (2 * i + 1))"

fun default_node :: "tree_hash_fn \<Rightarrow> nat \<Rightarrow> bytes" where
  "default_node h 0 = ZERO_ENTRY"
| "default_node h (Suc l) = h (default_node h l) (default_node h l)"

text \<open>The number of nodes above \<open>n\<close> leaves at a given height.\<close>

fun nodes :: "nat \<Rightarrow> nat \<Rightarrow> nat" where
  "nodes n 0 = n"
| "nodes n (Suc l) = (nodes n l + 1) div 2"

text \<open>
  The layer at a height \<open>l > 0\<close> of a tree of depth \<open>d\<close> whose hashes cover the leaves \<open>xs\<close>, and
  the whole tree state over the leaves \<open>xs\<close> of which the first \<open>m\<close> are covered by the hashes.
\<close>

definition layer_spec :: "tree_hash_fn \<Rightarrow> bytes list \<Rightarrow> nat \<Rightarrow> nat \<Rightarrow> bytes list" where
  "layer_spec h xs d l =
     (if l = d then [spec_node h xs d 0] else map (spec_node h xs l) [0 ..< nodes (length xs) l])"

definition tree_of :: "tree_hash_fn \<Rightarrow> nat \<Rightarrow> bytes list \<Rightarrow> nat \<Rightarrow> MerkleTree" where
  "tree_of h d xs m =
     \<lparr>max_num_leaves = 2 ^ d, tree_depth = d,
      tree_data = \<lparr>data_depth = d,
        default_values = map (\<lambda>i. default_node h (d - i)) [0 ..< d + 1],
        layers = map (\<lambda>i. layer_spec h (take m xs) d (d - i)) [0 ..< d] @ [xs]\<rparr>,
      num_new_leaves = length xs - m\<rparr>"

lemma spec_node_default: "length xs \<le> i * 2 ^ l \<Longrightarrow> spec_node h xs l i = default_node h l"
proof (induction l arbitrary: i)
  case (Suc l)
  then have "length xs \<le> 2 * i * 2 ^ l" "length xs \<le> (2 * i + 1) * 2 ^ l"
    by (simp_all add: algebra_simps)
  with Suc.IH show ?case by simp
qed simp

lemma spec_node_append: "(i + 1) * 2 ^ l \<le> length xs \<Longrightarrow> spec_node h (xs @ ys) l i = spec_node h xs l i"
proof (induction l arbitrary: i)
  case 0
  then show ?case by (simp add: nth_append)
next
  case (Suc l)
  then have "(2 * i + 1) * 2 ^ l \<le> length xs" "(2 * i + 1 + 1) * 2 ^ l \<le> length xs"
    by (simp_all add: algebra_simps)
  with Suc.IH show ?case by simp
qed

lemma spec_node_take:
  assumes "i < m div 2 ^ l" "m \<le> length xs"
  shows "spec_node h (take m xs) l i = spec_node h xs l i"
proof -
  have "(i + 1) * 2 ^ l \<le> m div 2 ^ l * 2 ^ l"
    using assms(1) by (intro mult_right_mono) auto
  also have "\<dots> \<le> m" by simp
  finally have "(i + 1) * 2 ^ l \<le> length (take m xs)"
    using assms(2) by simp
  from spec_node_append [OF this, of h "drop m xs"] show ?thesis by simp
qed

lemma nodes_default: "nodes n l \<le> i \<Longrightarrow> n \<le> i * 2 ^ l"
proof (induction l arbitrary: i)
  case (Suc l)
  then have "nodes n l \<le> 2 * i" by simp
  from Suc.IH [OF this] show ?case by (simp add: algebra_simps)
qed simp

lemma nodes_mono: "m \<le> n \<Longrightarrow> nodes m l \<le> nodes n l"
  by (induction l) (simp_all add: div_le_mono)

lemma nodes_pos: "0 < n \<Longrightarrow> 0 < nodes n l"
  by (induction l) auto

lemma nodes_le: "n \<le> 2 ^ d \<Longrightarrow> l \<le> d \<Longrightarrow> nodes n l \<le> 2 ^ (d - l)"
proof (induction l)
  case (Suc l)
  then have "nodes n l \<le> 2 ^ (d - l)" "d - l = Suc (d - Suc l)"
    by auto
  then have "nodes n l \<le> 2 * 2 ^ (d - Suc l)" by simp
  then show ?case by simp
qed simp

lemma nodes_root: "0 < n \<Longrightarrow> n \<le> 2 ^ d \<Longrightarrow> nodes n d = 1"
  using nodes_le [of n d d] nodes_pos [of n d] by simp

lemma div_le_nodes: "m div 2 ^ l \<le> nodes m l"
proof (induction l)
  case (Suc l)
  have "m div 2 ^ Suc l = m div 2 ^ l div 2"
    by (simp only: power_Suc2 div_mult2_eq)
  also have "\<dots> \<le> (nodes m l + 1) div 2"
    using Suc by (intro div_le_mono) simp
  finally show ?case by simp
qed simp

section \<open>One layer\<close>

lemma recompute_pairs_ok:
  assumes "2 * (r + k) \<le> length c" "r + k \<le> length p"
  shows "recompute_pairs h c (int (2 * (r + k))) (int (2 * r)) p =
    Inr (take r p @ map (\<lambda>i. h (c ! (2 * i)) (c ! (2 * i + 1))) [r ..< r + k] @ drop (r + k) p)"
  using assms
proof (induction k arbitrary: p)
  case 0
  then show ?case by (subst recompute_pairs.simps) simp
next
  case (Suc k)
  let ?j = "r + k" and ?v = "h (c ! (2 * (r + k))) (c ! (2 * (r + k) + 1))"
  have idx: "int (2 * (r + Suc k)) - 2 = int (2 * ?j)" by simp
  have "py_index c (int (2 * ?j)) = Inr (c ! (2 * ?j))"
    "py_index c (int (2 * ?j) + 1) = Inr (c ! (2 * ?j + 1))"
    using Suc.prems py_index_nat [of "2 * ?j" c] py_index_nat [of "2 * ?j + 1" c] by (simp_all add: algebra_simps)
  moreover have "py_set p (int (2 * ?j) div 2) ?v = Inr (p[?j := ?v])"
  proof -
    have "int (2 * ?j) div 2 = int ?j" by simp
    then show ?thesis
      using Suc.prems by (simp only: py_set_nat add_Suc_right Suc_le_eq)
  qed
  moreover have "recompute_pairs h c (int (2 * ?j)) (int (2 * r)) (p[?j := ?v]) =
      Inr (take r (p[?j := ?v]) @ map (\<lambda>i. h (c ! (2 * i)) (c ! (2 * i + 1))) [r ..< ?j] @ drop ?j (p[?j := ?v]))"
    using Suc.prems by (intro Suc.IH) auto
  moreover have "drop ?j (p[?j := ?v]) = ?v # drop (r + Suc k) p"
    using Suc.prems by (simp add: drop_update_swap Cons_nth_drop_Suc [symmetric])
  ultimately show ?case
    using Suc.prems by (subst recompute_pairs.simps) (simp only: idx Let_def, simp)
qed

lemma recompute_pairs_map:
  assumes "c = map f [0 ..< n]" "2 * j \<le> n" "r \<le> j" "j \<le> length p"
    and "\<And>i. i < r \<Longrightarrow> p ! i = h (f (2 * i)) (f (2 * i + 1))"
  shows "recompute_pairs h c (int (2 * j)) (int (2 * r)) p =
    Inr (map (\<lambda>i. h (f (2 * i)) (f (2 * i + 1))) [0 ..< j] @ drop j p)"
proof -
  obtain k where k: "j = r + k"
    using assms(3) le_Suc_ex by blast
  have "recompute_pairs h c (int (2 * j)) (int (2 * r)) p =
      Inr (take r p @ map (\<lambda>i. h (c ! (2 * i)) (c ! (2 * i + 1))) [r ..< j] @ drop j p)"
    unfolding k using assms k by (intro recompute_pairs_ok) auto
  moreover have "take r p = map (\<lambda>i. h (f (2 * i)) (f (2 * i + 1))) [0 ..< r]"
    using assms(3-5) by (intro nth_equalityI) auto
  moreover have "map (\<lambda>i. h (c ! (2 * i)) (c ! (2 * i + 1))) [r ..< j] =
      map (\<lambda>i. h (f (2 * i)) (f (2 * i + 1))) [r ..< j]"
    using assms(1,2) by (intro map_cong) auto
  moreover have "[0 ..< j] = [0 ..< r] @ [r ..< j]"
    using upt_add_eq_append [of 0 r k] k by simp
  ultimately show ?thesis
    by simp
qed

lemma drop_update_last: "length xs = Suc j \<Longrightarrow> drop j (xs[j := v]) = [v]"
  by (rule nth_equalityI) auto

lemma recompute_layer_ok:
  assumes child: "c = map f [0 ..< n]" and dflt: "f n = dv" and s: "s \<le> n" and n: "n + 1 < 2 ^ 53"
    and p: "length p \<le> (n + 1) div 2" "s div 2 \<le> length p"
    and old: "\<And>i. i < s div 2 \<Longrightarrow> p ! i = h (f (2 * i)) (f (2 * i + 1))"
  shows "recompute_layer h c (int s) (int n) dv p =
    Inr (map (\<lambda>i. h (f (2 * i)) (f (2 * i + 1))) [0 ..< (n + 1) div 2], int (s div 2), int ((n + 1) div 2))"
proof -
  let ?g = "\<lambda>i. h (f (2 * i)) (f (2 * i + 1))"
  let ?p0 = "p @ replicate ((n + 1) div 2 - length p) ZERO_ENTRY"
  have bnd: "int n + 1 < 2 ^ 53" "int s < 2 ^ 53"
    using n s by auto
  have td: "int_truediv (int n + 1) 2 = Inr (int ((n + 1) div 2))"
    "int_truediv (int s) 2 = Inr (int (s div 2))"
    using bnd by (simp_all add: int_truediv_2 zdiv_int)
  have p0: "nat (int ((n + 1) div 2) - int (length p)) = (n + 1) div 2 - length p"
    by (simp add: nat_diff_distrib')
  have len: "length ?p0 = (n + 1) div 2"
    using p(1) by simp
  have nth0: "?p0 ! i = ?g i" if "i < s div 2" for i
    using that p(2) old by (simp add: nth_append)
  show ?thesis
  proof (cases "odd n")
    case True
    then obtain j where j: "n = 2 * j + 1"
      by (elim oddE) auto
    let ?p1 = "?p0[j := h (c ! (2 * j)) dv]"
    have "py_index c (int n - 1) = Inr (c ! (2 * j))"
      using py_index_nat [of "2 * j" c] child j by simp
    moreover have "py_set ?p0 ((int n - 1) div 2) (h (c ! (2 * j)) dv) = Inr ?p1"
      using py_set_nat [of j ?p0] len j by simp
    moreover have "recompute_pairs h c (int (2 * j)) (int (2 * (s div 2))) ?p1 =
        Inr (map ?g [0 ..< j] @ drop j ?p1)"
      using child s j len nth0 by (intro recompute_pairs_map [of c f n]) auto
    moreover have "c ! (2 * j) = f (2 * j)"
      unfolding child by (subst nth_map) (simp_all add: j nth_append)
    moreover have "drop j ?p1 = [h (c ! (2 * j)) dv]"
      using len j by (intro drop_update_last) simp
    ultimately show ?thesis
      using j dflt len unfolding recompute_layer_def td bindR_simps Let_def p0
      by (simp add: mult.commute [of _ "2 :: int"] zdiv_int)
  next
    case False
    then obtain j where j: "n = 2 * j"
      by auto
    have "recompute_pairs h c (int (2 * j)) (int (2 * (s div 2))) ?p0 =
        Inr (map ?g [0 ..< j] @ drop j ?p0)"
      using child s j len nth0 by (intro recompute_pairs_map [of c f n]) auto
    moreover have "drop j ?p0 = []"
      using len j by simp
    ultimately show ?thesis
      using j unfolding recompute_layer_def td bindR_simps Let_def p0
      by (simp add: mult.commute [of _ "2 :: int"] zdiv_int)
  qed
qed

section \<open>The whole tree\<close>

lemma upt_0_1: "[0 ..< Suc 0] = [0]"
  by simp

lemma map_rev_upt: "map f (rev [Suc 0 ..< Suc d]) = map (\<lambda>i. f (d - i)) [0 ..< d]"
proof (rule nth_equalityI)
  fix i assume "i < length (map f (rev [Suc 0 ..< Suc d]))"
  then have i: "i < d" by (simp del: upt_Suc)
  then have "rev [Suc 0 ..< Suc d] ! i = [Suc 0 ..< Suc d] ! (d - Suc i)"
    by (subst rev_nth) (simp_all del: upt_Suc)
  also have "\<dots> = Suc 0 + (d - Suc i)"
    using i by (intro nth_upt) simp
  finally show "map f (rev [Suc 0 ..< Suc d]) ! i = map (\<lambda>i. f (d - i)) [0 ..< d] ! i"
    using i by (simp add: Suc_diff_Suc del: upt_Suc)
qed (simp del: upt_Suc)

lemma spec_layer_0: "map (spec_node h xs 0) [0 ..< length xs] = xs"
  by (rule nth_equalityI) auto

lemma layer_spec_full:
  assumes "0 < length xs" "length xs \<le> 2 ^ d" "l \<le> d"
  shows "map (spec_node h xs l) [0 ..< nodes (length xs) l] = layer_spec h xs d l"
  using assms by (simp add: layer_spec_def nodes_root)

lemma layer_spec_length: "l \<le> d \<Longrightarrow> length xs \<le> length ys \<Longrightarrow> 0 < length ys \<Longrightarrow>
  length (layer_spec h xs d l) \<le> nodes (length ys) l"
  using nodes_pos [of "length ys" l] nodes_mono [of "length xs" "length ys" l]
  by (auto simp: layer_spec_def)

text \<open>The nodes left of the first new leaf are already those of the extended tree.\<close>

lemma layer_spec_old:
  assumes "m < length xs" "length xs \<le> 2 ^ d" "l \<le> d" "i < m div 2 ^ l"
  shows "i < length (layer_spec h (take m xs) d l) \<and> layer_spec h (take m xs) d l ! i = spec_node h xs l i"
proof -
  have "l \<noteq> d"
    using assms by auto
  moreover have "i < nodes m l"
    using assms(4) div_le_nodes [of m l] by simp
  ultimately show ?thesis
    using assms spec_node_take [OF assms(4), of xs h] by (simp add: layer_spec_def)
qed

lemma recompute_layers_ok:
  assumes "m < length xs" "length xs \<le> 2 ^ d" "d \<le> 52" "l \<le> d"
  shows "recompute_layers h (default_node h l) (map (spec_node h xs l) [0 ..< nodes (length xs) l])
      (int (m div 2 ^ l)) (int (nodes (length xs) l)) (2 ^ (d - l))
      (map (\<lambda>k. (default_node h k, layer_spec h (take m xs) d k)) [Suc l ..< Suc d]) =
    Inr (map (\<lambda>k. map (spec_node h xs k) [0 ..< nodes (length xs) k]) [Suc l ..< Suc d],
      map (spec_node h xs d) [0 ..< nodes (length xs) d], 1)"
  using assms(4)
proof (induction "d - l" arbitrary: l)
  case 0
  then show ?case using assms by simp
next
  case (Suc k)
  let ?n = "nodes (length xs) l" and ?p = "layer_spec h (take m xs) d (Suc l)"
  have l: "Suc l \<le> d" "d - l = Suc (d - Suc l)"
    using Suc.hyps(2) by auto
  have upt: "[Suc l ..< Suc d] = Suc l # [Suc (Suc l) ..< Suc d]"
    using l by (simp add: upt_conv_Cons)
  have "?n \<le> 2 ^ (d - l)"
    using assms l by (intro nodes_le) auto
  also have "(2 :: nat) ^ (d - l) \<le> 2 ^ 52"
    using assms(3) by (intro power_increasing) auto
  finally have bnd: "?n + 1 < 2 ^ 53" by simp
  have start: "m div 2 ^ l div 2 = m div 2 ^ Suc l"
    by (simp only: power_Suc2 div_mult2_eq)
  have old: "i < length ?p \<and> ?p ! i = spec_node h xs (Suc l) i" if "i < m div 2 ^ l div 2" for i
    using layer_spec_old [OF assms(1,2) l(1)] that unfolding start by blast
  have p_len: "m div 2 ^ l div 2 \<le> length ?p"
    using old by (meson less_irrefl not_le)
  have "recompute_layer h (map (spec_node h xs l) [0 ..< ?n]) (int (m div 2 ^ l)) (int ?n)
      (default_node h l) ?p =
    Inr (map (\<lambda>i. h (spec_node h xs l (2 * i)) (spec_node h xs l (2 * i + 1))) [0 ..< (?n + 1) div 2],
      int (m div 2 ^ l div 2), int ((?n + 1) div 2))"
  proof (rule recompute_layer_ok)
    show "spec_node h xs l ?n = default_node h l"
      by (rule spec_node_default) (rule nodes_default, simp)
    show "m div 2 ^ l \<le> ?n"
      using div_le_nodes [of m l] nodes_mono [of m "length xs" l] assms(1) by linarith
    show "length ?p \<le> (?n + 1) div 2"
      using layer_spec_length [of "Suc l" d "take m xs" xs h] assms l by fastforce
  qed (use bnd p_len old in auto)
  moreover have "spec_node h xs (Suc l) = (\<lambda>i. h (spec_node h xs l (2 * i)) (spec_node h xs l (2 * i + 1)))"
    by (rule ext) simp
  ultimately have layer: "recompute_layer h (map (spec_node h xs l) [0 ..< ?n]) (int (m div 2 ^ l)) (int ?n)
      (default_node h l) ?p =
    Inr (map (spec_node h xs (Suc l)) [0 ..< nodes (length xs) (Suc l)],
      int (m div 2 ^ Suc l), int (nodes (length xs) (Suc l)))"
    by (simp only: start nodes.simps)
  have "(2 :: int) ^ (d - l) < 2 ^ 53"
    using assms(3) by (intro power_strict_increasing) auto
  then have size: "int_truediv (2 ^ (d - l)) 2 = Inr (2 ^ (d - Suc l))"
    by (simp add: int_truediv_2 l(2))
  note IH = Suc.hyps(1) [of "Suc l"]
  have k: "k = d - Suc l"
    using Suc.hyps(2) by simp
  show ?case
    unfolding upt list.map recompute_layers.simps layer size bindR_simps prod.case IH [OF k l(1)] ..
qed

lemma get_layers_tree_of:
  "get_layers (tree_of h d xs m) =
     Inr ((default_node h 0, xs) #
       map (\<lambda>k. (default_node h k, layer_spec h (take m xs) d k)) [Suc 0 ..< Suc d])"
proof -
  let ?t = "tree_of h d xs m"
  have "get_layers ?t = Inr (map (\<lambda>i. (default_node h (d - i),
      if i = d then xs else layer_spec h (take m xs) d (d - i))) (rev [0 ..< d + 1]))"
    unfolding get_layers_def
  proof (subst mapR_Inr)
    fix i assume "i \<in> set (rev [0 ..< tree_depth ?t + 1])"
    then show "bindR (py_index (default_values (tree_data ?t)) (int i)) (\<lambda>d. bindR (layer_at ?t i) (\<lambda>l. Inr (d, l))) =
        Inr (default_node h (d - i), if i = d then xs else layer_spec h (take m xs) d (d - i))"
      by (simp add: tree_of_def layer_at_def nth_append del: upt_Suc)
  qed (simp add: tree_of_def)
  also have "map (\<lambda>i. (default_node h (d - i), if i = d then xs else layer_spec h (take m xs) d (d - i)))
      (rev [0 ..< d + 1]) =
    (default_node h 0, xs) # map (\<lambda>k. (default_node h k, layer_spec h (take m xs) d k)) [Suc 0 ..< Suc d]"
    by (rule nth_equalityI) (auto simp: rev_nth nth_Cons' rev_map simp del: upt_Suc)
  finally show ?thesis .
qed

lemma layer_at_tree_of:
  "i \<le> d \<Longrightarrow> layer_at (tree_of h d xs m) i = Inr (if i = d then xs else layer_spec h (take m xs) d (d - i))"
  by (simp add: tree_of_def layer_at_def nth_append del: upt_Suc)

lemma tree_of_sel [simp]:
  "max_num_leaves (tree_of h d xs m) = 2 ^ d" "tree_depth (tree_of h d xs m) = d"
  "num_new_leaves (tree_of h d xs m) = length xs - m"
  by (simp_all add: tree_of_def)

lemma fill_defaults_ok:
  "k \<le> d \<Longrightarrow> length dv = d + 1 \<Longrightarrow> (\<And>i. k \<le> i \<Longrightarrow> i \<le> d \<Longrightarrow> dv ! i = default_node h (d - i)) \<Longrightarrow>
   fill_defaults h k dv = map (\<lambda>i. default_node h (d - i)) [0 ..< d + 1]"
proof (induction k arbitrary: dv)
  case 0
  then show ?case by (auto intro!: nth_equalityI [of dv] simp del: upt_Suc)
next
  case (Suc k)
  have "d - k = Suc (d - Suc k)"
    using Suc.prems(1) by simp
  then have "h (dv ! Suc k) (dv ! Suc k) = default_node h (d - k)"
    using Suc.prems by simp
  moreover have "(dv[k := default_node h (d - k)]) ! i = default_node h (d - i)"
    if "k \<le> i" "i \<le> d" for i
    using that Suc.prems by (cases "i = k") auto
  ultimately show ?case
    using Suc.prems by (simp add: Suc.IH)
qed

text \<open>The operations on the abstract state: leaves, and how many of them are hashed.\<close>

lemma empty_with_depth_tree_of: "0 < d \<Longrightarrow> empty_with_depth d h = tree_of h d [] 0"
proof -
  assume d: "0 < d"
  have dv: "fill_defaults h d (replicate (d + 1) ZERO_ENTRY) =
      map (\<lambda>i. default_node h (d - i)) [0 ..< d + 1]"
    by (rule fill_defaults_ok) (auto simp del: replicate_Suc)
  have nodes0: "nodes 0 l = 0" for l
    by (induction l) auto
  have "[default_node h d] # replicate d [] =
      map (\<lambda>i. layer_spec h [] d (d - i)) [0 ..< d] @ [[]]"
    using d by (intro nth_equalityI)
      (auto simp: layer_spec_def nodes0 spec_node_default nth_Cons' nth_append)
  then show ?thesis
    unfolding empty_with_depth_def merkle_tree_init_def empty_data_with_depth_def dv tree_of_def Let_def
    by (simp del: upt_Suc)
qed

lemma insert_leaf_tree_of:
  assumes "m \<le> length xs"
  shows "insert_leaf (tree_of h d xs m) v =
    (if length xs < 2 ^ d then Inr (tree_of h d (xs @ [v]) m) else Inl AssertionError)"
proof -
  have upd: "(layers (tree_data (tree_of h d xs m)))[d := xs @ [v]] =
      layers (tree_data (tree_of h d (xs @ [v]) m))"
    using assms by (simp add: tree_of_def list_update_append)
  have "tree_of h d (xs @ [v]) m = (tree_of h d xs m)\<lparr>
      tree_data := (tree_data (tree_of h d xs m))\<lparr>layers := layers (tree_data (tree_of h d (xs @ [v]) m))\<rparr>,
      num_new_leaves := length xs - m + 1\<rparr>"
    using assms by (simp add: tree_of_def)
  then show ?thesis
    by (simp add: insert_leaf_def layer_at_tree_of upd assertR_def)
qed

lemma get_root_tree_of:
  assumes "0 < d"
  shows "get_root (tree_of h d xs (length xs)) = Inr (spec_node h xs d 0)"
  using assms by (simp add: get_root_def layer_at_tree_of layer_spec_def)

lemma recompute_root_tree_of:
  assumes "0 < d" "d \<le> 52" "m \<le> length xs" "length xs \<le> 2 ^ d"
  shows "recompute_root h (tree_of h d xs m) = Inr (tree_of h d xs (length xs), spec_node h xs d 0)"
proof (cases "m = length xs")
  case True
  with assms show ?thesis
    by (simp add: recompute_root_def get_root_tree_of)
next
  case False
  let ?n = "length xs" and ?t = "tree_of h d xs m"
  let ?ls = "map (\<lambda>k. map (spec_node h xs k) [0 ..< nodes (length xs) k]) [Suc 0 ..< Suc d]"
  have m: "m < ?n" and pos: "0 < ?n"
    using False assms by auto
  have rl: "recompute_layers h (default_node h 0) xs (int m) (int ?n) (int (2 ^ d))
      (map (\<lambda>k. (default_node h k, layer_spec h (take m xs) d k)) [Suc 0 ..< Suc d]) =
    Inr (?ls, [spec_node h xs d 0], 1)"
    using recompute_layers_ok [OF m assms(4,2), of 0 h] pos assms upt_0_1
    by (simp add: nodes_root spec_layer_0 del: upt_Suc spec_node.simps(1))
  have start: "int ?n - int (?n - m) = int m"
    using m by simp
  have "?ls = map (layer_spec h xs d) [Suc 0 ..< Suc d]"
    using layer_spec_full [OF pos assms(4), of _ h] by (intro map_cong) auto
  then have "rev (xs # ?ls) = map (\<lambda>i. layer_spec h xs d (d - i)) [0 ..< d] @ [xs]"
    by (simp only: rev.simps rev_map map_rev_upt)
  then have "rev (xs # ?ls) @ drop (d + 1) (layers (tree_data ?t)) =
      layers (tree_data (tree_of h d xs ?n))"
    by (simp only:) (simp add: tree_of_def)
  then have "?t\<lparr>tree_data := (tree_data ?t)\<lparr>layers := rev (xs # ?ls) @ drop (d + 1) (layers (tree_data ?t))\<rparr>,
      num_new_leaves := 0\<rparr> = tree_of h d xs ?n"
    by (simp add: tree_of_def)
  with m show ?thesis
    unfolding recompute_root_def get_layers_tree_of bindR_simps list.case prod.case Let_def tree_of_sel start rl
    by simp
qed

lemma get_node_tree_of:
  assumes "l \<le> d" "length xs \<le> 2 ^ d"
  shows "get_node (tree_of h d xs (length xs)) l (int i) = Inr (spec_node h xs l i)"
proof -
  let ?t = "tree_of h d xs (length xs)"
  let ?layer = "if l = 0 then xs else layer_spec h xs d l"
  have "py_index (default_values (tree_data ?t)) (int (d - l)) =
      Inr (map (\<lambda>i. default_node h (d - i)) [0 ..< d + 1] ! (d - l))"
    unfolding tree_of_def by (simp del: upt_Suc)
  also have "\<dots> = Inr (default_node h l)"
    using assms(1) by (subst nth_map) (simp_all del: upt_Suc)
  finally have dv: "py_index (default_values (tree_data ?t)) (int (d - l)) = Inr (default_node h l)" .
  have la: "layer_at ?t (d - l) = Inr ?layer"
    using assms(1) by (auto simp: layer_at_tree_of)
  have "spec_node h xs l i = default_node h l" if "length ?layer \<le> i"
  proof (rule spec_node_default)
    show "length xs \<le> i * 2 ^ l"
    proof (cases "l = d \<and> l \<noteq> 0")
      case True
      with that have "1 * 2 ^ d \<le> i * 2 ^ l"
        by (intro mult_mono) (auto simp: layer_spec_def)
      then show ?thesis using assms(2) by simp
    next
      case False
      with that have "nodes (length xs) l \<le> i"
        by (auto simp: layer_spec_def split: if_splits)
      then show ?thesis by (rule nodes_default)
    qed
  qed
  moreover have "?layer ! i = spec_node h xs l i" if "i < length ?layer"
    using that by (auto simp: layer_spec_def split: if_splits)
  ultimately show ?thesis
    using assms(1) la dv by (auto simp: get_node_def Let_def not_less)
qed

section \<open>Authentication paths\<close>

fun siblings :: "tree_hash_fn \<Rightarrow> bytes list \<Rightarrow> nat \<Rightarrow> nat \<Rightarrow> nat \<Rightarrow> bytes list" where
  "siblings h xs 0 l a = []"
| "siblings h xs (Suc n) l a =
     spec_node h xs l (if odd a then a - 1 else a + 1) # siblings h xs n (Suc l) (a div 2)"

text \<open>Hashing a node up along a path: the check made by the joinsplit statement.\<close>

fun path_root :: "tree_hash_fn \<Rightarrow> bytes \<Rightarrow> bytes list \<Rightarrow> nat \<Rightarrow> bytes" where
  "path_root h node [] a = node"
| "path_root h node (p # ps) a = path_root h (if odd a then h p node else h node p) ps (a div 2)"

lemma length_siblings [simp]: "length (siblings h xs n l a) = n"
  by (induction n arbitrary: l a) auto

lemma merkle_path_loop_ok:
  assumes "length xs \<le> 2 ^ d" "l + n \<le> d"
  shows "merkle_path_loop (tree_of h d xs (length xs)) n l (int a) = Inr (map bytes_hex (siblings h xs n l a))"
  using assms
proof (induction n arbitrary: l a)
  case (Suc n)
  let ?t = "tree_of h d xs (length xs)"
  let ?s = "if odd a then a - 1 else a + 1"
  have "(if int a mod 2 = 1 then int a - 1 else int a + 1) = int ?s"
    by (cases "odd a") (auto elim!: oddE)
  moreover have "get_node ?t l (int ?s) = Inr (spec_node h xs l ?s)"
    using Suc.prems by (intro get_node_tree_of) auto
  moreover have "merkle_path_loop ?t n (Suc l) (int a div 2) = Inr (map bytes_hex (siblings h xs n (Suc l) (a div 2)))"
    using Suc.IH [of "Suc l" "a div 2"] Suc.prems by (simp add: zdiv_int)
  ultimately show ?case by (simp only: merkle_path_loop.simps bindR_simps siblings.simps list.map)
qed simp

lemma path_root_siblings:
  "path_root h (spec_node h xs l a) (siblings h xs n l a) a = spec_node h xs (l + n) (a div 2 ^ n)"
proof (induction n arbitrary: l a)
  case (Suc n)
  have "(if odd a then h (spec_node h xs l (a - 1)) (spec_node h xs l a)
      else h (spec_node h xs l a) (spec_node h xs l (a + 1))) = spec_node h xs (Suc l) (a div 2)"
    by (cases "odd a") (auto elim!: oddE evenE)
  then have "path_root h (spec_node h xs l a) (siblings h xs (Suc n) l a) a =
      path_root h (spec_node h xs (Suc l) (a div 2)) (siblings h xs n (Suc l) (a div 2)) (a div 2)"
    by (cases "odd a") simp_all
  also have "\<dots> = spec_node h xs (l + Suc n) (a div 2 ^ Suc n)"
    using Suc [of "Suc l" "a div 2"] by (simp add: div_mult2_eq)
  finally show ?case .
qed simp

section \<open>Persistence\<close>

lemma to_list_roundtrip: "to_list_bytes (to_list_str bs) = Inr bs"
  unfolding to_list_bytes_def to_list_str_def mapR_map
  using mapR_Inr [of bs "\<lambda>b. bytes_fromhex (bytes_hex b)" "\<lambda>b. b"] by simp

lemma tree_data_json_roundtrip: "tree_data_from_json_dict (tree_data_to_json_dict td) = Inr td"
proof -
  have "mapR to_list_bytes (map to_list_str (layers td)) = Inr (layers td)"
    unfolding mapR_map
    using mapR_Inr [of "layers td" "\<lambda>l. to_list_bytes (to_list_str l)" "\<lambda>l. l"]
    by (simp add: to_list_roundtrip)
  then show ?thesis
    by (simp add: tree_data_from_json_dict_def tree_data_to_json_dict_def to_list_roundtrip)
qed

section \<open>Runs\<close>

text \<open>The calls that change a tree, in any order, and the leaves they add.\<close>

datatype tree_op = Insert bytes | Recompute

fun tree_run :: "tree_hash_fn \<Rightarrow> MerkleTree \<Rightarrow> tree_op list \<Rightarrow> MerkleTree res" where
  "tree_run h t [] = Inr t"
| "tree_run h t (Insert v # ops) = bindR (insert_leaf t v) (\<lambda>t'. tree_run h t' ops)"
| "tree_run h t (Recompute # ops) = bindR (recompute_root h t) (\<lambda>(t', r). tree_run h t' ops)"

fun inserted :: "tree_op list \<Rightarrow> bytes list" where
  "inserted [] = []"
| "inserted (Insert v # ops) = v # inserted ops"
| "inserted (Recompute # ops) = inserted ops"

lemma tree_run_ok:
  assumes "0 < d" "d \<le> 52" "m \<le> length xs" "length xs + length (inserted ops) \<le> 2 ^ d"
  shows "\<exists>k \<le> length (xs @ inserted ops).
    tree_run h (tree_of h d xs m) ops = Inr (tree_of h d (xs @ inserted ops) k)"
  using assms
proof (induction ops arbitrary: xs m)
  case (Cons op ops)
  show ?case
  proof (cases op)
    case (Insert v)
    then show ?thesis
      using Cons.prems Cons.IH [of m "xs @ [v]"] by (simp add: insert_leaf_tree_of)
  next
    case Recompute
    then show ?thesis
      using Cons.prems Cons.IH [of "length xs" xs] by (simp add: recompute_root_tree_of)
  qed
qed auto

lemma tree_run_full:
  assumes "0 < d" "d \<le> 52" "m \<le> length xs" "length xs \<le> 2 ^ d" "2 ^ d < length xs + length (inserted ops)"
  shows "tree_run h (tree_of h d xs m) ops = Inl AssertionError"
  using assms
proof (induction ops arbitrary: xs m)
  case (Cons op ops)
  show ?case
  proof (cases op)
    case (Insert v)
    then show ?thesis
      using Cons.prems Cons.IH [of m "xs @ [v]"] by (auto simp: insert_leaf_tree_of)
  next
    case Recompute
    then show ?thesis
      using Cons.prems Cons.IH [of "length xs" xs] by (simp add: recompute_root_tree_of)
  qed
qed auto

section \<open>The hash interface\<close>

text \<open>
  \<open>ITreeHash\<close>: a hash of two byte strings that does not raise and returns 32 bytes. The method
  of the class is \<open>hash_call\<close>; \<open>tree_hash\<close> is the function it computes.
\<close>

locale ITreeHash =
  fixes hash_call :: "bytes \<Rightarrow> bytes \<Rightarrow> bytes res"
    and tree_hash :: "bytes \<Rightarrow> bytes \<Rightarrow> bytes"
  assumes hash_call_ok: "hash_call l r = Inr (tree_hash l r)"
    and tree_hash_length: "length (tree_hash l r) = 32"
begin

lemma default_node_length: "length (default_node tree_hash l) = 32"
  by (cases l) (simp_all add: tree_hash_length ZERO_ENTRY_def)

lemma spec_node_length:
  "(\<And>x. x \<in> set xs \<Longrightarrow> length x = 32) \<Longrightarrow> length (spec_node tree_hash xs l i) = 32"
  by (cases l) (simp_all add: tree_hash_length ZERO_ENTRY_def)

text \<open>Every node of a tree over 32-byte leaves is a 32-byte string.\<close>

lemma get_node_length:
  assumes "l \<le> d" "length xs \<le> 2 ^ d" "\<And>x. x \<in> set xs \<Longrightarrow> length x = 32"
    and "get_node (tree_of tree_hash d xs (length xs)) l (int i) = Inr node"
  shows "length node = 32"
  using assms by (simp add: get_node_tree_of) (metis spec_node_length)

lemma recompute_root_length:
  assumes "0 < d" "d \<le> 52" "m \<le> length xs" "length xs \<le> 2 ^ d"
    and "\<And>x. x \<in> set xs \<Longrightarrow> length x = 32"
    and "recompute_root tree_hash (tree_of tree_hash d xs m) = Inr (t', root)"
  shows "length root = 32"
  using assms by (simp add: recompute_root_tree_of) (metis spec_node_length)

end

section \<open>Properties\<close>

text \<open>
  C1. Whatever the order of insertions and recomputations, recomputing the root of a tree of
  depth at most 52 that was never overfilled gives the root of the complete Merkle tree over
  the inserted leaves, and afterwards every node that \<open>get_node\<close> returns, populated or
  default, is the node of that complete tree.
\<close>

theorem merkle_incremental_correct:
  assumes "0 < d" "d \<le> 52" "length (inserted ops) \<le> 2 ^ d"
  shows "\<exists>t t'. tree_run h (empty_with_depth d h) ops = Inr t
    \<and> recompute_root h t = Inr (t', spec_node h (inserted ops) d 0)
    \<and> get_root t' = Inr (spec_node h (inserted ops) d 0)
    \<and> get_leaves t' = Inr (inserted ops)
    \<and> (\<forall>l i. l \<le> d \<longrightarrow> get_node t' l (int i) = Inr (spec_node h (inserted ops) l i))"
proof -
  let ?xs = "inserted ops"
  obtain k where "k \<le> length ?xs" "tree_run h (empty_with_depth d h) ops = Inr (tree_of h d ?xs k)"
    using tree_run_ok [OF assms(1,2), of 0 "[]" ops h] assms
    by (auto simp: empty_with_depth_tree_of)
  then show ?thesis
    using assms
    by (auto simp: recompute_root_tree_of get_root_tree_of get_node_tree_of get_leaves_def layer_at_tree_of)
qed

theorem merkle_incremental_correct_witness:
  "\<exists>t t'. tree_run append (empty_with_depth 2 append) [Insert [1], Recompute, Insert [2]] = Inr t
    \<and> recompute_root append t = Inr (t', spec_node append (inserted [Insert [1], Recompute, Insert [2]]) 2 0)
    \<and> get_root t' = Inr (spec_node append (inserted [Insert [1], Recompute, Insert [2]]) 2 0)
    \<and> get_leaves t' = Inr (inserted [Insert [1], Recompute, Insert [2]])
    \<and> (\<forall>l i. l \<le> 2 \<longrightarrow> get_node t' l (int i) =
          Inr (spec_node append (inserted [Insert [1], Recompute, Insert [2]]) l i))"
  by (rule merkle_incremental_correct) simp_all

text \<open>
  C2. The path that \<open>compute_merkle_path\<close> returns for a leaf address has one entry per layer,
  decodes to byte strings, and hashing the leaf up along it gives the root that \<open>get_root\<close>
  returns.
\<close>

theorem merkle_path_authenticates:
  assumes "0 < d" "length xs \<le> 2 ^ d" "a < 2 ^ d"
  shows "\<exists>path nodes root. compute_merkle_path (int a) (tree_of h d xs (length xs)) = Inr path
    \<and> length path = d \<and> mapR bytes_fromhex path = Inr nodes
    \<and> get_root (tree_of h d xs (length xs)) = Inr root
    \<and> path_root h (if a < length xs then xs ! a else ZERO_ENTRY) nodes a = root"
proof -
  let ?sib = "siblings h xs d 0 a"
  have "compute_merkle_path (int a) (tree_of h d xs (length xs)) = Inr (map bytes_hex ?sib)"
    using assms(2) by (simp add: compute_merkle_path_def merkle_path_loop_ok)
  moreover have "mapR bytes_fromhex (map bytes_hex ?sib) = Inr ?sib"
    using to_list_roundtrip by (simp add: to_list_bytes_def to_list_str_def)
  moreover have "path_root h (spec_node h xs 0 a) ?sib a = spec_node h xs d 0"
    using path_root_siblings [of h xs 0 a d] assms(3) by simp
  ultimately show ?thesis
    using assms(1) by (simp add: get_root_tree_of)
qed

theorem merkle_path_authenticates_witness:
  "\<exists>path nodes root. compute_merkle_path (int 2) (tree_of append 2 [[1], [2], [3]] (length [[1], [2], [3::byte]])) = Inr path
    \<and> length path = 2 \<and> mapR bytes_fromhex path = Inr nodes
    \<and> get_root (tree_of append 2 [[1], [2], [3]] (length [[1], [2], [3::byte]])) = Inr root
    \<and> path_root append (if 2 < length [[1], [2], [3::byte]] then [[1], [2], [3]] ! 2 else ZERO_ENTRY) nodes 2 = root"
  by (rule merkle_path_authenticates) simp_all



text \<open>
  Saving a tree whose hashes are up to date and opening the file again gives the same tree,
  provided the platform's \<open>int(math.log(2 ** d, 2))\<close> is \<open>d\<close>.
\<close>

theorem persistent_roundtrip:
  assumes "int_log2 (2 ^ d) = d"
  shows "persistent_open int_log2 (Some (persistent_save (tree_of h d xs (length xs)))) (2 ^ d) h =
    Inr (tree_of h d xs (length xs))"
proof -
  have "data_depth (tree_data (tree_of h d xs (length xs))) = d"
    by (simp add: tree_of_def)
  moreover have "merkle_tree_init (tree_data (tree_of h d xs (length xs))) d = tree_of h d xs (length xs)"
    by (simp add: merkle_tree_init_def tree_of_def)
  ultimately show ?thesis
    using assms
    by (simp add: persistent_open_def persistent_save_def tree_data_json_roundtrip)
qed

theorem persistent_roundtrip_witness:
  "persistent_open (\<lambda>n. bit_length n - 1) (Some (persistent_save (tree_of append 2 [[7]] (length [[7 :: byte]])))) (2 ^ 2) append =
    Inr (tree_of append 2 [[7]] (length [[7 :: byte]]))"
  by (rule persistent_roundtrip) (simp add: bit_length_pos)

text \<open>
  The range check of \<open>_leaf_address_to_node_address\<close> is off by one: leaf addresses in range
  get their node index, but the first address past the last leaf is not rejected with \<open>-1\<close>;
  it gets the index just past the last node.
\<close>

theorem leaf_address_off_by_one:
  "(0 \<le> a \<and> a < 2 ^ d \<longrightarrow> leaf_address_to_node_address a d = a + (2 ^ d - 1)
      \<and> leaf_address_to_node_address a d \<le> 2 ^ (d + 1) - 2)
   \<and> leaf_address_to_node_address (2 ^ d) d = 2 ^ (d + 1) - 1
   \<and> leaf_address_to_node_address (2 ^ d + 1) d = -1"
  by (auto simp: leaf_address_to_node_address_def Let_def)

theorem leaf_address_off_by_one_witness:
  "leaf_address_to_node_address 3 2 = 3 + (2 ^ 2 - 1) \<and> leaf_address_to_node_address 4 2 = 7"
  using leaf_address_off_by_one [of 3 2] by simp

end
