(* ===== verification/Mimc.thy ===== *)
theory Mimc
  imports Merkle_Tree
begin

text \<open>
  \<open>client/zeth/core/mimc.py\<close> and \<open>client/zeth/core/input_hasher.py\<close>: the MiMC compression
  function with exponent 17, its two instances, the selection of the tree hash for a pairing,
  and the Merkle-Damgard input hasher. Keccak-256 is third-party code: an argument
  \<open>keccak\<close> whose 256-bit result is part of its type. The interface \<open>ITreeHash\<close> is interpreted
  on the two instances.
\<close>

type_synonym digest_fn = "bytes \<Rightarrow> 256 word"

text \<open>The bytes of a 256-bit digest.\<close>

definition digest_bytes :: "256 word \<Rightarrow> bytes" where
  "digest_bytes w = be_bytes 32 (uint w)"

record MiMC =
  seed :: int
  prime :: int
  num_rounds :: nat

definition str_to_bytes :: "string \<Rightarrow> bytes res" where
  "str_to_bytes value =
     mapR (\<lambda>c. if (of_char c :: int) < 128 then Inr (word_of_int (of_char c)) else Inl ValueError) value"

definition int_to_bytes32 :: "int \<Rightarrow> bytes res" where
  "int_to_bytes32 value = int_to_bytes value 32"

definition keccak_256 :: "digest_fn \<Rightarrow> bytes \<Rightarrow> int" where
  "keccak_256 keccak data_bytes = int_from_bytes (digest_bytes (keccak data_bytes))"

definition update_round_constant :: "digest_fn \<Rightarrow> int \<Rightarrow> int res" where
  "update_round_constant keccak rc = bindR (int_to_bytes32 rc) (\<lambda>bs. Inr (keccak_256 keccak bs))"

definition mimc_base_init :: "digest_fn \<Rightarrow> string \<Rightarrow> int \<Rightarrow> nat \<Rightarrow> MiMC res" where
  "mimc_base_init keccak seed_str p rounds =
     bindR (str_to_bytes seed_str) (\<lambda>bs.
       Inr \<lparr>seed = keccak_256 keccak bs, prime = p, num_rounds = rounds\<rparr>)"

definition mimc_round :: "MiMC \<Rightarrow> int \<Rightarrow> int \<Rightarrow> int \<Rightarrow> int" where
  "mimc_round m message key rc = ((message + key + rc) ^ 17) mod prime m"

text \<open>The version with reduced intermediate values that the source gives in a comment.\<close>

definition mimc_round_manual :: "MiMC \<Rightarrow> int \<Rightarrow> int \<Rightarrow> int \<Rightarrow> int" where
  "mimc_round_manual m message key rc =
     (let a = (message + key + rc) mod prime m;
          a_2 = (a * a) mod prime m;
          a_4 = (a_2 * a_2) mod prime m;
          a_8 = (a_4 * a_4) mod prime m;
          a_16 = (a_8 * a_8) mod prime m
      in (a_16 * a) mod prime m)"

fun mimc_rounds :: "digest_fn \<Rightarrow> MiMC \<Rightarrow> int \<Rightarrow> nat \<Rightarrow> int \<Rightarrow> int \<Rightarrow> int res" where
  "mimc_rounds keccak m key 0 round_constant result = Inr result"
| "mimc_rounds keccak m key (Suc n) round_constant result =
     bindR (update_round_constant keccak round_constant) (\<lambda>rc.
       mimc_rounds keccak m key n rc (mimc_round m result key rc))"

definition mimc_encrypt :: "digest_fn \<Rightarrow> MiMC \<Rightarrow> int \<Rightarrow> int \<Rightarrow> int res" where
  "mimc_encrypt keccak m message ek =
     (let result = message mod prime m; key = ek mod prime m
      in bindR (mimc_rounds keccak m key (num_rounds m - 1) (seed m) (mimc_round m result key 0))
           (\<lambda>r. Inr ((r + key) mod prime m)))"

definition hash_int :: "digest_fn \<Rightarrow> MiMC \<Rightarrow> int \<Rightarrow> int \<Rightarrow> int res" where
  "hash_int keccak m x y =
     assertR (x < prime m) (assertR (y < prime m)
       (bindR (mimc_encrypt keccak m x y) (\<lambda>e. Inr ((e + x + y) mod prime m))))"

definition mimc_hash :: "digest_fn \<Rightarrow> MiMC \<Rightarrow> bytes \<Rightarrow> bytes \<Rightarrow> bytes res" where
  "mimc_hash keccak m left right =
     (let x = int_from_bytes left mod prime m; y = int_from_bytes right mod prime m
      in bindR (hash_int keccak m x y) (\<lambda>h. int_to_bytes h 32))"

definition MIMC_MT_SEED :: string where
  "MIMC_MT_SEED = ''clearmatics_mt_seed''"

definition MiMCAltBN128 :: "digest_fn \<Rightarrow> string \<Rightarrow> MiMC res" where
  "MiMCAltBN128 keccak seed_str =
     mimc_base_init keccak seed_str
       21888242871839275222246405745257275088548364400416034343698204186575808495617 65"

definition MiMCBLS12_377 :: "digest_fn \<Rightarrow> string \<Rightarrow> MiMC res" where
  "MiMCBLS12_377 keccak seed_str =
     mimc_base_init keccak seed_str
       8444461749428370424248824938781546531375899335154063827935233455917409239041 62"

fun round_constants_loop :: "digest_fn \<Rightarrow> nat \<Rightarrow> int \<Rightarrow> int list res" where
  "round_constants_loop keccak 0 rc = Inr []"
| "round_constants_loop keccak (Suc n) rc =
     bindR (update_round_constant keccak rc) (\<lambda>rc'.
     bindR (round_constants_loop keccak n rc') (\<lambda>rcs. Inr (rc' # rcs)))"

definition generate_round_constants :: "digest_fn \<Rightarrow> string \<Rightarrow> nat \<Rightarrow> int list res" where
  "generate_round_constants keccak seed_str rounds =
     bindR (str_to_bytes seed_str) (\<lambda>bs.
     bindR (round_constants_loop keccak (rounds - 1) (keccak_256 keccak bs)) (\<lambda>rcs.
       assertR (length (0 # rcs) = rounds) (Inr (0 # rcs))))"

definition get_tree_hash_for_pairing :: "digest_fn \<Rightarrow> string \<Rightarrow> MiMC res" where
  "get_tree_hash_for_pairing keccak pairing_name =
     (if pairing_name = ''alt-bn128'' then MiMCAltBN128 keccak MIMC_MT_SEED
      else if pairing_name = ''bls12-377'' then MiMCBLS12_377 keccak MIMC_MT_SEED
      else Inl (PyException (''no tree hash for pairing: '' @ pairing_name)))"

section \<open>Input hasher\<close>

definition DEFAULT_IV_UINT256 :: int where
  "DEFAULT_IV_UINT256 =
     13196537064117388418196223856311987714388543839552400408340921397545324034315"

record InputHasher =
  compression_fn :: MiMC
  iv :: int

definition input_hasher_init :: "MiMC \<Rightarrow> int \<Rightarrow> InputHasher res" where
  "input_hasher_init fn iv0 =
     assertR (prime fn < push_bit 256 2) (Inr \<lparr>compression_fn = fn, iv = iv0 mod prime fn\<rparr>)"

fun input_hash_loop :: "digest_fn \<Rightarrow> MiMC \<Rightarrow> int \<Rightarrow> int list \<Rightarrow> int res" where
  "input_hash_loop keccak fn current [] = Inr current"
| "input_hash_loop keccak fn current (m # ms) =
     bindR (hash_int keccak fn current m) (\<lambda>c. input_hash_loop keccak fn c ms)"

definition input_hasher_hash :: "digest_fn \<Rightarrow> InputHasher \<Rightarrow> int list \<Rightarrow> int res" where
  "input_hasher_hash keccak ih values =
     bindR (input_hash_loop keccak (compression_fn ih) (iv ih) values) (\<lambda>current.
       hash_int keccak (compression_fn ih) current (int (length values)))"

section \<open>The functions computed\<close>

definition mimc_ok :: "MiMC \<Rightarrow> bool" where
  "mimc_ok m \<longleftrightarrow> 0 \<le> seed m \<and> seed m < 2 ^ 256 \<and> 0 < prime m \<and> prime m \<le> 2 ^ 256"

lemma length_digest_bytes [simp]: "length (digest_bytes w) = 32"
  by (simp add: digest_bytes_def)

lemma keccak_256_bounds: "0 \<le> keccak_256 keccak bs" "keccak_256 keccak bs < 2 ^ 256"
  using int_from_bytes_less [of "digest_bytes (keccak bs)"] by (simp_all add: keccak_256_def)

lemmas keccak_256_range [simp] = keccak_256_bounds [simplified]

lemma update_round_constant_ok:
  "0 \<le> rc \<Longrightarrow> rc < 2 ^ 256 \<Longrightarrow> update_round_constant keccak rc = Inr (keccak_256 keccak (be_bytes 32 rc))"
  by (simp add: update_round_constant_def int_to_bytes32_def int_to_bytes_def)

lemma mimc_rounds_total:
  assumes "0 \<le> rc" "rc < 2 ^ 256"
  shows "\<exists>r. mimc_rounds keccak m key n rc result = Inr r"
  using assms
proof (induction n arbitrary: rc result)
  case (Suc n)
  then show ?case
    using Suc.IH [of "keccak_256 keccak (be_bytes 32 rc)"]
    by (simp add: update_round_constant_ok)
qed simp

lemma mimc_encrypt_total:
  assumes "mimc_ok m"
  shows "\<exists>r. mimc_encrypt keccak m x y = Inr r \<and> 0 \<le> r \<and> r < prime m"
proof -
  let ?key = "y mod prime m"
  obtain r where "mimc_rounds keccak m ?key (num_rounds m - 1) (seed m) (mimc_round m (x mod prime m) ?key 0) = Inr r"
    using mimc_rounds_total assms by (meson mimc_ok_def)
  then show ?thesis
    using assms by (simp add: mimc_encrypt_def mimc_ok_def Let_def)
qed

lemma hash_int_total:
  assumes "mimc_ok m" "x < prime m" "y < prime m"
  shows "\<exists>r. hash_int keccak m x y = Inr r \<and> 0 \<le> r \<and> r < prime m"
proof -
  obtain e where "mimc_encrypt keccak m x y = Inr e"
    using mimc_encrypt_total [OF assms(1)] by blast
  then show ?thesis
    using assms by (auto simp: hash_int_def mimc_ok_def)
qed

lemma mimc_hash_total:
  assumes "mimc_ok m"
  shows "\<exists>h. mimc_hash keccak m l r = Inr h \<and> length h = 32 \<and> int_from_bytes h < prime m"
proof -
  have p: "0 < prime m" "prime m \<le> 2 ^ 256"
    using assms by (auto simp: mimc_ok_def)
  obtain v where v: "hash_int keccak m (int_from_bytes l mod prime m) (int_from_bytes r mod prime m) = Inr v"
    "0 \<le> v" "v < prime m"
    using hash_int_total [OF assms] p by (meson pos_mod_bound)
  then have "int_to_bytes v 32 = Inr (be_bytes 32 v)" "int_from_bytes (be_bytes 32 v) = v"
    using p by (simp_all add: int_to_bytes_def int_from_be_bytes)
  with v show ?thesis
    by (simp add: mimc_hash_def Let_def)
qed

text \<open>The two instances with the default seed.\<close>

definition mimc_alt_bn128 :: "digest_fn \<Rightarrow> MiMC" where
  "mimc_alt_bn128 keccak =
     \<lparr>seed = keccak_256 keccak (map (\<lambda>c. word_of_int (of_char c)) MIMC_MT_SEED),
      prime = 21888242871839275222246405745257275088548364400416034343698204186575808495617,
      num_rounds = 65\<rparr>"

definition mimc_bls12_377 :: "digest_fn \<Rightarrow> MiMC" where
  "mimc_bls12_377 keccak =
     \<lparr>seed = keccak_256 keccak (map (\<lambda>c. word_of_int (of_char c)) MIMC_MT_SEED),
      prime = 8444461749428370424248824938781546531375899335154063827935233455917409239041,
      num_rounds = 62\<rparr>"

lemma str_to_bytes_seed: "str_to_bytes MIMC_MT_SEED = Inr (map (\<lambda>c. word_of_int (of_char c)) MIMC_MT_SEED)"
  unfolding str_to_bytes_def by (rule mapR_Inr) (auto simp: MIMC_MT_SEED_def)

lemma get_tree_hash_instances:
  "get_tree_hash_for_pairing keccak ''alt-bn128'' = Inr (mimc_alt_bn128 keccak)"
  "get_tree_hash_for_pairing keccak ''bls12-377'' = Inr (mimc_bls12_377 keccak)"
  by (simp_all add: get_tree_hash_for_pairing_def MiMCAltBN128_def MiMCBLS12_377_def mimc_base_init_def
      str_to_bytes_seed mimc_alt_bn128_def mimc_bls12_377_def)

lemma mimc_instances_ok [simp]: "mimc_ok (mimc_alt_bn128 keccak)" "mimc_ok (mimc_bls12_377 keccak)"
  by (simp_all add: mimc_ok_def mimc_alt_bn128_def mimc_bls12_377_def)

text \<open>The hash as a total function, used as the tree hash.\<close>

definition mimc_tree_hash :: "digest_fn \<Rightarrow> MiMC \<Rightarrow> bytes \<Rightarrow> bytes \<Rightarrow> bytes" where
  "mimc_tree_hash keccak m l r = (case mimc_hash keccak m l r of Inr h \<Rightarrow> h | Inl e \<Rightarrow> [])"

lemma mimc_tree_hash_ok:
  assumes "mimc_ok m"
  shows "mimc_hash keccak m l r = Inr (mimc_tree_hash keccak m l r)"
    and "length (mimc_tree_hash keccak m l r) = 32"
    and "int_from_bytes (mimc_tree_hash keccak m l r) < prime m"
  using mimc_hash_total [OF assms, of keccak l r] by (auto simp: mimc_tree_hash_def)

interpretation alt_bn128: ITreeHash "mimc_hash keccak (mimc_alt_bn128 keccak)"
    "mimc_tree_hash keccak (mimc_alt_bn128 keccak)" for keccak
  by unfold_locales (simp_all add: mimc_tree_hash_ok)

interpretation bls12_377: ITreeHash "mimc_hash keccak (mimc_bls12_377 keccak)"
    "mimc_tree_hash keccak (mimc_bls12_377 keccak)" for keccak
  by unfold_locales (simp_all add: mimc_tree_hash_ok)

lemma mimc_rounds_fold:
  "round_constants_loop keccak n rc = Inr rcs \<Longrightarrow>
   mimc_rounds keccak m key n rc result = Inr (foldl (\<lambda>r c. mimc_round m r key c) result rcs)"
  by (induction n arbitrary: rc rcs result) (auto simp: bindR_eq_Inr)

lemma input_hash_loop_total:
  assumes "mimc_ok m" "0 \<le> c" "c < prime m" "\<And>v. v \<in> set vs \<Longrightarrow> v < prime m"
  shows "\<exists>r. input_hash_loop keccak m c vs = Inr r \<and> 0 \<le> r \<and> r < prime m"
  using assms(2-4)
proof (induction vs arbitrary: c)
  case (Cons v vs)
  obtain c' where "hash_int keccak m c v = Inr c'" "0 \<le> c'" "c' < prime m"
    using hash_int_total [OF assms(1) Cons.prems(2), of v keccak] Cons.prems(3) by auto
  then show ?case
    using Cons.IH [of c'] Cons.prems(3) by simp
qed simp

section \<open>Properties\<close>

text \<open>
  The tree hash selected for either supported pairing never raises; its result is a 32-byte
  string whose value is below the scalar field prime. For any other pairing name the selection
  raises.
\<close>

theorem tree_hash_for_pairing_total:
  "(\<exists>m. get_tree_hash_for_pairing keccak name = Inr m \<and> mimc_ok m
      \<and> (\<forall>l r. \<exists>h. mimc_hash keccak m l r = Inr h \<and> length h = 32 \<and> int_from_bytes h < prime m))
   \<longleftrightarrow> name = ''alt-bn128'' \<or> name = ''bls12-377''"
proof
  assume "name = ''alt-bn128'' \<or> name = ''bls12-377''"
  then obtain m where "get_tree_hash_for_pairing keccak name = Inr m" "mimc_ok m"
    by (auto simp: get_tree_hash_instances)
  then show "\<exists>m. get_tree_hash_for_pairing keccak name = Inr m \<and> mimc_ok m
      \<and> (\<forall>l r. \<exists>h. mimc_hash keccak m l r = Inr h \<and> length h = 32 \<and> int_from_bytes h < prime m)"
    using mimc_hash_total by blast
qed (auto simp: get_tree_hash_for_pairing_def split: if_splits)

text \<open>
  One round computed on the full power agrees with the version on reduced intermediate
  products that the source describes.
\<close>

theorem mimc_round_manual_eq: "mimc_round m message key rc = mimc_round_manual m message key rc"
proof -
  let ?b = "message + key + rc"
  have "?b ^ 17 = ((?b * ?b) * (?b * ?b)) * ((?b * ?b) * (?b * ?b)) *
      (((?b * ?b) * (?b * ?b)) * ((?b * ?b) * (?b * ?b))) * ?b"
    by (simp add: eval_nat_numeral mult_ac)
  then show ?thesis
    unfolding mimc_round_def mimc_round_manual_def Let_def
    by (simp only: mod_mult_left_eq mod_mult_right_eq mod_mult_eq)
qed

text \<open>
  Encryption applies the rounds with exactly the constants that
  \<open>generate_round_constants\<close> lists (the ones precomputed for the circuit), starting with 0.
\<close>

theorem mimc_encrypt_round_constants:
  assumes "mimc_base_init keccak seed_str p n = Inr m"
    and "generate_round_constants keccak seed_str n = Inr rcs"
  shows "length rcs = n \<and> hd rcs = 0 \<and>
    mimc_encrypt keccak m message ek =
      Inr ((foldl (\<lambda>r c. mimc_round m r (ek mod p) c) (message mod p) rcs + ek mod p) mod p)"
proof -
  obtain bs rest where bs: "str_to_bytes seed_str = Inr bs"
    and rest: "round_constants_loop keccak (n - 1) (keccak_256 keccak bs) = Inr rest"
    and rcs: "rcs = 0 # rest" "length rcs = n"
    using assms(2) by (auto simp: generate_round_constants_def bindR_eq_Inr assertR_eq_Inr)
  have m: "m = \<lparr>seed = keccak_256 keccak bs, prime = p, num_rounds = n\<rparr>"
    using assms(1) bs by (simp add: mimc_base_init_def)
  show ?thesis
    using rcs mimc_rounds_fold [OF rest] by (simp add: mimc_encrypt_def m Let_def)
qed

theorem mimc_encrypt_round_constants_witness:
  "length [0 :: int] = 1 \<and> hd [0 :: int] = 0 \<and>
    mimc_encrypt (\<lambda>_. 0) \<lparr>seed = keccak_256 (\<lambda>_. 0) [], prime = 7, num_rounds = 1\<rparr> 3 4 =
      Inr ((foldl (\<lambda>r c. mimc_round \<lparr>seed = keccak_256 (\<lambda>_. 0) [], prime = 7, num_rounds = 1\<rparr> r (4 mod 7) c)
              (3 mod 7) [0] + 4 mod 7) mod 7)"
  by (rule mimc_encrypt_round_constants [where seed_str = "[]"])
    (simp_all add: mimc_base_init_def generate_round_constants_def str_to_bytes_def)

text \<open>
  The input hasher is total on lists of field elements and returns a field element; a value
  that is not below the prime raises.
\<close>

theorem input_hasher_total:
  assumes "mimc_ok m" "input_hasher_init m iv0 = Inr ih" "int (length vals) < prime m"
  shows "(\<forall>v \<in> set vals. v < prime m) \<longleftrightarrow>
    (\<exists>r. input_hasher_hash keccak ih vals = Inr r \<and> 0 \<le> r \<and> r < prime m)"
proof
  have ih: "compression_fn ih = m" "0 \<le> iv ih" "iv ih < prime m"
    using assms by (auto simp: input_hasher_init_def assertR_eq_Inr mimc_ok_def)
  show "\<exists>r. input_hasher_hash keccak ih vals = Inr r \<and> 0 \<le> r \<and> r < prime m"
    if v: "\<forall>v \<in> set vals. v < prime m"
  proof -
    obtain c where "input_hash_loop keccak m (iv ih) vals = Inr c" "c < prime m"
      using input_hash_loop_total [OF assms(1) ih(2,3), of vals keccak] v by auto
    then show ?thesis
      using hash_int_total [OF assms(1) _ assms(3), of c keccak] ih by (simp add: input_hasher_hash_def)
  qed
  have "\<forall>v \<in> set vs. v < prime m" if "input_hash_loop keccak m c vs = Inr r" for c r vs
    using that by (induction vs arbitrary: c) (auto simp: bindR_eq_Inr hash_int_def assertR_eq_Inr)
  then show "\<forall>v \<in> set vals. v < prime m"
    if "\<exists>r. input_hasher_hash keccak ih vals = Inr r \<and> 0 \<le> r \<and> r < prime m"
    using that ih by (auto simp: input_hasher_hash_def bindR_eq_Inr)
qed

theorem input_hasher_total_witness:
  "(\<forall>v \<in> set [0, 1, 2]. v < prime (mimc_bls12_377 (\<lambda>_. 0))) \<longleftrightarrow>
    (\<exists>r. input_hasher_hash (\<lambda>_. 0) \<lparr>compression_fn = mimc_bls12_377 (\<lambda>_. 0), iv = 7\<rparr> [0, 1, 2] = Inr r
      \<and> 0 \<le> r \<and> r < prime (mimc_bls12_377 (\<lambda>_. 0)))"
  using input_hasher_total [OF mimc_instances_ok(2) [of "\<lambda>_. 0"], of 7 _ "[0, 1, 2]" "\<lambda>_. 0"]
  by (simp add: input_hasher_init_def mimc_bls12_377_def push_bit_eq_mult)



end
