(* ===== verification/Zeth_Note.thy ===== *)
theory Zeth_Note
  imports Mimc
begin

text \<open>
  \<open>client/zeth/core/proto_utils.py\<close> and \<open>client/zeth/core/ownership.py\<close>: notes and their two
  serialisations, and ownership keys. Blake2s and \<open>eth_abi.encode_abi\<close> are third-party code and
  arguments; the random bytes of a new key are an argument too.
\<close>

section \<open>Notes\<close>

record ZethNote =
  apk :: string
  note_value :: string
  rho :: string
  trap_r :: string

definition zeth_note_to_json_dict :: "ZethNote \<Rightarrow> string \<rightharpoonup> string" where
  "zeth_note_to_json_dict n =
     [''a_pk'' \<mapsto> apk n, ''value'' \<mapsto> note_value n, ''rho'' \<mapsto> rho n, ''trap_r'' \<mapsto> trap_r n]"

definition dict_get :: "('k \<rightharpoonup> 'v) \<Rightarrow> 'k \<Rightarrow> 'v res" where
  "dict_get d k = (case d k of Some v \<Rightarrow> Inr v | None \<Rightarrow> Inl KeyError)"

definition zeth_note_from_json_dict :: "(string \<rightharpoonup> string) \<Rightarrow> ZethNote res" where
  "zeth_note_from_json_dict d =
     bindR (dict_get d ''a_pk'') (\<lambda>a.
     bindR (dict_get d ''value'') (\<lambda>v.
     bindR (dict_get d ''rho'') (\<lambda>r.
     bindR (dict_get d ''trap_r'') (\<lambda>t.
       Inr \<lparr>apk = a, note_value = v, rho = r, trap_r = t\<rparr>))))"

definition zeth_note_to_bytes :: "ZethNote \<Rightarrow> bytes res" where
  "zeth_note_to_bytes n =
     bindR (bytes_fromhex (apk n)) (\<lambda>apk_bytes.
     bindR (bytes_fromhex (note_value n)) (\<lambda>value_bytes.
     bindR (bytes_fromhex (rho n)) (\<lambda>rho_bytes.
     bindR (bytes_fromhex (trap_r n)) (\<lambda>trap_r_bytes.
       let note_bytes = apk_bytes @ value_bytes @ rho_bytes @ trap_r_bytes
       in assertR (length note_bytes = NOTE_LENGTH_BYTES) (Inr note_bytes)))))"

definition zeth_note_from_bytes :: "bytes \<Rightarrow> ZethNote res" where
  "zeth_note_from_bytes note_bytes =
     (if length note_bytes \<noteq> NOTE_LENGTH_BYTES then Inl ValueError
      else let value_offset = APK_LENGTH_BYTES;
               rho_offset = value_offset + PUBLIC_VALUE_LENGTH_BYTES;
               trapr_offset = rho_offset + RHO_LENGTH_BYTES
           in Inr \<lparr>apk = bytes_hex (take APK_LENGTH_BYTES note_bytes),
                   note_value = bytes_hex (take PUBLIC_VALUE_LENGTH_BYTES (drop value_offset note_bytes)),
                   rho = bytes_hex (take RHO_LENGTH_BYTES (drop rho_offset note_bytes)),
                   trap_r = bytes_hex (drop trapr_offset note_bytes)\<rparr>)"

section \<open>Ownership keys\<close>

record OwnershipKeyPair =
  a_sk :: bytes
  a_pk :: bytes

definition ownership_key_as_hex :: "bytes \<Rightarrow> string res" where
  "ownership_key_as_hex key = hex_extend_32bytes (bytes_hex key)"

definition ownership_public_key_from_hex :: "string \<Rightarrow> bytes res" where
  "ownership_public_key_from_hex key_hex = bytes_fromhex key_hex"

definition ownership_secret_key_from_hex :: "string \<Rightarrow> bytes res" where
  "ownership_secret_key_from_hex key_hex = bytes_fromhex key_hex"

type_synonym encode_abi_fn = "string list \<Rightarrow> bytes list \<Rightarrow> bytes res"

text \<open>Documented behaviour of \<open>eth_abi.encode_abi\<close> on two full \<open>bytes32\<close> values.\<close>

definition encode_two_bytes32_law :: "encode_abi_fn \<Rightarrow> bool" where
  "encode_two_bytes32_law encode_abi \<longleftrightarrow>
     (\<forall>x y. length x = 32 \<and> length y = 32 \<longrightarrow>
        encode_abi [''bytes32'', ''bytes32''] [x, y] = Inr (x @ y))"

definition derive_a_pk :: "digest_fn \<Rightarrow> encode_abi_fn \<Rightarrow> bytes \<Rightarrow> bytes res" where
  "derive_a_pk blake2s encode_abi sk =
     (let binary_a_sk = digest_to_binary_string sk;
          first_252bits_ask = take 252 binary_a_sk;
          left_leg_bin = ''1100'' @ first_252bits_ask
      in bindR (py_int_str left_leg_bin 2) (\<lambda>v.
         bindR (bytes_fromhex (format_0_4X v)) (\<lambda>left_leg.
         bindR (bytes_fromhex (replicate 64 CHR ''0'')) (\<lambda>zeroes.
         bindR (encode_abi [''bytes32'', ''bytes32''] [left_leg, zeroes]) (\<lambda>enc.
           Inr (digest_bytes (blake2s enc)))))))"

definition gen_ownership_keypair :: "digest_fn \<Rightarrow> encode_abi_fn \<Rightarrow> bytes \<Rightarrow> OwnershipKeyPair res" where
  "gen_ownership_keypair blake2s encode_abi random_bytes =
     bindR (derive_a_pk blake2s encode_abi random_bytes) (\<lambda>pk.
       Inr \<lparr>a_sk = random_bytes, a_pk = pk\<rparr>)"

section \<open>Tagged digests\<close>

text \<open>
  The left leg of the pseudo-random functions: a tag of a few bits followed by the first bits
  of a 32-byte key, 256 bits in all.
\<close>

definition tagged_leg :: "int \<Rightarrow> bytes \<Rightarrow> bytes" where
  "tagged_leg tag key = be_bytes 32 (tag * 2 ^ 252 + int_from_bytes key div 16)"

lemma digits_value_tagged:
  assumes "all_digits 2 tag" "length tag = 4" "length key = 32"
  shows "py_int_str (tag @ take 252 (digest_to_binary_string key)) 2 =
      Inr (digits_value 2 tag * 2 ^ 252 + int_from_bytes key div 16)"
    and "0 \<le> digits_value 2 tag * 2 ^ 252 + int_from_bytes key div 16"
    and "digits_value 2 tag * 2 ^ 252 + int_from_bytes key div 16 < 2 ^ 256"
proof -
  let ?s = "digest_to_binary_string key"
  let ?b = "tag @ take 252 ?s"
  have len: "length ?s = 256"
    using assms(3) by simp
  have "digits_value 2 (take (length ?s - 4) ?s) = digits_value 2 ?s div 2 ^ 4"
    using len by (intro digits_value_take) auto
  then have "digits_value 2 (take 252 ?s) = int_from_bytes key div 16"
    using len by (simp add: digest_to_binary_string_value)
  then have val: "digits_value 2 ?b = digits_value 2 tag * 2 ^ 252 + int_from_bytes key div 16"
    using len by (simp add: digits_value_append)
  have "all_digits 2 ?b"
    using assms(1) by simp
  moreover have "length ?b = 256" "?b \<noteq> []"
    using assms(2) len by auto
  ultimately show "py_int_str ?b 2 = Inr (digits_value 2 tag * 2 ^ 252 + int_from_bytes key div 16)"
    and "0 \<le> digits_value 2 tag * 2 ^ 252 + int_from_bytes key div 16"
    and "digits_value 2 tag * 2 ^ 252 + int_from_bytes key div 16 < 2 ^ 256"
    using py_int_str_digits [of 2 ?b] digits_value_bounds [of 2 ?b] val by auto
qed

lemma int_from_tagged_leg:
  assumes "0 \<le> tag" "tag < 16" "length key = 32"
  shows "int_from_bytes (tagged_leg tag key) = tag * 2 ^ 252 + int_from_bytes key div 16"
    and "int_from_bytes (tagged_leg tag key) div 2 ^ 252 = tag"
proof -
  have "int_from_bytes key < 256 ^ 32"
    using int_from_bytes_less [of key] assms(3) by simp
  then have r: "0 \<le> int_from_bytes key div 16" "int_from_bytes key div 16 < 2 ^ 252"
    by (auto intro!: int_div_less_mult simp: pos_imp_zdiv_nonneg_iff)
  have "tag * 2 ^ 252 \<le> 15 * 2 ^ 252"
    using assms(2) by (intro mult_right_mono) auto
  then have "tag * 2 ^ 252 + int_from_bytes key div 16 < 256 ^ 32"
    using r by simp
  then show v: "int_from_bytes (tagged_leg tag key) = tag * 2 ^ 252 + int_from_bytes key div 16"
    using assms(1) r unfolding tagged_leg_def int_from_be_bytes by (intro mod_pos_pos_trivial) auto
  show "int_from_bytes (tagged_leg tag key) div 2 ^ 252 = tag"
    unfolding v using r by (rule int_mult_add_div)
qed

lemma tagged_leg_distinct:
  assumes "0 \<le> t" "t < 16" "0 \<le> u" "u < 16" "length k = 32" "length k' = 32" "t \<noteq> u"
  shows "tagged_leg t k @ x \<noteq> tagged_leg u k' @ y"
proof
  assume "tagged_leg t k @ x = tagged_leg u k' @ y"
  then have "tagged_leg t k = tagged_leg u k'"
    by (simp add: tagged_leg_def append_eq_append_conv)
  then show False
    using int_from_tagged_leg(2) [of t k] int_from_tagged_leg(2) [of u k'] assms by simp
qed

lemma bytes_fromhex_zeros: "bytes_fromhex (replicate 64 CHR ''0'') = Inr (replicate 32 0)"
proof -
  have "digit_char 0 = CHR ''0''"
    by code_simp
  then have "replicate 64 CHR ''0'' = bytes_hex (replicate 32 0)"
    by (simp add: eval_nat_numeral hex_byte_def)
  then show ?thesis by simp
qed

lemma length_num_digits_ge:
  "2 \<le> base \<Longrightarrow> base ^ k \<le> v \<Longrightarrow> Suc k \<le> length (num_digits base v)"
proof (induction k arbitrary: v)
  case 0
  then show ?case by (simp add: Suc_le_eq)
next
  case (Suc k)
  have "base * 1 \<le> base * base ^ k"
    using Suc.prems(1) by (intro mult_left_mono one_le_power) auto
  also have "\<dots> \<le> v"
    using Suc.prems by simp
  finally have "\<not> v < base" by simp
  moreover have "base ^ k \<le> v div base"
    using Suc.prems by (simp add: zdiv_mono1 [of "base ^ k * base" v base, simplified] mult.commute)
  ultimately show ?case
    using Suc by (subst num_digits.simps) simp
qed

lemma fromhex_format_0_4X:
  assumes "16 ^ 63 \<le> v" "v < 2 ^ 256"
  shows "bytes_fromhex (format_0_4X v) = Inr (be_bytes 32 v)"
proof -
  have v: "0 \<le> v"
    using assms(1) by simp
  have "Suc 63 \<le> length (num_digits 16 v)"
    using assms(1) by (intro length_num_digits_ge) auto
  then have "64 \<le> length (format_0_4X v)"
    using v by (simp add: format_0_4X_def pad_left_def)
  then have len: "length (format_0_4X v) = 64"
    using format_0_4X_digits(3) [OF v assms(2)] by simp
  then obtain bs where bs: "bytes_fromhex (format_0_4X v) = Inr bs" "2 * length bs = 64" "int_from_bytes bs = v"
    using fromhex_digits [OF format_0_4X_digits(1) [OF v assms(2)]] format_0_4X_digits(2) [OF v assms(2)] by auto
  then have "length bs = 32" by simp
  with bs show ?thesis
    using be_bytes_from_bytes [of bs] by simp
qed

lemma derive_a_pk_ok:
  assumes "encode_two_bytes32_law encode_abi" "length sk = 32"
  shows "derive_a_pk blake2s encode_abi sk = Inr (digest_bytes (blake2s (tagged_leg 12 sk @ replicate 32 0)))"
proof -
  let ?v = "12 * 2 ^ 252 + int_from_bytes sk div 16"
  have tag: "all_digits 2 ''1100''" "digits_value 2 ''1100'' = 12"
    by (simp_all add: digit_val_def digits_value_def)
  have v: "py_int_str (''1100'' @ take 252 (digest_to_binary_string sk)) 2 = Inr ?v" "?v < 2 ^ 256"
    using digits_value_tagged [OF tag(1) _ assms(2)] tag(2) by simp_all
  have "16 ^ 63 \<le> ?v"
    using int_from_bytes_nonneg [of sk] by (simp add: add_increasing2 pos_imp_zdiv_nonneg_iff)
  then have "bytes_fromhex (format_0_4X ?v) = Inr (tagged_leg 12 sk)"
    using v(2) unfolding tagged_leg_def by (rule fromhex_format_0_4X)
  moreover have "encode_abi [''bytes32'', ''bytes32''] [tagged_leg 12 sk, replicate 32 0] =
      Inr (tagged_leg 12 sk @ replicate 32 0)"
    using assms(1) by (simp add: encode_two_bytes32_law_def tagged_leg_def)
  ultimately show ?thesis
    unfolding derive_a_pk_def Let_def v(1) bytes_fromhex_zeros by simp
qed

lemma zeth_note_to_bytes_hex:
  assumes "length a + length v + length r + length t = NOTE_LENGTH_BYTES"
  shows "zeth_note_to_bytes \<lparr>apk = bytes_hex a, note_value = bytes_hex v, rho = bytes_hex r, trap_r = bytes_hex t\<rparr> =
    Inr (a @ v @ r @ t)"
  using assms by (simp add: zeth_note_to_bytes_def Let_def add.assoc)

lemma zeth_note_from_bytes_append:
  assumes "length a = 32" "length v = 8" "length r = 32" "length t = 32"
  shows "zeth_note_from_bytes (a @ v @ r @ t) =
    Inr \<lparr>apk = bytes_hex a, note_value = bytes_hex v, rho = bytes_hex r, trap_r = bytes_hex t\<rparr>"
  using assms by (simp add: zeth_note_from_bytes_def constants_defs Let_def)

lemma ownership_key_as_hex_32: "length k = 32 \<Longrightarrow> ownership_key_as_hex k = Inr (bytes_hex k)"
  using be_bytes_from_bytes [of k] by (simp add: ownership_key_as_hex_def hex_extend_32bytes_hex)

text \<open>A note whose fields are the hexadecimal forms of 32, 8, 32 and 32 bytes.\<close>

definition note_ok :: "ZethNote \<Rightarrow> bool" where
  "note_ok n \<longleftrightarrow>
     (\<exists>a v r t. length a = 32 \<and> length v = 8 \<and> length r = 32 \<and> length t = 32
        \<and> n = \<lparr>apk = bytes_hex a, note_value = bytes_hex v, rho = bytes_hex r, trap_r = bytes_hex t\<rparr>)"

lemma note_ok_bytes:
  assumes "note_ok n"
  shows "\<exists>bs. zeth_note_to_bytes n = Inr bs \<and> length bs = NOTE_LENGTH_BYTES \<and> zeth_note_from_bytes bs = Inr n"
  using assms by (auto simp: note_ok_def zeth_note_to_bytes_hex zeth_note_from_bytes_append constants_defs)

section \<open>Properties\<close>

text \<open>
  Binary serialisation of notes is a bijection: every 104-byte string decodes to a note
  that encodes back to the same bytes, and a note whose fields are the hexadecimal forms of 32,
  8, 32 and 32 bytes is decoded from its encoding unchanged. Any other length is rejected.
\<close>

theorem zeth_note_bytes_roundtrip:
  "(length bs = NOTE_LENGTH_BYTES \<longrightarrow> bindR (zeth_note_from_bytes bs) zeth_note_to_bytes = Inr bs)
   \<and> (length bs \<noteq> NOTE_LENGTH_BYTES \<longrightarrow> zeth_note_from_bytes bs = Inl ValueError)
   \<and> (length a = 32 \<and> length v = 8 \<and> length r = 32 \<and> length t = 32 \<longrightarrow>
        bindR (zeth_note_to_bytes \<lparr>apk = bytes_hex a, note_value = bytes_hex v, rho = bytes_hex r, trap_r = bytes_hex t\<rparr>)
          zeth_note_from_bytes =
        Inr \<lparr>apk = bytes_hex a, note_value = bytes_hex v, rho = bytes_hex r, trap_r = bytes_hex t\<rparr>)"
proof (intro conjI impI)
  assume l: "length bs = NOTE_LENGTH_BYTES"
  have split: "bs = take 32 bs @ take 8 (drop 32 bs) @ take 32 (drop 40 bs) @ drop 72 bs"
    using append_take_drop_id [of 32 bs] append_take_drop_id [of 8 "drop 32 bs"]
      append_take_drop_id [of 32 "drop 40 bs"] by simp
  have n: "zeth_note_from_bytes bs = Inr \<lparr>apk = bytes_hex (take 32 bs), note_value = bytes_hex (take 8 (drop 32 bs)),
      rho = bytes_hex (take 32 (drop 40 bs)), trap_r = bytes_hex (drop 72 bs)\<rparr>"
    using l by (simp add: zeth_note_from_bytes_def constants_defs Let_def)
  have "zeth_note_to_bytes \<lparr>apk = bytes_hex (take 32 bs), note_value = bytes_hex (take 8 (drop 32 bs)),
      rho = bytes_hex (take 32 (drop 40 bs)), trap_r = bytes_hex (drop 72 bs)\<rparr> =
      Inr (take 32 bs @ take 8 (drop 32 bs) @ take 32 (drop 40 bs) @ drop 72 bs)"
    using l by (intro zeth_note_to_bytes_hex) (simp add: constants_defs)
  then show "bindR (zeth_note_from_bytes bs) zeth_note_to_bytes = Inr bs"
    unfolding n using split by simp
next
  assume "length a = 32 \<and> length v = 8 \<and> length r = 32 \<and> length t = 32"
  then show "bindR (zeth_note_to_bytes \<lparr>apk = bytes_hex a, note_value = bytes_hex v, rho = bytes_hex r, trap_r = bytes_hex t\<rparr>)
      zeth_note_from_bytes =
      Inr \<lparr>apk = bytes_hex a, note_value = bytes_hex v, rho = bytes_hex r, trap_r = bytes_hex t\<rparr>"
    by (simp add: zeth_note_to_bytes_hex zeth_note_from_bytes_append constants_defs)
qed (simp add: zeth_note_from_bytes_def)

theorem zeth_note_bytes_roundtrip_witness:
  "bindR (zeth_note_from_bytes (replicate 104 7)) zeth_note_to_bytes = Inr (replicate 104 7)"
  using zeth_note_bytes_roundtrip [of "replicate 104 7"] by (simp add: constants_defs)

text \<open>
  The ownership public key of a 32-byte secret key is Blake2s of the 256-bit string made of
  the tag 1100 and the first 252 bits of the secret key, followed by 32 zero bytes.
\<close>

theorem derive_a_pk_correct:
  assumes "encode_two_bytes32_law encode_abi" "length sk = 32"
  shows "gen_ownership_keypair blake2s encode_abi sk =
    Inr \<lparr>a_sk = sk, a_pk = digest_bytes (blake2s (be_bytes 32 (12 * 2 ^ 252 + int_from_bytes sk div 2 ^ 4) @ replicate 32 0))\<rparr>"
  using derive_a_pk_ok [OF assms] by (simp add: gen_ownership_keypair_def tagged_leg_def)

theorem derive_a_pk_correct_witness:
  "gen_ownership_keypair (\<lambda>_. 5) (\<lambda>ts xs. Inr (concat xs)) (replicate 32 1) =
    Inr \<lparr>a_sk = replicate 32 1,
         a_pk = digest_bytes ((\<lambda>_. 5) (be_bytes 32 (12 * 2 ^ 252 + int_from_bytes (replicate 32 1) div 2 ^ 4) @ replicate 32 0))\<rparr>"
  by (rule derive_a_pk_correct) (simp_all add: encode_two_bytes32_law_def)

end
