(* ===== verification/Encryption.thy ===== *)
theory Encryption
  imports Zeth_Note
begin

text \<open>
  \<open>client/zeth/core/encryption.py\<close> and \<open>client/zeth/core/zeth_address.py\<close>: note encryption (an
  ephemeral X25519 exchange, key derivation, ChaCha20 and Poly1305) and the addresses made of
  an ownership key and an encryption key. The primitives of the \<open>cryptography\<close> package are
  collected in a record that every operation takes; \<open>enc_lib_laws\<close> is the documented behaviour
  that the round-trip theorems rely on. The ephemeral secret key is an argument.
\<close>

record ('sk, 'pk) enc_lib =
  private_bytes :: "'sk \<Rightarrow> bytes"
  from_private_bytes :: "bytes \<Rightarrow> 'sk res"
  public_key :: "'sk \<Rightarrow> 'pk"
  public_bytes :: "'pk \<Rightarrow> bytes"
  from_public_bytes :: "bytes \<Rightarrow> 'pk res"
  exchange :: "'sk \<Rightarrow> 'pk \<Rightarrow> bytes res"
  chacha20 :: "bytes \<Rightarrow> bytes \<Rightarrow> bytes \<Rightarrow> bytes"
  poly1305 :: "bytes \<Rightarrow> bytes \<Rightarrow> bytes"
  blake2b :: "bytes \<Rightarrow> 512 word"

definition SYM_KEY_LENGTH :: nat where "SYM_KEY_LENGTH = 256"
definition MAC_KEY_LENGTH :: nat where "MAC_KEY_LENGTH = 256"
definition TAG_LENGTH :: nat where "TAG_LENGTH = 128"
definition SYM_NONCE_LENGTH :: nat where "SYM_NONCE_LENGTH = 128"
definition SYM_NONCE_LENGTH_BYTES :: nat where "SYM_NONCE_LENGTH_BYTES = 16"
definition EC_PRIVATE_KEY_LENGTH :: nat where "EC_PRIVATE_KEY_LENGTH = 256"
definition EC_PUBLIC_KEY_LENGTH :: nat where "EC_PUBLIC_KEY_LENGTH = 256"
definition SYM_KEY_LENGTH_BYTES :: nat where "SYM_KEY_LENGTH_BYTES = 32"
definition MAC_KEY_LENGTH_BYTES :: nat where "MAC_KEY_LENGTH_BYTES = 32"
definition KEY_MATERIAL_LENGTH_BYTES :: nat where
  "KEY_MATERIAL_LENGTH_BYTES = SYM_KEY_LENGTH_BYTES + MAC_KEY_LENGTH_BYTES"
definition TAG_LENGTH_BYTES :: nat where "TAG_LENGTH_BYTES = 16"
definition SYM_NONCE_VALUE :: bytes where "SYM_NONCE_VALUE = replicate 16 0"
definition KDF_TAG :: bytes where
  "KDF_TAG = map (\<lambda>c. word_of_int (of_char c)) ''ZethEnc''"
definition EC_PUBLIC_KEY_LENGTH_BYTES :: nat where "EC_PUBLIC_KEY_LENGTH_BYTES = 32"
definition ENCRYPTED_NOTE_LENGTH_BYTES :: nat where
  "ENCRYPTED_NOTE_LENGTH_BYTES = EC_PUBLIC_KEY_LENGTH_BYTES + NOTE_LENGTH_BYTES + TAG_LENGTH_BYTES"

lemmas enc_constants = SYM_KEY_LENGTH_BYTES_def MAC_KEY_LENGTH_BYTES_def KEY_MATERIAL_LENGTH_BYTES_def
  TAG_LENGTH_BYTES_def EC_PUBLIC_KEY_LENGTH_BYTES_def ENCRYPTED_NOTE_LENGTH_BYTES_def constants_defs

text \<open>
  Documented behaviour: keys survive raw encoding, public keys are 32 bytes, the exchange is
  symmetric and succeeds for the generated keys, the stream cipher is an involution that keeps
  the length, and a tag is 16 bytes.
\<close>

definition enc_lib_laws :: "('sk, 'pk) enc_lib \<Rightarrow> bool" where
  "enc_lib_laws L \<longleftrightarrow>
     (\<forall>sk. from_private_bytes L (private_bytes L sk) = Inr sk)
     \<and> (\<forall>pk. from_public_bytes L (public_bytes L pk) = Inr pk \<and> length (public_bytes L pk) = 32)
     \<and> (\<forall>a b. exchange L a (public_key L b) = exchange L b (public_key L a))
     \<and> (\<forall>a b. \<exists>s. exchange L a (public_key L b) = Inr s)
     \<and> (\<forall>k n m. chacha20 L k n (chacha20 L k n m) = m \<and> length (chacha20 L k n m) = length m)
     \<and> (\<forall>k m. length (poly1305 L k m) = 16)"

text \<open>The lengths in bytes are those in bits, divided as \<open>bit_length_to_byte_length\<close> does.\<close>

lemma enc_byte_lengths:
  "bit_length_to_byte_length (int SYM_KEY_LENGTH) = Inr (int SYM_KEY_LENGTH_BYTES)"
  "bit_length_to_byte_length (int MAC_KEY_LENGTH) = Inr (int MAC_KEY_LENGTH_BYTES)"
  "bit_length_to_byte_length (int TAG_LENGTH) = Inr (int TAG_LENGTH_BYTES)"
  "bit_length_to_byte_length (int SYM_NONCE_LENGTH) = Inr (int (length SYM_NONCE_VALUE))"
  "bit_length_to_byte_length (int EC_PUBLIC_KEY_LENGTH) = Inr (int EC_PUBLIC_KEY_LENGTH_BYTES)"
  using int_truediv_exact [of 8 32] int_truediv_exact [of 8 16]
  by (simp_all add: bit_length_to_byte_length_def assertR_def enc_constants SYM_NONCE_VALUE_def SYM_KEY_LENGTH_def
      MAC_KEY_LENGTH_def TAG_LENGTH_def SYM_NONCE_LENGTH_def EC_PUBLIC_KEY_LENGTH_def)

section \<open>Keys\<close>

record ('sk, 'pk) EncryptionKeyPair =
  k_sk :: 'sk
  k_pk :: 'pk

definition encode_encryption_secret_key :: "('sk, 'pk) enc_lib \<Rightarrow> 'sk \<Rightarrow> bytes" where
  [simp]: "encode_encryption_secret_key L sk = private_bytes L sk"

definition decode_encryption_secret_key :: "('sk, 'pk) enc_lib \<Rightarrow> bytes \<Rightarrow> 'sk res" where
  [simp]: "decode_encryption_secret_key L sk_bytes = from_private_bytes L sk_bytes"

definition get_encryption_public_key :: "('sk, 'pk) enc_lib \<Rightarrow> 'sk \<Rightarrow> 'pk" where
  [simp]: "get_encryption_public_key L enc_secret = public_key L enc_secret"

definition encode_encryption_public_key :: "('sk, 'pk) enc_lib \<Rightarrow> 'pk \<Rightarrow> bytes" where
  [simp]: "encode_encryption_public_key L pk = public_bytes L pk"

definition decode_encryption_public_key :: "('sk, 'pk) enc_lib \<Rightarrow> bytes \<Rightarrow> 'pk res" where
  [simp]: "decode_encryption_public_key L pk_data = from_public_bytes L pk_data"

definition generate_encryption_keypair :: "('sk, 'pk) enc_lib \<Rightarrow> 'sk \<Rightarrow> ('sk, 'pk) EncryptionKeyPair" where
  "generate_encryption_keypair L sk = \<lparr>k_sk = sk, k_pk = get_encryption_public_key L sk\<rparr>"

definition encryption_secret_key_as_hex :: "('sk, 'pk) enc_lib \<Rightarrow> 'sk \<Rightarrow> string" where
  "encryption_secret_key_as_hex L sk = bytes_hex (encode_encryption_secret_key L sk)"

definition encryption_secret_key_from_hex :: "('sk, 'pk) enc_lib \<Rightarrow> string \<Rightarrow> 'sk res" where
  "encryption_secret_key_from_hex L pk_str = bindR (bytes_fromhex pk_str) (from_private_bytes L)"

definition encryption_public_key_as_hex :: "('sk, 'pk) enc_lib \<Rightarrow> 'pk \<Rightarrow> string" where
  "encryption_public_key_as_hex L pk = bytes_hex (encode_encryption_public_key L pk)"

definition encryption_public_key_from_hex :: "('sk, 'pk) enc_lib \<Rightarrow> string \<Rightarrow> 'pk res" where
  "encryption_public_key_from_hex L pk_str = bindR (bytes_fromhex pk_str) (decode_encryption_public_key L)"

section \<open>Encryption\<close>

definition kdf :: "('sk, 'pk) enc_lib \<Rightarrow> bytes \<Rightarrow> bytes \<Rightarrow> (bytes \<times> bytes) res" where
  "kdf L eph_pk shared_key =
     (let key_material_bytes = be_bytes 64 (uint (blake2b L (KDF_TAG @ eph_pk @ shared_key)))
      in assertR (length key_material_bytes = KEY_MATERIAL_LENGTH_BYTES)
           (Inr (take SYM_KEY_LENGTH_BYTES key_material_bytes, drop SYM_KEY_LENGTH_BYTES key_material_bytes)))"

definition encrypt :: "('sk, 'pk) enc_lib \<Rightarrow> 'sk \<Rightarrow> bytes \<Rightarrow> 'pk \<Rightarrow> bytes res" where
  "encrypt L eph_sk message pk_receiver =
     assertR (length message = NOTE_LENGTH_BYTES)
       (let eph_keypair = generate_encryption_keypair L eph_sk
        in bindR (exchange L (k_sk eph_keypair) pk_receiver) (\<lambda>shared_key.
           let pk_sender_bytes = public_bytes L (k_pk eph_keypair)
           in bindR (kdf L pk_sender_bytes shared_key) (\<lambda>(sym_key, mac_key).
              let sym_ciphertext = chacha20 L sym_key SYM_NONCE_VALUE message;
                  tag = poly1305 L mac_key sym_ciphertext
              in Inr (pk_sender_bytes @ sym_ciphertext @ tag))))"

definition decrypt :: "('sk, 'pk) enc_lib \<Rightarrow> bytes \<Rightarrow> 'sk \<Rightarrow> bytes res" where
  "decrypt L encrypted_message sk_receiver =
     assertR (length encrypted_message = ENCRYPTED_NOTE_LENGTH_BYTES)
       (let pk_sender_bytes = take EC_PUBLIC_KEY_LENGTH_BYTES encrypted_message
        in bindR (from_public_bytes L pk_sender_bytes) (\<lambda>pk_sender.
           bindR (exchange L sk_receiver pk_sender) (\<lambda>shared_key.
           bindR (kdf L pk_sender_bytes shared_key) (\<lambda>(sym_key, mac_key).
             let ct_sym = take NOTE_LENGTH_BYTES (drop EC_PUBLIC_KEY_LENGTH_BYTES encrypted_message);
                 tag = take TAG_LENGTH_BYTES (drop (EC_PUBLIC_KEY_LENGTH_BYTES + NOTE_LENGTH_BYTES) encrypted_message)
             in if tag = poly1305 L mac_key ct_sym then Inr (chacha20 L sym_key SYM_NONCE_VALUE ct_sym)
                else Inl InvalidSignature))))"

section \<open>Addresses\<close>

record 'pk ZethAddressPub =
  pub_a_pk :: bytes
  pub_k_pk :: 'pk

record 'sk ZethAddressPriv =
  priv_a_sk :: bytes
  priv_k_sk :: 'sk

record ('sk, 'pk) ZethAddress =
  addr_pk :: "'pk ZethAddressPub"
  addr_sk :: "'sk ZethAddressPriv"

definition zeth_address_pub_str :: "('sk, 'pk) enc_lib \<Rightarrow> 'pk ZethAddressPub \<Rightarrow> string res" where
  "zeth_address_pub_str L addr =
     bindR (ownership_key_as_hex (pub_a_pk addr)) (\<lambda>a_pk_hex.
       Inr (a_pk_hex @ '':'' @ encryption_public_key_as_hex L (pub_k_pk addr)))"

definition zeth_address_pub_parse :: "('sk, 'pk) enc_lib \<Rightarrow> string \<Rightarrow> 'pk ZethAddressPub res" where
  "zeth_address_pub_parse L key_hex =
     (case split_on CHR '':'' key_hex of
        [a, k] \<Rightarrow>
          bindR (ownership_public_key_from_hex a) (\<lambda>pk.
          bindR (encryption_public_key_from_hex L k) (\<lambda>kpk.
            Inr \<lparr>pub_a_pk = pk, pub_k_pk = kpk\<rparr>))
      | _ \<Rightarrow> Inl (PyException ''invalid JoinSplitPublicKey format''))"

definition zeth_address_priv_to_json_dict :: "('sk, 'pk) enc_lib \<Rightarrow> 'sk ZethAddressPriv \<Rightarrow> (string \<rightharpoonup> string) res" where
  "zeth_address_priv_to_json_dict L addr =
     bindR (ownership_key_as_hex (priv_a_sk addr)) (\<lambda>a.
       Inr [''a_sk'' \<mapsto> a, ''k_sk'' \<mapsto> encryption_secret_key_as_hex L (priv_k_sk addr)])"

definition zeth_address_priv_from_json_dict :: "('sk, 'pk) enc_lib \<Rightarrow> (string \<rightharpoonup> string) \<Rightarrow> 'sk ZethAddressPriv res" where
  "zeth_address_priv_from_json_dict L d =
     bindR (dict_get d ''a_sk'') (\<lambda>a.
     bindR (ownership_secret_key_from_hex a) (\<lambda>ask.
     bindR (dict_get d ''k_sk'') (\<lambda>k.
     bindR (encryption_secret_key_from_hex L k) (\<lambda>ksk.
       Inr \<lparr>priv_a_sk = ask, priv_k_sk = ksk\<rparr>))))"

definition zeth_address_init :: "bytes \<Rightarrow> 'pk \<Rightarrow> bytes \<Rightarrow> 'sk \<Rightarrow> ('sk, 'pk) ZethAddress" where
  "zeth_address_init own_pk kpk ask ksk =
     \<lparr>addr_pk = \<lparr>pub_a_pk = own_pk, pub_k_pk = kpk\<rparr>, addr_sk = \<lparr>priv_a_sk = ask, priv_k_sk = ksk\<rparr>\<rparr>"

definition zeth_address_from_key_pairs ::
  "OwnershipKeyPair \<Rightarrow> ('sk, 'pk) EncryptionKeyPair \<Rightarrow> ('sk, 'pk) ZethAddress" where
  "zeth_address_from_key_pairs ownership encryption =
     zeth_address_init (a_pk ownership) (k_pk encryption) (a_sk ownership) (k_sk encryption)"

definition zeth_address_from_secret_public ::
  "'sk ZethAddressPriv \<Rightarrow> 'pk ZethAddressPub \<Rightarrow> ('sk, 'pk) ZethAddress" where
  "zeth_address_from_secret_public js_secret js_public =
     zeth_address_init (pub_a_pk js_public) (pub_k_pk js_public) (priv_a_sk js_secret) (priv_k_sk js_secret)"

definition ownership_keypair :: "('sk, 'pk) ZethAddress \<Rightarrow> OwnershipKeyPair" where
  "ownership_keypair addr = \<lparr>a_sk = priv_a_sk (addr_sk addr), a_pk = pub_a_pk (addr_pk addr)\<rparr>"

definition generate_zeth_address ::
  "digest_fn \<Rightarrow> encode_abi_fn \<Rightarrow> ('sk, 'pk) enc_lib \<Rightarrow> bytes \<Rightarrow> 'sk \<Rightarrow> ('sk, 'pk) ZethAddress res" where
  "generate_zeth_address blake2s encode_abi L random_bytes sk =
     bindR (gen_ownership_keypair blake2s encode_abi random_bytes) (\<lambda>own.
       Inr (zeth_address_from_key_pairs own (generate_encryption_keypair L sk)))"

section \<open>Lemmas\<close>

lemma kdf_ok: "\<exists>sk mk. kdf L e s = Inr (sk, mk)"
  by (simp add: kdf_def enc_constants Let_def)

text \<open>What the encryption produces and what the decryption of such a string does.\<close>

lemma encrypt_eq:
  assumes "enc_lib_laws L" "length message = NOTE_LENGTH_BYTES"
    and "exchange L eph (public_key L sk) = Inr s" "kdf L (public_bytes L (public_key L eph)) s = Inr (symk, mack)"
  shows "encrypt L eph message (public_key L sk) =
    Inr (public_bytes L (public_key L eph) @ chacha20 L symk SYM_NONCE_VALUE message @
         poly1305 L mack (chacha20 L symk SYM_NONCE_VALUE message))"
  using assms by (simp add: encrypt_def generate_encryption_keypair_def Let_def)

lemma decrypt_append:
  assumes "enc_lib_laws L" "length ct = NOTE_LENGTH_BYTES" "length tag = 16"
    and "exchange L sk pk = Inr s" "kdf L (public_bytes L pk) s = Inr (symk, mack)"
  shows "decrypt L (public_bytes L pk @ ct @ tag) sk =
    (if tag = poly1305 L mack ct then Inr (chacha20 L symk SYM_NONCE_VALUE ct) else Inl InvalidSignature)"
proof -
  have "length (public_bytes L pk) = 32" "from_public_bytes L (public_bytes L pk) = Inr pk"
    using assms(1) by (simp_all add: enc_lib_laws_def)
  with assms(2-5) show ?thesis
    by (simp add: decrypt_def enc_constants Let_def)
qed

lemma decrypt_encrypt:
  assumes "enc_lib_laws L" "length message = NOTE_LENGTH_BYTES"
  shows "\<exists>ct. encrypt L eph message (public_key L sk) = Inr ct
    \<and> length ct = ENCRYPTED_NOTE_LENGTH_BYTES \<and> decrypt L ct sk = Inr message"
proof -
  obtain s where s: "exchange L eph (public_key L sk) = Inr s" "exchange L sk (public_key L eph) = Inr s"
    using assms(1) unfolding enc_lib_laws_def by metis
  obtain symk mack where k: "kdf L (public_bytes L (public_key L eph)) s = Inr (symk, mack)"
    using kdf_ok by blast
  let ?c = "chacha20 L symk SYM_NONCE_VALUE message"
  have c: "length ?c = NOTE_LENGTH_BYTES" "chacha20 L symk SYM_NONCE_VALUE ?c = message"
    "length (poly1305 L mack ?c) = 16" "length (public_bytes L (public_key L eph)) = 32"
    using assms by (simp_all add: enc_lib_laws_def)
  then have "decrypt L (public_bytes L (public_key L eph) @ ?c @ poly1305 L mack ?c) sk = Inr message"
    using decrypt_append [OF assms(1) c(1,3) s(2) k] by simp
  with encrypt_eq [OF assms s(1) k] c show ?thesis
    by (simp add: enc_constants)
qed

lemma decrypt_wrong_length: "length ct \<noteq> ENCRYPTED_NOTE_LENGTH_BYTES \<Longrightarrow> decrypt L ct sk = Inl AssertionError"
  by (simp add: decrypt_def)

text \<open>The text of a public address and the entries of a secret one, with their inverses.\<close>

lemma zeth_address_pub_text:
  assumes "enc_lib_laws L" "length (pub_a_pk pub) = 32"
  shows "\<exists>s. zeth_address_pub_str L pub = Inr s \<and> zeth_address_pub_parse L s = Inr pub"
proof -
  have colon: "CHR '':'' \<notin> set (bytes_hex bs)" for bs
    by (rule bytes_hex_not_in) simp
  have "split_on CHR '':'' (bytes_hex a @ '':'' @ bytes_hex b) = [bytes_hex a, bytes_hex b]" for a b
    using split_on_append_sep [OF colon] split_on_no_sep [OF colon] by simp
  then show ?thesis
    using assms by (simp add: zeth_address_pub_str_def zeth_address_pub_parse_def ownership_key_as_hex_32
        ownership_public_key_from_hex_def encryption_public_key_from_hex_def
        encryption_public_key_as_hex_def enc_lib_laws_def)
qed

lemma zeth_address_priv_text:
  assumes "enc_lib_laws L" "length (priv_a_sk sec) = 32"
  shows "\<exists>d. zeth_address_priv_to_json_dict L sec = Inr d \<and> zeth_address_priv_from_json_dict L d = Inr sec"
  using assms by (simp add: zeth_address_priv_to_json_dict_def zeth_address_priv_from_json_dict_def ownership_key_as_hex_32
      ownership_secret_key_from_hex_def encryption_secret_key_from_hex_def dict_get_def
      encryption_secret_key_as_hex_def enc_lib_laws_def)

text \<open>A concrete library that satisfies the laws, used where a theorem is applied.\<close>

definition example_enc_lib :: "(256 word, 256 word) enc_lib" where
  "example_enc_lib =
     \<lparr>private_bytes = digest_bytes, from_private_bytes = (\<lambda>bs. Inr (word_of_int (int_from_bytes bs))),
      public_key = (\<lambda>sk. sk + 1), public_bytes = digest_bytes,
      from_public_bytes = (\<lambda>bs. Inr (word_of_int (int_from_bytes bs))),
      exchange = (\<lambda>sk pk. Inr (digest_bytes (sk + pk))), chacha20 = (\<lambda>k n m. rev m),
      poly1305 = (\<lambda>k m. replicate 16 (sum_list m)), blake2b = (\<lambda>m. 0)\<rparr>"

lemma word_of_digest_bytes: "word_of_int (int_from_bytes (digest_bytes w)) = (w :: 256 word)"
proof -
  have "uint w < 256 ^ 32"
    using uint_bounded [of w] by simp
  then have "int_from_bytes (digest_bytes w) = uint w"
    unfolding digest_bytes_def int_from_be_bytes by (intro mod_pos_pos_trivial) auto
  then show ?thesis by simp
qed

lemma example_enc_lib_laws: "enc_lib_laws example_enc_lib"
  by (simp add: enc_lib_laws_def example_enc_lib_def word_of_digest_bytes algebra_simps)

section \<open>Properties\<close>

text \<open>
  C14. Decryption with the receiver's key returns the encrypted note, and the ciphertext has the
  fixed length; a message of another length is refused by \<open>encrypt\<close>, a ciphertext of another
  length by \<open>decrypt\<close>, both with an assertion.
\<close>

theorem note_encryption_roundtrip:
  assumes "enc_lib_laws L"
  shows "(if length message = NOTE_LENGTH_BYTES
          then \<exists>ct. encrypt L eph message (public_key L sk) = Inr ct
            \<and> length ct = ENCRYPTED_NOTE_LENGTH_BYTES \<and> decrypt L ct sk = Inr message
          else encrypt L eph message (public_key L sk) = Inl AssertionError)
    \<and> (length c \<noteq> ENCRYPTED_NOTE_LENGTH_BYTES \<longrightarrow> decrypt L c sk = Inl AssertionError)"
  using decrypt_encrypt [OF assms, of message eph sk]
  by (auto simp: decrypt_wrong_length encrypt_def)

theorem note_encryption_roundtrip_witness:
  "\<exists>ct. encrypt example_enc_lib 3 (replicate 104 9) (public_key example_enc_lib 8) = Inr ct
     \<and> length ct = ENCRYPTED_NOTE_LENGTH_BYTES \<and> decrypt example_enc_lib ct 8 = Inr (replicate 104 9)"
  using note_encryption_roundtrip [OF example_enc_lib_laws, of "replicate 104 9" 3 8 "[]"]
  by (simp add: constants_defs)



text \<open>
  The text form of a public address parses back to the same address when its ownership key
  has its 32 bytes, and the JSON form of a secret address reads back unchanged.
\<close>

theorem zeth_address_roundtrip:
  assumes "enc_lib_laws L" "length (pub_a_pk pub) = 32" "length (priv_a_sk sec) = 32"
  shows "bindR (zeth_address_pub_str L pub) (zeth_address_pub_parse L) = Inr pub
    \<and> bindR (zeth_address_priv_to_json_dict L sec) (zeth_address_priv_from_json_dict L) = Inr sec"
  using zeth_address_pub_text [OF assms(1,2)] zeth_address_priv_text [OF assms(1,3)] by auto

theorem zeth_address_roundtrip_witness:
  "bindR (zeth_address_pub_str example_enc_lib \<lparr>pub_a_pk = replicate 32 4, pub_k_pk = 6\<rparr>) (zeth_address_pub_parse example_enc_lib) =
     Inr \<lparr>pub_a_pk = replicate 32 4, pub_k_pk = 6\<rparr>
   \<and> bindR (zeth_address_priv_to_json_dict example_enc_lib \<lparr>priv_a_sk = replicate 32 1, priv_k_sk = 2\<rparr>)
       (zeth_address_priv_from_json_dict example_enc_lib) = Inr \<lparr>priv_a_sk = replicate 32 1, priv_k_sk = 2\<rparr>"
  by (rule zeth_address_roundtrip [OF example_enc_lib_laws]) simp_all

end
