(* ===== verification/Signing.thy ===== *)
theory Signing
  imports Zeth_Note
begin

text \<open>
  \<open>client/zeth/core/signing.py\<close>: the one-time Schnorr signature on BN128 and the encodings of
  its keys. The curve arithmetic of \<open>py_ecc\<close> is a record of functions that the operations take,
  with \<open>ec_lib_laws\<close> for its documented behaviour: multiplication is repeated addition, the
  generator has order \<open>curve_order\<close>, and a field element is an integer reduced modulo
  \<open>field_modulus\<close>. A point is a pair of field elements, or \<open>None\<close> for the point at infinity.
\<close>

type_synonym g1 = "(int \<times> int) option"

record ec_lib =
  curve_order :: int
  field_modulus :: int
  ec_G1 :: g1
  ec_multiply :: "g1 \<Rightarrow> int \<Rightarrow> g1"
  ec_add :: "g1 \<Rightarrow> g1 \<Rightarrow> g1"

definition ec_lib_laws :: "ec_lib \<Rightarrow> bool" where
  "ec_lib_laws E \<longleftrightarrow>
     0 < curve_order E \<and> curve_order E \<le> field_modulus E \<and> field_modulus E \<le> 2 ^ 256
     \<and> (\<forall>a b. 0 \<le> a \<and> 0 \<le> b \<longrightarrow>
          ec_add E (ec_multiply E (ec_G1 E) a) (ec_multiply E (ec_G1 E) b) = ec_multiply E (ec_G1 E) (a + b)
          \<and> ec_multiply E (ec_multiply E (ec_G1 E) a) b = ec_multiply E (ec_G1 E) (a * b))
     \<and> (\<forall>a. 0 \<le> a \<longrightarrow> ec_multiply E (ec_G1 E) (a mod curve_order E) = ec_multiply E (ec_G1 E) a)"

text \<open>\<open>FQ(n).n\<close>.\<close>

definition fq :: "ec_lib \<Rightarrow> int \<Rightarrow> int" where
  "fq E n = n mod field_modulus E"

section \<open>Encodings\<close>

definition fq_to_bytes :: "int \<Rightarrow> bytes res" where
  "fq_to_bytes fq_element = int_to_bytes fq_element 32"

definition fq_from_bytes :: "ec_lib \<Rightarrow> bytes \<Rightarrow> int" where
  "fq_from_bytes E fq_bytes = fq E (int_from_bytes fq_bytes)"

definition fq_to_hex :: "int \<Rightarrow> string res" where
  "fq_to_hex fq_element = bindR (fq_to_bytes fq_element) (\<lambda>bs. Inr (bytes_hex bs))"

definition fq_from_hex :: "ec_lib \<Rightarrow> string \<Rightarrow> int res" where
  "fq_from_hex E fq_hex = bindR (bytes_fromhex fq_hex) (\<lambda>bs. Inr (fq_from_bytes E bs))"

text \<open>Reading a coordinate of the point at infinity raises \<open>TypeError\<close>.\<close>

definition g1_coords :: "g1 \<Rightarrow> (int \<times> int) res" where
  "g1_coords g = (case g of Some xy \<Rightarrow> Inr xy | None \<Rightarrow> Inl TypeError)"

definition g1_to_bytes :: "g1 \<Rightarrow> bytes res" where
  "g1_to_bytes group_el =
     bindR (g1_coords group_el) (\<lambda>(x, y).
     bindR (int_to_bytes x 32) (\<lambda>xb.
     bindR (int_to_bytes y 32) (\<lambda>yb. Inr (xb @ yb))))"

record g1_json =
  json_x :: string
  json_y :: string

definition g1_to_json_dict :: "g1 \<Rightarrow> g1_json res" where
  "g1_to_json_dict group_el =
     bindR (g1_coords group_el) (\<lambda>(x, y).
     bindR (fq_to_hex x) (\<lambda>xh.
     bindR (fq_to_hex y) (\<lambda>yh. Inr \<lparr>json_x = xh, json_y = yh\<rparr>)))"

definition g1_from_json_dict :: "ec_lib \<Rightarrow> g1_json \<Rightarrow> g1 res" where
  "g1_from_json_dict E d =
     bindR (fq_from_hex E (json_x d)) (\<lambda>x.
     bindR (fq_from_hex E (json_y d)) (\<lambda>y. Inr (Some (x, y))))"

section \<open>Keys\<close>

record SigningVerificationKey =
  ppk :: g1
  spk :: g1

record SigningSecretKey =
  psk :: int
  ssk :: "int \<times> g1"

record SigningKeyPair =
  sk :: SigningSecretKey
  vk :: SigningVerificationKey

definition vk_to_bytes :: "SigningVerificationKey \<Rightarrow> bytes res" where
  "vk_to_bytes key =
     bindR (g1_to_bytes (ppk key)) (\<lambda>p. bindR (g1_to_bytes (spk key)) (\<lambda>s. Inr (p @ s)))"

definition vk_to_json_dict :: "SigningVerificationKey \<Rightarrow> (g1_json \<times> g1_json) res" where
  "vk_to_json_dict key =
     bindR (g1_to_json_dict (ppk key)) (\<lambda>p. bindR (g1_to_json_dict (spk key)) (\<lambda>s. Inr (p, s)))"

definition vk_from_json_dict :: "ec_lib \<Rightarrow> g1_json \<times> g1_json \<Rightarrow> SigningVerificationKey res" where
  "vk_from_json_dict E d =
     bindR (g1_from_json_dict E (fst d)) (\<lambda>p.
     bindR (g1_from_json_dict E (snd d)) (\<lambda>s. Inr \<lparr>ppk = p, spk = s\<rparr>))"

definition sk_to_json_dict :: "SigningSecretKey \<Rightarrow> (string \<times> string \<times> g1_json) res" where
  "sk_to_json_dict key =
     bindR (fq_to_hex (psk key)) (\<lambda>x.
     bindR (fq_to_hex (fst (ssk key))) (\<lambda>y.
     bindR (g1_to_json_dict (snd (ssk key))) (\<lambda>g. Inr (x, y, g))))"

definition sk_from_json_dict :: "ec_lib \<Rightarrow> string \<times> string \<times> g1_json \<Rightarrow> SigningSecretKey res" where
  "sk_from_json_dict E d =
     (case d of (x, y, g) \<Rightarrow>
        bindR (fq_from_hex E x) (\<lambda>x'.
        bindR (fq_from_hex E y) (\<lambda>y'.
        bindR (g1_from_json_dict E g) (\<lambda>g'. Inr \<lparr>psk = x', ssk = (y', g')\<rparr>))))"

text \<open>
  \<open>urandom\<close> is called twice, with \<open>key_size_byte\<close> each time. \<open>len("{0:b}".format(n))\<close> is the bit
  length of the curve order, and the ceiling of its eighth is exact on floats of that size.
\<close>

definition key_size_byte :: "ec_lib \<Rightarrow> nat" where
  "key_size_byte E = (bit_length (nat (curve_order E)) + 7) div 8"

definition random_scalar :: "ec_lib \<Rightarrow> (nat \<Rightarrow> bytes) \<Rightarrow> int res" where
  "random_scalar E urandom =
     bindR (py_int_str (bytes_hex (urandom (key_size_byte E))) 16) (\<lambda>n. Inr (fq E (n mod curve_order E)))"

definition gen_signing_keypair :: "ec_lib \<Rightarrow> (nat \<Rightarrow> bytes) \<Rightarrow> (nat \<Rightarrow> bytes) \<Rightarrow> SigningKeyPair res" where
  "gen_signing_keypair E urandom_x urandom_y =
     bindR (random_scalar E urandom_x) (\<lambda>x.
     bindR (random_scalar E urandom_y) (\<lambda>y.
       let X = ec_multiply E (ec_G1 E) x;
           Y = ec_multiply E (ec_G1 E) y
       in Inr \<lparr>sk = \<lparr>psk = x, ssk = (y, Y)\<rparr>, vk = \<lparr>ppk = X, spk = Y\<rparr>\<rparr>))"

definition keypair_to_json_dict :: "SigningKeyPair \<Rightarrow> ((string \<times> string \<times> g1_json) \<times> (g1_json \<times> g1_json)) res" where
  "keypair_to_json_dict kp =
     bindR (sk_to_json_dict (sk kp)) (\<lambda>s. bindR (vk_to_json_dict (vk kp)) (\<lambda>v. Inr (s, v)))"

definition keypair_from_json_dict ::
  "ec_lib \<Rightarrow> (string \<times> string \<times> g1_json) \<times> (g1_json \<times> g1_json) \<Rightarrow> SigningKeyPair res" where
  "keypair_from_json_dict E d =
     bindR (sk_from_json_dict E (fst d)) (\<lambda>s.
     bindR (vk_from_json_dict E (snd d)) (\<lambda>v. Inr \<lparr>sk = s, vk = v\<rparr>))"

section \<open>Signatures\<close>

definition signature_to_bytes :: "int \<Rightarrow> bytes res" where
  "signature_to_bytes signature = int_to_bytes signature 32"

definition signature_from_bytes :: "bytes \<Rightarrow> int" where
  "signature_from_bytes sig_bytes = int_from_bytes sig_bytes"

definition schnorr_challenge :: "ec_lib \<Rightarrow> digest_fn \<Rightarrow> g1 \<Rightarrow> bytes \<Rightarrow> int res" where
  "schnorr_challenge E sha256 g m =
     bindR (g1_to_bytes g) (\<lambda>gb.
     bindR (py_int_str (bytes_hex (digest_bytes (sha256 (gb @ m)))) 16) (\<lambda>c. Inr (c mod curve_order E)))"

definition sign :: "ec_lib \<Rightarrow> digest_fn \<Rightarrow> SigningSecretKey \<Rightarrow> bytes \<Rightarrow> int res" where
  "sign E sha256 key m =
     bindR (schnorr_challenge E sha256 (snd (ssk key)) m) (\<lambda>challenge.
       Inr ((fst (ssk key) + challenge * psk key) mod curve_order E))"

definition verify :: "ec_lib \<Rightarrow> digest_fn \<Rightarrow> SigningVerificationKey \<Rightarrow> bytes \<Rightarrow> int \<Rightarrow> bool res" where
  "verify E sha256 key m sigma =
     bindR (schnorr_challenge E sha256 (spk key) m) (\<lambda>challenge.
       let left_part = ec_multiply E (ec_G1 E) (fq E sigma);
           right_part = ec_add E (spk key) (ec_multiply E (ppk key) (fq E challenge))
       in Inr (left_part = right_part))"

definition verification_key_as_mix_parameter :: "SigningVerificationKey \<Rightarrow> int list res" where
  "verification_key_as_mix_parameter key =
     bindR (g1_coords (ppk key)) (\<lambda>(px, py).
     bindR (g1_coords (spk key)) (\<lambda>(sx, sy). Inr [px, py, sx, sy]))"

definition verification_key_from_mix_parameter :: "ec_lib \<Rightarrow> int list \<Rightarrow> SigningVerificationKey res" where
  "verification_key_from_mix_parameter E param =
     bindR (py_index param 0) (\<lambda>p0. bindR (py_index param 1) (\<lambda>p1.
     bindR (py_index param 2) (\<lambda>p2. bindR (py_index param 3) (\<lambda>p3.
       Inr \<lparr>ppk = Some (fq E p0, fq E p1), spk = Some (fq E p2, fq E p3)\<rparr>))))"

definition signature_as_mix_parameter :: "int \<Rightarrow> int" where
  "signature_as_mix_parameter signature = signature"

definition signature_from_mix_parameter :: "int \<Rightarrow> int" where
  "signature_from_mix_parameter param = param"

section \<open>Lemmas\<close>

text \<open>A finite point with reduced coordinates, as the curve library returns them.\<close>

definition g1_ok :: "ec_lib \<Rightarrow> g1 \<Rightarrow> bool" where
  "g1_ok E g \<longleftrightarrow> (\<exists>x y. g = Some (x, y) \<and> 0 \<le> x \<and> x < field_modulus E \<and> 0 \<le> y \<and> y < field_modulus E)"

lemma fq_small: "0 \<le> n \<Longrightarrow> n < field_modulus E \<Longrightarrow> fq E n = n"
  by (simp add: fq_def)

lemma ec_lib_lawsD:
  assumes "ec_lib_laws E"
  shows "0 < curve_order E" "curve_order E \<le> field_modulus E" "field_modulus E \<le> 2 ^ 256"
  using assms by (simp_all add: ec_lib_laws_def)

lemma mod_order_bounds:
  assumes "ec_lib_laws E"
  shows "0 \<le> n mod curve_order E" "n mod curve_order E < curve_order E" "n mod curve_order E < field_modulus E"
  using ec_lib_lawsD [OF assms] pos_mod_bound [of "curve_order E" n] pos_mod_sign [of "curve_order E" n]
  by linarith+

lemma fq_mod_order: "ec_lib_laws E \<Longrightarrow> fq E (n mod curve_order E) = n mod curve_order E"
  by (simp add: fq_small mod_order_bounds)

lemma fq_hex_roundtrip:
  assumes "ec_lib_laws E" "0 \<le> n" "n < field_modulus E"
  shows "\<exists>h. fq_to_hex n = Inr h \<and> fq_from_hex E h = Inr n"
proof -
  have "n < 256 ^ 32"
    using assms by (simp add: ec_lib_laws_def)
  then show ?thesis
    using assms by (simp add: fq_to_hex_def fq_to_bytes_def int_to_bytes_def fq_from_hex_def
        fq_from_bytes_def int_from_be_bytes fq_small)
qed

lemma g1_json_roundtrip:
  assumes E: "ec_lib_laws E" and g: "g1_ok E g"
  shows "\<exists>d. g1_to_json_dict g = Inr d \<and> g1_from_json_dict E d = Inr g"
proof -
  obtain x y where xy: "g = Some (x, y)" "0 \<le> x" "x < field_modulus E" "0 \<le> y" "y < field_modulus E"
    using g by (auto simp: g1_ok_def)
  obtain hx hy where "fq_to_hex x = Inr hx" "fq_from_hex E hx = Inr x" "fq_to_hex y = Inr hy" "fq_from_hex E hy = Inr y"
    using fq_hex_roundtrip [OF E xy(2,3)] fq_hex_roundtrip [OF E xy(4,5)] by blast
  then show ?thesis
    using xy(1) by (simp add: g1_to_json_dict_def g1_from_json_dict_def g1_coords_def)
qed

lemma g1_to_bytes_ok: "ec_lib_laws E \<Longrightarrow> g1_ok E g \<Longrightarrow> \<exists>bs. g1_to_bytes g = Inr bs \<and> length bs = 64"
  by (auto simp: g1_ok_def g1_to_bytes_def g1_coords_def int_to_bytes_def ec_lib_laws_def)

lemma schnorr_challenge_ok:
  assumes "ec_lib_laws E" "g1_ok E g"
  shows "\<exists>c. schnorr_challenge E sha256 g m = Inr c \<and> 0 \<le> c \<and> c < curve_order E"
proof -
  obtain gb where gb: "g1_to_bytes g = Inr gb"
    using g1_to_bytes_ok [OF assms] by blast
  have "digest_bytes w \<noteq> []" for w
    using length_digest_bytes [of w] by (metis list.size(3) zero_neq_numeral)
  then show ?thesis
    using assms(1) gb by (simp add: schnorr_challenge_def py_int_bytes_hex ec_lib_laws_def)
qed

lemma ec_schnorr_equation:
  assumes "ec_lib_laws E" "0 \<le> x" "0 \<le> y" "0 \<le> c"
  shows "ec_multiply E (ec_G1 E) ((y + c * x) mod curve_order E) =
    ec_add E (ec_multiply E (ec_G1 E) y) (ec_multiply E (ec_multiply E (ec_G1 E) x) c)"
  using assms by (simp add: ec_lib_laws_def mult.commute)

lemma random_scalar_ok:
  assumes "ec_lib_laws E" "urandom (key_size_byte E) \<noteq> []"
  shows "\<exists>x. random_scalar E urandom = Inr x \<and> 0 \<le> x \<and> x < curve_order E"
  using assms by (simp add: random_scalar_def py_int_bytes_hex fq_mod_order mod_order_bounds)

lemma key_size_byte_pos: "ec_lib_laws E \<Longrightarrow> 0 < key_size_byte E"
  using bit_length_pos [of "nat (curve_order E)"] ec_lib_lawsD(1) [of E]
  by (simp add: key_size_byte_def div_greater_zero_iff)

text \<open>A key pair as \<open>gen_signing_keypair\<close> returns it.\<close>

definition keypair_ok :: "ec_lib \<Rightarrow> SigningKeyPair \<Rightarrow> bool" where
  "keypair_ok E kp \<longleftrightarrow>
     (\<exists>x y. 0 \<le> x \<and> x < curve_order E \<and> 0 \<le> y \<and> y < curve_order E
        \<and> kp = \<lparr>sk = \<lparr>psk = x, ssk = (y, ec_multiply E (ec_G1 E) y)\<rparr>,
                vk = \<lparr>ppk = ec_multiply E (ec_G1 E) x, spk = ec_multiply E (ec_G1 E) y\<rparr>\<rparr>)"

lemma gen_signing_keypair_ok:
  assumes "ec_lib_laws E" "urandom_x (key_size_byte E) \<noteq> []" "urandom_y (key_size_byte E) \<noteq> []"
  shows "\<exists>kp. gen_signing_keypair E urandom_x urandom_y = Inr kp \<and> keypair_ok E kp"
  using random_scalar_ok [of E urandom_x] random_scalar_ok [of E urandom_y] assms
  by (auto simp: gen_signing_keypair_def Let_def keypair_ok_def)

lemma schnorr_complete:
  assumes E: "ec_lib_laws E" and kp: "keypair_ok E kp" and Y: "g1_ok E (spk (vk kp))"
  shows "\<exists>sigma. sign E sha256 (sk kp) m = Inr sigma \<and> 0 \<le> sigma \<and> sigma < curve_order E
    \<and> verify E sha256 (vk kp) m sigma = Inr True"
proof -
  obtain x y where xy: "0 \<le> x" "0 \<le> y" and
    eq: "kp = \<lparr>sk = \<lparr>psk = x, ssk = (y, ec_multiply E (ec_G1 E) y)\<rparr>,
               vk = \<lparr>ppk = ec_multiply E (ec_G1 E) x, spk = ec_multiply E (ec_G1 E) y\<rparr>\<rparr>"
    using kp by (auto simp: keypair_ok_def)
  obtain c where c: "schnorr_challenge E sha256 (spk (vk kp)) m = Inr c" "0 \<le> c" "c < curve_order E"
    using schnorr_challenge_ok [OF E Y] by blast
  have "fq E c = c"
    using c ec_lib_lawsD [OF E] by (simp add: fq_small)
  then show ?thesis
    using c(1) ec_schnorr_equation [OF E xy c(2)] eq
    by (simp add: sign_def verify_def Let_def fq_mod_order [OF E] mod_order_bounds [OF E])
qed

lemma vk_mix_parameter_roundtrip:
  assumes "g1_ok E (ppk key)" "g1_ok E (spk key)"
  shows "\<exists>ps. verification_key_as_mix_parameter key = Inr ps \<and> length ps = 4
    \<and> verification_key_from_mix_parameter E ps = Inr key"
proof -
  obtain px py sx sy where "ppk key = Some (px, py)" "fq E px = px" "fq E py = py"
      "spk key = Some (sx, sy)" "fq E sx = sx" "fq E sy = sy"
    using assms fq_small by (auto simp: g1_ok_def)
  then show ?thesis
    by (simp add: verification_key_as_mix_parameter_def g1_coords_def
        verification_key_from_mix_parameter_def py_index_def py_pos_def)
qed

lemma fq_add_modulus [simp]: "fq E (n + k * field_modulus E) = fq E n"
  by (simp add: fq_def)

section \<open>What verification accepts\<close>

text \<open>
  The generator has exactly the order \<open>curve_order\<close>, which is prime, as documented for BN128.
\<close>

definition ec_order_law :: "ec_lib \<Rightarrow> bool" where
  "ec_order_law E \<longleftrightarrow>
     (\<forall>a b. 0 \<le> a \<and> 0 \<le> b \<and> ec_multiply E (ec_G1 E) a = ec_multiply E (ec_G1 E) b \<longrightarrow>
        a mod curve_order E = b mod curve_order E)
     \<and> (\<forall>a b. curve_order E dvd a * b \<longrightarrow> curve_order E dvd a \<or> curve_order E dvd b)"

lemma ec_multiply_eq_iff:
  assumes "ec_lib_laws E" "ec_order_law E" "0 \<le> a" "0 \<le> b"
  shows "ec_multiply E (ec_G1 E) a = ec_multiply E (ec_G1 E) b \<longleftrightarrow> a mod curve_order E = b mod curve_order E"
proof
  assume "a mod curve_order E = b mod curve_order E"
  then show "ec_multiply E (ec_G1 E) a = ec_multiply E (ec_G1 E) b"
    using assms(1,3,4) unfolding ec_lib_laws_def by metis
next
  assume "ec_multiply E (ec_G1 E) a = ec_multiply E (ec_G1 E) b"
  then show "a mod curve_order E = b mod curve_order E"
    using assms(2-4) unfolding ec_order_law_def by blast
qed

lemma schnorr_exact:
  assumes E: "ec_lib_laws E" "ec_order_law E" and kp: "keypair_ok E kp" and Y: "g1_ok E (spk (vk kp))"
  shows "verify E sha256 (vk kp) m sigma = Inr (sign E sha256 (sk kp) m = Inr (fq E sigma mod curve_order E))"
proof -
  obtain x y where xy: "0 \<le> x" "0 \<le> y" and
    eq: "kp = \<lparr>sk = \<lparr>psk = x, ssk = (y, ec_multiply E (ec_G1 E) y)\<rparr>,
               vk = \<lparr>ppk = ec_multiply E (ec_G1 E) x, spk = ec_multiply E (ec_G1 E) y\<rparr>\<rparr>"
    using kp by (auto simp: keypair_ok_def)
  obtain c where c: "schnorr_challenge E sha256 (spk (vk kp)) m = Inr c" "0 \<le> c" "c < curve_order E"
    using schnorr_challenge_ok [OF E(1) Y] by blast
  have n: "0 \<le> fq E sigma" "0 \<le> y + c * x" and fqc: "fq E c = c"
    using xy c ec_lib_lawsD [OF E(1)] by (simp_all add: fq_def)
  have "ec_add E (spk (vk kp)) (ec_multiply E (ppk (vk kp)) c) = ec_multiply E (ec_G1 E) (y + c * x)"
    using E(1) xy c(2) eq by (simp add: ec_lib_laws_def mult.commute)
  then have "verify E sha256 (vk kp) m sigma = Inr (fq E sigma mod curve_order E = (y + c * x) mod curve_order E)"
    using c(1) fqc ec_multiply_eq_iff [OF E n] by (simp add: verify_def Let_def)
  then show ?thesis
    using c(1) eq by (auto simp: sign_def)
qed

text \<open>Two messages have the same signature exactly if they have the same challenge.\<close>

lemma sign_eq_iff:
  assumes E: "ec_lib_laws E" "ec_order_law E" and kp: "keypair_ok E kp" "psk (sk kp) \<noteq> 0" and Y: "g1_ok E (spk (vk kp))"
  shows "sign E sha256 (sk kp) m = sign E sha256 (sk kp) m' \<longleftrightarrow>
    schnorr_challenge E sha256 (spk (vk kp)) m = schnorr_challenge E sha256 (spk (vk kp)) m'"
proof -
  let ?n = "curve_order E"
  obtain x y where xy: "0 < x" "x < ?n" and
    eq: "kp = \<lparr>sk = \<lparr>psk = x, ssk = (y, ec_multiply E (ec_G1 E) y)\<rparr>,
               vk = \<lparr>ppk = ec_multiply E (ec_G1 E) x, spk = ec_multiply E (ec_G1 E) y\<rparr>\<rparr>"
    using kp by (auto simp: keypair_ok_def)
  obtain c c' where c: "schnorr_challenge E sha256 (spk (vk kp)) m = Inr c" "0 \<le> c" "c < ?n"
      "schnorr_challenge E sha256 (spk (vk kp)) m' = Inr c'" "0 \<le> c'" "c' < ?n"
    using schnorr_challenge_ok [OF E(1) Y] by metis
  have "(y + c * x) mod ?n = (y + c' * x) mod ?n \<longleftrightarrow> ?n dvd (c - c') * x"
    by (simp add: mod_eq_dvd_iff algebra_simps)
  also have "\<dots> \<longleftrightarrow> ?n dvd c - c'"
    using E(2) xy zdvd_not_zless [of x ?n] by (auto simp: ec_order_law_def)
  also have "\<dots> \<longleftrightarrow> c = c'"
    using c by (auto simp: mod_eq_dvd_iff [symmetric])
  finally show ?thesis
    using c eq by (simp add: sign_def)
qed

text \<open>The group of the integers modulo 7, as an instance of the curve library.\<close>

definition example_enc :: "int \<Rightarrow> g1" where
  "example_enc k = (if k = 0 then None else Some (k, 0))"

definition example_dec :: "g1 \<Rightarrow> int" where
  "example_dec g = (case g of None \<Rightarrow> 0 | Some (x, y) \<Rightarrow> x)"

definition example_ec_lib :: ec_lib where
  "example_ec_lib = \<lparr>curve_order = 7, field_modulus = 11, ec_G1 = example_enc 1,
     ec_multiply = (\<lambda>g n. example_enc (example_dec g * n mod 7)),
     ec_add = (\<lambda>g h. example_enc ((example_dec g + example_dec h) mod 7))\<rparr>"

lemma example_dec_enc [simp]: "example_dec (example_enc k) = k"
  by (simp add: example_dec_def example_enc_def)

lemma example_ec_lib_laws: "ec_lib_laws example_ec_lib"
  by (simp add: ec_lib_laws_def example_ec_lib_def mod_simps)

text \<open>
  A signature that \<open>sign\<close> makes with the secret key of a generated pair is a reduced scalar and
  \<open>verify\<close> accepts it on the same message under the pair's verification key; neither raises, for
  every pair of random strings whose second public point is finite.
\<close>

theorem sign_verify_complete:
  assumes "ec_lib_laws E" "gen_signing_keypair E urandom_x urandom_y = Inr kp"
    "length (urandom_x (key_size_byte E)) = key_size_byte E"
    "length (urandom_y (key_size_byte E)) = key_size_byte E"
    "g1_ok E (spk (vk kp))"
  shows "\<exists>sigma. sign E sha256 (sk kp) m = Inr sigma \<and> 0 \<le> sigma \<and> sigma < curve_order E
    \<and> verify E sha256 (vk kp) m sigma = Inr True"
proof -
  have "urandom_x (key_size_byte E) \<noteq> []" "urandom_y (key_size_byte E) \<noteq> []"
    using assms(3,4) key_size_byte_pos [OF assms(1)] by auto
  then have "keypair_ok E kp"
    using gen_signing_keypair_ok [of E urandom_x urandom_y] assms(1,2) by simp
  from schnorr_complete [OF assms(1) this assms(5)] show ?thesis .
qed

definition example_keypair :: SigningKeyPair where
  "example_keypair = \<lparr>sk = \<lparr>psk = 3, ssk = (5, Some (5, 0))\<rparr>, vk = \<lparr>ppk = Some (3, 0), spk = Some (5, 0)\<rparr>\<rparr>"

lemma example_keypair_gen:
  "gen_signing_keypair example_ec_lib (\<lambda>n. replicate n 3) (\<lambda>n. replicate n 5) = Inr example_keypair"
  by code_simp

theorem sign_verify_complete_witness:
  "\<exists>sigma. sign example_ec_lib (\<lambda>bs. word_of_nat (length bs)) (sk example_keypair) [1, 2, 3] = Inr sigma
    \<and> 0 \<le> sigma \<and> sigma < curve_order example_ec_lib
    \<and> verify example_ec_lib (\<lambda>bs. word_of_nat (length bs)) (vk example_keypair) [1, 2, 3] sigma = Inr True"
  by (rule sign_verify_complete [OF example_ec_lib_laws example_keypair_gen])
    (simp_all add: g1_ok_def example_keypair_def example_ec_lib_def)

text \<open>
  Verification reduces the signature modulo the base field before it multiplies, so a signature
  plus any multiple of the field modulus is accepted exactly when the signature is: a second,
  different signature on the same message follows from the first without the key.
\<close>

theorem verify_malleable:
  "verify E sha256 key m (sigma + k * field_modulus E) = verify E sha256 key m sigma"
  by (simp add: verify_def)

text \<open>
  The JSON form of a generated key pair is read back as the same pair, and the verification key
  that the mix call carries as four integers is read back as the same key.
\<close>

theorem signing_key_roundtrips:
  assumes "ec_lib_laws E" "keypair_ok E kp" "g1_ok E (ppk (vk kp))" "g1_ok E (spk (vk kp))"
  shows "(\<exists>d. keypair_to_json_dict kp = Inr d \<and> keypair_from_json_dict E d = Inr kp)
    \<and> (\<exists>ps. verification_key_as_mix_parameter (vk kp) = Inr ps \<and> length ps = 4
          \<and> verification_key_from_mix_parameter E ps = Inr (vk kp))"
proof
  obtain x y where xy: "0 \<le> x" "x < curve_order E" "0 \<le> y" "y < curve_order E" and
    eq: "kp = \<lparr>sk = \<lparr>psk = x, ssk = (y, ec_multiply E (ec_G1 E) y)\<rparr>,
               vk = \<lparr>ppk = ec_multiply E (ec_G1 E) x, spk = ec_multiply E (ec_G1 E) y\<rparr>\<rparr>"
    using assms(2) by (auto simp: keypair_ok_def)
  have lt: "x < field_modulus E" "y < field_modulus E"
    using xy ec_lib_lawsD [OF assms(1)] by linarith+
  obtain hx hy where h: "fq_to_hex x = Inr hx" "fq_from_hex E hx = Inr x" "fq_to_hex y = Inr hy" "fq_from_hex E hy = Inr y"
    using fq_hex_roundtrip [OF assms(1) xy(1) lt(1)] fq_hex_roundtrip [OF assms(1) xy(3) lt(2)] by blast
  obtain dp ds where d: "g1_to_json_dict (ppk (vk kp)) = Inr dp" "g1_from_json_dict E dp = Inr (ppk (vk kp))"
    "g1_to_json_dict (spk (vk kp)) = Inr ds" "g1_from_json_dict E ds = Inr (spk (vk kp))"
    using g1_json_roundtrip [OF assms(1,3)] g1_json_roundtrip [OF assms(1,4)] by blast
  show "\<exists>d. keypair_to_json_dict kp = Inr d \<and> keypair_from_json_dict E d = Inr kp"
    using h d eq by (simp add: keypair_to_json_dict_def keypair_from_json_dict_def sk_to_json_dict_def
        sk_from_json_dict_def vk_to_json_dict_def vk_from_json_dict_def)
  show "\<exists>ps. verification_key_as_mix_parameter (vk kp) = Inr ps \<and> length ps = 4
      \<and> verification_key_from_mix_parameter E ps = Inr (vk kp)"
    by (rule vk_mix_parameter_roundtrip [OF assms(3,4)])
qed

lemma example_keypair_ok: "keypair_ok example_ec_lib example_keypair"
  unfolding keypair_ok_def
  by (rule exI [of _ 3], rule exI [of _ 5])
    (simp add: example_keypair_def example_ec_lib_def example_enc_def example_dec_def)

theorem signing_key_roundtrips_witness:
  "(\<exists>d. keypair_to_json_dict example_keypair = Inr d \<and> keypair_from_json_dict example_ec_lib d = Inr example_keypair)
    \<and> (\<exists>ps. verification_key_as_mix_parameter (vk example_keypair) = Inr ps \<and> length ps = 4
          \<and> verification_key_from_mix_parameter example_ec_lib ps = Inr (vk example_keypair))"
  by (rule signing_key_roundtrips [OF example_ec_lib_laws example_keypair_ok])
    (simp_all add: g1_ok_def example_keypair_def example_ec_lib_def)


lemma example_ec_order: "ec_order_law example_ec_lib"
proof -
  have "7 dvd a \<or> 7 dvd b" if "7 dvd a * b" for a b :: int
  proof -
    have "7 dvd a mod 7 * b"
      using that by (simp add: dvd_eq_mod_eq_0 mod_mult_left_eq)
    moreover have "a mod 7 = 0 \<or> a mod 7 = 1 \<or> a mod 7 = 2 \<or> a mod 7 = 3 \<or> a mod 7 = 4 \<or> a mod 7 = 5 \<or> a mod 7 = 6"
      by presburger
    ultimately show ?thesis
      by (elim disjE) (simp_all add: dvd_eq_mod_eq_0, presburger+)
  qed
  then show ?thesis
    by (auto simp: ec_order_law_def example_ec_lib_def example_enc_def example_dec_def split: if_splits)
qed


end
