(* ===== verification/Py_Json.thy ===== *)
theory Py_Json
  imports Prelude
begin

text \<open>
  The values that \<open>json.loads\<close> returns and \<open>json.dumps\<close> takes, and the accessors the code applies
  to them. Documents are kept as values: the text between \<open>dumps\<close> and \<open>loads\<close> is not represented.
  Python does not check the annotated type of a value it reads from a document; here reading a
  value of another type than the annotation gives \<open>TypeError\<close> at once.
\<close>

datatype json =
    JNull
  | JBool bool
  | JInt int
  | JStr string
  | JList "json list"
  | JObj "(string \<times> json) list"

text \<open>\<open>d[k]\<close> on a dictionary.\<close>

definition jget :: "json \<Rightarrow> string \<Rightarrow> json res" where
  "jget j k =
     (case j of
        JObj kvs \<Rightarrow> (case map_of kvs k of Some v \<Rightarrow> Inr v | None \<Rightarrow> Inl KeyError)
      | _ \<Rightarrow> Inl TypeError)"

text \<open>\<open>d.get(k, default)\<close>.\<close>

definition jget_default :: "json \<Rightarrow> string \<Rightarrow> json \<Rightarrow> json res" where
  "jget_default j k dflt =
     (case j of
        JObj kvs \<Rightarrow> Inr (case map_of kvs k of Some v \<Rightarrow> v | None \<Rightarrow> dflt)
      | _ \<Rightarrow> Inl TypeError)"

fun j_str :: "json \<Rightarrow> string res" where
  "j_str (JStr s) = Inr s"
| "j_str _ = Inl TypeError"

fun j_int :: "json \<Rightarrow> int res" where
  "j_int (JInt i) = Inr i"
| "j_int _ = Inl TypeError"

fun j_bool :: "json \<Rightarrow> bool res" where
  "j_bool (JBool b) = Inr b"
| "j_bool _ = Inl TypeError"

fun j_list :: "json \<Rightarrow> json list res" where
  "j_list (JList js) = Inr js"
| "j_list _ = Inl TypeError"

definition j_strs :: "json \<Rightarrow> string list res" where
  "j_strs j = bindR (j_list j) (mapR j_str)"

definition j_ints :: "json \<Rightarrow> int list res" where
  "j_ints j = bindR (j_list j) (mapR j_int)"

definition jget_str :: "json \<Rightarrow> string \<Rightarrow> string res" where
  "jget_str j k = bindR (jget j k) j_str"

definition jget_int :: "json \<Rightarrow> string \<Rightarrow> int res" where
  "jget_int j k = bindR (jget j k) j_int"

lemma jget_JObj [simp]:
  "jget (JObj kvs) k = (case map_of kvs k of Some v \<Rightarrow> Inr v | None \<Rightarrow> Inl KeyError)"
  by (simp add: jget_def)

lemma jget_default_JObj [simp]:
  "jget_default (JObj kvs) k d = Inr (case map_of kvs k of Some v \<Rightarrow> v | None \<Rightarrow> d)"
  by (simp add: jget_default_def)

lemma mapR_decode [simp]:
  "(\<And>x. f (g x) = Inr x) \<Longrightarrow> mapR f (map g xs) = Inr xs"
  by (induction xs) auto

lemma mapR_decode_on:
  "(\<And>x. x \<in> set xs \<Longrightarrow> f (g x) = Inr x) \<Longrightarrow> mapR f (map g xs) = Inr xs"
  by (induction xs) auto

lemma j_strs_JStr [simp]: "j_strs (JList (map JStr xs)) = Inr xs"
  by (simp add: j_strs_def)

lemma j_strs_map [simp]: "j_strs (JList (map (\<lambda>x. JStr (f x)) xs)) = Inr (map f xs)"
  by (induction xs) (auto simp: j_strs_def)

lemma j_ints_JInt [simp]: "j_ints (JList (map JInt xs)) = Inr xs"
  by (simp add: j_ints_def)

lemmas json_get_defs = jget_str_def jget_int_def

end
