(* ===== verification/Pairing.thy ===== *)
theory Pairing
  imports Utils Py_Json
begin

text \<open>
  \<open>client/zeth/core/pairing.py\<close>: points of the two pairing groups as the client carries them
  (hexadecimal coordinates), their JSON, message and contract forms, the parameters of a
  pairing, and negation of points.
\<close>

section \<open>G1 points\<close>

record G1Point =
  g1_x_coord :: string
  g1_y_coord :: string

definition g1_to_json_list :: "G1Point \<Rightarrow> json" where
  "g1_to_json_list p = JList [JStr (g1_x_coord p), JStr (g1_y_coord p)]"

definition g1_from_json_list :: "json \<Rightarrow> G1Point res" where
  "g1_from_json_list json_list =
     bindR (j_list json_list) (\<lambda>l.
     bindR (bindR (py_index l 0) j_str) (\<lambda>x.
     bindR (bindR (py_index l 1) j_str) (\<lambda>y. Inr \<lparr>g1_x_coord = x, g1_y_coord = y\<rparr>)))"

text \<open>A message point: the JSON documents in its two fields.\<close>

record point_proto =
  proto_x :: json
  proto_y :: json

definition assert_str :: "json \<Rightarrow> string res" where
  "assert_str j = (case j of JStr s \<Rightarrow> Inr s | _ \<Rightarrow> Inl AssertionError)"

definition g1_point_from_proto :: "point_proto \<Rightarrow> G1Point res" where
  "g1_point_from_proto point =
     bindR (assert_str (proto_x point)) (\<lambda>x.
     bindR (assert_str (proto_y point)) (\<lambda>y. Inr \<lparr>g1_x_coord = x, g1_y_coord = y\<rparr>))"

definition g1_point_to_proto :: "G1Point \<Rightarrow> point_proto" where
  "g1_point_to_proto g1 = \<lparr>proto_x = JStr (g1_x_coord g1), proto_y = JStr (g1_y_coord g1)\<rparr>"

definition g1_point_to_contract_parameters :: "G1Point \<Rightarrow> int list res" where
  "g1_point_to_contract_parameters g1 =
     bindR (hex_to_uint256_list (g1_x_coord g1)) (\<lambda>xs.
     bindR (hex_to_uint256_list (g1_y_coord g1)) (\<lambda>ys. Inr (xs @ ys)))"

section \<open>G2 points\<close>

text \<open>A coordinate in the base field is one string, in an extension field a list of them.\<close>

datatype coord = CStr string | CList "string list"

record G2Point =
  g2_x_coord :: coord
  g2_y_coord :: coord

fun coord_to_json :: "coord \<Rightarrow> json" where
  "coord_to_json (CStr s) = JStr s"
| "coord_to_json (CList ss) = JList (map JStr ss)"

fun coord_from_json :: "json \<Rightarrow> coord res" where
  "coord_from_json (JStr s) = Inr (CStr s)"
| "coord_from_json j = bindR (j_strs j) (\<lambda>ss. Inr (CList ss))"

definition g2_to_json_list :: "G2Point \<Rightarrow> json" where
  "g2_to_json_list p = JList [coord_to_json (g2_x_coord p), coord_to_json (g2_y_coord p)]"

definition g2_from_json_list :: "json \<Rightarrow> G2Point res" where
  "g2_from_json_list json_list =
     bindR (j_list json_list) (\<lambda>l.
     bindR (bindR (py_index l 0) coord_from_json) (\<lambda>x.
     bindR (bindR (py_index l 1) coord_from_json) (\<lambda>y. Inr \<lparr>g2_x_coord = x, g2_y_coord = y\<rparr>)))"

definition g2_point_from_proto :: "point_proto \<Rightarrow> G2Point res" where
  "g2_point_from_proto point =
     bindR (coord_from_json (proto_x point)) (\<lambda>x.
     bindR (coord_from_json (proto_y point)) (\<lambda>y. Inr \<lparr>g2_x_coord = x, g2_y_coord = y\<rparr>))"

definition g2_point_to_proto :: "G2Point \<Rightarrow> point_proto" where
  "g2_point_to_proto g2 =
     \<lparr>proto_x = coord_to_json (g2_x_coord g2), proto_y = coord_to_json (g2_y_coord g2)\<rparr>"

text \<open>
  \<open>hex_list_to_uint256_list\<close> iterates over its argument; a string passed for the list is
  iterated character by character.
\<close>

fun coord_elements :: "coord \<Rightarrow> string nested list" where
  "coord_elements (CStr s) = map (\<lambda>c. Leaf [c]) s"
| "coord_elements (CList ss) = map Leaf ss"

definition g2_point_to_contract_parameters :: "G2Point \<Rightarrow> int list res" where
  "g2_point_to_contract_parameters g2 =
     (case g2_x_coord g2 of
        CStr x \<Rightarrow> (case g2_y_coord g2 of
            CStr y \<Rightarrow> bindR (hex_to_uint256_list x) (\<lambda>xs.
                      bindR (hex_to_uint256_list y) (\<lambda>ys. Inr (xs @ ys)))
          | CList _ \<Rightarrow> Inl AssertionError)
      | CList xl \<Rightarrow>
          bindR (hex_list_to_uint256_list (map Leaf xl)) (\<lambda>xs.
          bindR (hex_list_to_uint256_list (coord_elements (g2_y_coord g2))) (\<lambda>ys. Inr (xs @ ys))))"

section \<open>Pairing parameters\<close>

record PairingParameters =
  pp_name :: string
  pp_r :: string
  pp_q :: string
  generator_g1 :: G1Point
  generator_g2 :: G2Point
  scalar_field_capacity :: int

text \<open>\<open>floor(log(n, 2))\<close> is a floating-point library result, hence an argument.\<close>

definition pairing_parameters_init ::
  "(int \<Rightarrow> int) \<Rightarrow> string \<Rightarrow> string \<Rightarrow> string \<Rightarrow> G1Point \<Rightarrow> G2Point \<Rightarrow> PairingParameters res" where
  "pairing_parameters_init floor_log2 name r q g1 g2 =
     bindR (py_int_str r 16) (\<lambda>rv.
       if rv \<le> 0 then Inl ValueError
       else Inr \<lparr>pp_name = name, pp_r = r, pp_q = q, generator_g1 = g1, generator_g2 = g2,
                 scalar_field_capacity = floor_log2 rv\<rparr>)"

definition scalar_field_mod :: "PairingParameters \<Rightarrow> int res" where
  "scalar_field_mod pp = py_int_str (pp_r pp) 16"

definition base_field_mod :: "PairingParameters \<Rightarrow> int res" where
  "base_field_mod pp = py_int_str (pp_q pp) 16"

definition pp_to_json_dict :: "PairingParameters \<Rightarrow> json" where
  "pp_to_json_dict pp =
     JObj [(''name'', JStr (pp_name pp)), (''r'', JStr (pp_r pp)), (''q'', JStr (pp_q pp)),
           (''generator_g1'', g1_to_json_list (generator_g1 pp)),
           (''generator_g2'', g2_to_json_list (generator_g2 pp))]"

definition pp_from_json_dict :: "(int \<Rightarrow> int) \<Rightarrow> json \<Rightarrow> PairingParameters res" where
  "pp_from_json_dict floor_log2 json_dict =
     bindR (jget_str json_dict ''name'') (\<lambda>name.
     bindR (jget_str json_dict ''r'') (\<lambda>r.
     bindR (jget_str json_dict ''q'') (\<lambda>q.
     bindR (bindR (jget json_dict ''generator_g1'') g1_from_json_list) (\<lambda>g1.
     bindR (bindR (jget json_dict ''generator_g2'') g2_from_json_list) (\<lambda>g2.
       pairing_parameters_init floor_log2 name r q g1 g2)))))"

record pairing_proto =
  pproto_name :: string
  pproto_r :: string
  pproto_q :: string
  pproto_g1 :: point_proto
  pproto_g2 :: point_proto

definition pairing_parameters_from_proto :: "(int \<Rightarrow> int) \<Rightarrow> pairing_proto \<Rightarrow> PairingParameters res" where
  "pairing_parameters_from_proto floor_log2 p =
     bindR (g1_point_from_proto (pproto_g1 p)) (\<lambda>g1.
     bindR (g2_point_from_proto (pproto_g2 p)) (\<lambda>g2.
       pairing_parameters_init floor_log2 (pproto_name p) (pproto_r p) (pproto_q p) g1 g2))"

section \<open>Negation\<close>

definition field_element_negate :: "string \<Rightarrow> string \<Rightarrow> string res" where
  "field_element_negate value_hex mod_hex =
     bindR (int_and_bytelen_from_hex mod_hex) (\<lambda>(m, num_bytes).
     bindR (py_int_str value_hex 16) (\<lambda>value.
       if m = 0 then Inl ZeroDivisionError
       else int_to_hex (m - (value mod m)) num_bytes))"

definition g1_point_negate :: "G1Point \<Rightarrow> PairingParameters \<Rightarrow> G1Point res" where
  "g1_point_negate g1 pp =
     bindR (field_element_negate (g1_y_coord g1) (pp_q pp)) (\<lambda>y. Inr (g1\<lparr>g1_y_coord := y\<rparr>))"

definition g2_point_negate :: "G2Point \<Rightarrow> PairingParameters \<Rightarrow> G2Point res" where
  "g2_point_negate g2 pp =
     (case g2_y_coord g2 of
        CStr y \<Rightarrow> bindR (field_element_negate y (pp_q pp)) (\<lambda>y'. Inr (g2\<lparr>g2_y_coord := CStr y'\<rparr>))
      | CList ys \<Rightarrow> bindR (mapR (\<lambda>y. field_element_negate y (pp_q pp)) ys)
                     (\<lambda>ys'. Inr (g2\<lparr>g2_y_coord := CList ys'\<rparr>)))"

section \<open>Lemmas\<close>

text \<open>A hexadecimal literal for the digits \<open>s\<close>, with or without prefix, of whole bytes.\<close>

definition hex_literal :: "string \<Rightarrow> string \<Rightarrow> bool" where
  "hex_literal h s \<longleftrightarrow> all_digits 16 s \<and> s \<noteq> [] \<and> even (length s) \<and> length s \<le> 2 ^ 52 \<and> (h = s \<or> h = ''0x'' @ s)"

lemma hex_literal_int: "hex_literal h s \<Longrightarrow> py_int_str h 16 = Inr (digits_value 16 s)"
  by (auto simp: hex_literal_def py_int_str_digits intro: py_int_str_0x [simplified])

lemma all_digits_not_0x: "all_digits 16 s \<Longrightarrow> \<not> startswith s ''0x''"
  by (auto simp: startswith_Cons)

lemma hex_literal_bytelen:
  assumes "hex_literal h s"
  shows "int_and_bytelen_from_hex h = Inr (digits_value 16 s, int (length s div 2))"
proof -
  have "int_truediv (int (length s)) 2 = Inr (int (length s div 2))"
    using assms int_truediv_2 [of "int (length s)"] by (simp add: hex_literal_def zdiv_int)
  then show ?thesis
    using assms hex_literal_int [OF assms] all_digits_not_0x [of s]
    by (auto simp: int_and_bytelen_from_hex_def hex_literal_def startswith_Cons)
qed

lemma hex_literal_words:
  assumes "hex_literal h s"
  shows "\<exists>vs. hex_to_uint256_list h = Inr vs \<and> length vs = (length s + 63) div 64
    \<and> (\<forall>v \<in> set vs. 0 \<le> v \<and> v < 2 ^ 256) \<and> uint256_value vs = digits_value 16 s"
  using assms by (intro hex_to_uint256_list_ok) (auto simp: hex_literal_def)

lemma hex_literal_value:
  assumes "hex_literal h s"
  shows "0 \<le> digits_value 16 s" "digits_value 16 s < 256 ^ (length s div 2)"
proof -
  have s: "all_digits 16 s" "even (length s)"
    using assms by (auto simp: hex_literal_def)
  have "(16 :: int) ^ length s = 16 ^ (2 * (length s div 2))"
    using s by simp
  also have "\<dots> = 256 ^ (length s div 2)"
    by (simp only: power_mult) simp
  finally show "0 \<le> digits_value 16 s" "digits_value 16 s < 256 ^ (length s div 2)"
    using digits_value_bounds [OF s(1)] by auto
qed

lemma hex_literal_bytes: "bs \<noteq> [] \<Longrightarrow> length bs \<le> 2 ^ 51 \<Longrightarrow> hex_literal (''0x'' @ bytes_hex bs) (bytes_hex bs)"
  using length_bytes_hex [of bs] by (auto simp: hex_literal_def simp del: length_bytes_hex)

lemma field_element_negate_ok:
  assumes q: "hex_literal q sq" "0 < digits_value 16 sq" and v: "py_int_str value_hex 16 = Inr v"
  shows "\<exists>bs. field_element_negate value_hex q = Inr (''0x'' @ bytes_hex bs)
    \<and> length bs = length sq div 2 \<and> int_from_bytes bs = digits_value 16 sq - v mod digits_value 16 sq"
proof -
  let ?p = "digits_value 16 sq" and ?n = "length sq div 2"
  have "0 \<le> ?p - v mod ?p" "?p - v mod ?p < 256 ^ ?n"
    using q(2) hex_literal_value [OF q(1)] pos_mod_bound [of ?p v] pos_mod_sign [of ?p v] by linarith+
  then show ?thesis
    using q(2) by (auto simp: field_element_negate_def hex_literal_bytelen [OF q(1)] v int_to_hex_def
        int_to_bytes_def int_from_be_bytes)
qed

text \<open>The JSON and message forms are inverted by their readers.\<close>

lemma coord_json [simp]: "coord_from_json (coord_to_json c) = Inr c"
  by (cases c) simp_all

lemma g1_json [simp]: "g1_from_json_list (g1_to_json_list p) = Inr p"
  by (simp add: g1_from_json_list_def g1_to_json_list_def)

lemma g2_json [simp]: "g2_from_json_list (g2_to_json_list p) = Inr p"
  by (simp add: g2_from_json_list_def g2_to_json_list_def)

lemma g1_proto [simp]: "g1_point_from_proto (g1_point_to_proto p) = Inr p"
  by (simp add: g1_point_from_proto_def g1_point_to_proto_def assert_str_def)

lemma g2_proto [simp]: "g2_point_from_proto (g2_point_to_proto p) = Inr p"
  by (simp add: g2_point_from_proto_def g2_point_to_proto_def)

lemma mapR_exists:
  "(\<And>x. x \<in> set xs \<Longrightarrow> \<exists>y. f x = Inr (g y) \<and> P x y) \<Longrightarrow>
    \<exists>ys. mapR f xs = Inr (map g ys) \<and> length ys = length xs \<and> (\<forall>i < length xs. P (xs ! i) (ys ! i))"
proof (induction xs)
  case (Cons x xs)
  obtain y where y: "f x = Inr (g y)" "P x y"
    using Cons.prems by auto
  obtain ys where "mapR f xs = Inr (map g ys)" "length ys = length xs" "\<forall>i < length xs. P (xs ! i) (ys ! i)"
    using Cons by fastforce
  with y show ?case
    by (intro exI [of _ "y # ys"]) (auto simp: less_Suc_eq_0_disj)
qed simp

lemma negate_sum_zero: "(m - v mod m + v) mod m = (0 :: int)"
proof -
  have "m - v mod m + v = m * (1 + v div m)"
    using mult_div_mod_eq [of m v] by (simp add: algebra_simps)
  then show ?thesis by simp
qed

text \<open>
  Negating a G2 point keeps the abscissa and replaces each component \<open>y\<close> of the ordinate by a
  number of as many bytes as the modulus that is congruent to \<open>- y\<close> modulo the base field.
\<close>

theorem g2_point_negate_correct:
  assumes "hex_literal (pp_q pp) sq" "0 < digits_value 16 sq" "g2_y_coord g2 = CList ys"
    and "\<forall>y \<in> set ys. \<exists>s. hex_literal y s"
  shows "\<exists>bss. g2_point_negate g2 pp = Inr (g2\<lparr>g2_y_coord := CList (map (\<lambda>bs. ''0x'' @ bytes_hex bs) bss)\<rparr>)
    \<and> length bss = length ys
    \<and> (\<forall>i < length ys. length (bss ! i) = length sq div 2 \<and>
         (\<exists>v. py_int_str (ys ! i) 16 = Inr v \<and> (int_from_bytes (bss ! i) + v) mod digits_value 16 sq = 0))"
proof -
  have "\<exists>bs. field_element_negate y (pp_q pp) = Inr (''0x'' @ bytes_hex bs)
      \<and> length bs = length sq div 2
      \<and> (\<exists>v. py_int_str y 16 = Inr v \<and> (int_from_bytes bs + v) mod digits_value 16 sq = 0)"
    if y: "y \<in> set ys" for y
  proof -
    obtain s where s: "hex_literal y s"
      using assms(4) y by blast
    obtain bs where bs: "field_element_negate y (pp_q pp) = Inr (''0x'' @ bytes_hex bs)"
        "length bs = length sq div 2"
        "int_from_bytes bs = digits_value 16 sq - digits_value 16 s mod digits_value 16 sq"
      using field_element_negate_ok [OF assms(1,2) hex_literal_int [OF s]] by blast
    have "(int_from_bytes bs + digits_value 16 s) mod digits_value 16 sq = 0"
      unfolding bs(3) by (rule negate_sum_zero)
    then have "\<exists>v. py_int_str y 16 = Inr v \<and> (int_from_bytes bs + v) mod digits_value 16 sq = 0"
      using hex_literal_int [OF s] by (intro exI conjI)
    with bs(1,2) show ?thesis
      by (intro exI [of _ bs]) simp
  qed
  from mapR_exists [of ys "\<lambda>y. field_element_negate y (pp_q pp)", OF this] show ?thesis
    using assms(3) by (auto simp: g2_point_negate_def)
qed

definition example_pp :: PairingParameters where
  "example_pp = \<lparr>pp_name = ''alt-bn128'', pp_r = ''0x0d'', pp_q = ''0x11'',
     generator_g1 = \<lparr>g1_x_coord = ''0x01'', g1_y_coord = ''0x02''\<rparr>,
     generator_g2 = \<lparr>g2_x_coord = CList [''0x01'', ''0x03''], g2_y_coord = CList [''0x05'', ''0x00'']\<rparr>,
     scalar_field_capacity = 3\<rparr>"

theorem g2_point_negate_correct_witness:
  "\<exists>bss. g2_point_negate (generator_g2 example_pp) example_pp =
      Inr ((generator_g2 example_pp)\<lparr>g2_y_coord := CList (map (\<lambda>bs. ''0x'' @ bytes_hex bs) bss)\<rparr>)
    \<and> length bss = length [''0x05'', ''0x00'']
    \<and> (\<forall>i < length [''0x05'', ''0x00'']. length (bss ! i) = length ''11'' div 2 \<and>
         (\<exists>v. py_int_str ([''0x05'', ''0x00''] ! i) 16 = Inr v
            \<and> (int_from_bytes (bss ! i) + v) mod digits_value 16 ''11'' = 0))"
proof (rule g2_point_negate_correct)
  show "\<forall>y \<in> set [''0x05'', ''0x00'']. \<exists>s. hex_literal y s"
    by (auto simp: hex_literal_def digit_val_def intro: exI [of _ "''05''"] exI [of _ "''00''"])
qed (simp_all add: example_pp_def hex_literal_def digit_val_def digits_value_def)

text \<open>
  The negation of a field element is the modulus minus the reduced element: it lies in
  \<open>[1, q]\<close> and equals the modulus itself, which is not a reduced element, exactly when the
  element is zero modulo \<open>q\<close>.
\<close>

theorem field_element_negate_range:
  assumes "hex_literal q sq" "0 < digits_value 16 sq" "py_int_str value_hex 16 = Inr v"
  shows "\<exists>bs. field_element_negate value_hex q = Inr (''0x'' @ bytes_hex bs)
    \<and> 0 < int_from_bytes bs \<and> int_from_bytes bs \<le> digits_value 16 sq
    \<and> (int_from_bytes bs = digits_value 16 sq \<longleftrightarrow> digits_value 16 sq dvd v)"
  using field_element_negate_ok [OF assms] pos_mod_bound [OF assms(2), of v] pos_mod_sign [OF assms(2), of v]
  by (auto simp: dvd_eq_mod_eq_0)

theorem field_element_negate_range_witness:
  "\<exists>bs. field_element_negate ''0x00'' ''0x11'' = Inr (''0x'' @ bytes_hex bs)
    \<and> 0 < int_from_bytes bs \<and> int_from_bytes bs \<le> digits_value 16 ''11''
    \<and> (int_from_bytes bs = digits_value 16 ''11'' \<longleftrightarrow> digits_value 16 ''11'' dvd 0)"
  by (rule field_element_negate_range)
    (simp_all add: hex_literal_def digit_val_def digits_value_def py_int_str_def strip_space_def
      strip_prefix_def startswith_def is_space_def)

end
