(* ===== verification/Zksnark.thy ===== *)
theory Zksnark
  imports Pairing
begin

text \<open>
  \<open>client/zeth/core/zksnark.py\<close>: the two zk-SNARK providers, their keys and proofs and the JSON,
  message and contract forms of these. The class of a key or proof object, which the code checks
  with \<open>isinstance\<close>, is the constructor of \<open>IVerificationKey\<close> and \<open>IProof\<close>. A protocol message
  holds one of two alternatives; reading the other one finds empty fields, on which \<open>json.loads\<close>
  raises \<open>ValueError\<close>.
\<close>

section \<open>Keys and proofs\<close>

record Groth16_VerificationKey =
  g16_alpha :: G1Point
  g16_beta :: G2Point
  g16_delta :: G2Point
  g16_abc :: "G1Point list"

record Groth16_Proof =
  g16_a :: G1Point
  g16_b :: G2Point
  g16_c :: G1Point

record PGHR13_VerificationKey =
  pk_a :: G2Point
  pk_b :: G1Point
  pk_c :: G2Point
  pk_g :: G2Point
  pk_gb1 :: G1Point
  pk_gb2 :: G2Point
  pk_z :: G2Point
  pk_ic :: "G1Point list"

record PGHR13_Proof =
  pr_a :: G1Point
  pr_a_p :: G1Point
  pr_b :: G2Point
  pr_b_p :: G1Point
  pr_c :: G1Point
  pr_c_p :: G1Point
  pr_h :: G1Point
  pr_k :: G1Point

datatype IVerificationKey = Groth16_VK Groth16_VerificationKey | PGHR13_VK PGHR13_VerificationKey

datatype IProof = Groth16_Pr Groth16_Proof | PGHR13_Pr PGHR13_Proof

datatype IZKSnarkProvider = Groth16 | PGHR13

record ExtendedProof =
  ep_proof :: IProof
  ep_inputs :: "string list"

section \<open>JSON\<close>

definition groth16_vk_to_json_dict :: "Groth16_VerificationKey \<Rightarrow> json" where
  "groth16_vk_to_json_dict vk =
     JObj [(''alpha'', g1_to_json_list (g16_alpha vk)),
           (''beta'', g2_to_json_list (g16_beta vk)),
           (''delta'', g2_to_json_list (g16_delta vk)),
           (''ABC'', JList (map g1_to_json_list (g16_abc vk)))]"

definition g1_at :: "json \<Rightarrow> string \<Rightarrow> G1Point res" where
  "g1_at j k = bindR (jget j k) g1_from_json_list"

definition g2_at :: "json \<Rightarrow> string \<Rightarrow> G2Point res" where
  "g2_at j k = bindR (jget j k) g2_from_json_list"

definition g1s_from_json :: "json \<Rightarrow> G1Point list res" where
  "g1s_from_json j = bindR (j_list j) (mapR g1_from_json_list)"

definition groth16_vk_from_json_dict :: "json \<Rightarrow> Groth16_VerificationKey res" where
  "groth16_vk_from_json_dict json_dict =
     bindR (g1_at json_dict ''alpha'') (\<lambda>alpha.
     bindR (g2_at json_dict ''beta'') (\<lambda>beta.
     bindR (g2_at json_dict ''delta'') (\<lambda>delta.
     bindR (bindR (jget json_dict ''ABC'') g1s_from_json) (\<lambda>abc.
       Inr \<lparr>g16_alpha = alpha, g16_beta = beta, g16_delta = delta, g16_abc = abc\<rparr>))))"

definition groth16_proof_to_json_dict :: "Groth16_Proof \<Rightarrow> json" where
  "groth16_proof_to_json_dict p =
     JObj [(''a'', g1_to_json_list (g16_a p)), (''b'', g2_to_json_list (g16_b p)),
           (''c'', g1_to_json_list (g16_c p))]"

definition groth16_proof_from_json_dict :: "json \<Rightarrow> Groth16_Proof res" where
  "groth16_proof_from_json_dict json_dict =
     bindR (g1_at json_dict ''a'') (\<lambda>a.
     bindR (g2_at json_dict ''b'') (\<lambda>b.
     bindR (g1_at json_dict ''c'') (\<lambda>c. Inr \<lparr>g16_a = a, g16_b = b, g16_c = c\<rparr>)))"

definition pghr13_vk_to_json_dict :: "PGHR13_VerificationKey \<Rightarrow> json" where
  "pghr13_vk_to_json_dict vk =
     JObj [(''a'', g2_to_json_list (pk_a vk)), (''b'', g1_to_json_list (pk_b vk)),
           (''c'', g2_to_json_list (pk_c vk)), (''g'', g2_to_json_list (pk_g vk)),
           (''gb1'', g1_to_json_list (pk_gb1 vk)), (''gb2'', g2_to_json_list (pk_gb2 vk)),
           (''z'', g2_to_json_list (pk_z vk)), (''ic'', JList (map g1_to_json_list (pk_ic vk)))]"

definition pghr13_vk_from_json_dict :: "json \<Rightarrow> PGHR13_VerificationKey res" where
  "pghr13_vk_from_json_dict json_dict =
     bindR (g2_at json_dict ''a'') (\<lambda>a. bindR (g1_at json_dict ''b'') (\<lambda>b.
     bindR (g2_at json_dict ''c'') (\<lambda>c. bindR (g2_at json_dict ''g'') (\<lambda>g.
     bindR (g1_at json_dict ''gb1'') (\<lambda>gb1. bindR (g2_at json_dict ''gb2'') (\<lambda>gb2.
     bindR (g2_at json_dict ''z'') (\<lambda>z.
     bindR (bindR (jget json_dict ''ic'') g1s_from_json) (\<lambda>ic.
       Inr \<lparr>pk_a = a, pk_b = b, pk_c = c, pk_g = g, pk_gb1 = gb1, pk_gb2 = gb2, pk_z = z, pk_ic = ic\<rparr>))))))))"

definition pghr13_proof_to_json_dict :: "PGHR13_Proof \<Rightarrow> json" where
  "pghr13_proof_to_json_dict p =
     JObj [(''a'', g1_to_json_list (pr_a p)), (''a_p'', g1_to_json_list (pr_a_p p)),
           (''b'', g2_to_json_list (pr_b p)), (''b_p'', g1_to_json_list (pr_b_p p)),
           (''c'', g1_to_json_list (pr_c p)), (''c_p'', g1_to_json_list (pr_c_p p)),
           (''h'', g1_to_json_list (pr_h p)), (''k'', g1_to_json_list (pr_k p))]"

definition pghr13_proof_from_json_dict :: "json \<Rightarrow> PGHR13_Proof res" where
  "pghr13_proof_from_json_dict json_dict =
     bindR (g1_at json_dict ''a'') (\<lambda>a. bindR (g1_at json_dict ''a_p'') (\<lambda>a_p.
     bindR (g2_at json_dict ''b'') (\<lambda>b. bindR (g1_at json_dict ''b_p'') (\<lambda>b_p.
     bindR (g1_at json_dict ''c'') (\<lambda>c. bindR (g1_at json_dict ''c_p'') (\<lambda>c_p.
     bindR (g1_at json_dict ''h'') (\<lambda>h. bindR (g1_at json_dict ''k'') (\<lambda>k.
       Inr \<lparr>pr_a = a, pr_a_p = a_p, pr_b = b, pr_b_p = b_p, pr_c = c, pr_c_p = c_p, pr_h = h, pr_k = k\<rparr>))))))))"

fun ivk_to_json_dict :: "IVerificationKey \<Rightarrow> json" where
  "ivk_to_json_dict (Groth16_VK vk) = groth16_vk_to_json_dict vk"
| "ivk_to_json_dict (PGHR13_VK vk) = pghr13_vk_to_json_dict vk"

fun iproof_to_json_dict :: "IProof \<Rightarrow> json" where
  "iproof_to_json_dict (Groth16_Pr p) = groth16_proof_to_json_dict p"
| "iproof_to_json_dict (PGHR13_Pr p) = pghr13_proof_to_json_dict p"

text \<open>The methods of the two providers that only delegate.\<close>

definition groth16_verification_key_from_json_dict :: "json \<Rightarrow> IVerificationKey res" where [simp]:
  "groth16_verification_key_from_json_dict j = bindR (groth16_vk_from_json_dict j) (\<lambda>vk. Inr (Groth16_VK vk))"

definition pghr13_verification_key_from_json_dict :: "json \<Rightarrow> IVerificationKey res" where [simp]:
  "pghr13_verification_key_from_json_dict j = bindR (pghr13_vk_from_json_dict j) (\<lambda>vk. Inr (PGHR13_VK vk))"

definition groth16_iproof_from_json_dict :: "json \<Rightarrow> IProof res" where [simp]:
  "groth16_iproof_from_json_dict j = bindR (groth16_proof_from_json_dict j) (\<lambda>p. Inr (Groth16_Pr p))"

definition pghr13_iproof_from_json_dict :: "json \<Rightarrow> IProof res" where [simp]:
  "pghr13_iproof_from_json_dict j = bindR (pghr13_proof_from_json_dict j) (\<lambda>p. Inr (PGHR13_Pr p))"

fun verification_key_from_json_dict :: "IZKSnarkProvider \<Rightarrow> json \<Rightarrow> IVerificationKey res" where
  "verification_key_from_json_dict Groth16 j = groth16_verification_key_from_json_dict j"
| "verification_key_from_json_dict PGHR13 j = pghr13_verification_key_from_json_dict j"

fun proof_from_json_dict :: "IZKSnarkProvider \<Rightarrow> json \<Rightarrow> IProof res" where
  "proof_from_json_dict Groth16 j = groth16_iproof_from_json_dict j"
| "proof_from_json_dict PGHR13 j = pghr13_iproof_from_json_dict j"

definition extended_proof_to_json_dict :: "ExtendedProof \<Rightarrow> json" where
  "extended_proof_to_json_dict ep =
     JObj [(''proof'', iproof_to_json_dict (ep_proof ep)), (''inputs'', JList (map JStr (ep_inputs ep)))]"

definition extended_proof_from_json_dict :: "IZKSnarkProvider \<Rightarrow> json \<Rightarrow> ExtendedProof res" where
  "extended_proof_from_json_dict zksnark json_dict =
     bindR (bindR (jget json_dict ''proof'') (proof_from_json_dict zksnark)) (\<lambda>p.
     bindR (bindR (jget json_dict ''inputs'') j_strs) (\<lambda>inputs.
       Inr \<lparr>ep_proof = p, ep_inputs = inputs\<rparr>))"

section \<open>Protocol messages\<close>

record groth16_vk_message =
  msg_alpha_g1 :: point_proto
  msg_beta_g2 :: point_proto
  msg_delta_g2 :: point_proto
  msg_abc_g1 :: json

record pghr13_vk_message =
  msg_vk_a :: point_proto
  msg_vk_b :: point_proto
  msg_vk_c :: point_proto
  msg_vk_gamma :: point_proto
  msg_vk_gamma_beta_g1 :: point_proto
  msg_vk_gamma_beta_g2 :: point_proto
  msg_vk_z :: point_proto
  msg_vk_ic :: json

datatype vk_message = Groth16_vk_msg groth16_vk_message | PGHR13_vk_msg pghr13_vk_message

record groth16_proof_message =
  msg_a :: point_proto
  msg_b :: point_proto
  msg_c :: point_proto
  msg_inputs :: json

record pghr13_proof_message =
  msg_p_a :: point_proto
  msg_p_a_p :: point_proto
  msg_p_b :: point_proto
  msg_p_b_p :: point_proto
  msg_p_c :: point_proto
  msg_p_c_p :: point_proto
  msg_p_h :: point_proto
  msg_p_k :: point_proto
  msg_p_inputs :: json

datatype ext_proof_message = Groth16_proof_msg groth16_proof_message | PGHR13_proof_msg pghr13_proof_message

definition groth16_vk_from_proto :: "groth16_vk_message \<Rightarrow> Groth16_VerificationKey res" where
  "groth16_vk_from_proto vk =
     bindR (g1_point_from_proto (msg_alpha_g1 vk)) (\<lambda>alpha.
     bindR (g2_point_from_proto (msg_beta_g2 vk)) (\<lambda>beta.
     bindR (g2_point_from_proto (msg_delta_g2 vk)) (\<lambda>delta.
     bindR (g1s_from_json (msg_abc_g1 vk)) (\<lambda>abc.
       Inr \<lparr>g16_alpha = alpha, g16_beta = beta, g16_delta = delta, g16_abc = abc\<rparr>))))"

definition pghr13_vk_from_proto :: "pghr13_vk_message \<Rightarrow> PGHR13_VerificationKey res" where
  "pghr13_vk_from_proto vk =
     bindR (g2_point_from_proto (msg_vk_a vk)) (\<lambda>a. bindR (g1_point_from_proto (msg_vk_b vk)) (\<lambda>b.
     bindR (g2_point_from_proto (msg_vk_c vk)) (\<lambda>c. bindR (g2_point_from_proto (msg_vk_gamma vk)) (\<lambda>g.
     bindR (g1_point_from_proto (msg_vk_gamma_beta_g1 vk)) (\<lambda>gb1.
     bindR (g2_point_from_proto (msg_vk_gamma_beta_g2 vk)) (\<lambda>gb2.
     bindR (g2_point_from_proto (msg_vk_z vk)) (\<lambda>z.
     bindR (g1s_from_json (msg_vk_ic vk)) (\<lambda>ic.
       Inr \<lparr>pk_a = a, pk_b = b, pk_c = c, pk_g = g, pk_gb1 = gb1, pk_gb2 = gb2, pk_z = z, pk_ic = ic\<rparr>))))))))"

fun verification_key_from_proto :: "IZKSnarkProvider \<Rightarrow> vk_message \<Rightarrow> IVerificationKey res" where
  "verification_key_from_proto Groth16 (Groth16_vk_msg vk) = bindR (groth16_vk_from_proto vk) (\<lambda>k. Inr (Groth16_VK k))"
| "verification_key_from_proto PGHR13 (PGHR13_vk_msg vk) = bindR (pghr13_vk_from_proto vk) (\<lambda>k. Inr (PGHR13_VK k))"
| "verification_key_from_proto _ _ = Inl ValueError"

definition groth16_vk_to_proto :: "Groth16_VerificationKey \<Rightarrow> groth16_vk_message" where
  "groth16_vk_to_proto vk =
     \<lparr>msg_alpha_g1 = g1_point_to_proto (g16_alpha vk), msg_beta_g2 = g2_point_to_proto (g16_beta vk),
      msg_delta_g2 = g2_point_to_proto (g16_delta vk), msg_abc_g1 = JList (map g1_to_json_list (g16_abc vk))\<rparr>"

text \<open>Only \<open>Groth16\<close> writes keys to messages; \<open>PGHR13\<close> raises.\<close>

definition pghr13_vk_to_proto :: "IVerificationKey \<Rightarrow> vk_message res" where [simp]:
  "pghr13_vk_to_proto vk = Inl (PyException ''not implemented'')"

fun verification_key_to_proto :: "IZKSnarkProvider \<Rightarrow> IVerificationKey \<Rightarrow> vk_message res" where
  "verification_key_to_proto Groth16 (Groth16_VK vk) = Inr (Groth16_vk_msg (groth16_vk_to_proto vk))"
| "verification_key_to_proto Groth16 (PGHR13_VK vk) = Inl AssertionError"
| "verification_key_to_proto PGHR13 vk = pghr13_vk_to_proto vk"

definition groth16_extended_proof_from_proto :: "groth16_proof_message \<Rightarrow> ExtendedProof res" where
  "groth16_extended_proof_from_proto m =
     bindR (g1_point_from_proto (msg_a m)) (\<lambda>a.
     bindR (g2_point_from_proto (msg_b m)) (\<lambda>b.
     bindR (g1_point_from_proto (msg_c m)) (\<lambda>c.
     bindR (j_strs (msg_inputs m)) (\<lambda>inputs.
       Inr \<lparr>ep_proof = Groth16_Pr \<lparr>g16_a = a, g16_b = b, g16_c = c\<rparr>, ep_inputs = inputs\<rparr>))))"

definition pghr13_extended_proof_from_proto :: "pghr13_proof_message \<Rightarrow> ExtendedProof res" where
  "pghr13_extended_proof_from_proto m =
     bindR (g1_point_from_proto (msg_p_a m)) (\<lambda>a. bindR (g1_point_from_proto (msg_p_a_p m)) (\<lambda>a_p.
     bindR (g2_point_from_proto (msg_p_b m)) (\<lambda>b. bindR (g1_point_from_proto (msg_p_b_p m)) (\<lambda>b_p.
     bindR (g1_point_from_proto (msg_p_c m)) (\<lambda>c. bindR (g1_point_from_proto (msg_p_c_p m)) (\<lambda>c_p.
     bindR (g1_point_from_proto (msg_p_h m)) (\<lambda>h. bindR (g1_point_from_proto (msg_p_k m)) (\<lambda>k.
     bindR (j_strs (msg_p_inputs m)) (\<lambda>inputs.
       Inr \<lparr>ep_proof = PGHR13_Pr \<lparr>pr_a = a, pr_a_p = a_p, pr_b = b, pr_b_p = b_p,
                               pr_c = c, pr_c_p = c_p, pr_h = h, pr_k = k\<rparr>,
            ep_inputs = inputs\<rparr>)))))))))"

fun extended_proof_from_proto :: "IZKSnarkProvider \<Rightarrow> ext_proof_message \<Rightarrow> ExtendedProof res" where
  "extended_proof_from_proto Groth16 (Groth16_proof_msg m) = groth16_extended_proof_from_proto m"
| "extended_proof_from_proto PGHR13 (PGHR13_proof_msg m) = pghr13_extended_proof_from_proto m"
| "extended_proof_from_proto _ _ = Inl ValueError"

definition groth16_proof_to_proto :: "Groth16_Proof \<Rightarrow> string list \<Rightarrow> groth16_proof_message" where
  "groth16_proof_to_proto p inputs =
     \<lparr>msg_a = g1_point_to_proto (g16_a p), msg_b = g2_point_to_proto (g16_b p),
      msg_c = g1_point_to_proto (g16_c p), msg_inputs = JList (map JStr inputs)\<rparr>"

definition pghr13_proof_to_proto :: "PGHR13_Proof \<Rightarrow> string list \<Rightarrow> pghr13_proof_message" where
  "pghr13_proof_to_proto p inputs =
     \<lparr>msg_p_a = g1_point_to_proto (pr_a p), msg_p_a_p = g1_point_to_proto (pr_a_p p),
      msg_p_b = g2_point_to_proto (pr_b p), msg_p_b_p = g1_point_to_proto (pr_b_p p),
      msg_p_c = g1_point_to_proto (pr_c p), msg_p_c_p = g1_point_to_proto (pr_c_p p),
      msg_p_h = g1_point_to_proto (pr_h p), msg_p_k = g1_point_to_proto (pr_k p),
      msg_p_inputs = JList (map JStr inputs)\<rparr>"

definition extended_proof_to_proto :: "IZKSnarkProvider \<Rightarrow> ExtendedProof \<Rightarrow> ext_proof_message res" where
  "extended_proof_to_proto zksnark ep =
     (case (zksnark, ep_proof ep) of
        (Groth16, Groth16_Pr p) \<Rightarrow> Inr (Groth16_proof_msg (groth16_proof_to_proto p (ep_inputs ep)))
      | (PGHR13, PGHR13_Pr p) \<Rightarrow> Inr (PGHR13_proof_msg (pghr13_proof_to_proto p (ep_inputs ep)))
      | _ \<Rightarrow> Inl AssertionError)"

section \<open>Contract parameters\<close>

text \<open>Concatenation of parameter lists, evaluated left to right.\<close>

definition concat_params :: "int list res list \<Rightarrow> int list res" where
  "concat_params rs = bindR (mapR (\<lambda>r. r) rs) (\<lambda>xss. Inr (concat xss))"

definition groth16_vk_to_contract_parameters :: "Groth16_VerificationKey \<Rightarrow> PairingParameters \<Rightarrow> int list res" where
  "groth16_vk_to_contract_parameters vk pp =
     bindR (g2_point_negate (g16_beta vk) pp) (\<lambda>minus_beta.
     bindR (g2_point_negate (g16_delta vk) pp) (\<lambda>minus_delta.
       concat_params
         ([g1_point_to_contract_parameters (g16_alpha vk),
           g2_point_to_contract_parameters minus_beta,
           g2_point_to_contract_parameters minus_delta]
          @ map g1_point_to_contract_parameters (g16_abc vk))))"

definition pghr13_vk_to_contract_parameters :: "PGHR13_VerificationKey \<Rightarrow> int list res" where
  "pghr13_vk_to_contract_parameters vk =
     concat_params
       ([g2_point_to_contract_parameters (pk_a vk), g1_point_to_contract_parameters (pk_b vk),
         g2_point_to_contract_parameters (pk_c vk), g2_point_to_contract_parameters (pk_g vk),
         g1_point_to_contract_parameters (pk_gb1 vk), g2_point_to_contract_parameters (pk_gb2 vk),
         g2_point_to_contract_parameters (pk_z vk)]
        @ map g1_point_to_contract_parameters (pk_ic vk))"

fun verification_key_to_contract_parameters ::
  "IZKSnarkProvider \<Rightarrow> IVerificationKey \<Rightarrow> PairingParameters \<Rightarrow> int list res" where
  "verification_key_to_contract_parameters Groth16 (Groth16_VK vk) pp = groth16_vk_to_contract_parameters vk pp"
| "verification_key_to_contract_parameters PGHR13 (PGHR13_VK vk) pp = pghr13_vk_to_contract_parameters vk"
| "verification_key_to_contract_parameters _ _ pp = Inl AssertionError"

definition groth16_proof_to_contract_parameters :: "Groth16_Proof \<Rightarrow> int list res" where
  "groth16_proof_to_contract_parameters p =
     concat_params [g1_point_to_contract_parameters (g16_a p), g2_point_to_contract_parameters (g16_b p),
                    g1_point_to_contract_parameters (g16_c p)]"

definition pghr13_proof_to_contract_parameters :: "PGHR13_Proof \<Rightarrow> int list res" where
  "pghr13_proof_to_contract_parameters p =
     concat_params
       [g1_point_to_contract_parameters (pr_a p), g1_point_to_contract_parameters (pr_a_p p),
        g2_point_to_contract_parameters (pr_b p), g1_point_to_contract_parameters (pr_b_p p),
        g1_point_to_contract_parameters (pr_c p), g1_point_to_contract_parameters (pr_c_p p),
        g1_point_to_contract_parameters (pr_h p), g1_point_to_contract_parameters (pr_k p)]"

fun proof_to_contract_parameters :: "IZKSnarkProvider \<Rightarrow> IProof \<Rightarrow> int list res" where
  "proof_to_contract_parameters Groth16 (Groth16_Pr p) = groth16_proof_to_contract_parameters p"
| "proof_to_contract_parameters PGHR13 (PGHR13_Pr p) = pghr13_proof_to_contract_parameters p"
| "proof_to_contract_parameters _ _ = Inl AssertionError"

section \<open>Names and selection\<close>

definition PAIRING_NAME_TO_CONTRACT_NAME :: "string \<rightharpoonup> string" where
  "PAIRING_NAME_TO_CONTRACT_NAME = [''alt-bn128'' \<mapsto> ''AltBN128'', ''bls12-377'' \<mapsto> ''BLS12_377'']"

definition contract_name :: "string \<Rightarrow> PairingParameters \<Rightarrow> string res" where
  "contract_name zksnark_name pp =
     (case PAIRING_NAME_TO_CONTRACT_NAME (pp_name pp) of
        None \<Rightarrow> Inl KeyError
      | Some n \<Rightarrow> Inr (''Mixer'' @ zksnark_name @ n))"

definition groth16_get_contract_name :: "PairingParameters \<Rightarrow> string res" where [simp]:
  "groth16_get_contract_name pp = contract_name ''Groth16'' pp"

definition pghr13_get_contract_name :: "PairingParameters \<Rightarrow> string res" where [simp]:
  "pghr13_get_contract_name pp = contract_name ''Pghr13'' pp"

fun get_contract_name :: "IZKSnarkProvider \<Rightarrow> PairingParameters \<Rightarrow> string res" where
  "get_contract_name Groth16 pp = groth16_get_contract_name pp"
| "get_contract_name PGHR13 pp = pghr13_get_contract_name pp"

definition GROTH16_ZKSNARK :: string where "GROTH16_ZKSNARK = ''GROTH16''"
definition PGHR13_ZKSNARK :: string where "PGHR13_ZKSNARK = ''PGHR13''"

definition VALID_ZKSNARKS :: "string list" where "VALID_ZKSNARKS = [GROTH16_ZKSNARK, PGHR13_ZKSNARK]"

text \<open>\<open>parse_zksnark_arg\<close> on the argument that \<open>argparse\<close> finds; \<open>Inl\<close> is the message of \<open>sys.exit\<close>.\<close>

definition SNARK_NOT_SUPPORTED :: string where
  "SNARK_NOT_SUPPORTED =
     ''Invalid zkSNARK, should be one of ('' @ [CHR 0x27] @ ''PGHR13'' @ [CHR 0x27] @ '', '' @ [CHR 0x27] @ ''GROTH16'' @ [CHR 0x27] @ '')''"

definition parse_zksnark_arg :: "string \<Rightarrow> string + string" where
  "parse_zksnark_arg zksnark = (if zksnark \<notin> set VALID_ZKSNARKS then Inl SNARK_NOT_SUPPORTED else Inr zksnark)"

definition get_zksnark_provider :: "string \<Rightarrow> IZKSnarkProvider res" where
  "get_zksnark_provider zksnark_name =
     (if zksnark_name = PGHR13_ZKSNARK then Inr PGHR13
      else if zksnark_name = GROTH16_ZKSNARK then Inr Groth16
      else Inl (PyException (''unknown zk-SNARK name: '' @ zksnark_name)))"

lemma parse_zksnark_arg_provider:
  "(\<exists>z. get_zksnark_provider name = Inr z) \<longleftrightarrow> parse_zksnark_arg name = Inr name"
  by (auto simp: get_zksnark_provider_def parse_zksnark_arg_def VALID_ZKSNARKS_def)

section \<open>The provider interface\<close>

text \<open>
  What \<open>IZKSnarkProvider\<close> promises: a provider reads back what it writes, and refuses the keys
  and proofs of another provider.
\<close>

locale snark_provider =
  fixes own_key :: "IVerificationKey \<Rightarrow> bool"
    and own_proof :: "IProof \<Rightarrow> bool"
    and key_from_json :: "json \<Rightarrow> IVerificationKey res"
    and ext_from_json :: "json \<Rightarrow> ExtendedProof res"
    and ext_to_msg :: "ExtendedProof \<Rightarrow> ext_proof_message res"
    and ext_from_msg :: "ext_proof_message \<Rightarrow> ExtendedProof res"
  assumes key_json: "own_key vk \<Longrightarrow> key_from_json (ivk_to_json_dict vk) = Inr vk"
    and ext_json: "own_proof (ep_proof ep) \<Longrightarrow> ext_from_json (extended_proof_to_json_dict ep) = Inr ep"
    and ext_msg: "own_proof (ep_proof ep) \<Longrightarrow> \<exists>m. ext_to_msg ep = Inr m \<and> ext_from_msg m = Inr ep"
    and ext_foreign: "\<not> own_proof (ep_proof ep) \<Longrightarrow> ext_to_msg ep = Inl AssertionError"
begin

lemma key_json_inj:
  "own_key vk \<Longrightarrow> own_key vk' \<Longrightarrow> ivk_to_json_dict vk = ivk_to_json_dict vk' \<Longrightarrow> vk = vk'"
  using key_json by (metis sum.inject(2))

lemma ext_to_msg_iff: "ext_to_msg ep = Inr m \<Longrightarrow> own_proof (ep_proof ep) \<and> ext_from_msg m = Inr ep"
  using ext_msg ext_foreign by (metis sum.inject(2) sum.simps(4))

lemma ext_to_msg_inj: "ext_to_msg ep = Inr m \<Longrightarrow> ext_to_msg ep' = Inr m \<Longrightarrow> ep = ep'"
  using ext_to_msg_iff by (metis sum.inject(2))

lemma ext_stored:
  "ext_to_msg ep = Inr m \<Longrightarrow>
    bindR (ext_from_msg m) (\<lambda>e. ext_from_json (extended_proof_to_json_dict e)) = Inr ep"
  using ext_to_msg_iff ext_json by simp

end

fun is_groth16_key :: "IVerificationKey \<Rightarrow> bool" where
  "is_groth16_key (Groth16_VK _) = True"
| "is_groth16_key (PGHR13_VK _) = False"

fun is_groth16_proof :: "IProof \<Rightarrow> bool" where
  "is_groth16_proof (Groth16_Pr _) = True"
| "is_groth16_proof (PGHR13_Pr _) = False"

lemma g1s_json [simp]: "g1s_from_json (JList (map g1_to_json_list ps)) = Inr ps"
  by (simp add: g1s_from_json_def)

lemma groth16_vk_json [simp]: "groth16_vk_from_json_dict (groth16_vk_to_json_dict vk) = Inr vk"
  by (simp add: groth16_vk_from_json_dict_def groth16_vk_to_json_dict_def g1_at_def g2_at_def)

lemma pghr13_vk_json [simp]: "pghr13_vk_from_json_dict (pghr13_vk_to_json_dict vk) = Inr vk"
  by (simp add: pghr13_vk_from_json_dict_def pghr13_vk_to_json_dict_def g1_at_def g2_at_def)

lemma groth16_proof_json [simp]: "groth16_proof_from_json_dict (groth16_proof_to_json_dict p) = Inr p"
  by (simp add: groth16_proof_from_json_dict_def groth16_proof_to_json_dict_def g1_at_def g2_at_def)

lemma pghr13_proof_json [simp]: "pghr13_proof_from_json_dict (pghr13_proof_to_json_dict p) = Inr p"
  by (simp add: pghr13_proof_from_json_dict_def pghr13_proof_to_json_dict_def g1_at_def g2_at_def)

lemma groth16_vk_proto [simp]: "groth16_vk_from_proto (groth16_vk_to_proto vk) = Inr vk"
  by (simp add: groth16_vk_from_proto_def groth16_vk_to_proto_def)

lemma groth16_proof_proto [simp]:
  "groth16_extended_proof_from_proto (groth16_proof_to_proto p inputs) =
    Inr \<lparr>ep_proof = Groth16_Pr p, ep_inputs = inputs\<rparr>"
  by (simp add: groth16_extended_proof_from_proto_def groth16_proof_to_proto_def)

lemma pghr13_proof_proto [simp]:
  "pghr13_extended_proof_from_proto (pghr13_proof_to_proto p inputs) =
    Inr \<lparr>ep_proof = PGHR13_Pr p, ep_inputs = inputs\<rparr>"
  by (simp add: pghr13_extended_proof_from_proto_def pghr13_proof_to_proto_def)

lemmas ext_proof_defs = extended_proof_from_json_dict_def extended_proof_to_json_dict_def
  extended_proof_to_proto_def

interpretation groth16: snark_provider is_groth16_key is_groth16_proof
  "verification_key_from_json_dict Groth16" "extended_proof_from_json_dict Groth16"
  "extended_proof_to_proto Groth16" "extended_proof_from_proto Groth16"
proof unfold_locales
  show "is_groth16_key vk \<Longrightarrow> verification_key_from_json_dict Groth16 (ivk_to_json_dict vk) = Inr vk" for vk
    by (cases vk) auto
  fix ep
  show "is_groth16_proof (ep_proof ep) \<Longrightarrow>
      extended_proof_from_json_dict Groth16 (extended_proof_to_json_dict ep) = Inr ep"
    by (cases "ep_proof ep") (simp_all add: ext_proof_defs)
  show "is_groth16_proof (ep_proof ep) \<Longrightarrow>
      \<exists>m. extended_proof_to_proto Groth16 ep = Inr m \<and> extended_proof_from_proto Groth16 m = Inr ep"
    by (cases "ep_proof ep") (simp_all add: ext_proof_defs)
  show "\<not> is_groth16_proof (ep_proof ep) \<Longrightarrow> extended_proof_to_proto Groth16 ep = Inl AssertionError"
    by (cases "ep_proof ep") (simp_all add: ext_proof_defs)
qed

interpretation pghr13: snark_provider "\<lambda>vk. \<not> is_groth16_key vk" "\<lambda>p. \<not> is_groth16_proof p"
  "verification_key_from_json_dict PGHR13" "extended_proof_from_json_dict PGHR13"
  "extended_proof_to_proto PGHR13" "extended_proof_from_proto PGHR13"
proof unfold_locales
  show "\<not> is_groth16_key vk \<Longrightarrow> verification_key_from_json_dict PGHR13 (ivk_to_json_dict vk) = Inr vk" for vk
    by (cases vk) auto
  fix ep
  show "\<not> is_groth16_proof (ep_proof ep) \<Longrightarrow>
      extended_proof_from_json_dict PGHR13 (extended_proof_to_json_dict ep) = Inr ep"
    by (cases "ep_proof ep") (simp_all add: ext_proof_defs)
  show "\<not> is_groth16_proof (ep_proof ep) \<Longrightarrow>
      \<exists>m. extended_proof_to_proto PGHR13 ep = Inr m \<and> extended_proof_from_proto PGHR13 m = Inr ep"
    by (cases "ep_proof ep") (simp_all add: ext_proof_defs)
  show "\<not> \<not> is_groth16_proof (ep_proof ep) \<Longrightarrow> extended_proof_to_proto PGHR13 ep = Inl AssertionError"
    by (cases "ep_proof ep") (simp_all add: ext_proof_defs)
qed

lemma ext_proof_z:
  assumes "extended_proof_to_proto z ep = Inr m"
  shows "extended_proof_from_proto z m = Inr ep"
    and "extended_proof_from_json_dict z (extended_proof_to_json_dict ep) = Inr ep"
    and "extended_proof_to_proto z ep' = Inr m \<Longrightarrow> ep' = ep"
  using assms groth16.ext_to_msg_iff groth16.ext_json groth16.ext_to_msg_inj
    pghr13.ext_to_msg_iff pghr13.ext_json pghr13.ext_to_msg_inj
  by (cases z; metis)+

section \<open>Layout of the contract words\<close>

text \<open>32-byte coordinates and the numbers they denote.\<close>

definition fq32 :: "string \<Rightarrow> int \<Rightarrow> bool" where
  "fq32 h v \<longleftrightarrow> (\<exists>s. hex_literal h s \<and> length s = 64 \<and> digits_value 16 s = v)"

definition g1_32 :: "G1Point \<Rightarrow> int \<times> int \<Rightarrow> bool" where
  "g1_32 p v \<longleftrightarrow> fq32 (g1_x_coord p) (fst v) \<and> fq32 (g1_y_coord p) (snd v)"

definition g2_32 :: "G2Point \<Rightarrow> int \<times> int \<times> int \<times> int \<Rightarrow> bool" where
  "g2_32 p v \<longleftrightarrow>
     (case v of (x0, x1, y0, y1) \<Rightarrow> \<exists>hx0 hx1 hy0 hy1.
        g2_x_coord p = CList [hx0, hx1] \<and> g2_y_coord p = CList [hy0, hy1]
        \<and> fq32 hx0 x0 \<and> fq32 hx1 x1 \<and> fq32 hy0 y0 \<and> fq32 hy1 y1)"

lemma fq32_word: "fq32 h v \<Longrightarrow> hex_to_uint256_list h = Inr [v]"
proof -
  assume "fq32 h v"
  then obtain s where s: "hex_literal h s" "length s = 64" "digits_value 16 s = v"
    by (auto simp: fq32_def)
  obtain vs where vs: "hex_to_uint256_list h = Inr vs" "length vs = 1" "uint256_value vs = v"
    using hex_literal_words [OF s(1)] s by auto
  then obtain w where "vs = [w]"
    by (auto simp: length_Suc_conv)
  with vs show ?thesis
    by (simp add: uint256_value_def)
qed

lemma fq32_negate:
  assumes "fq32 q Q" "0 < Q" "fq32 y v"
  shows "\<exists>y'. field_element_negate y q = Inr y' \<and> fq32 y' (Q - v mod Q)"
proof -
  obtain sq s where q: "hex_literal q sq" "length sq = 64" "digits_value 16 sq = Q"
    and y: "hex_literal y s" "digits_value 16 s = v"
    using assms by (auto simp: fq32_def)
  obtain bs where bs: "field_element_negate y q = Inr (''0x'' @ bytes_hex bs)" "length bs = 32"
    "int_from_bytes bs = Q - v mod Q"
    using field_element_negate_ok [OF q(1) _ hex_literal_int [OF y(1)]] q y assms(2) by auto
  have "hex_literal (''0x'' @ bytes_hex bs) (bytes_hex bs)"
    using bs(2) by (intro hex_literal_bytes) auto
  then have "fq32 (''0x'' @ bytes_hex bs) (Q - v mod Q)"
    unfolding fq32_def using bs(2,3) by (intro exI [of _ "bytes_hex bs"]) (simp add: digits_value_bytes_hex)
  with bs(1) show ?thesis by blast
qed

lemma g1_params: "g1_32 p v \<Longrightarrow> g1_point_to_contract_parameters p = Inr [fst v, snd v]"
  by (auto simp: g1_32_def g1_point_to_contract_parameters_def dest!: fq32_word)

lemma g2_params: "g2_32 p (x0, x1, y0, y1) \<Longrightarrow> g2_point_to_contract_parameters p = Inr [x0, x1, y0, y1]"
  by (auto simp: g2_32_def g2_point_to_contract_parameters_def hex_list_to_uint256_list_def
      string_list_flatten_def fq32_word)

lemma g2_negate_32:
  assumes "fq32 (pp_q pp) Q" "0 < Q" "g2_32 p (x0, x1, y0, y1)"
  shows "\<exists>p'. g2_point_negate p pp = Inr p' \<and> g2_32 p' (x0, x1, Q - y0 mod Q, Q - y1 mod Q)"
proof -
  obtain hx0 hx1 hy0 hy1 where p: "g2_x_coord p = CList [hx0, hx1]" "g2_y_coord p = CList [hy0, hy1]"
    "fq32 hx0 x0" "fq32 hx1 x1" "fq32 hy0 y0" "fq32 hy1 y1"
    using assms(3) by (auto simp: g2_32_def)
  obtain n0 n1 where "field_element_negate hy0 (pp_q pp) = Inr n0" "fq32 n0 (Q - y0 mod Q)"
    "field_element_negate hy1 (pp_q pp) = Inr n1" "fq32 n1 (Q - y1 mod Q)"
    using fq32_negate [OF assms(1,2) p(5)] fq32_negate [OF assms(1,2) p(6)] by blast
  with p show ?thesis
    by (simp add: g2_point_negate_def g2_32_def)
qed

lemma g1s_params:
  "list_all2 g1_32 ps vs \<Longrightarrow>
    mapR (\<lambda>r. r) (map g1_point_to_contract_parameters ps) = Inr (map (\<lambda>v. [fst v, snd v]) vs)"
  by (induction ps vs rule: list_all2_induct) (simp_all add: g1_params)

text \<open>
  For either provider, a proof with its inputs that can be written to a message is read back
  from the message and from its JSON form unchanged, and no two different ones give the same
  message.
\<close>

theorem extended_proof_roundtrip:
  assumes "extended_proof_to_proto z ep = Inr m"
  shows "extended_proof_from_proto z m = Inr ep
    \<and> extended_proof_from_json_dict z (extended_proof_to_json_dict ep) = Inr ep
    \<and> (extended_proof_to_proto z ep' = Inr m \<longrightarrow> ep' = ep)"
  using ext_proof_z [OF assms] by blast

definition example_proof :: ExtendedProof where
  "example_proof = \<lparr>ep_proof = Groth16_Pr \<lparr>g16_a = generator_g1 example_pp, g16_b = generator_g2 example_pp,
     g16_c = generator_g1 example_pp\<rparr>, ep_inputs = [''0x01'', ''0x02'']\<rparr>"

definition example_proof_msg :: ext_proof_message where
  "example_proof_msg = Groth16_proof_msg (groth16_proof_to_proto \<lparr>g16_a = generator_g1 example_pp,
     g16_b = generator_g2 example_pp, g16_c = generator_g1 example_pp\<rparr> [''0x01'', ''0x02''])"

theorem extended_proof_roundtrip_witness:
  "extended_proof_from_proto Groth16 example_proof_msg = Inr example_proof
    \<and> extended_proof_from_json_dict Groth16 (extended_proof_to_json_dict example_proof) = Inr example_proof
    \<and> extended_proof_to_proto Groth16 (example_proof\<lparr>ep_inputs := []\<rparr>) \<noteq> Inr example_proof_msg"
proof -
  have "extended_proof_to_proto Groth16 example_proof = Inr example_proof_msg"
    by (simp add: extended_proof_to_proto_def example_proof_def example_proof_msg_def)
  from extended_proof_roundtrip [OF this, of "example_proof\<lparr>ep_inputs := []\<rparr>"] show ?thesis
    by (auto simp: example_proof_def)
qed

text \<open>
  The contract words of a Groth16 verification key over 32-byte coordinates are, in order,
  alpha, beta and delta with their ordinates negated modulo the base field, then the points
  of ABC: ten words and two for each point.
\<close>

theorem groth16_vk_contract_layout:
  assumes "fq32 (pp_q pp) Q" "0 < Q" "g1_32 (g16_alpha vk) (ax, ay)"
    and "g2_32 (g16_beta vk) (bx0, bx1, by0, by1)" "g2_32 (g16_delta vk) (dx0, dx1, dy0, dy1)"
    and "list_all2 g1_32 (g16_abc vk) abc"
  shows "verification_key_to_contract_parameters Groth16 (Groth16_VK vk) pp =
    Inr ([ax, ay, bx0, bx1, Q - by0 mod Q, Q - by1 mod Q, dx0, dx1, Q - dy0 mod Q, Q - dy1 mod Q]
         @ concat (map (\<lambda>v. [fst v, snd v]) abc))"
proof -
  obtain nb nd where nb: "g2_point_negate (g16_beta vk) pp = Inr nb" "g2_32 nb (bx0, bx1, Q - by0 mod Q, Q - by1 mod Q)"
    and nd: "g2_point_negate (g16_delta vk) pp = Inr nd" "g2_32 nd (dx0, dx1, Q - dy0 mod Q, Q - dy1 mod Q)"
    using g2_negate_32 [OF assms(1,2,4)] g2_negate_32 [OF assms(1,2,5)] by blast
  show ?thesis
    by (simp add: groth16_vk_to_contract_parameters_def concat_params_def nb(1) nd(1)
        g1_params [OF assms(3)] g2_params [OF nb(2)] g2_params [OF nd(2)] g1s_params [OF assms(6)])
qed

text \<open>Coordinates of 64 digits for the example.\<close>

definition hex64 :: "string \<Rightarrow> string" where
  "hex64 d = ''0x'' @ replicate 62 CHR ''0'' @ d"

lemma fq32_hex64: "length d = 2 \<Longrightarrow> all_digits 16 d \<Longrightarrow> fq32 (hex64 d) (digits_value 16 d)"
  unfolding fq32_def hex64_def
  by (intro exI [of _ "replicate 62 CHR ''0'' @ d"])
    (auto simp: hex_literal_def digits_value_zeros all_digits_def digit_val_def)

lemma example_fq32: "fq32 (hex64 ''11'') 17" "fq32 (hex64 ''01'') 1" "fq32 (hex64 ''02'') 2"
  using fq32_hex64 [of "''11''"] fq32_hex64 [of "''01''"] fq32_hex64 [of "''02''"]
  by (simp_all add: digit_val_def digits_value_def)

definition example_vk :: Groth16_VerificationKey where
  "example_vk =
     (let g1 = \<lparr>g1_x_coord = hex64 ''01'', g1_y_coord = hex64 ''02''\<rparr>;
          g2 = \<lparr>g2_x_coord = CList [hex64 ''01'', hex64 ''02''], g2_y_coord = CList [hex64 ''02'', hex64 ''01'']\<rparr>
      in \<lparr>g16_alpha = g1, g16_beta = g2, g16_delta = g2, g16_abc = [g1, g1]\<rparr>)"

theorem groth16_vk_contract_layout_witness:
  "verification_key_to_contract_parameters Groth16 (Groth16_VK example_vk) (example_pp\<lparr>pp_q := hex64 ''11''\<rparr>) =
    Inr ([1, 2, 1, 2, 17 - 2 mod 17, 17 - 1 mod 17, 1, 2, 17 - 2 mod 17, 17 - 1 mod 17]
         @ concat (map (\<lambda>v. [fst v, snd v]) [(1, 2), (1, 2)]))"
  by (rule groth16_vk_contract_layout)
    (simp_all add: example_vk_def Let_def g1_32_def g2_32_def example_fq32)

end
