(* ===== verification/Prover_Client.thy ===== *)
theory Prover_Client
  imports Zksnark Zeth_Note
begin

text \<open>
  \<open>client/zeth/core/prover_client.py\<close>: the connection to the proving service, with its cache of the
  service configuration in memory and in a file. The service is a record of its remote
  procedures. A file is the outcome of \<open>json.load\<close> on it: the document, or the exception that a
  malformed file raises. Operations return the state next to their outcome, since an
  exception leaves the changes made before it.
\<close>

record ProverConfiguration =
  zksnark_name :: string
  pairing_parameters :: PairingParameters

definition prover_config_to_json_dict :: "ProverConfiguration \<Rightarrow> json" where
  "prover_config_to_json_dict c =
     JObj [(''zksnark_name'', JStr (zksnark_name c)),
           (''pairing_parameters'', pp_to_json_dict (pairing_parameters c))]"

definition prover_config_from_json_dict :: "(int \<Rightarrow> int) \<Rightarrow> json \<Rightarrow> ProverConfiguration res" where
  "prover_config_from_json_dict floor_log2 json_dict =
     bindR (jget_str json_dict ''zksnark_name'') (\<lambda>name.
     bindR (bindR (jget json_dict ''pairing_parameters'') (pp_from_json_dict floor_log2)) (\<lambda>pp.
       Inr \<lparr>zksnark_name = name, pairing_parameters = pp\<rparr>))"

record prover_config_message =
  pcm_zksnark :: string
  pcm_pairing_parameters :: pairing_proto

definition prover_configuration_from_proto :: "(int \<Rightarrow> int) \<Rightarrow> prover_config_message \<Rightarrow> ProverConfiguration res" where
  "prover_configuration_from_proto floor_log2 m =
     bindR (pairing_parameters_from_proto floor_log2 (pcm_pairing_parameters m)) (\<lambda>pp.
       Inr \<lparr>zksnark_name = pcm_zksnark m, pairing_parameters = pp\<rparr>)"

section \<open>Requests\<close>

record JoinsplitInput =
  ji_merkle_path :: "string list"
  ji_address :: int
  ji_note :: ZethNote
  ji_spending_ask :: string
  ji_nullifier :: string

record ProofInputs =
  pi_mk_root :: string
  pi_js_inputs :: "JoinsplitInput list"
  pi_js_outputs :: "ZethNote list"
  pi_pub_in_value :: string
  pi_pub_out_value :: string
  pi_h_sig :: string
  pi_phi :: string

record prover_server =
  srv_GetConfiguration :: "prover_config_message res"
  srv_GetVerificationKey :: "vk_message res"
  srv_Prove :: "ProofInputs \<Rightarrow> (ext_proof_message \<times> string list) res"

section \<open>The client\<close>

type_synonym json_files = "string \<rightharpoonup> json res"

record ProverClient =
  prover_config_file :: "string option"
  prover_config :: "ProverConfiguration option"

type_synonym prover_state = "ProverClient \<times> json_files"

definition prover_client_init :: "string option \<Rightarrow> ProverClient" where
  "prover_client_init file = \<lparr>prover_config_file = file, prover_config = None\<rparr>"

text \<open>Fetching from the service and writing the cache file.\<close>

definition fetch_configuration ::
  "(int \<Rightarrow> int) \<Rightarrow> prover_server \<Rightarrow> prover_state \<Rightarrow> prover_state \<times> ProverConfiguration res" where
  "fetch_configuration floor_log2 srv st =
     (case bindR (srv_GetConfiguration srv) (prover_configuration_from_proto floor_log2) of
        Inl e \<Rightarrow> (st, Inl e)
      | Inr config \<Rightarrow>
          let c' = (fst st)\<lparr>prover_config := Some config\<rparr>
          in case prover_config_file (fst st) of
               None \<Rightarrow> ((c', snd st), Inr config)
             | Some f \<Rightarrow> ((c', (snd st)(f \<mapsto> Inr (prover_config_to_json_dict config))), Inr config))"

definition get_configuration ::
  "(int \<Rightarrow> int) \<Rightarrow> prover_server \<Rightarrow> prover_state \<Rightarrow> prover_state \<times> ProverConfiguration res" where
  "get_configuration floor_log2 srv st =
     (case prover_config (fst st) of
        Some config \<Rightarrow> (st, Inr config)
      | None \<Rightarrow>
          (case prover_config_file (fst st) of
             None \<Rightarrow> fetch_configuration floor_log2 srv st
           | Some f \<Rightarrow>
               (case snd st f of
                  None \<Rightarrow> fetch_configuration floor_log2 srv st
                | Some doc \<Rightarrow>
                    (case bindR doc (prover_config_from_json_dict floor_log2) of
                       Inr config \<Rightarrow> (((fst st)\<lparr>prover_config := Some config\<rparr>, snd st), Inr config)
                     | Inl _ \<Rightarrow> fetch_configuration floor_log2 srv (fst st, (snd st)(f := None))))))"

definition client_get_zksnark_provider ::
  "(int \<Rightarrow> int) \<Rightarrow> prover_server \<Rightarrow> prover_state \<Rightarrow> prover_state \<times> IZKSnarkProvider res" where
  "client_get_zksnark_provider floor_log2 srv st =
     (let (st', config) = get_configuration floor_log2 srv st
      in (st', bindR config (\<lambda>c. get_zksnark_provider (zksnark_name c))))"

definition get_verification_key ::
  "(int \<Rightarrow> int) \<Rightarrow> prover_server \<Rightarrow> prover_state \<Rightarrow> prover_state \<times> IVerificationKey res" where
  "get_verification_key floor_log2 srv st =
     (case srv_GetVerificationKey srv of
        Inl e \<Rightarrow> (st, Inl e)
      | Inr vk_proto \<Rightarrow>
          let (st', zksnark) = client_get_zksnark_provider floor_log2 srv st
          in (st', bindR zksnark (\<lambda>z. verification_key_from_proto z vk_proto)))"

definition get_proof ::
  "(int \<Rightarrow> int) \<Rightarrow> prover_server \<Rightarrow> prover_state \<Rightarrow> ProofInputs \<Rightarrow> prover_state \<times> (ExtendedProof \<times> int list) res" where
  "get_proof floor_log2 srv st proof_inputs =
     (if length (pi_js_inputs proof_inputs) \<noteq> JS_INPUTS then (st, Inl AssertionError)
      else case srv_Prove srv proof_inputs of
             Inl e \<Rightarrow> (st, Inl e)
           | Inr (ext_proof, pub) \<Rightarrow>
               let (st', zksnark) = client_get_zksnark_provider floor_log2 srv st
               in (st', bindR zksnark (\<lambda>z.
                        bindR (extended_proof_from_proto z ext_proof) (\<lambda>extproof.
                        bindR (mapR (\<lambda>x. py_int_str x 16) pub) (\<lambda>public_data.
                          Inr (extproof, public_data))))))"

section \<open>Lemmas\<close>

text \<open>Parameters that the constructor built.\<close>

definition pp_built :: "(int \<Rightarrow> int) \<Rightarrow> PairingParameters \<Rightarrow> bool" where
  "pp_built floor_log2 pp \<longleftrightarrow>
     pairing_parameters_init floor_log2 (pp_name pp) (pp_r pp) (pp_q pp) (generator_g1 pp) (generator_g2 pp) = Inr pp"

lemma init_built: "pairing_parameters_init fl n r q g1 g2 = Inr pp \<Longrightarrow> pp_built fl pp"
  by (auto simp: pairing_parameters_init_def pp_built_def bindR_eq_Inr split: if_splits)

lemma pp_json: "pp_built fl pp \<Longrightarrow> pp_from_json_dict fl (pp_to_json_dict pp) = Inr pp"
  by (simp add: pp_from_json_dict_def pp_to_json_dict_def pp_built_def json_get_defs)

lemma prover_config_json:
  "pp_built fl (pairing_parameters c) \<Longrightarrow>
    prover_config_from_json_dict fl (prover_config_to_json_dict c) = Inr c"
  by (simp add: prover_config_from_json_dict_def prover_config_to_json_dict_def json_get_defs pp_json)

lemma from_proto_built:
  "prover_configuration_from_proto fl m = Inr c \<Longrightarrow> pp_built fl (pairing_parameters c)"
  by (auto simp: prover_configuration_from_proto_def pairing_parameters_from_proto_def bindR_eq_Inr intro: init_built)

text \<open>
  Once a client that caches in a file got the configuration from the service, it answers from memory,
  and a new client on the same file answers from the file, with the same configuration and
  without asking the service again, whatever the service would say.
\<close>

theorem configuration_cached:
  assumes "prover_config (fst st) = None" "prover_config_file (fst st) = Some f" "snd st f = None"
    and "get_configuration fl srv st = (st', Inr c)"
  shows "get_configuration fl srv' st' = (st', Inr c)
    \<and> snd (get_configuration fl srv' (prover_client_init (Some f), snd st')) = Inr c"
proof -
  have c: "bindR (srv_GetConfiguration srv) (prover_configuration_from_proto fl) = Inr c"
    and st': "st' = ((fst st)\<lparr>prover_config := Some c\<rparr>, (snd st)(f \<mapsto> Inr (prover_config_to_json_dict c)))"
    using assms by (auto simp: get_configuration_def fetch_configuration_def Let_def split: sum.splits)
  have "pp_built fl (pairing_parameters c)"
    using c from_proto_built by (auto simp: bindR_eq_Inr)
  then show ?thesis
    by (simp add: st' get_configuration_def prover_client_init_def prover_config_json)
qed

definition example_server :: prover_server where
  "example_server = \<lparr>srv_GetConfiguration = Inr \<lparr>pcm_zksnark = ''GROTH16'', pcm_pairing_parameters =
       \<lparr>pproto_name = ''alt-bn128'', pproto_r = ''0x0d'', pproto_q = ''0x11'',
        pproto_g1 = \<lparr>proto_x = JStr ''0x01'', proto_y = JStr ''0x02''\<rparr>,
        pproto_g2 = \<lparr>proto_x = JStr ''0x01'', proto_y = JStr ''0x02''\<rparr>\<rparr>\<rparr>,
     srv_GetVerificationKey = Inl ValueError, srv_Prove = (\<lambda>_. Inl ValueError)\<rparr>"

definition example_config :: ProverConfiguration where
  "example_config = \<lparr>zksnark_name = ''GROTH16'', pairing_parameters =
     \<lparr>pp_name = ''alt-bn128'', pp_r = ''0x0d'', pp_q = ''0x11'',
      generator_g1 = \<lparr>g1_x_coord = ''0x01'', g1_y_coord = ''0x02''\<rparr>,
      generator_g2 = \<lparr>g2_x_coord = CStr ''0x01'', g2_y_coord = CStr ''0x02''\<rparr>, scalar_field_capacity = 3\<rparr>\<rparr>"

lemma example_fetch:
  "get_configuration (\<lambda>n. 3) example_server (prover_client_init (Some ''f''), Map.empty) =
    ((\<lparr>prover_config_file = Some ''f'', prover_config = Some example_config\<rparr>,
      [''f'' \<mapsto> Inr (prover_config_to_json_dict example_config)]), Inr example_config)"
proof -
  have "py_int_str ''0x0d'' 16 = Inr 13" by code_simp
  then show ?thesis
    by (simp add: get_configuration_def fetch_configuration_def prover_client_init_def example_server_def
        prover_configuration_from_proto_def pairing_parameters_from_proto_def pairing_parameters_init_def
        g1_point_from_proto_def g2_point_from_proto_def assert_str_def example_config_def Let_def)
qed

theorem configuration_cached_witness:
  "let st' = (\<lparr>prover_config_file = Some ''f'', prover_config = Some example_config\<rparr>,
              [''f'' \<mapsto> Inr (prover_config_to_json_dict example_config)])
   in get_configuration (\<lambda>n. 3) (example_server\<lparr>srv_GetConfiguration := Inl ValueError\<rparr>) st' = (st', Inr example_config)
    \<and> snd (get_configuration (\<lambda>n. 3) (example_server\<lparr>srv_GetConfiguration := Inl ValueError\<rparr>)
         (prover_client_init (Some ''f''), snd st')) = Inr example_config"
  unfolding Let_def
  by (rule configuration_cached [OF _ _ _ example_fetch]) (simp_all add: prover_client_init_def)

end
