(* ===== verification/Contracts.thy ===== *)
theory Contracts
  imports Utils Py_Json
begin

text \<open>
  \<open>client/zeth/core/contracts.py\<close>: descriptions of deployed contracts, the transactions that call
  them and the batched query for their events. The node and the Solidity compiler, reached
  through \<open>web3\<close> and \<open>solcx\<close>, are arguments. The event iterator is a list; its loop is a partial
  function, since nothing bounds the batch size from below.
\<close>

section \<open>Transactions\<close>

text \<open>The dictionary \<open>tx_desc\<close>; a key that was not set is \<open>None\<close>.\<close>

record tx_desc =
  tx_from :: string
  tx_value :: "int option"
  tx_gas :: "int option"
  tx_gasPrice :: "int option"
  tx_nonce :: "int option"

text \<open>The arguments that the client passes to contract methods.\<close>

datatype abi_value = AbiInt int | AbiAddress string | AbiInts "int list" | AbiBytes "bytes list"

record ('call, 'tx) web3_lib =
  w3_gasPrice :: int
  w3_getTransactionCount :: "string \<Rightarrow> int"
  w3_buildTransaction :: "'call \<Rightarrow> tx_desc \<Rightarrow> 'tx res"
  w3_signTransaction :: "'tx \<Rightarrow> bytes \<Rightarrow> bytes res"
  w3_sendRawTransaction :: "bytes \<Rightarrow> bytes res"
  w3_transact :: "'call \<Rightarrow> tx_desc \<Rightarrow> bytes res"
  w3_call :: "'call \<Rightarrow> tx_desc \<Rightarrow> unit res"
  w3_constructor :: "json \<Rightarrow> json \<Rightarrow> abi_value list \<Rightarrow> 'call res"
  w3_contractAddress :: "bytes \<Rightarrow> string res"

definition value_and_gas :: "string \<Rightarrow> EtherValue option \<Rightarrow> int option \<Rightarrow> tx_desc" where
  "value_and_gas sender value gas =
     \<lparr>tx_from = sender,
      tx_value = (case value of Some v \<Rightarrow> if ether_bool v then Some (wei v) else None | None \<Rightarrow> None),
      tx_gas = (case gas of Some g \<Rightarrow> if g \<noteq> 0 then Some g else None | None \<Rightarrow> None),
      tx_gasPrice = None, tx_nonce = None\<rparr>"

definition send_contract_call ::
  "('call, 'tx) web3_lib \<Rightarrow> 'call \<Rightarrow> string \<Rightarrow> bytes option \<Rightarrow> EtherValue option \<Rightarrow> int option \<Rightarrow> bytes res" where
  "send_contract_call web3 call sender_eth_addr sender_eth_private_key value gas =
     (let desc = value_and_gas sender_eth_addr value gas
      in case sender_eth_private_key of
           Some key \<Rightarrow>
             if key \<noteq> [] then
               bindR (w3_buildTransaction web3 call
                        (desc\<lparr>tx_gasPrice := Some (w3_gasPrice web3),
                              tx_nonce := Some (w3_getTransactionCount web3 sender_eth_addr)\<rparr>)) (\<lambda>transaction.
               bindR (w3_signTransaction web3 transaction key) (\<lambda>raw. w3_sendRawTransaction web3 raw))
             else w3_transact web3 call desc
         | None \<Rightarrow> w3_transact web3 call desc)"

definition local_contract_call ::
  "('call, 'tx) web3_lib \<Rightarrow> 'call \<Rightarrow> string \<Rightarrow> EtherValue option \<Rightarrow> int option \<Rightarrow> unit res" where
  "local_contract_call web3 call sender_eth_addr value gas =
     w3_call web3 call (value_and_gas sender_eth_addr value gas)"

section \<open>Instances\<close>

record InstanceDescription =
  inst_address :: string
  inst_abi :: json

definition instance_to_json_dict :: "InstanceDescription \<Rightarrow> json" where
  "instance_to_json_dict d = JObj [(''address'', JStr (inst_address d)), (''abi'', inst_abi d)]"

definition instance_from_json_dict :: "json \<Rightarrow> InstanceDescription res" where
  "instance_from_json_dict desc_json =
     bindR (jget_str desc_json ''address'') (\<lambda>a.
     bindR (jget desc_json ''abi'') (\<lambda>abi. Inr \<lparr>inst_address = a, inst_abi = abi\<rparr>))"

text \<open>Python's truth value of a JSON value, for \<open>assert compiled\<close>.\<close>

fun j_truth :: "json \<Rightarrow> bool" where
  "j_truth JNull = False"
| "j_truth (JBool b) = b"
| "j_truth (JInt i) = (i \<noteq> 0)"
| "j_truth (JStr s) = (s \<noteq> [])"
| "j_truth (JList xs) = (xs \<noteq> [])"
| "j_truth (JObj kvs) = (kvs \<noteq> [])"

definition instance_compile :: "(string list \<Rightarrow> json res) \<Rightarrow> string \<Rightarrow> string \<Rightarrow> json res" where
  "instance_compile compile_files source_file contract_name =
     bindR (compile_files [source_file]) (\<lambda>compiled_all.
       assertR (j_truth compiled_all)
         (bindR (jget compiled_all (source_file @ '':'' @ contract_name)) (\<lambda>compiled.
            assertR (j_truth compiled) (Inr compiled))))"

definition deploy_from_compiled ::
  "('call, 'tx) web3_lib \<Rightarrow> string \<Rightarrow> bytes option \<Rightarrow> int option \<Rightarrow> json \<Rightarrow> abi_value list \<Rightarrow> InstanceDescription res" where
  "deploy_from_compiled web3 deployer_eth_address deployer_eth_private_key deployment_gas compiled args =
     bindR (jget compiled ''abi'') (\<lambda>abi.
     bindR (jget compiled ''bin'') (\<lambda>code.
     bindR (w3_constructor web3 abi code args) (\<lambda>construct_call.
     bindR (send_contract_call web3 construct_call deployer_eth_address deployer_eth_private_key None deployment_gas) (\<lambda>tx_hash.
     bindR (w3_contractAddress web3 tx_hash) (\<lambda>contract_address.
       Inr \<lparr>inst_address = contract_address, inst_abi = abi\<rparr>)))))"

definition instance_deploy ::
  "('call, 'tx) web3_lib \<Rightarrow> (string list \<Rightarrow> json res) \<Rightarrow> string \<Rightarrow> string \<Rightarrow> string \<Rightarrow> bytes option \<Rightarrow> int option \<Rightarrow>
   abi_value list \<Rightarrow> InstanceDescription res" where
  "instance_deploy web3 compile_files source_file contract_name deployer_eth_address deployer_eth_private_key deployment_gas args =
     bindR (instance_compile compile_files source_file contract_name) (\<lambda>compiled.
       assertR (j_truth compiled)
         (deploy_from_compiled web3 deployer_eth_address deployer_eth_private_key deployment_gas compiled args))"

section \<open>Event logs\<close>

definition SYNC_BLOCKS_PER_BATCH :: int where "SYNC_BLOCKS_PER_BATCH = 1000"

record 'd event_log =
  log_address :: string
  log_topics :: "bytes list"
  log_data :: 'd

text \<open>The events of one batch: logs of the wanted topic, decoded.\<close>

fun batch_events :: "bytes \<Rightarrow> ('d event_log \<Rightarrow> 'e res) \<Rightarrow> 'd event_log list \<Rightarrow> 'e gen" where
  "batch_events log_topic processLog [] = gen_done"
| "batch_events log_topic processLog (log # logs) =
     (case py_index (log_topics log) 0 of
        Inl err \<Rightarrow> gen_raise err
      | Inr topic \<Rightarrow>
          if log_topic = topic then
            (case processLog log of
               Inl err \<Rightarrow> gen_raise err
             | Inr e \<Rightarrow> gen_then (gen_yield e) (batch_events log_topic processLog logs))
          else batch_events log_topic processLog logs)"

text \<open>The address of the contract is an argument of the query, fixed in \<open>getLogs\<close>.\<close>

partial_function (option) event_logs_loop ::
  "(int \<Rightarrow> int \<Rightarrow> 'd event_log list) \<Rightarrow> bytes \<Rightarrow> ('d event_log \<Rightarrow> 'e res) \<Rightarrow> int \<Rightarrow> int \<Rightarrow> int \<Rightarrow> 'e gen option" where
  "event_logs_loop getLogs log_topic processLog batch_size end_block start_block =
     (if start_block \<le> end_block then
        (case batch_events log_topic processLog
                (getLogs start_block (min (start_block + batch_size - 1) end_block)) of
           (es, Some err) \<Rightarrow> Some (es, Some err)
         | (es, None) \<Rightarrow>
             Option.bind (event_logs_loop getLogs log_topic processLog batch_size end_block
                            (min (start_block + batch_size - 1) end_block + 1))
               (\<lambda>rest. Some (gen_then (es, None) rest)))
      else Some gen_done)"

definition get_event_logs ::
  "(int \<Rightarrow> int \<Rightarrow> string \<Rightarrow> 'd event_log list) \<Rightarrow> string \<Rightarrow> bytes \<Rightarrow> ('d event_log \<Rightarrow> 'e res) \<Rightarrow>
   int \<Rightarrow> int \<Rightarrow> int option \<Rightarrow> 'e gen option" where
  "get_event_logs getLogs contract_address log_topic processLog start_block end_block batch_size =
     event_logs_loop (\<lambda>a b. getLogs a b contract_address) log_topic processLog
       (case batch_size of Some b \<Rightarrow> if b \<noteq> 0 then b else SYNC_BLOCKS_PER_BATCH | None \<Rightarrow> SYNC_BLOCKS_PER_BATCH)
       end_block start_block"

fun receipt_events :: "string \<Rightarrow> bytes \<Rightarrow> ('d event_log \<Rightarrow> 'e res) \<Rightarrow> 'd event_log list \<Rightarrow> 'e gen" where
  "receipt_events contract_address log_topic processLog [] = gen_done"
| "receipt_events contract_address log_topic processLog (log # logs) =
     (if log_address log = contract_address then
        (case py_index (log_topics log) 0 of
           Inl err \<Rightarrow> gen_raise err
         | Inr topic \<Rightarrow>
             if log_topic = topic then
               (case processLog log of
                  Inl err \<Rightarrow> gen_raise err
                | Inr e \<Rightarrow> gen_then (gen_yield e) (receipt_events contract_address log_topic processLog logs))
             else receipt_events contract_address log_topic processLog logs)
      else receipt_events contract_address log_topic processLog logs)"

section \<open>Lemmas\<close>

text \<open>
  The node's contract for \<open>eth_getLogs\<close>: the logs of the address in the blocks from the first to
  the last one inclusive, in order of the blocks.
\<close>

definition getLogs_law :: "(int \<Rightarrow> int \<Rightarrow> string \<Rightarrow> 'd event_log list) \<Rightarrow> (int \<Rightarrow> 'd event_log list) \<Rightarrow> bool" where
  "getLogs_law getLogs blocks \<longleftrightarrow>
     (\<forall>a b addr. getLogs a b addr = concat (map (\<lambda>n. filter (\<lambda>l. log_address l = addr) (blocks n)) [a..b]))"

lemma batch_events_append:
  "batch_events topic proc (xs @ ys) = gen_then (batch_events topic proc xs) (batch_events topic proc ys)"
  by (induction xs) (auto simp: gen_then_assoc split: sum.splits)

lemma batch_events_filter:
  "batch_events topic proc (filter (\<lambda>l. log_address l = addr) logs) = receipt_events addr topic proc logs"
  by (induction logs) (auto split: sum.splits)

lemma getLogs_split:
  assumes "getLogs_law G blocks" "a \<le> m" "m \<le> c"
  shows "G a c addr = G a m addr @ G (m + 1) c addr"
  using assms upto_split2 [of a m c] by (simp add: getLogs_law_def)

lemma getLogs_all:
  assumes "getLogs_law G blocks"
  shows "G a c addr = filter (\<lambda>l. log_address l = addr) (concat (map blocks [a..c]))"
  using assms by (simp add: getLogs_law_def filter_concat comp_def)

lemma event_logs_loop_positive:
  assumes "getLogs_law G blocks" "0 < b"
  shows "event_logs_loop (\<lambda>x y. G x y addr) topic proc b e s = Some (batch_events topic proc (G s e addr))"
proof (induction "nat (e - s + 1)" arbitrary: s rule: less_induct)
  case less
  show ?case
  proof (cases "s \<le> e")
    case False
    then have "G s e addr = []"
      using assms(1) by (simp add: getLogs_law_def)
    with False show ?thesis
      by (simp add: event_logs_loop.simps)
  next
    case True
    let ?m = "min (s + b - 1) e"
    have m: "s \<le> ?m" "?m \<le> e" "nat (e - (?m + 1) + 1) < nat (e - s + 1)"
      using True assms(2) by auto
    have "event_logs_loop (\<lambda>x y. G x y addr) topic proc b e (?m + 1) =
        Some (batch_events topic proc (G (?m + 1) e addr))"
      using m(3) by (rule less)
    with True show ?thesis
      unfolding getLogs_split [OF assms(1) m(1,2)] batch_events_append
      by (subst event_logs_loop.simps)
        (cases "batch_events topic proc (G s ?m addr)"; cases "snd (batch_events topic proc (G s ?m addr))";
          simp add: gen_then_def)
  qed
qed

lemma event_logs_loop_negative:
  "event_logs_loop g topic proc b e s = Some r \<Longrightarrow>
    (\<forall>x y. y < x \<longrightarrow> g x y = []) \<longrightarrow> \<not> (b < 0 \<and> s \<le> e)"
proof (erule event_logs_loop.raw_induct [rotated])
  fix loop :: "(int \<Rightarrow> int \<Rightarrow> 'd event_log list) \<Rightarrow> bytes \<Rightarrow> ('d event_log \<Rightarrow> 'e res) \<Rightarrow> int \<Rightarrow> int \<Rightarrow> int \<Rightarrow> 'e gen option"
    and g topic proc b e s r
  assume IH: "\<And>g topic proc b e s r. loop g topic proc b e s = Some r \<Longrightarrow>
      (\<forall>x y. y < x \<longrightarrow> g x y = []) \<longrightarrow> \<not> (b < 0 \<and> s \<le> e)"
    and eq: "(if s \<le> e then
        (case batch_events topic proc (g s (min (s + b - 1) e)) of
           (es, Some err) \<Rightarrow> Some (es, Some err)
         | (es, None) \<Rightarrow>
             Option.bind (loop g topic proc b e (min (s + b - 1) e + 1)) (\<lambda>rest. Some (gen_then (es, None) rest)))
      else Some gen_done) = Some r"
  show "(\<forall>x y. y < x \<longrightarrow> g x y = []) \<longrightarrow> \<not> (b < 0 \<and> s \<le> e)"
  proof (intro impI notI)
    assume g: "\<forall>x y. y < x \<longrightarrow> g x y = []" and neg: "b < 0 \<and> s \<le> e"
    then have m: "min (s + b - 1) e = s + b - 1" and "g s (s + b - 1) = []" by simp_all
    then have "batch_events topic proc (g s (min (s + b - 1) e)) = ([], None)"
      by (simp add: gen_done_def)
    with eq neg have "Option.bind (loop g topic proc b e (s + b)) (\<lambda>rest. Some (gen_then ([], None) rest)) = Some r"
      unfolding m by simp
    then obtain r' where "loop g topic proc b e (s + b) = Some r'"
      by (auto simp: Option.bind_eq_Some_conv)
    from IH [OF this] g have "\<not> (b < 0 \<and> s + b \<le> e)" by blast
    then show False
      using neg by simp
  qed
qed

section \<open>Properties\<close>

text \<open>
  C20. Whatever the batch size (none, zero or any positive number), the batched event query ends, and
  its outcome is that of one pass over all logs of the blocks from the first to the last one
  inclusive: the same events, each once and in order, and the same error at the end, if any.
\<close>

theorem event_logs_batching:
  assumes "getLogs_law getLogs blocks" "\<forall>b. batch_size = Some b \<longrightarrow> 0 \<le> b"
  shows "get_event_logs getLogs addr topic processLog start_block end_block batch_size =
    Some (receipt_events addr topic processLog (concat (map blocks [start_block..end_block])))"
proof -
  let ?b = "case batch_size of Some b \<Rightarrow> if b \<noteq> 0 then b else SYNC_BLOCKS_PER_BATCH | None \<Rightarrow> SYNC_BLOCKS_PER_BATCH"
  have "0 < ?b"
    using assms(2) by (cases batch_size) (auto simp: SYNC_BLOCKS_PER_BATCH_def)
  from event_logs_loop_positive [OF assms(1) this] show ?thesis
    by (simp only: get_event_logs_def getLogs_all [OF assms(1)] batch_events_filter)
qed

definition example_blocks :: "int \<Rightarrow> int event_log list" where
  "example_blocks n = [\<lparr>log_address = (if even n then ''0xa'' else ''0xb''), log_topics = [[1]], log_data = n\<rparr>]"

definition example_getLogs :: "int \<Rightarrow> int \<Rightarrow> string \<Rightarrow> int event_log list" where
  "example_getLogs a b addr = concat (map (\<lambda>n. filter (\<lambda>l. log_address l = addr) (example_blocks n)) [a..b])"

theorem event_logs_batching_witness:
  "get_event_logs example_getLogs ''0xa'' [1] (\<lambda>l. Inr (log_data l)) 1 6 (Some 2) =
     Some (receipt_events ''0xa'' [1] (\<lambda>l. Inr (log_data l)) (concat (map example_blocks [1..6])))
   \<and> receipt_events ''0xa'' [1] (\<lambda>l. Inr (log_data l)) (concat (map example_blocks [1..6])) = ([2, 4, 6], None)"
proof
  show "get_event_logs example_getLogs ''0xa'' [1] (\<lambda>l. Inr (log_data l)) 1 6 (Some 2) =
     Some (receipt_events ''0xa'' [1] (\<lambda>l. Inr (log_data l)) (concat (map example_blocks [1..6])))"
    by (rule event_logs_batching) (simp_all add: getLogs_law_def example_getLogs_def)
  show "receipt_events ''0xa'' [1] (\<lambda>l. Inr (log_data l)) (concat (map example_blocks [1..6])) = ([2, 4, 6], None)"
    by code_simp
qed



end
