(* ===== verification/Mixer_Client.thy ===== *)
theory Mixer_Client
  imports Encryption Signing Prover_Client Contracts
begin

text \<open>
  \<open>client/zeth/core/mixer_client.py\<close>: from a description of a mix call to the prover inputs, the
  signed parameters of the call and the transaction, and from the emitted events back to
  notes. The cryptographic packages are gathered in one record, the random values that a call
  draws in another, so that every operation is a function of what it reads.
\<close>

record ('sk, 'pk) crypto =
  c_blake2s :: digest_fn
  c_sha256 :: digest_fn
  c_encode_single :: "string \<Rightarrow> bytes \<Rightarrow> bytes res"
  c_toWei :: to_wei
  c_enc :: "('sk, 'pk) enc_lib"
  c_ec :: ec_lib

text \<open>
  The values drawn: rho and trapdoor of the dummy notes, the secret key of the dummy receiver,
  the scalars of the signing key, phi, and for each output its trapdoor and ephemeral key.
\<close>

record 'sk mix_random =
  r_dummy_rho :: "nat \<Rightarrow> bytes"
  r_dummy_trap :: "nat \<Rightarrow> bytes"
  r_dummy_sk :: 'sk
  r_urandom_x :: "nat \<Rightarrow> bytes"
  r_urandom_y :: "nat \<Rightarrow> bytes"
  r_phi :: bytes
  r_trap :: "nat \<Rightarrow> bytes"
  r_eph :: "nat \<Rightarrow> 'sk"

definition ZERO_UNITS_HEX :: string where "ZERO_UNITS_HEX = ''0000000000000000''"
definition ZERO_ADDRESS :: string where "ZERO_ADDRESS = ''0x0000000000000000000000000000000000000000''"

section \<open>Describing the call\<close>

definition get_dummy_input_and_address :: "bytes \<Rightarrow> bytes \<Rightarrow> bytes \<Rightarrow> (int \<times> ZethNote) res" where
  "get_dummy_input_and_address own_pk dummy_rho dummy_trap =
     bindR (ownership_key_as_hex own_pk) (\<lambda>a.
       Inr (0, \<lparr>apk = a, note_value = ZERO_UNITS_HEX, rho = bytes_hex dummy_rho, trap_r = bytes_hex dummy_trap\<rparr>))"

type_synonym h_sig_fn = "bytes list \<Rightarrow> SigningVerificationKey \<Rightarrow> bytes res"

record 'pk MixCallDescription =
  mc_mk_tree :: MerkleTree
  mc_sender :: OwnershipKeyPair
  mc_v_in :: EtherValue
  mc_v_out :: EtherValue
  mc_compute_h_sig_cb :: "h_sig_fn option"
  mc_inputs :: "(int \<times> ZethNote) list"
  mc_outputs :: "('pk ZethAddressPub \<times> EtherValue) list"

definition mix_call_description ::
  "('sk, 'pk) crypto \<Rightarrow> 'sk mix_random \<Rightarrow> MerkleTree \<Rightarrow> OwnershipKeyPair \<Rightarrow> (int \<times> ZethNote) list \<Rightarrow>
   ('pk ZethAddressPub \<times> EtherValue) list \<Rightarrow> EtherValue \<Rightarrow> EtherValue \<Rightarrow> h_sig_fn option \<Rightarrow> 'pk MixCallDescription res" where
  "mix_call_description C R mk_tree sender inputs outputs v_in v_out cb =
     assertR (length inputs \<le> JS_INPUTS) (assertR (length outputs \<le> JS_OUTPUTS)
       (bindR (mapR (\<lambda>i. get_dummy_input_and_address (a_pk sender) (r_dummy_rho R i) (r_dummy_trap R i))
                 [0 ..< JS_INPUTS - length inputs]) (\<lambda>dummy_inputs.
        bindR (if length outputs < JS_OUTPUTS then
                 let dummy_k_pk = k_pk (generate_encryption_keypair (c_enc C) (r_dummy_sk R));
                     dummy_addr_pk = \<lparr>pub_a_pk = a_pk sender, pub_k_pk = dummy_k_pk\<rparr>
                 in bindR (mapR (\<lambda>_. ether_value (c_toWei C) (NumInt 0) ''ether'') [0 ..< JS_OUTPUTS - length outputs])
                      (\<lambda>zeros. Inr (outputs @ map (\<lambda>z. (dummy_addr_pk, z)) zeros))
               else Inr outputs) (\<lambda>all_outputs.
          Inr \<lparr>mc_mk_tree = mk_tree, mc_sender = sender, mc_v_in = v_in, mc_v_out = v_out,
               mc_compute_h_sig_cb = cb, mc_inputs = inputs @ dummy_inputs, mc_outputs = all_outputs\<rparr>))))"

section \<open>Hashes\<close>

definition compute_commitment :: "digest_fn \<Rightarrow> ZethNote \<Rightarrow> PairingParameters \<Rightarrow> bytes res" where
  "compute_commitment blake2s note pp =
     bindR (bytes_fromhex (trap_r note)) (\<lambda>t.
     bindR (bytes_fromhex (apk note)) (\<lambda>a.
     bindR (bytes_fromhex (rho note)) (\<lambda>r.
     bindR (bytes_fromhex (note_value note)) (\<lambda>v.
     bindR (scalar_field_mod pp) (\<lambda>m.
       if m = 0 then Inl ZeroDivisionError
       else int_to_bytes (int_from_bytes (digest_bytes (blake2s (t @ a @ r @ v))) mod m) 32)))))"

definition compute_nullifier :: "digest_fn \<Rightarrow> ZethNote \<Rightarrow> bytes \<Rightarrow> bytes res" where
  "compute_nullifier blake2s note spending_authority_ask =
     (let binary_ask = digest_to_binary_string spending_authority_ask;
          left_leg_bin = ''1110'' @ take 252 binary_ask
      in bindR (py_int_str left_leg_bin 2) (\<lambda>v.
         bindR (int_to_bytes v 32) (\<lambda>left_leg.
         bindR (bytes_fromhex (rho note)) (\<lambda>rho_bytes.
           Inr (digest_bytes (blake2s (left_leg @ rho_bytes)))))))"

definition compute_h_sig :: "digest_fn \<Rightarrow> h_sig_fn" where
  "compute_h_sig sha256 nullifiers sign_vk =
     bindR (vk_to_bytes sign_vk) (\<lambda>vkb. Inr (digest_bytes (sha256 (concat nullifiers @ vkb))))"

text \<open>
  \<open>math.ceil(math.log(JS_OUTPUTS, 2))\<close> for \<open>JS_OUTPUTS = 2\<close>, where the logarithm is exact: the bit
  length of the largest index.
\<close>

definition index_bits :: nat where
  "index_bits = bit_length (JS_OUTPUTS - 1)"

definition compute_rho_i :: "digest_fn \<Rightarrow> bytes \<Rightarrow> bytes \<Rightarrow> nat \<Rightarrow> bytes res" where
  "compute_rho_i blake2s phi hsig i =
     assertR (i < JS_OUTPUTS)
       (let index_bin = num_str 2 (int i);
            index_bin' = replicate (index_bits - length index_bin) CHR ''0'' @ index_bin
        in assertR (length index_bin' = index_bits)
             (let phi_truncated_bits = 256 - 1 - index_bits - 2;
                  phi_truncated_bin = take phi_truncated_bits (digest_to_binary_string phi)
              in assertR (length phi_truncated_bin = phi_truncated_bits)
                   (let left_leg_bin = ''0'' @ index_bin' @ ''10'' @ phi_truncated_bin
                    in assertR (length left_leg_bin = 256)
                         (bindR (py_int_str left_leg_bin 2) (\<lambda>v.
                          bindR (int_to_bytes v 32) (\<lambda>left_leg.
                            Inr (digest_bytes (blake2s (left_leg @ hsig)))))))))"

section \<open>Notes\<close>

definition create_api_zeth_note ::
  "digest_fn \<Rightarrow> bytes \<Rightarrow> bytes \<Rightarrow> nat \<Rightarrow> bytes \<Rightarrow> bytes \<Rightarrow> int \<Rightarrow> ZethNote res" where
  "create_api_zeth_note blake2s phi hsig out_index trap recipient value =
     bindR (compute_rho_i blake2s phi hsig out_index) (\<lambda>r.
     bindR (ownership_key_as_hex recipient) (\<lambda>a.
     bindR (int64_to_hex value) (\<lambda>v.
       Inr \<lparr>apk = a, note_value = v, rho = bytes_hex r, trap_r = bytes_hex trap\<rparr>)))"

definition create_api_zeth_notes ::
  "digest_fn \<Rightarrow> (nat \<Rightarrow> bytes) \<Rightarrow> bytes \<Rightarrow> bytes \<Rightarrow> (bytes \<times> int) list \<Rightarrow> ZethNote list res" where
  "create_api_zeth_notes blake2s traps phi hsig outputs =
     mapR (\<lambda>(idx, recipient, value). create_api_zeth_note blake2s phi hsig idx (traps idx) recipient value)
       (zip [0 ..< length outputs] outputs)"

definition encrypt_notes :: "('sk, 'pk) enc_lib \<Rightarrow> (nat \<Rightarrow> 'sk) \<Rightarrow> (ZethNote \<times> 'pk) list \<Rightarrow> bytes list res" where
  "encrypt_notes L eph notes =
     mapR (\<lambda>(i, note, pk). bindR (zeth_note_to_bytes note) (\<lambda>bs. encrypt L (eph i) bs pk))
       (zip [0 ..< length notes] notes)"

record MixOutputEvents =
  oe_commitment :: bytes
  oe_ciphertext :: bytes

record MixResult =
  new_merkle_root :: bytes
  mr_nullifiers :: "bytes list"
  output_events :: "MixOutputEvents list"

record event_args =
  ea_root :: bytes
  ea_nullifiers :: "bytes list"
  ea_commitments :: "bytes list"
  ea_ciphertexts :: "bytes list"

definition event_args_to_mix_result :: "event_args \<Rightarrow> MixResult" where
  "event_args_to_mix_result ea =
     \<lparr>new_merkle_root = ea_root ea, mr_nullifiers = ea_nullifiers ea,
      output_events = map (\<lambda>(c, ciph). \<lparr>oe_commitment = c, oe_ciphertext = ciph\<rparr>)
                        (zip (ea_commitments ea) (ea_ciphertexts ea))\<rparr>"

text \<open>Only \<open>InvalidSignature\<close> and \<open>ValueError\<close> are caught.\<close>

definition receive_note :: "('sk, 'pk) enc_lib \<Rightarrow> MixOutputEvents \<Rightarrow> 'sk \<Rightarrow> (bytes \<times> ZethNote) option res" where
  "receive_note L out_ev receiver_k_sk =
     (case bindR (decrypt L (oe_ciphertext out_ev) receiver_k_sk) (\<lambda>plaintext.
           bindR (zeth_note_from_bytes plaintext) (\<lambda>note. Inr (oe_commitment out_ev, note))) of
        Inr r \<Rightarrow> Inr (Some r)
      | Inl e \<Rightarrow> if e = InvalidSignature \<or> e = ValueError then Inr None else Inl e)"

definition get_mix_results ::
  "(int \<Rightarrow> int \<Rightarrow> string \<Rightarrow> 'd event_log list) \<Rightarrow> string \<Rightarrow> bytes \<Rightarrow> ('d event_log \<Rightarrow> event_args res) \<Rightarrow>
   int \<Rightarrow> int \<Rightarrow> int option \<Rightarrow> MixResult gen option" where
  "get_mix_results getLogs mixer_address log_topic processLog start_block end_block batch_size =
     map_option (gen_map event_args_to_mix_result)
       (get_event_logs getLogs mixer_address log_topic processLog start_block end_block batch_size)"

section \<open>Parameters of the call\<close>

record MixParameters =
  mp_extended_proof :: ExtendedProof
  mp_public_data :: "int list"
  mp_signature_vk :: SigningVerificationKey
  mp_signature :: int
  mp_ciphertexts :: "bytes list"

definition mix_parameters_to_json_dict :: "MixParameters \<Rightarrow> json res" where
  "mix_parameters_to_json_dict mp =
     bindR (verification_key_as_mix_parameter (mp_signature_vk mp)) (\<lambda>vk.
       Inr (JObj [(''extended_proof'', extended_proof_to_json_dict (mp_extended_proof mp)),
                  (''public_data'', JList (map (\<lambda>x. JStr (py_hex x)) (mp_public_data mp))),
                  (''signature_vk'', JList (map (\<lambda>x. JStr (str_int x)) vk)),
                  (''signature'', JStr (str_int (signature_as_mix_parameter (mp_signature mp)))),
                  (''ciphertexts'', JList (map (\<lambda>x. JStr (bytes_hex x)) (mp_ciphertexts mp)))]))"

definition mix_parameters_from_json_dict :: "ec_lib \<Rightarrow> IZKSnarkProvider \<Rightarrow> json \<Rightarrow> MixParameters res" where
  "mix_parameters_from_json_dict E zksnark json_dict =
     bindR (bindR (jget json_dict ''extended_proof'') (extended_proof_from_json_dict zksnark)) (\<lambda>ext_proof.
     bindR (bindR (bindR (jget json_dict ''public_data'') j_strs) (mapR (\<lambda>x. py_int_str x 16))) (\<lambda>public_data.
     bindR (bindR (bindR (jget json_dict ''signature_vk'') j_strs) (mapR (\<lambda>x. py_int_str x 10))) (\<lambda>pk_param.
     bindR (verification_key_from_mix_parameter E pk_param) (\<lambda>signature_pk.
     bindR (bindR (jget_str json_dict ''signature'') (\<lambda>x. py_int_str x 10)) (\<lambda>sig.
     bindR (bindR (bindR (jget json_dict ''ciphertexts'') j_strs) (mapR bytes_fromhex)) (\<lambda>ciphertexts.
       Inr \<lparr>mp_extended_proof = ext_proof, mp_public_data = public_data, mp_signature_vk = signature_pk,
            mp_signature = signature_from_mix_parameter sig, mp_ciphertexts = ciphertexts\<rparr>))))))"

definition mix_parameters_to_contract_arguments :: "IZKSnarkProvider \<Rightarrow> MixParameters \<Rightarrow> abi_value list res" where
  "mix_parameters_to_contract_arguments zksnark mp =
     bindR (proof_to_contract_parameters zksnark (ep_proof (mp_extended_proof mp))) (\<lambda>proof_contract_params.
     bindR (verification_key_as_mix_parameter (mp_signature_vk mp)) (\<lambda>vk.
       Inr [AbiInts proof_contract_params, AbiInts vk,
            AbiInt (signature_as_mix_parameter (mp_signature mp)),
            AbiInts (mp_public_data mp), AbiBytes (mp_ciphertexts mp)]))"

definition mix_parameters_to_dispatch_parameters ::
  "(string list \<Rightarrow> abi_value list \<Rightarrow> bytes res) \<Rightarrow> MixParameters \<Rightarrow> bytes res" where
  "mix_parameters_to_dispatch_parameters encode_abi mp =
     bindR (verification_key_as_mix_parameter (mp_signature_vk mp)) (\<lambda>vk_param.
       encode_abi [''uint256[4]'', ''uint256'', ''uint256[]'', ''bytes[]'']
         [AbiInts vk_param, AbiInt (signature_as_mix_parameter (mp_signature mp)),
          AbiInts (mp_public_data mp), AbiBytes (mp_ciphertexts mp)])"

definition proof_and_inputs_to_bytes ::
  "('sk, 'pk) crypto \<Rightarrow> IZKSnarkProvider \<Rightarrow> ExtendedProof \<Rightarrow> int list \<Rightarrow> (bytes \<times> bytes) res" where
  "proof_and_inputs_to_bytes C snark extproof public_data =
     bindR (proof_to_contract_parameters snark (ep_proof extproof)) (\<lambda>params.
     bindR (message_to_bytes (c_encode_single C) (map (\<lambda>i. Leaf (MInt i)) params)) (\<lambda>proof_bytes.
     bindR (message_to_bytes (c_encode_single C) (map (\<lambda>i. Leaf (MInt i)) public_data)) (\<lambda>input_bytes.
       Inr (proof_bytes, input_bytes))))"

text \<open>The bytes that are hashed and signed.\<close>

definition joinsplit_message ::
  "('sk, 'pk) crypto \<Rightarrow> IZKSnarkProvider \<Rightarrow> string \<Rightarrow> bytes list \<Rightarrow> ExtendedProof \<Rightarrow> int list \<Rightarrow> bool \<Rightarrow> bytes res" where
  "joinsplit_message C zksnark sender_eth_address ciphertexts extproof public_data for_dispatch_call =
     bindR (eth_address_to_bytes32 sender_eth_address) (\<lambda>addr.
     bindR (proof_and_inputs_to_bytes C zksnark extproof public_data) (\<lambda>(proof_bytes, pub_inputs_bytes).
       Inr (addr @ concat ciphertexts @ (if for_dispatch_call then [] else proof_bytes) @ pub_inputs_bytes)))"

definition joinsplit_sign ::
  "('sk, 'pk) crypto \<Rightarrow> IZKSnarkProvider \<Rightarrow> SigningKeyPair \<Rightarrow> string \<Rightarrow> bytes list \<Rightarrow> ExtendedProof \<Rightarrow> int list \<Rightarrow>
   bool \<Rightarrow> int res" where
  "joinsplit_sign C zksnark signing_keypair sender_eth_address ciphertexts extproof public_data for_dispatch_call =
     assertR (length ciphertexts = JS_INPUTS)
       (bindR (joinsplit_message C zksnark sender_eth_address ciphertexts extproof public_data for_dispatch_call) (\<lambda>msg.
          sign (c_ec C) (c_sha256 C) (sk signing_keypair) (digest_bytes (c_sha256 C msg))))"

section \<open>The mixer client\<close>

definition create_api_joinsplit_input :: "string list \<Rightarrow> int \<Rightarrow> ZethNote \<Rightarrow> bytes \<Rightarrow> bytes \<Rightarrow> JoinsplitInput res" where
  "create_api_joinsplit_input merkle_path address note ask nullifier =
     bindR (ownership_key_as_hex ask) (\<lambda>a.
       Inr \<lparr>ji_merkle_path = merkle_path, ji_address = address, ji_note = note,
            ji_spending_ask = a, ji_nullifier = bytes_hex nullifier\<rparr>)"

definition create_api_input :: "digest_fn \<Rightarrow> MerkleTree \<Rightarrow> bytes \<Rightarrow> int \<times> ZethNote \<Rightarrow> JoinsplitInput res" where
  "create_api_input blake2s mk_tree sender_ask inp =
     bindR (compute_merkle_path (fst inp) mk_tree) (\<lambda>mk_path.
     bindR (compute_nullifier blake2s (snd inp) sender_ask) (\<lambda>input_nullifier.
       create_api_joinsplit_input mk_path (fst inp) (snd inp) sender_ask input_nullifier))"

definition create_prover_inputs ::
  "('sk, 'pk) crypto \<Rightarrow> 'sk mix_random \<Rightarrow> 'pk MixCallDescription \<Rightarrow> (ProofInputs \<times> SigningKeyPair) res" where
  "create_prover_inputs C R desc =
     bindR (mapR (create_api_input (c_blake2s C) (mc_mk_tree desc) (a_sk (mc_sender desc))) (mc_inputs desc)) (\<lambda>api_inputs.
     bindR (get_root (mc_mk_tree desc)) (\<lambda>mk_root.
     bindR (mapR (\<lambda>(addr, value). bindR (to_zeth_units value) (\<lambda>u. Inr (pub_a_pk addr, u))) (mc_outputs desc)) (\<lambda>outputs_with_a_pk.
     bindR (to_zeth_units (mc_v_in desc)) (\<lambda>pub_in.
     bindR (to_zeth_units (mc_v_out desc)) (\<lambda>pub_out.
     bindR (gen_signing_keypair (c_ec C) (r_urandom_x R) (r_urandom_y R)) (\<lambda>signing_keypair.
     bindR (mapR (\<lambda>i. bytes_fromhex (ji_nullifier i)) api_inputs) (\<lambda>nullifiers.
     bindR ((case mc_compute_h_sig_cb desc of Some cb \<Rightarrow> cb | None \<Rightarrow> compute_h_sig (c_sha256 C)) nullifiers (vk signing_keypair)) (\<lambda>h_sig.
     bindR (create_api_zeth_notes (c_blake2s C) (r_trap R) (r_phi R) h_sig outputs_with_a_pk) (\<lambda>api_outputs.
     bindR (int64_to_hex pub_in) (\<lambda>pub_in_hex.
     bindR (int64_to_hex pub_out) (\<lambda>pub_out_hex.
       Inr (\<lparr>pi_mk_root = bytes_hex mk_root, pi_js_inputs = api_inputs, pi_js_outputs = api_outputs,
             pi_pub_in_value = pub_in_hex, pi_pub_out_value = pub_out_hex,
             pi_h_sig = bytes_hex h_sig, pi_phi = bytes_hex (r_phi R)\<rparr>, signing_keypair))))))))))))"

definition create_mix_parameters_from_proof ::
  "('sk, 'pk) crypto \<Rightarrow> 'sk mix_random \<Rightarrow> ProverConfiguration \<Rightarrow> 'pk MixCallDescription \<Rightarrow> ProofInputs \<Rightarrow> SigningKeyPair \<Rightarrow>
   ExtendedProof \<Rightarrow> int list \<Rightarrow> string \<Rightarrow> bool \<Rightarrow> MixParameters res" where
  "create_mix_parameters_from_proof C R config desc prover_inputs signing_keypair ext_proof public_data
     sender_eth_address for_dispatch_call =
     (let output_notes_with_k_pk =
        map (\<lambda>((zeth_addr, _), note). (note, pub_k_pk zeth_addr)) (zip (mc_outputs desc) (pi_js_outputs prover_inputs))
      in bindR (encrypt_notes (c_enc C) (r_eph R) output_notes_with_k_pk) (\<lambda>ciphertexts.
         bindR (get_zksnark_provider (zksnark_name config)) (\<lambda>zksnark.
         bindR (joinsplit_sign C zksnark signing_keypair sender_eth_address ciphertexts ext_proof public_data for_dispatch_call) (\<lambda>signature.
           Inr \<lparr>mp_extended_proof = ext_proof, mp_public_data = public_data, mp_signature_vk = vk signing_keypair,
                mp_signature = signature, mp_ciphertexts = ciphertexts\<rparr>))))"

definition create_mix_parameters_and_signing_key ::
  "('sk, 'pk) crypto \<Rightarrow> 'sk mix_random \<Rightarrow> (int \<Rightarrow> int) \<Rightarrow> prover_server \<Rightarrow> ProverConfiguration \<Rightarrow> prover_state \<Rightarrow> MerkleTree \<Rightarrow>
   OwnershipKeyPair \<Rightarrow> string \<Rightarrow> (int \<times> ZethNote) list \<Rightarrow> ('pk ZethAddressPub \<times> EtherValue) list \<Rightarrow> EtherValue \<Rightarrow> EtherValue \<Rightarrow>
   h_sig_fn option \<Rightarrow> bool \<Rightarrow> prover_state \<times> (MixParameters \<times> SigningKeyPair) res" where
  "create_mix_parameters_and_signing_key C R floor_log2 srv config st mk_tree sender sender_eth_address inputs outputs
     v_in v_out cb for_dispatch_call =
     bindS (st, mix_call_description C R mk_tree sender inputs outputs v_in v_out cb) (\<lambda>st desc.
     bindS (st, assertR (length (mc_inputs desc) = JS_INPUTS) (assertR (length (mc_outputs desc) = JS_OUTPUTS)
                  (create_prover_inputs C R desc))) (\<lambda>st (prover_inputs, signing_keypair).
     bindS (st, assertR (length (pi_js_inputs prover_inputs) = JS_INPUTS)
                  (assertR (length (pi_js_outputs prover_inputs) = JS_OUTPUTS) (Inr ()))) (\<lambda>st _.
     bindS (get_proof floor_log2 srv st prover_inputs) (\<lambda>st (ext_proof, public_data).
       (st, bindR (create_mix_parameters_from_proof C R config desc prover_inputs signing_keypair ext_proof
                     public_data sender_eth_address for_dispatch_call) (\<lambda>mp. Inr (mp, signing_keypair)))))))"

text \<open>The call object of \<open>mixer_instance.functions.mix(...)\<close> is built by the argument \<open>functions_mix\<close>.\<close>

definition create_mix_call ::
  "(abi_value list \<Rightarrow> 'call res) \<Rightarrow> ProverConfiguration \<Rightarrow> MixParameters \<Rightarrow> 'call res" where
  "create_mix_call functions_mix config mp =
     bindR (get_zksnark_provider (zksnark_name config)) (\<lambda>zksnark.
     bindR (mix_parameters_to_contract_arguments zksnark mp) functions_mix)"

definition mixer_mix ::
  "('call, 'tx) web3_lib \<Rightarrow> (abi_value list \<Rightarrow> 'call res) \<Rightarrow> ProverConfiguration \<Rightarrow> MixParameters \<Rightarrow> string \<Rightarrow> bytes option \<Rightarrow>
   EtherValue \<Rightarrow> int option \<Rightarrow> string res" where
  "mixer_mix web3 functions_mix config mp sender_eth_address sender_eth_private_key value call_gas =
     bindR (create_mix_call functions_mix config mp) (\<lambda>mixer_call.
     bindR (send_contract_call web3 mixer_call sender_eth_address sender_eth_private_key (Some value) call_gas) (\<lambda>tx_hash.
       Inr (bytes_hex tx_hash)))"

definition mixer_mix_call ::
  "('call, 'tx) web3_lib \<Rightarrow> (abi_value list \<Rightarrow> 'call res) \<Rightarrow> ProverConfiguration \<Rightarrow> MixParameters \<Rightarrow> string \<Rightarrow> EtherValue \<Rightarrow>
   int option \<Rightarrow> bool res" where
  "mixer_mix_call web3 functions_mix config mp sender_eth_address value call_gas =
     bindR (create_mix_call functions_mix config mp) (\<lambda>mixer_call.
       case local_contract_call web3 mixer_call sender_eth_address (Some value) call_gas of
         Inr _ \<Rightarrow> Inr True
       | Inl e \<Rightarrow> if e = ValueError then Inr False else Inl e)"

definition mixer_joinsplit ::
  "('call, 'tx) web3_lib \<Rightarrow> (abi_value list \<Rightarrow> 'call res) \<Rightarrow> ('sk, 'pk) crypto \<Rightarrow> 'sk mix_random \<Rightarrow> (int \<Rightarrow> int) \<Rightarrow> prover_server \<Rightarrow>
   ProverConfiguration \<Rightarrow> prover_state \<Rightarrow> MerkleTree \<Rightarrow> OwnershipKeyPair \<Rightarrow> string \<Rightarrow> bytes option \<Rightarrow> (int \<times> ZethNote) list \<Rightarrow>
   ('pk ZethAddressPub \<times> EtherValue) list \<Rightarrow> EtherValue \<Rightarrow> EtherValue \<Rightarrow> EtherValue option \<Rightarrow> h_sig_fn option \<Rightarrow>
   prover_state \<times> string res" where
  "mixer_joinsplit web3 functions_mix C R floor_log2 srv config st mk_tree sender sender_eth_address sender_eth_private_key
     inputs outputs v_in v_out value cb =
     bindS (create_mix_parameters_and_signing_key C R floor_log2 srv config st mk_tree sender sender_eth_address
              inputs outputs v_in v_out cb False) (\<lambda>st (mix_params, _).
       (st, mixer_mix web3 functions_mix config mix_params sender_eth_address sender_eth_private_key
              (case value of Some v \<Rightarrow> if ether_bool v then v else v_in | None \<Rightarrow> v_in) None))"

definition mixer_deposit ::
  "('call, 'tx) web3_lib \<Rightarrow> (abi_value list \<Rightarrow> 'call res) \<Rightarrow> ('sk, 'pk) crypto \<Rightarrow> 'sk mix_random \<Rightarrow> (int \<Rightarrow> int) \<Rightarrow> prover_server \<Rightarrow>
   ProverConfiguration \<Rightarrow> prover_state \<Rightarrow> MerkleTree \<Rightarrow> ('sk, 'pk) ZethAddress \<Rightarrow> string \<Rightarrow> bytes option \<Rightarrow> EtherValue \<Rightarrow>
   ('pk ZethAddressPub \<times> EtherValue) list option \<Rightarrow> EtherValue option \<Rightarrow> prover_state \<times> string res" where
  "mixer_deposit web3 functions_mix C R floor_log2 srv config st mk_tree zeth_address sender_eth_address
     sender_eth_private_key eth_amount outputs value =
     (let outs = (case outputs of
                    Some os \<Rightarrow> if os = [] then [(addr_pk zeth_address, eth_amount)] else os
                  | None \<Rightarrow> [(addr_pk zeth_address, eth_amount)])
      in bindS (st, ether_value (c_toWei C) (NumInt 0) ''ether'') (\<lambda>st zero.
           mixer_joinsplit web3 functions_mix C R floor_log2 srv config st mk_tree (ownership_keypair zeth_address)
             sender_eth_address sender_eth_private_key [] outs eth_amount zero value None))"

definition mixer_deploy ::
  "('call, 'tx) web3_lib \<Rightarrow> (string list \<Rightarrow> json res) \<Rightarrow> (int \<Rightarrow> int) \<Rightarrow> prover_server \<Rightarrow> prover_state \<Rightarrow> string \<Rightarrow> string \<Rightarrow>
   bytes option \<Rightarrow> string option \<Rightarrow> string option \<Rightarrow> string option \<Rightarrow> int option \<Rightarrow>
   prover_state \<times> (ProverConfiguration \<times> InstanceDescription) res" where
  "mixer_deploy web3 compile_files floor_log2 srv st contracts_dir deployer_eth_address deployer_eth_private_key
     token_address permitted_dispatcher vk_hash deploy_gas =
     (let or_zero = (\<lambda>a. case a of Some s \<Rightarrow> if s = [] then ZERO_ADDRESS else s | None \<Rightarrow> ZERO_ADDRESS)
      in bindS (get_configuration floor_log2 srv st) (\<lambda>st config.
         bindS (get_verification_key floor_log2 srv st) (\<lambda>st key.
           (st, bindR (get_zksnark_provider (zksnark_name config)) (\<lambda>zksnark.
                bindR (get_contract_name zksnark (pairing_parameters config)) (\<lambda>mixer_name.
                bindR (case vk_hash of Some h \<Rightarrow> if h = [] then Inr [0, 0] else hex_to_uint256_list h
                                     | None \<Rightarrow> Inr [0, 0]) (\<lambda>vk_hash_evm.
                  assertR (length vk_hash_evm = 2)
                    (bindR (verification_key_to_contract_parameters zksnark key (pairing_parameters config)) (\<lambda>vk_params.
                     bindR (instance_deploy web3 compile_files (contracts_dir @ ''/'' @ mixer_name @ ''.sol'') mixer_name
                              deployer_eth_address deployer_eth_private_key deploy_gas
                              [AbiInt (int ZETH_MERKLE_TREE_DEPTH), AbiAddress (or_zero token_address), AbiInts vk_params,
                               AbiAddress (or_zero permitted_dispatcher), AbiInts vk_hash_evm]) (\<lambda>d.
                       Inr (config, d)))))))))))"

section \<open>Pseudo-random functions\<close>

lemma int_to_bytes_tagged:
  assumes "all_digits 2 tag" "length tag = 4" "length key = 32"
  shows "bindR (py_int_str (tag @ take 252 (digest_to_binary_string key)) 2) (\<lambda>v. int_to_bytes v 32) =
    Inr (tagged_leg (digits_value 2 tag) key)"
  using digits_value_tagged [OF assms] by (simp add: int_to_bytes_def tagged_leg_def)

lemma compute_nullifier_ok:
  assumes "length ask = 32" "rho note = bytes_hex r"
  shows "compute_nullifier blake2s note ask = Inr (digest_bytes (blake2s (tagged_leg 14 ask @ r)))"
proof -
  have "all_digits 2 ''1110''" "digits_value 2 ''1110'' = 14"
    by (simp_all add: digit_val_def digits_value_def)
  with int_to_bytes_tagged [of "''1110''" ask] assms show ?thesis
    by (auto simp: compute_nullifier_def Let_def bindR_eq_Inr)
qed

lemma compute_rho_i_ok:
  assumes "length phi = 32" "i < JS_OUTPUTS"
  shows "compute_rho_i blake2s phi hsig i = Inr (digest_bytes (blake2s (tagged_leg (2 + 4 * int i) phi @ hsig)))"
proof -
  have ib: "index_bits = 1"
    by (simp add: index_bits_def JS_OUTPUTS_def bit_length.simps)
  consider "i = 0" | "i = 1"
    using assms(2) less_2_cases [of i] by (auto simp: JS_OUTPUTS_def)
  then have idx: "num_str 2 (int i) = [if i = 0 then CHR ''0'' else CHR ''1'']"
    by cases (simp, code_simp, simp, code_simp)
  have tags: "all_digits 2 ''0010''" "digits_value 2 ''0010'' = 2" "all_digits 2 ''0110''" "digits_value 2 ''0110'' = 6"
    by (simp_all add: digit_val_def digits_value_def)
  show ?thesis
    using int_to_bytes_tagged [of "''0010''" phi] int_to_bytes_tagged [of "''0110''" phi] tags assms idx
    by (auto simp: compute_rho_i_def Let_def ib JS_OUTPUTS_def bindR_eq_Inr numeral_2_eq_2 less_Suc_eq)
qed

section \<open>Notes from sender to receiver\<close>

lemma create_api_zeth_note_ok:
  assumes "length phi = 32" "i < JS_OUTPUTS" "length trap = 32" "length recipient = 32" "0 \<le> v" "v < 2 ^ 64"
  shows "\<exists>n. create_api_zeth_note blake2s phi hsig i trap recipient v = Inr n \<and> note_ok n
    \<and> apk n = bytes_hex recipient \<and> note_value n = bytes_hex (be_bytes 8 v)"
proof -
  let ?r = "digest_bytes (blake2s (tagged_leg (2 + 4 * int i) phi @ hsig))"
  let ?n = "\<lparr>apk = bytes_hex recipient, note_value = bytes_hex (be_bytes 8 v), rho = bytes_hex ?r, trap_r = bytes_hex trap\<rparr>"
  have "create_api_zeth_note blake2s phi hsig i trap recipient v = Inr ?n"
    using assms by (simp add: create_api_zeth_note_def compute_rho_i_ok ownership_key_as_hex_32 int64_to_hex_ok)
  moreover have "note_ok ?n"
    unfolding note_ok_def using assms(3,4)
    by (intro exI [of _ recipient] exI [of _ "be_bytes 8 v"] exI [of _ ?r] exI [of _ trap]) simp
  ultimately show ?thesis by simp
qed

lemma create_api_zeth_notes_ok:
  assumes "length phi = 32" "length outputs \<le> JS_OUTPUTS" "\<And>i. length (traps i) = 32"
    and "\<forall>(a, v) \<in> set outputs. length a = 32 \<and> 0 \<le> v \<and> v < 2 ^ 64"
  shows "\<exists>notes. create_api_zeth_notes blake2s traps phi hsig outputs = Inr notes \<and> length notes = length outputs
    \<and> (\<forall>i < length outputs. note_ok (notes ! i) \<and> apk (notes ! i) = bytes_hex (fst (outputs ! i))
         \<and> note_value (notes ! i) = bytes_hex (be_bytes 8 (snd (outputs ! i))))"
proof -
  have "\<exists>n. (case x of (i, a, v) \<Rightarrow> create_api_zeth_note blake2s phi hsig i (traps i) a v) = Inr (id n)
      \<and> (note_ok n \<and> apk n = bytes_hex (fst (snd x)) \<and> note_value n = bytes_hex (be_bytes 8 (snd (snd x))))"
    if x: "x \<in> set (zip [0 ..< length outputs] outputs)" for x
  proof -
    obtain i a v where "x = (i, a, v)" by (cases x) auto
    with x have "x = (i, a, v)" "i < length outputs" "(a, v) \<in> set outputs"
      by (auto simp: in_set_zip) (metis nth_mem)
    then have "x = (i, a, v)" "i < JS_OUTPUTS" "length a = 32" "0 \<le> v" "v < 2 ^ 64"
      using assms(2,4) by auto
    with create_api_zeth_note_ok [OF assms(1) _ assms(3)] show ?thesis by simp
  qed
  from mapR_exists [of "zip [0 ..< length outputs] outputs"
      "\<lambda>(i, a, v). create_api_zeth_note blake2s phi hsig i (traps i) a v", OF this] show ?thesis
    by (auto simp: create_api_zeth_notes_def)
qed

lemma receive_encrypted:
  assumes "enc_lib_laws L" "note_ok n"
  shows "\<exists>ct. bindR (zeth_note_to_bytes n) (\<lambda>bs. encrypt L e bs (public_key L k)) = Inr ct
    \<and> length ct = ENCRYPTED_NOTE_LENGTH_BYTES
    \<and> receive_note L \<lparr>oe_commitment = cm, oe_ciphertext = ct\<rparr> k = Inr (Some (cm, n))"
proof -
  obtain bs where bs: "zeth_note_to_bytes n = Inr bs" "length bs = NOTE_LENGTH_BYTES" "zeth_note_from_bytes bs = Inr n"
    using note_ok_bytes [OF assms(2)] by blast
  obtain ct where "encrypt L e bs (public_key L k) = Inr ct" "length ct = ENCRYPTED_NOTE_LENGTH_BYTES"
      "decrypt L ct k = Inr bs"
    using decrypt_encrypt [OF assms(1) bs(2)] by blast
  with bs show ?thesis
    by (simp add: receive_note_def)
qed

lemma encrypt_notes_delivered:
  assumes "enc_lib_laws L" "\<forall>n \<in> set notes. note_ok n" "length ks = length notes"
  shows "\<exists>cts. encrypt_notes L eph (zip notes (map (public_key L) ks)) = Inr cts \<and> length cts = length notes
    \<and> (\<forall>i < length notes. receive_note L \<lparr>oe_commitment = cm, oe_ciphertext = cts ! i\<rparr> (ks ! i) = Inr (Some (cm, notes ! i)))"
proof -
  let ?xs = "zip [0 ..< length notes] (zip notes (map (public_key L) ks))"
  have "\<exists>ct. (case x of (i, n, pk) \<Rightarrow> bindR (zeth_note_to_bytes n) (\<lambda>bs. encrypt L (eph i) bs pk)) = Inr (id ct)
      \<and> (\<forall>k. snd (snd x) = public_key L k \<longrightarrow>
           receive_note L \<lparr>oe_commitment = cm, oe_ciphertext = ct\<rparr> k = Inr (Some (cm, fst (snd x))))"
    if x: "x \<in> set ?xs" for x
  proof -
    obtain i n pk where eq: "x = (i, n, pk)" by (cases x) auto
    with x assms(3) have "n \<in> set notes" "pk \<in> set (map (public_key L) ks)"
      by (auto simp: in_set_zip)
    with assms(2) have n: "note_ok n" and "pk \<in> set (map (public_key L) ks)"
      by auto
    then obtain k where k: "pk = public_key L k" by auto
    obtain ct where ct: "bindR (zeth_note_to_bytes n) (\<lambda>bs. encrypt L (eph i) bs pk) = Inr ct"
      using receive_encrypted [OF assms(1) n, of "eph i" k cm] k by blast
    have "receive_note L \<lparr>oe_commitment = cm, oe_ciphertext = ct\<rparr> k' = Inr (Some (cm, n))" if "pk = public_key L k'" for k'
      using receive_encrypted [OF assms(1) n, of "eph i" k' cm] ct that by auto
    with ct show ?thesis
      by (intro exI [of _ ct]) (simp add: eq)
  qed
  from mapR_exists [of ?xs "\<lambda>(i, n, pk). bindR (zeth_note_to_bytes n) (\<lambda>bs. encrypt L (eph i) bs pk)", OF this]
  show ?thesis
    using assms(3) by (auto simp: encrypt_notes_def)
qed

text \<open>
  C15. The notes created for the outputs of a mix call carry the recipients' keys and the values as
  64-bit numbers, and when they are encrypted for the recipients' keys, the holder of each
  secret key gets exactly its note back from the event with the ciphertext.
\<close>

theorem created_notes_delivered:
  assumes "enc_lib_laws L" "length phi = 32" "length outputs \<le> JS_OUTPUTS" "\<forall>i. length (traps i) = 32"
    and "\<forall>(a, v) \<in> set outputs. length a = 32 \<and> 0 \<le> v \<and> v < 2 ^ 64" "length ks = length outputs"
  shows "\<exists>notes cts. create_api_zeth_notes blake2s traps phi hsig outputs = Inr notes
    \<and> encrypt_notes L eph (zip notes (map (public_key L) ks)) = Inr cts
    \<and> length notes = length outputs \<and> length cts = length outputs
    \<and> (\<forall>i < length outputs. receive_note L \<lparr>oe_commitment = cm, oe_ciphertext = cts ! i\<rparr> (ks ! i) = Inr (Some (cm, notes ! i))
         \<and> apk (notes ! i) = bytes_hex (fst (outputs ! i))
         \<and> note_value (notes ! i) = bytes_hex (be_bytes 8 (snd (outputs ! i))))"
proof -
  obtain ns where ns: "create_api_zeth_notes blake2s traps phi hsig outputs = Inr ns" "length ns = length outputs"
    "\<forall>i < length outputs. note_ok (ns ! i) \<and> apk (ns ! i) = bytes_hex (fst (outputs ! i))
       \<and> note_value (ns ! i) = bytes_hex (be_bytes 8 (snd (outputs ! i)))"
    using create_api_zeth_notes_ok [of phi outputs traps] assms(2-5) by blast
  then have "\<forall>n \<in> set ns. note_ok n" "length ks = length ns"
    using assms(6) by (auto simp: in_set_conv_nth)
  from encrypt_notes_delivered [OF assms(1) this] ns show ?thesis
    by metis
qed

definition example_outputs :: "(bytes \<times> int) list" where
  "example_outputs = [(replicate 32 3, 10), (replicate 32 4, 20)]"

theorem created_notes_delivered_witness:
  "\<exists>notes cts. create_api_zeth_notes (\<lambda>_. 5) (\<lambda>_. replicate 32 1) (replicate 32 2) [7] example_outputs = Inr notes
    \<and> encrypt_notes example_enc_lib (\<lambda>i. of_nat i) (zip notes (map (public_key example_enc_lib) [8, 9])) = Inr cts
    \<and> length notes = length example_outputs \<and> length cts = length example_outputs
    \<and> (\<forall>i < length example_outputs.
         receive_note example_enc_lib \<lparr>oe_commitment = [1], oe_ciphertext = cts ! i\<rparr> ([8, 9] ! i) = Inr (Some ([1], notes ! i))
         \<and> apk (notes ! i) = bytes_hex (fst (example_outputs ! i))
         \<and> note_value (notes ! i) = bytes_hex (be_bytes 8 (snd (example_outputs ! i))))"
  by (rule created_notes_delivered [OF example_enc_lib_laws]) (simp_all add: JS_OUTPUTS_def example_outputs_def)

text \<open>
  C32. The three pseudo-random functions hash, for 32-byte keys, the tagged left leg followed by
  their argument: tag 1100 for the address key, 1110 for the nullifier, 0010 and 0110 for the
  two output rhos. Whatever the keys and arguments, no input of one function is an input of
  another, or of the other output index.
\<close>

theorem prf_domain_separation:
  assumes "encode_two_bytes32_law encode_abi" "length ask = 32" "length ask' = 32" "length phi = 32" "length phi' = 32"
    and "rho note = bytes_hex r"
  shows "derive_a_pk blake2s encode_abi ask = Inr (digest_bytes (blake2s (tagged_leg 12 ask @ replicate 32 0)))
    \<and> compute_nullifier blake2s note ask' = Inr (digest_bytes (blake2s (tagged_leg 14 ask' @ r)))
    \<and> compute_rho_i blake2s phi hsig 0 = Inr (digest_bytes (blake2s (tagged_leg 2 phi @ hsig)))
    \<and> compute_rho_i blake2s phi' hsig' 1 = Inr (digest_bytes (blake2s (tagged_leg 6 phi' @ hsig')))
    \<and> distinct [tagged_leg 12 ask @ replicate 32 0, tagged_leg 14 ask' @ r, tagged_leg 2 phi @ hsig, tagged_leg 6 phi' @ hsig']"
  using assms compute_rho_i_ok [OF assms(4), of 0] compute_rho_i_ok [OF assms(5), of 1]
  by (simp add: derive_a_pk_ok compute_nullifier_ok JS_OUTPUTS_def tagged_leg_distinct)

theorem prf_domain_separation_witness:
  "derive_a_pk (\<lambda>bs. of_nat (length bs)) (\<lambda>ts xs. Inr (concat xs)) (replicate 32 1) =
      Inr (digest_bytes ((\<lambda>bs. of_nat (length bs)) (tagged_leg 12 (replicate 32 1) @ replicate 32 0)))
    \<and> compute_nullifier (\<lambda>bs. of_nat (length bs)) \<lparr>apk = [], note_value = [], rho = bytes_hex [5], trap_r = []\<rparr> (replicate 32 1) =
      Inr (digest_bytes ((\<lambda>bs. of_nat (length bs)) (tagged_leg 14 (replicate 32 1) @ [5])))
    \<and> compute_rho_i (\<lambda>bs. of_nat (length bs)) (replicate 32 1) [7] 0 =
      Inr (digest_bytes ((\<lambda>bs. of_nat (length bs)) (tagged_leg 2 (replicate 32 1) @ [7])))
    \<and> compute_rho_i (\<lambda>bs. of_nat (length bs)) (replicate 32 2) [7] 1 =
      Inr (digest_bytes ((\<lambda>bs. of_nat (length bs)) (tagged_leg 6 (replicate 32 2) @ [7])))
    \<and> distinct [tagged_leg 12 (replicate 32 1) @ replicate 32 0, tagged_leg 14 (replicate 32 1) @ [5],
        tagged_leg 2 (replicate 32 1) @ [7], tagged_leg 6 (replicate 32 2) @ [7]]"
  by (rule prf_domain_separation) (simp_all add: encode_two_bytes32_law_def)

section \<open>Padding of the call\<close>

lemma dummy_inputs_ok:
  assumes "length own_pk = 32"
  shows "\<exists>ds. mapR (\<lambda>i. get_dummy_input_and_address own_pk (f i) (g i)) is = Inr ds \<and> length ds = length is
    \<and> (\<forall>d \<in> set ds. fst d = 0 \<and> apk (snd d) = bytes_hex own_pk \<and> note_value (snd d) = ZERO_UNITS_HEX)"
  using assms by (induction "is") (auto simp: get_dummy_input_and_address_def ownership_key_as_hex_32)

text \<open>The padding, call by call.\<close>

lemma mix_call_description_ok:
  assumes "c_toWei C (NumInt 0) ''ether'' = Inr 0" "length (a_pk sender) = 32"
  shows "if length inputs \<le> JS_INPUTS \<and> length outputs \<le> JS_OUTPUTS
    then \<exists>ds zs d. mix_call_description C R t sender inputs outputs v_in v_out cb = Inr d
      \<and> mc_inputs d = inputs @ ds \<and> mc_outputs d = outputs @ zs
      \<and> length (mc_inputs d) = JS_INPUTS \<and> length (mc_outputs d) = JS_OUTPUTS
      \<and> (\<forall>x \<in> set ds. fst x = 0 \<and> apk (snd x) = bytes_hex (a_pk sender) \<and> note_value (snd x) = ZERO_UNITS_HEX)
      \<and> (\<forall>z \<in> set zs. pub_a_pk (fst z) = a_pk sender \<and> wei (snd z) = 0)
    else mix_call_description C R t sender inputs outputs v_in v_out cb = Inl AssertionError"
proof (cases "length inputs \<le> JS_INPUTS \<and> length outputs \<le> JS_OUTPUTS")
  case True
  obtain ds where ds: "mapR (\<lambda>i. get_dummy_input_and_address (a_pk sender) (r_dummy_rho R i) (r_dummy_trap R i))
        [0 ..< JS_INPUTS - length inputs] = Inr ds" "length ds = JS_INPUTS - length inputs"
      "\<forall>d \<in> set ds. fst d = 0 \<and> apk (snd d) = bytes_hex (a_pk sender) \<and> note_value (snd d) = ZERO_UNITS_HEX"
    using dummy_inputs_ok [OF assms(2)] by (metis length_upt minus_nat.diff_0)
  have "mapR (\<lambda>_. ether_value (c_toWei C) (NumInt 0) ''ether'') xs = Inr (map (\<lambda>_. \<lparr>wei = 0\<rparr>) xs)" for xs :: "nat list"
    using assms(1) by (induction xs) (simp_all add: ether_value_def)
  with True ds show ?thesis
    by (auto simp: mix_call_description_def Let_def)
next
  case False
  then show ?thesis
    by (auto simp: mix_call_description_def assertR_def)
qed

text \<open>
  C33. A call with at most two inputs and two outputs is padded to exactly two of each: the given
  ones come first, unchanged, the added inputs are notes of the sender of value zero at
  address zero, and the added outputs are worth nothing. More of either raises.
\<close>

theorem mix_call_padded:
  assumes "c_toWei C (NumInt 0) ''ether'' = Inr 0" "length (a_pk sender) = 32"
  shows "if length inputs \<le> JS_INPUTS \<and> length outputs \<le> JS_OUTPUTS
    then \<exists>ds zs d. mix_call_description C R t sender inputs outputs v_in v_out cb = Inr d
      \<and> mc_inputs d = inputs @ ds \<and> mc_outputs d = outputs @ zs
      \<and> length (mc_inputs d) = JS_INPUTS \<and> length (mc_outputs d) = JS_OUTPUTS
      \<and> (\<forall>x \<in> set ds. fst x = 0 \<and> apk (snd x) = bytes_hex (a_pk sender) \<and> note_value (snd x) = ZERO_UNITS_HEX)
      \<and> (\<forall>z \<in> set zs. pub_a_pk (fst z) = a_pk sender \<and> wei (snd z) = 0)
    else mix_call_description C R t sender inputs outputs v_in v_out cb = Inl AssertionError"
  using assms by (rule mix_call_description_ok)

definition example_crypto :: "(256 word, 256 word) crypto" where
  "example_crypto = \<lparr>c_blake2s = (\<lambda>bs. of_nat (length bs)), c_sha256 = (\<lambda>bs. of_nat (length bs)),
     c_encode_single = (\<lambda>t bs. Inr bs), c_toWei = (\<lambda>v u. case v of NumInt n \<Rightarrow> Inr n | NumStr s \<Rightarrow> Inl ValueError),
     c_enc = example_enc_lib, c_ec = example_ec_lib\<rparr>"

definition example_random :: "256 word mix_random" where
  "example_random = \<lparr>r_dummy_rho = (\<lambda>_. replicate 32 1), r_dummy_trap = (\<lambda>_. replicate 32 2), r_dummy_sk = 3,
     r_urandom_x = (\<lambda>n. replicate n 3), r_urandom_y = (\<lambda>n. replicate n 5), r_phi = replicate 32 4,
     r_trap = (\<lambda>_. replicate 32 5), r_eph = (\<lambda>i. of_nat i)\<rparr>"

theorem mix_call_padded_witness:
  "\<exists>ds zs d. mix_call_description example_crypto example_random (empty_with_depth 2 (\<lambda>l r. l))
        \<lparr>a_sk = [], a_pk = replicate 32 6\<rparr> [] [(\<lparr>pub_a_pk = [], pub_k_pk = 1\<rparr>, \<lparr>wei = 9\<rparr>)] \<lparr>wei = 9\<rparr> \<lparr>wei = 0\<rparr> None = Inr d
      \<and> mc_inputs d = [] @ ds \<and> mc_outputs d = [(\<lparr>pub_a_pk = [], pub_k_pk = 1\<rparr>, \<lparr>wei = 9\<rparr>)] @ zs
      \<and> length (mc_inputs d) = JS_INPUTS \<and> length (mc_outputs d) = JS_OUTPUTS
      \<and> (\<forall>x \<in> set ds. fst x = 0 \<and> apk (snd x) = bytes_hex (replicate 32 6) \<and> note_value (snd x) = ZERO_UNITS_HEX)
      \<and> (\<forall>z \<in> set zs. pub_a_pk (fst z) = replicate 32 6 \<and> wei (snd z) = 0)"
  using mix_call_padded [of example_crypto "\<lparr>a_sk = [], a_pk = replicate 32 6\<rparr>" "[]"
      "[(\<lparr>pub_a_pk = [], pub_k_pk = 1\<rparr>, \<lparr>wei = 9\<rparr>)]" example_random "empty_with_depth 2 (\<lambda>l r. l)" "\<lparr>wei = 9\<rparr>" "\<lparr>wei = 0\<rparr>" None]
  by (simp add: example_crypto_def JS_INPUTS_def JS_OUTPUTS_def)

section \<open>Signature and stored parameters\<close>

lemma joinsplit_message_ok:
  assumes "encode_bytes32_law (c_encode_single C)" "eth_address_to_bytes32 addr = Inr ab"
    and "proof_to_contract_parameters z (ep_proof ep) = Inr params"
    and "\<forall>x \<in> set params \<union> set public. 0 \<le> x \<and> x < 2 ^ 256"
  shows "joinsplit_message C z addr cts ep public dispatch =
    Inr (ab @ concat cts @ (if dispatch then [] else concat (map (be_bytes 32) params)) @ concat (map (be_bytes 32) public))"
  using assms by (simp add: joinsplit_message_def proof_and_inputs_to_bytes_def message_to_bytes_ints)

lemma joinsplit_sign_ok:
  assumes "ec_lib_laws (c_ec C)" "gen_signing_keypair (c_ec C) ux uy = Inr kp"
    "ux (key_size_byte (c_ec C)) \<noteq> []" "uy (key_size_byte (c_ec C)) \<noteq> []" "g1_ok (c_ec C) (spk (vk kp))"
    and "encode_bytes32_law (c_encode_single C)" "eth_address_to_bytes32 addr = Inr ab"
    and "proof_to_contract_parameters z (ep_proof ep) = Inr params"
    and "\<forall>x \<in> set params \<union> set public. 0 \<le> x \<and> x < 2 ^ 256"
  shows "if length cts = JS_INPUTS
    then \<exists>sigma. joinsplit_sign C z kp addr cts ep public dispatch = Inr sigma
      \<and> 0 \<le> sigma \<and> sigma < curve_order (c_ec C)
      \<and> verify (c_ec C) (c_sha256 C) (vk kp)
           (digest_bytes (c_sha256 C (ab @ concat cts @ (if dispatch then [] else concat (map (be_bytes 32) params))
              @ concat (map (be_bytes 32) public)))) sigma = Inr True
    else joinsplit_sign C z kp addr cts ep public dispatch = Inl AssertionError"
proof -
  have "keypair_ok (c_ec C) kp"
    using gen_signing_keypair_ok [of "c_ec C" ux uy] assms(1-4) by simp
  from schnorr_complete [OF assms(1) this assms(5)] show ?thesis
    using joinsplit_message_ok [OF assms(6-9)] by (simp add: joinsplit_sign_def)
qed

text \<open>
  C19. The signature of a mix call is accepted under the call's verification key on the digest of:
  the sender's address in 32 bytes, the ciphertexts, the proof words (left out for a
  dispatch call) and the public words, each in 32 bytes. With another number of ciphertexts
  signing raises.
\<close>

theorem joinsplit_signature_verifies:
  assumes "ec_lib_laws (c_ec C)" "gen_signing_keypair (c_ec C) ux uy = Inr kp"
    "ux (key_size_byte (c_ec C)) \<noteq> []" "uy (key_size_byte (c_ec C)) \<noteq> []" "g1_ok (c_ec C) (spk (vk kp))"
    and "encode_bytes32_law (c_encode_single C)" "eth_address_to_bytes32 addr = Inr ab"
    and "proof_to_contract_parameters z (ep_proof ep) = Inr params"
    and "\<forall>x \<in> set params \<union> set public. 0 \<le> x \<and> x < 2 ^ 256"
  shows "if length cts = JS_INPUTS
    then \<exists>sigma. joinsplit_sign C z kp addr cts ep public dispatch = Inr sigma
      \<and> 0 \<le> sigma \<and> sigma < curve_order (c_ec C)
      \<and> verify (c_ec C) (c_sha256 C) (vk kp)
           (digest_bytes (c_sha256 C (ab @ concat cts @ (if dispatch then [] else concat (map (be_bytes 32) params))
              @ concat (map (be_bytes 32) public)))) sigma = Inr True
    else joinsplit_sign C z kp addr cts ep public dispatch = Inl AssertionError"
  using assms by (rule joinsplit_sign_ok)

definition example_groth16 :: ExtendedProof where
  "example_groth16 =
     (let g1 = \<lparr>g1_x_coord = hex64 ''01'', g1_y_coord = hex64 ''02''\<rparr>;
          g2 = \<lparr>g2_x_coord = CList [hex64 ''01'', hex64 ''02''], g2_y_coord = CList [hex64 ''02'', hex64 ''01'']\<rparr>
      in \<lparr>ep_proof = Groth16_Pr \<lparr>g16_a = g1, g16_b = g2, g16_c = g1\<rparr>, ep_inputs = []\<rparr>)"

lemma example_groth16_params:
  "proof_to_contract_parameters Groth16 (ep_proof example_groth16) = Inr [1, 2, 1, 2, 2, 1, 1, 2]"
proof -
  have "g1_32 \<lparr>g1_x_coord = hex64 ''01'', g1_y_coord = hex64 ''02''\<rparr> (1, 2)"
    by (simp add: g1_32_def example_fq32)
  moreover have "g2_32 \<lparr>g2_x_coord = CList [hex64 ''01'', hex64 ''02''], g2_y_coord = CList [hex64 ''02'', hex64 ''01'']\<rparr> (1, 2, 2, 1)"
    by (simp add: g2_32_def example_fq32)
  ultimately show ?thesis
    by (simp add: example_groth16_def Let_def groth16_proof_to_contract_parameters_def concat_params_def
        g1_params g2_params)
qed

lemma example_address: "eth_address_to_bytes32 ZERO_ADDRESS = Inr (replicate 32 0)"
proof -
  have "drop 2 ZERO_ADDRESS = bytes_hex (replicate 20 0)" "length ZERO_ADDRESS = 42" "startswith ZERO_ADDRESS ''0x''"
    by code_simp+
  then show ?thesis
    by (simp add: eth_address_to_bytes32_def eth_address_to_bytes_def extend_32bytes_def flip: replicate_add)
qed

theorem joinsplit_signature_verifies_witness:
  "\<exists>sigma. joinsplit_sign example_crypto Groth16 example_keypair ZERO_ADDRESS [[1], [2]] example_groth16 [3] False = Inr sigma
      \<and> 0 \<le> sigma \<and> sigma < curve_order (c_ec example_crypto)
      \<and> verify (c_ec example_crypto) (c_sha256 example_crypto) (vk example_keypair)
           (digest_bytes (c_sha256 example_crypto (replicate 32 0 @ concat [[1], [2]]
              @ concat (map (be_bytes 32) [1, 2, 1, 2, 2, 1, 1, 2]) @ concat (map (be_bytes 32) [3])))) sigma = Inr True"
  using joinsplit_signature_verifies [of example_crypto "\<lambda>n. replicate n 3" "\<lambda>n. replicate n 5" example_keypair
      ZERO_ADDRESS "replicate 32 0" Groth16 example_groth16 "[1, 2, 1, 2, 2, 1, 1, 2]" "[3]" "[[1], [2]]" False]
    example_ec_lib_laws example_keypair_gen key_size_byte_pos [OF example_ec_lib_laws]
  by (simp add: example_crypto_def example_groth16_params example_address encode_bytes32_law_def JS_INPUTS_def
      g1_ok_def example_keypair_def) (simp add: example_ec_lib_def)

text \<open>
  Mix parameters whose proof belongs to the provider, with reduced finite points and
  non-negative public words, are read back unchanged from their JSON form.
\<close>

theorem mix_parameters_roundtrip:
  assumes "is_groth16_proof (ep_proof (mp_extended_proof mp)) \<longleftrightarrow> z = Groth16" "\<forall>x \<in> set (mp_public_data mp). 0 \<le> x"
    and "g1_ok E (ppk (mp_signature_vk mp))" "g1_ok E (spk (mp_signature_vk mp))"
  shows "bindR (mix_parameters_to_json_dict mp) (mix_parameters_from_json_dict E z) = Inr mp"
proof -
  obtain ps where ps: "verification_key_as_mix_parameter (mp_signature_vk mp) = Inr ps"
    "verification_key_from_mix_parameter E ps = Inr (mp_signature_vk mp)"
    using vk_mix_parameter_roundtrip [OF assms(3,4)] by blast
  have ext: "extended_proof_from_json_dict z (extended_proof_to_json_dict (mp_extended_proof mp)) = Inr (mp_extended_proof mp)"
    using assms(1) groth16.ext_json pghr13.ext_json by (cases z) auto
  have pub: "mapR (\<lambda>x. py_int_str x 16) (map py_hex (mp_public_data mp)) = Inr (mp_public_data mp)"
    using assms(2) by (intro mapR_decode_on) (simp add: py_int_py_hex)
  have vkp: "mapR (\<lambda>x. py_int_str x 10) (map str_int ps) = Inr ps" and ct: "mapR bytes_fromhex (map bytes_hex cs) = Inr cs" for cs
    by (intro mapR_decode; simp add: py_int_str_int)+
  show ?thesis
    using ps
    by (simp add: mix_parameters_to_json_dict_def mix_parameters_from_json_dict_def json_get_defs ext pub vkp ct py_int_str_int
        signature_as_mix_parameter_def signature_from_mix_parameter_def)
qed

theorem mix_parameters_roundtrip_witness:
  "bindR (mix_parameters_to_json_dict \<lparr>mp_extended_proof = example_groth16, mp_public_data = [1, 255],
       mp_signature_vk = vk example_keypair, mp_signature = 6, mp_ciphertexts = [[1, 2], []]\<rparr>)
     (mix_parameters_from_json_dict example_ec_lib Groth16) =
   Inr \<lparr>mp_extended_proof = example_groth16, mp_public_data = [1, 255],
       mp_signature_vk = vk example_keypair, mp_signature = 6, mp_ciphertexts = [[1, 2], []]\<rparr>"
  by (rule mix_parameters_roundtrip)
    (simp_all add: example_groth16_def Let_def g1_ok_def example_keypair_def example_ec_lib_def)

lemma receive_note_total:
  assumes "\<forall>bs e. from_public_bytes L bs = Inl e \<longrightarrow> e = ValueError"
    and "\<forall>pk e. exchange L k pk = Inl e \<longrightarrow> e = ValueError"
    and "length (oe_ciphertext ev) = ENCRYPTED_NOTE_LENGTH_BYTES"
  shows "\<exists>r. receive_note L ev k = Inr r"
proof -
  have dec: "e = ValueError \<or> e = InvalidSignature" if "decrypt L (oe_ciphertext ev) k = Inl e" for e
    using that assms kdf_ok [of L]
    by (auto simp: decrypt_def Let_def bindR_def kdf_def enc_constants split: sum.splits if_splits)
  have nb: "e = ValueError" if "zeth_note_from_bytes bs = Inl e" for bs e
    using that by (auto simp: zeth_note_from_bytes_def Let_def split: if_splits)
  show ?thesis
    using dec nb by (fastforce simp: receive_note_def bindR_def split: sum.splits)
qed

lemma zeth_note_from_bytes_ok: "zeth_note_from_bytes bs = Inr n \<Longrightarrow> note_ok n"
  unfolding note_ok_def zeth_note_from_bytes_def Let_def
  by (rule exI [of _ "take APK_LENGTH_BYTES bs"], rule exI [of _ "take 8 (drop 32 bs)"],
      rule exI [of _ "take 32 (drop 40 bs)"], rule exI [of _ "drop 72 bs"])
    (auto simp: constants_defs split: if_splits)

lemma receive_note_Some:
  assumes "receive_note L ev k = Inr (Some (cm, n))"
  shows "cm = oe_commitment ev" "note_ok n"
  using assms zeth_note_from_bytes_ok
  by (auto simp: receive_note_def bindR_eq_Inr split: sum.splits if_splits)

lemma compute_commitment_ok:
  assumes "note_ok n" "scalar_field_mod pp = Inr r" "0 < r" "r \<le> 2 ^ 256"
  shows "\<exists>cm. compute_commitment blake2s n pp = Inr cm \<and> length cm = 32 \<and> int_from_bytes cm < r"
proof -
  obtain a v r' t where n: "n = \<lparr>apk = bytes_hex a, note_value = bytes_hex v, rho = bytes_hex r', trap_r = bytes_hex t\<rparr>"
    using assms(1) by (auto simp: note_ok_def)
  let ?h = "int_from_bytes (digest_bytes (blake2s (t @ a @ r' @ v))) mod r"
  have h: "0 \<le> ?h" "?h < r" "\<not> ?h < 0"
    using pos_mod_sign [OF assms(3)] pos_mod_bound [OF assms(3)] by (auto simp: not_less)
  then have "?h < 256 ^ 32"
    using assms(4) by simp
  then show ?thesis
    using h n assms(2,3) by (simp add: compute_commitment_def int_to_bytes_def int_from_be_bytes)
qed

text \<open>
  C39. If the key decoder and the key exchange raise nothing but \<open>ValueError\<close>, \<open>receive_note\<close> returns on
  a ciphertext exactly when it has the length of an encrypted note; on any other length the
  assertion of \<open>decrypt\<close> escapes, which is not among the exceptions turned into \<open>None\<close>.
\<close>

theorem receive_note_raises_on_length:
  assumes "\<forall>bs e. from_public_bytes L bs = Inl e \<longrightarrow> e = ValueError"
    and "\<forall>pk e. exchange L k pk = Inl e \<longrightarrow> e = ValueError"
  shows "if length (oe_ciphertext ev) = ENCRYPTED_NOTE_LENGTH_BYTES then \<exists>r. receive_note L ev k = Inr r
    else receive_note L ev k = Inl AssertionError"
  using receive_note_total [OF assms] by (simp add: receive_note_def decrypt_wrong_length)

theorem receive_note_raises_on_length_witness:
  "receive_note example_enc_lib \<lparr>oe_commitment = [1], oe_ciphertext = [2]\<rparr> 3 = Inl AssertionError"
  using receive_note_raises_on_length [of example_enc_lib 3 "\<lparr>oe_commitment = [1], oe_ciphertext = [2]\<rparr>"]
  by (simp add: example_enc_lib_def enc_constants)

end
