(* ===== verification/Mix_Call.thy ===== *)
theory Mix_Call
  imports Mixer_Client
begin

text \<open>
  The construction of a mix call as a whole: what a call that was built contains, and that a
  well-formed one is always built.
\<close>

section \<open>What a call contains\<close>

lemma mapR_enumerate_nth:
  "mapR f (zip [0 ..< length xs] xs) = Inr ys \<Longrightarrow> i < length xs \<Longrightarrow> f (i, xs ! i) = Inr (ys ! i)"
  using mapR_nth [of f "zip [0 ..< length xs] xs" ys i] by simp

lemma mapR_in:
  "mapR f xs = Inr ys \<Longrightarrow> x \<in> set xs \<Longrightarrow> \<exists>y \<in> set ys. f x = Inr y"
  by (induction xs arbitrary: ys) (auto simp: bindR_eq_Inr)

text \<open>A created note is well-formed, and its value fits.\<close>

lemma created_note:
  assumes "create_api_zeth_note blake2s phi hsig i trap a v = Inr n" "length a = 32" "length trap = 32"
  shows "note_ok n \<and> (\<exists>r. compute_rho_i blake2s phi hsig i = Inr r
    \<and> n = \<lparr>apk = bytes_hex a, note_value = bytes_hex (be_bytes 8 v), rho = bytes_hex r, trap_r = bytes_hex trap\<rparr>)"
proof -
  obtain r h where r: "compute_rho_i blake2s phi hsig i = Inr r" and h: "int64_to_hex v = Inr h"
    using assms(1) by (auto simp: create_api_zeth_note_def bindR_eq_Inr)
  then have len: "length r = 32"
    by (auto simp: compute_rho_i_def Let_def assertR_eq_Inr bindR_eq_Inr)
  have "\<not> (v < 0 \<or> 2 ^ 64 \<le> v)"
    using h int64_to_hex_error [of v] by fastforce
  then have n: "n = \<lparr>apk = bytes_hex a, note_value = bytes_hex (be_bytes 8 v), rho = bytes_hex r, trap_r = bytes_hex trap\<rparr>"
    using assms r by (simp add: create_api_zeth_note_def ownership_key_as_hex_32 int64_to_hex_ok)
  moreover have "note_ok n"
    unfolding note_ok_def n using assms(2,3) len
    by (intro exI [of _ a] exI [of _ "be_bytes 8 v"] exI [of _ r] exI [of _ trap]) simp
  ultimately show ?thesis
    using r by blast
qed

text \<open>The description and the prover inputs of a call that was built.\<close>

lemma mix_parameters_parts:
  assumes "create_mix_parameters_and_signing_key C R fl srv config st tree sender eth inputs outputs v_in v_out cb disp =
      (st', Inr (mp, kp))"
  obtains desc pinputs where "mix_call_description C R tree sender inputs outputs v_in v_out cb = Inr desc"
    "create_prover_inputs C R desc = Inr (pinputs, kp)" "length (mc_outputs desc) = JS_OUTPUTS"
    "length (mc_inputs desc) = JS_INPUTS" "length (pi_js_outputs pinputs) = JS_OUTPUTS"
    "encrypt_notes (c_enc C) (r_eph R)
       (map (\<lambda>((zeth_addr, _), note). (note, pub_k_pk zeth_addr)) (zip (mc_outputs desc) (pi_js_outputs pinputs))) =
       Inr (mp_ciphertexts mp)"
  using assms
  by (auto simp: create_mix_parameters_and_signing_key_def create_mix_parameters_from_proof_def bindS_def
      bindR_eq_Inr assertR_eq_Inr Let_def split: sum.splits prod.splits)

lemma call_parts:
  assumes "create_mix_parameters_and_signing_key C R fl srv config st tree sender eth inputs outputs v_in v_out cb disp =
      (st', Inr (mp, kp))"
    and "bindR (mix_call_description C R tree sender inputs outputs v_in v_out cb) (create_prover_inputs C R) = Inr (pinputs, kp)"
  obtains desc where "mix_call_description C R tree sender inputs outputs v_in v_out cb = Inr desc"
    "create_prover_inputs C R desc = Inr (pinputs, kp)" "length (mc_outputs desc) = JS_OUTPUTS"
    "length (pi_js_outputs pinputs) = JS_OUTPUTS"
    "encrypt_notes (c_enc C) (r_eph R)
       (map (\<lambda>((zeth_addr, _), note). (note, pub_k_pk zeth_addr)) (zip (mc_outputs desc) (pi_js_outputs pinputs))) =
       Inr (mp_ciphertexts mp)"
proof (rule mix_parameters_parts [OF assms(1)])
  fix desc pinputs'
  assume d: "mix_call_description C R tree sender inputs outputs v_in v_out cb = Inr desc"
      "create_prover_inputs C R desc = Inr (pinputs', kp)" "length (mc_outputs desc) = JS_OUTPUTS"
    and "length (mc_inputs desc) = JS_INPUTS"
    and n: "length (pi_js_outputs pinputs') = JS_OUTPUTS"
      "encrypt_notes (c_enc C) (r_eph R)
         (map (\<lambda>((zeth_addr, _), note). (note, pub_k_pk zeth_addr)) (zip (mc_outputs desc) (pi_js_outputs pinputs'))) =
         Inr (mp_ciphertexts mp)"
  have "pinputs' = pinputs"
    using assms(2) d(1,2) by simp
  with d n show thesis
    by (intro that [of desc]) simp_all
qed

lemma mix_call_parts:
  assumes "mix_call_description C R tree sender inputs outputs v_in v_out cb = Inr desc"
  shows "\<exists>ds zs. mc_inputs desc = inputs @ ds \<and> mc_outputs desc = outputs @ zs \<and> mc_sender desc = sender"
  using assms by (auto simp: mix_call_description_def bindR_eq_Inr assertR_eq_Inr Let_def split: if_splits)

lemma prover_inputs_notes:
  assumes "create_prover_inputs C R desc = Inr (pinputs, kp)" "i < length (mc_outputs desc)"
  shows "\<exists>u h. to_zeth_units (snd (mc_outputs desc ! i)) = Inr u
    \<and> create_api_zeth_note (c_blake2s C) (r_phi R) h i (r_trap R i) (pub_a_pk (fst (mc_outputs desc ! i))) u =
        Inr (pi_js_outputs pinputs ! i)"
proof -
  obtain os h where os: "mapR (\<lambda>(addr, value). bindR (to_zeth_units value) (\<lambda>u. Inr (pub_a_pk addr, u))) (mc_outputs desc) = Inr os"
    and ns: "create_api_zeth_notes (c_blake2s C) (r_trap R) (r_phi R) h os = Inr (pi_js_outputs pinputs)"
    using assms(1) by (auto simp: create_prover_inputs_def bindR_eq_Inr)
  obtain addr v where o: "mc_outputs desc ! i = (addr, v)"
    by fastforce
  have "length os = length (mc_outputs desc)"
    using mapR_length [OF os] .
  with assms(2) have "create_api_zeth_note (c_blake2s C) (r_phi R) h i (r_trap R i) (fst (os ! i)) (snd (os ! i)) =
      Inr (pi_js_outputs pinputs ! i)"
    using mapR_enumerate_nth [OF ns [unfolded create_api_zeth_notes_def], of i] by (simp add: split_def)
  moreover have "\<exists>u. to_zeth_units v = Inr u \<and> os ! i = (pub_a_pk addr, u)"
    using mapR_nth [OF os assms(2)] o by (auto simp: bindR_eq_Inr)
  ultimately show ?thesis
    by (auto simp: o)
qed

lemma prover_inputs_nullifiers:
  assumes "create_prover_inputs C R desc = Inr (pinputs, kp)" "inp \<in> set (mc_inputs desc)"
  shows "\<exists>ji \<in> set (pi_js_inputs pinputs). \<exists>nf. compute_nullifier (c_blake2s C) (snd inp) (a_sk (mc_sender desc)) = Inr nf
    \<and> ji_nullifier ji = bytes_hex nf"
proof -
  have "mapR (create_api_input (c_blake2s C) (mc_mk_tree desc) (a_sk (mc_sender desc))) (mc_inputs desc) = Inr (pi_js_inputs pinputs)"
    using assms(1) by (auto simp: create_prover_inputs_def bindR_eq_Inr)
  from mapR_in [OF this assms(2)] obtain ji where ji: "ji \<in> set (pi_js_inputs pinputs)"
      "create_api_input (c_blake2s C) (mc_mk_tree desc) (a_sk (mc_sender desc)) inp = Inr ji"
    by blast
  show ?thesis
    using ji(2) by (intro bexI [OF _ ji(1)]) (auto simp: create_api_input_def create_api_joinsplit_input_def bindR_eq_Inr)
qed

section \<open>Well-formed calls\<close>

definition units_ok :: "EtherValue \<Rightarrow> bool" where
  "units_ok v \<longleftrightarrow> (case to_zeth_units v of Inr u \<Rightarrow> 0 \<le> u \<and> u < 2 ^ 64 | Inl _ \<Rightarrow> False)"

text \<open>
  Inputs are notes at addresses of the tree, outputs go to addresses with keys of the
  encryption library, and all values are numbers of units that fit.
\<close>

definition call_ok ::
  "('sk, 'pk) crypto \<Rightarrow> OwnershipKeyPair \<Rightarrow> (int \<times> ZethNote) list \<Rightarrow> ('pk ZethAddressPub \<times> EtherValue) list \<Rightarrow>
   EtherValue \<Rightarrow> EtherValue \<Rightarrow> bool" where
  "call_ok C sender inputs outputs v_in v_out \<longleftrightarrow>
     length inputs \<le> JS_INPUTS \<and> length outputs \<le> JS_OUTPUTS \<and> length (a_sk sender) = 32 \<and> length (a_pk sender) = 32
     \<and> (\<forall>(a, n) \<in> set inputs. 0 \<le> a \<and> note_ok n)
     \<and> (\<forall>(addr, v) \<in> set outputs. length (pub_a_pk addr) = 32 \<and> pub_k_pk addr \<in> range (public_key (c_enc C)) \<and> units_ok v)
     \<and> units_ok v_in \<and> units_ok v_out"

definition random_ok :: "'sk mix_random \<Rightarrow> bool" where
  "random_ok R \<longleftrightarrow> length (r_phi R) = 32 \<and> (\<forall>i. length (r_trap R i) = 32)"

lemma mapR_total: "(\<And>x. x \<in> set xs \<Longrightarrow> \<exists>y. f x = Inr y) \<Longrightarrow> \<exists>ys. mapR f xs = Inr ys"
proof (induction xs)
  case (Cons x xs)
  then obtain y ys where "f x = Inr y" "mapR f xs = Inr ys"
    by (metis list.set_intros)
  then show ?case by simp
qed simp

text \<open>The padded call is well-formed in the same sense.\<close>

lemma call_described:
  assumes "call_ok C sender inputs outputs v_in v_out" "c_toWei C (NumInt 0) ''ether'' = Inr 0"
  obtains ds zs where "mix_call_description C R tree sender inputs outputs v_in v_out cb =
      Inr \<lparr>mc_mk_tree = tree, mc_sender = sender, mc_v_in = v_in, mc_v_out = v_out, mc_compute_h_sig_cb = cb,
           mc_inputs = inputs @ ds, mc_outputs = outputs @ zs\<rparr>"
    "length (inputs @ ds) = JS_INPUTS" "length (outputs @ zs) = JS_OUTPUTS"
    "\<forall>(a, n) \<in> set (inputs @ ds). 0 \<le> a \<and> (\<exists>r. rho n = bytes_hex r)"
    "\<forall>(addr, v) \<in> set (outputs @ zs). length (pub_a_pk addr) = 32 \<and> pub_k_pk addr \<in> range (public_key (c_enc C)) \<and> units_ok v"
proof -
  define ds where "ds = map (\<lambda>i. (0 :: int, \<lparr>apk = bytes_hex (a_pk sender), note_value = ZERO_UNITS_HEX,
      rho = bytes_hex (r_dummy_rho R i), trap_r = bytes_hex (r_dummy_trap R i)\<rparr>)) [0 ..< JS_INPUTS - length inputs]"
  define zs where "zs = replicate (JS_OUTPUTS - length outputs)
      (\<lparr>pub_a_pk = a_pk sender, pub_k_pk = public_key (c_enc C) (r_dummy_sk R)\<rparr>, \<lparr>wei = 0\<rparr>)"
  have ok: "length inputs \<le> JS_INPUTS" "length outputs \<le> JS_OUTPUTS" "length (a_pk sender) = 32"
    using assms(1) by (auto simp: call_ok_def)
  have d: "mapR (\<lambda>i. get_dummy_input_and_address (a_pk sender) (r_dummy_rho R i) (r_dummy_trap R i)) [0 ..< JS_INPUTS - length inputs] = Inr ds"
    unfolding ds_def using ok(3) by (intro mapR_Inr) (simp add: get_dummy_input_and_address_def ownership_key_as_hex_32)
  have z: "mapR (\<lambda>_. ether_value (c_toWei C) (NumInt 0) ''ether'') [0 ..< m] = Inr (replicate m \<lparr>wei = 0\<rparr>)" for m
    using mapR_Inr [of "[0 ..< m]" "\<lambda>_. ether_value (c_toWei C) (NumInt 0) ''ether''" "\<lambda>_. \<lparr>wei = 0\<rparr>"] assms(2)
    by (simp add: ether_value_def map_replicate_const)
  have u: "units_ok \<lparr>wei = 0\<rparr>"
    using to_zeth_units_exact [of 0] by (simp add: units_ok_def)
  show thesis
  proof (rule that [of ds zs])
    show "mix_call_description C R tree sender inputs outputs v_in v_out cb =
      Inr \<lparr>mc_mk_tree = tree, mc_sender = sender, mc_v_in = v_in, mc_v_out = v_out, mc_compute_h_sig_cb = cb,
           mc_inputs = inputs @ ds, mc_outputs = outputs @ zs\<rparr>"
      using ok d z by (auto simp: mix_call_description_def zs_def generate_encryption_keypair_def Let_def)
    show "length (inputs @ ds) = JS_INPUTS" "length (outputs @ zs) = JS_OUTPUTS"
      using ok by (simp_all add: ds_def zs_def)
    show "\<forall>(a, n) \<in> set (inputs @ ds). 0 \<le> a \<and> (\<exists>r. rho n = bytes_hex r)"
      using assms(1) by (fastforce simp: call_ok_def note_ok_def ds_def)
    show "\<forall>(addr, v) \<in> set (outputs @ zs). length (pub_a_pk addr) = 32 \<and> pub_k_pk addr \<in> range (public_key (c_enc C)) \<and> units_ok v"
      using assms(1) u by (auto simp: call_ok_def zs_def)
  qed
qed

lemma api_inputs_total:
  assumes "length xs \<le> 2 ^ D" "length ask = 32" "\<forall>(a, n) \<in> set inputs. 0 \<le> a \<and> (\<exists>r. rho n = bytes_hex r)"
  shows "\<exists>js. mapR (create_api_input blake2s (tree_of h D xs (length xs)) ask) inputs = Inr js \<and> length js = length inputs
    \<and> (\<exists>nfs. mapR (\<lambda>i. bytes_fromhex (ji_nullifier i)) js = Inr nfs \<and> length nfs = length inputs \<and> (\<forall>nf \<in> set nfs. length nf = 32))"
proof -
  have "\<exists>j. create_api_input blake2s (tree_of h D xs (length xs)) ask x = Inr (id j)
      \<and> (\<exists>nf. bytes_fromhex (ji_nullifier j) = Inr nf \<and> length nf = 32)"
    if mem: "x \<in> set inputs" for x
  proof -
    obtain r where r: "0 \<le> fst x" "rho (snd x) = bytes_hex r"
      using bspec [OF assms(3) mem] by (auto simp: split_def)
    then have "compute_merkle_path (int (nat (fst x))) (tree_of h D xs (length xs)) = Inr (map bytes_hex (siblings h xs D 0 (nat (fst x))))"
      using merkle_path_loop_ok [OF assms(1), of 0 D h "nat (fst x)"]
      by (simp add: compute_merkle_path_def)
    then show ?thesis
      using r compute_nullifier_ok [OF assms(2) r(2)] assms(2)
      by (simp add: create_api_input_def create_api_joinsplit_input_def ownership_key_as_hex_32)
  qed
  then obtain js where "mapR (create_api_input blake2s (tree_of h D xs (length xs)) ask) inputs = Inr (map id js)"
      and js: "length js = length inputs" "\<forall>i < length inputs. \<exists>nf. bytes_fromhex (ji_nullifier (js ! i)) = Inr nf \<and> length nf = 32"
    using mapR_exists [of inputs "create_api_input blake2s (tree_of h D xs (length xs)) ask" id
        "\<lambda>_ j. \<exists>nf. bytes_fromhex (ji_nullifier j) = Inr nf \<and> length nf = 32"] by blast
  moreover obtain nfs where nfs: "mapR (\<lambda>i. bytes_fromhex (ji_nullifier i)) js = Inr nfs"
    using mapR_total [of js "\<lambda>i. bytes_fromhex (ji_nullifier i)"] js by (fastforce simp: in_set_conv_nth)
  moreover have "\<forall>nf \<in> set nfs. length nf = 32"
    using js mapR_nth [OF nfs] mapR_length [OF nfs] by (fastforce simp: in_set_conv_nth)
  ultimately show ?thesis
    using mapR_length [OF nfs] by auto
qed

lemma units_total:
  assumes "\<forall>(addr, v) \<in> set outputs. length (pub_a_pk addr) = 32 \<and> pub_k_pk addr \<in> K \<and> units_ok v"
  shows "\<exists>os. mapR (\<lambda>(addr, value). bindR (to_zeth_units value) (\<lambda>u. Inr (pub_a_pk addr, u))) outputs = Inr os
    \<and> length os = length outputs \<and> (\<forall>(a, u) \<in> set os. length a = 32 \<and> 0 \<le> u \<and> u < 2 ^ 64)"
  using assms
proof (induction outputs)
  case (Cons x outputs)
  obtain addr v where x: "x = (addr, v)" by fastforce
  with Cons.prems obtain u where "to_zeth_units v = Inr u" "0 \<le> u" "u < 2 ^ 64" "length (pub_a_pk addr) = 32"
    by (auto simp: units_ok_def split: sum.splits)
  with Cons x show ?case by auto
qed simp

lemma units_ok_hex: "units_ok v \<Longrightarrow> \<exists>u h. to_zeth_units v = Inr u \<and> int64_to_hex u = Inr h"
  by (auto simp: units_ok_def int64_to_hex_ok split: sum.splits)

lemma compute_h_sig_ok:
  assumes "ec_lib_laws E" "g1_ok E (ppk key)" "g1_ok E (spk key)"
  shows "\<exists>hs. compute_h_sig sha256 nfs key = Inr hs"
  using g1_to_bytes_ok [OF assms(1,2)] g1_to_bytes_ok [OF assms(1,3)]
  by (auto simp: compute_h_sig_def vk_to_bytes_def)

lemma prover_inputs_total:
  assumes "mc_mk_tree desc = tree_of h D xs (length xs)" "0 < D" "length xs \<le> 2 ^ D" "length (a_sk (mc_sender desc)) = 32"
    and "\<forall>(a, n) \<in> set (mc_inputs desc). 0 \<le> a \<and> (\<exists>r. rho n = bytes_hex r)"
    and "\<forall>(addr, v) \<in> set (mc_outputs desc). length (pub_a_pk addr) = 32 \<and> pub_k_pk addr \<in> K \<and> units_ok v"
    and "length (mc_outputs desc) = JS_OUTPUTS" "units_ok (mc_v_in desc)" "units_ok (mc_v_out desc)" "random_ok R"
    and "gen_signing_keypair (c_ec C) (r_urandom_x R) (r_urandom_y R) = Inr kp" "ec_lib_laws (c_ec C)"
    and "g1_ok (c_ec C) (ppk (vk kp))" "g1_ok (c_ec C) (spk (vk kp))"
    and "\<forall>cb. mc_compute_h_sig_cb desc = Some cb \<longrightarrow>
      (\<forall>nfs. length nfs = length (mc_inputs desc) \<and> (\<forall>nf \<in> set nfs. length nf = 32) \<longrightarrow> (\<exists>hs. cb nfs (vk kp) = Inr hs))"
  shows "\<exists>pinputs. create_prover_inputs C R desc = Inr (pinputs, kp) \<and> length (pi_js_inputs pinputs) = length (mc_inputs desc)
    \<and> length (pi_js_outputs pinputs) = JS_OUTPUTS \<and> (\<forall>n \<in> set (pi_js_outputs pinputs). note_ok n)"
proof -
  obtain js nfs where js: "mapR (create_api_input (c_blake2s C) (mc_mk_tree desc) (a_sk (mc_sender desc))) (mc_inputs desc) = Inr js"
      "length js = length (mc_inputs desc)" "mapR (\<lambda>i. bytes_fromhex (ji_nullifier i)) js = Inr nfs"
      "length nfs = length (mc_inputs desc)" "\<forall>nf \<in> set nfs. length nf = 32"
    using api_inputs_total [OF assms(3-5), of "c_blake2s C" h] unfolding assms(1) by blast
  obtain os where os: "mapR (\<lambda>(addr, value). bindR (to_zeth_units value) (\<lambda>u. Inr (pub_a_pk addr, u))) (mc_outputs desc) = Inr os"
      "length os = JS_OUTPUTS" "\<forall>(a, u) \<in> set os. length a = 32 \<and> 0 \<le> u \<and> u < 2 ^ 64"
    using units_total [OF assms(6)] assms(7) by auto
  obtain hs0 where hs0: "compute_h_sig (c_sha256 C) nfs (vk kp) = Inr hs0"
    using compute_h_sig_ok [OF assms(12-14)] by blast
  then obtain hs where hs: "(case mc_compute_h_sig_cb desc of Some cb \<Rightarrow> cb | None \<Rightarrow> compute_h_sig (c_sha256 C)) nfs (vk kp) = Inr hs"
    using assms(15) js(4,5) by (cases "mc_compute_h_sig_cb desc") auto
  obtain ns where ns: "create_api_zeth_notes (c_blake2s C) (r_trap R) (r_phi R) hs os = Inr ns" "length ns = JS_OUTPUTS"
      "\<forall>i < length os. note_ok (ns ! i)"
    using create_api_zeth_notes_ok [of "r_phi R" os "r_trap R" "c_blake2s C" hs] os(2,3) assms(10) by (auto simp: random_ok_def)
  have "\<forall>n \<in> set ns. note_ok n"
    using ns(2,3) os(2) by (auto simp: in_set_conv_nth)
  moreover obtain u1 h1 u2 h2 where "to_zeth_units (mc_v_in desc) = Inr u1" "int64_to_hex u1 = Inr h1"
      "to_zeth_units (mc_v_out desc) = Inr u2" "int64_to_hex u2 = Inr h2"
    using units_ok_hex [OF assms(8)] units_ok_hex [OF assms(9)] by blast
  moreover have "get_root (mc_mk_tree desc) = Inr (spec_node h xs D 0)"
    using get_root_tree_of [OF assms(2)] by (simp add: assms(1))
  ultimately show ?thesis
    using js os(1) hs ns(1,2) assms(11) by (simp add: create_prover_inputs_def)
qed

lemma encrypt_notes_total:
  assumes "enc_lib_laws L" "\<forall>(n, pk) \<in> set ns. note_ok n \<and> pk \<in> range (public_key L)"
  shows "\<exists>cts. encrypt_notes L eph ns = Inr cts \<and> length cts = length ns"
proof -
  have "\<exists>ct. (case x of (i, note, pk) \<Rightarrow> bindR (zeth_note_to_bytes note) (\<lambda>bs. encrypt L (eph i) bs pk)) = Inr ct"
    if mem: "x \<in> set (zip [0 ..< length ns] ns)" for x
  proof -
    obtain i n pk where inp: "x = (i, n, pk)" by (cases x)
    then have "(n, pk) \<in> set ns"
      using mem by (auto dest: set_zip_rightD)
    then obtain k where x: "x = (i, n, public_key L k)" "note_ok n"
      using bspec [OF assms(2)] inp by auto
    obtain bs where "zeth_note_to_bytes n = Inr bs" "length bs = NOTE_LENGTH_BYTES"
      using note_ok_bytes [OF x(2)] by blast
    with x(1) decrypt_encrypt [OF assms(1), of bs "eph i" k] show ?thesis by auto
  qed
  then obtain cts where "encrypt_notes L eph ns = Inr cts"
    unfolding encrypt_notes_def using mapR_total by blast
  then show ?thesis
    using mapR_length unfolding encrypt_notes_def by fastforce
qed

text \<open>
  A proof that the service returned, as the client reads it, and whose words fit: with it the
  parameters of the call are built and signed.
\<close>

definition proof_ok :: "IZKSnarkProvider \<Rightarrow> ExtendedProof \<times> int list \<Rightarrow> bool" where
  "proof_ok z p \<longleftrightarrow>
     (case proof_to_contract_parameters z (ep_proof (fst p)) of
        Inr params \<Rightarrow> \<forall>x \<in> set params \<union> set (snd p). 0 \<le> x \<and> x < 2 ^ 256
      | Inl _ \<Rightarrow> False)"

definition signed_message ::
  "bytes \<Rightarrow> IZKSnarkProvider \<Rightarrow> MixParameters \<Rightarrow> bool \<Rightarrow> bytes" where
  "signed_message ab z mp disp =
     ab @ concat (mp_ciphertexts mp)
     @ (if disp then [] else concat (map (be_bytes 32) (projr (proof_to_contract_parameters z (ep_proof (mp_extended_proof mp))))))
     @ concat (map (be_bytes 32) (mp_public_data mp))"

lemma mix_parameters_total:
  assumes call: "call_ok C sender inputs outputs v_in v_out" "c_toWei C (NumInt 0) ''ether'' = Inr 0" "random_ok R"
    and tree: "0 < D" "length xs \<le> 2 ^ D"
    and enc: "enc_lib_laws (c_enc C)"
    and ec: "ec_lib_laws (c_ec C)" "gen_signing_keypair (c_ec C) (r_urandom_x R) (r_urandom_y R) = Inr kp"
      "r_urandom_x R (key_size_byte (c_ec C)) \<noteq> []" "r_urandom_y R (key_size_byte (c_ec C)) \<noteq> []"
      "g1_ok (c_ec C) (ppk (vk kp))" "g1_ok (c_ec C) (spk (vk kp))"
    and msg: "encode_bytes32_law (c_encode_single C)" "eth_address_to_bytes32 eth = Inr ab"
    and prover: "get_zksnark_provider (zksnark_name config) = Inr z" "\<And>pinputs. proof_ok z (prove pinputs)"
      "\<And>pinputs. length (pi_js_inputs pinputs) = JS_INPUTS \<Longrightarrow> get_proof fl srv st pinputs = (st', Inr (prove pinputs))"
  shows "\<exists>mp pinputs. create_mix_parameters_and_signing_key C R fl srv config st (tree_of h D xs (length xs)) sender eth
        inputs outputs v_in v_out None disp = (st', Inr (mp, kp))
    \<and> bindR (mix_call_description C R (tree_of h D xs (length xs)) sender inputs outputs v_in v_out None) (create_prover_inputs C R) =
        Inr (pinputs, kp)
    \<and> mp_extended_proof mp = fst (prove pinputs) \<and> mp_public_data mp = snd (prove pinputs) \<and> mp_signature_vk mp = vk kp
    \<and> length (mp_ciphertexts mp) = JS_OUTPUTS
    \<and> verify (c_ec C) (c_sha256 C) (mp_signature_vk mp) (digest_bytes (c_sha256 C (signed_message ab z mp disp))) (mp_signature mp) = Inr True"
proof -
  let ?t = "tree_of h D xs (length xs)"
  obtain ds zs where d: "mix_call_description C R ?t sender inputs outputs v_in v_out None =
      Inr \<lparr>mc_mk_tree = ?t, mc_sender = sender, mc_v_in = v_in, mc_v_out = v_out, mc_compute_h_sig_cb = None,
           mc_inputs = inputs @ ds, mc_outputs = outputs @ zs\<rparr>" (is "_ = Inr ?d")
    and len: "length (inputs @ ds) = JS_INPUTS" "length (outputs @ zs) = JS_OUTPUTS"
    and io: "\<forall>(a, n) \<in> set (inputs @ ds). 0 \<le> a \<and> (\<exists>r. rho n = bytes_hex r)"
      "\<forall>(addr, v) \<in> set (outputs @ zs). length (pub_a_pk addr) = 32 \<and> pub_k_pk addr \<in> range (public_key (c_enc C)) \<and> units_ok v"
    by (rule call_described [OF call(1,2)])
  obtain pinputs where pi: "create_prover_inputs C R ?d = Inr (pinputs, kp)" "length (pi_js_inputs pinputs) = JS_INPUTS"
      "length (pi_js_outputs pinputs) = JS_OUTPUTS" "\<forall>n \<in> set (pi_js_outputs pinputs). note_ok n"
    using prover_inputs_total [of ?d h D xs "range (public_key (c_enc C))" R C kp] tree call ec io len
    by (auto simp: call_ok_def)
  let ?ns = "map (\<lambda>((zeth_addr, _), note). (note, pub_k_pk zeth_addr)) (zip (outputs @ zs) (pi_js_outputs pinputs))"
  have "\<forall>(n, pk) \<in> set ?ns. note_ok n \<and> pk \<in> range (public_key (c_enc C))"
    using pi(4) io(2) by (fastforce dest: set_zip_leftD set_zip_rightD)
  then obtain cts where cts: "encrypt_notes (c_enc C) (r_eph R) ?ns = Inr cts" "length cts = JS_OUTPUTS"
    using encrypt_notes_total [OF enc, of ?ns "r_eph R"] len pi(3) by auto
  obtain params where params: "proof_to_contract_parameters z (ep_proof (fst (prove pinputs))) = Inr params"
      "\<forall>x \<in> set params \<union> set (snd (prove pinputs)). 0 \<le> x \<and> x < 2 ^ 256"
    using prover(2) [of pinputs] by (auto simp: proof_ok_def split: sum.splits)
  obtain sigma where sigma: "joinsplit_sign C z kp eth cts (fst (prove pinputs)) (snd (prove pinputs)) disp = Inr sigma"
      "verify (c_ec C) (c_sha256 C) (vk kp) (digest_bytes (c_sha256 C (ab @ concat cts
         @ (if disp then [] else concat (map (be_bytes 32) params)) @ concat (map (be_bytes 32) (snd (prove pinputs)))))) sigma = Inr True"
    using joinsplit_sign_ok [OF ec(1,2,3,4,6) msg params, of cts disp] cts(2) by (auto simp: JS_OUTPUTS_def JS_INPUTS_def)
  let ?mp = "\<lparr>mp_extended_proof = fst (prove pinputs), mp_public_data = snd (prove pinputs), mp_signature_vk = vk kp,
      mp_signature = sigma, mp_ciphertexts = cts\<rparr>"
  have mp: "create_mix_parameters_from_proof C R config ?d pinputs kp (fst (prove pinputs)) (snd (prove pinputs)) eth disp = Inr ?mp"
    using cts(1) sigma(1) prover(1) by (simp add: create_mix_parameters_from_proof_def)
  have "create_mix_parameters_and_signing_key C R fl srv config st ?t sender eth inputs outputs v_in v_out None disp = (st', Inr (?mp, kp))"
    unfolding create_mix_parameters_and_signing_key_def d
    using pi len prover(3) [OF pi(2)] mp by (simp add: bindS_simps split_def)
  moreover have "signed_message ab z ?mp disp =
      ab @ concat cts @ (if disp then [] else concat (map (be_bytes 32) params)) @ concat (map (be_bytes 32) (snd (prove pinputs)))"
    using params(1) by (simp add: signed_message_def)
  ultimately show ?thesis
    using d pi(1) sigma(2) cts(2) by (intro exI [of _ ?mp] exI [of _ pinputs]) simp
qed

section \<open>An example\<close>

text \<open>A service that answers every request with the same proof.\<close>

definition example_prover :: prover_server where
  "example_prover = example_server\<lparr>srv_Prove := \<lambda>_. Inr (projr (extended_proof_to_proto Groth16 example_groth16), [''0x1''])\<rparr>"

definition example_state :: prover_state where
  "example_state = (\<lparr>prover_config_file = None, prover_config = Some example_config\<rparr>, Map.empty)"

lemma example_get_proof:
  assumes "length (pi_js_inputs pinputs) = JS_INPUTS"
  shows "get_proof fl example_prover example_state pinputs = (example_state, Inr (example_groth16, [1]))"
proof -
  have "is_groth16_proof (ep_proof example_groth16)"
    by (simp add: example_groth16_def Let_def)
  then obtain m where "extended_proof_to_proto Groth16 example_groth16 = Inr m" "extended_proof_from_proto Groth16 m = Inr example_groth16"
    using groth16.ext_msg by blast
  moreover have "py_int_str ''0x1'' 16 = Inr 1" "get_zksnark_provider ''GROTH16'' = Inr Groth16"
    by code_simp+
  ultimately show ?thesis
    using assms by (simp add: get_proof_def example_prover_def client_get_zksnark_provider_def get_configuration_def
        example_state_def example_config_def)
qed

text \<open>The example crypto satisfies the laws that a call needs.\<close>

lemma example_crypto_laws:
  "enc_lib_laws (c_enc example_crypto)" "ec_lib_laws (c_ec example_crypto)" "encode_bytes32_law (c_encode_single example_crypto)"
  "c_toWei example_crypto (NumInt 0) ''ether'' = Inr 0"
  by (simp_all add: example_crypto_def example_enc_lib_laws example_ec_lib_laws encode_bytes32_law_def)

lemma example_random_keypair:
  "gen_signing_keypair (c_ec example_crypto) (r_urandom_x example_random) (r_urandom_y example_random) = Inr example_keypair"
  "r_urandom_x example_random (key_size_byte (c_ec example_crypto)) \<noteq> []"
  "r_urandom_y example_random (key_size_byte (c_ec example_crypto)) \<noteq> []"
  "g1_ok (c_ec example_crypto) (ppk (vk example_keypair))" "g1_ok (c_ec example_crypto) (spk (vk example_keypair))"
proof -
  have "key_size_byte example_ec_lib \<noteq> 0"
    by code_simp
  then show "gen_signing_keypair (c_ec example_crypto) (r_urandom_x example_random) (r_urandom_y example_random) = Inr example_keypair"
    "r_urandom_x example_random (key_size_byte (c_ec example_crypto)) \<noteq> []"
    "r_urandom_y example_random (key_size_byte (c_ec example_crypto)) \<noteq> []"
    using example_keypair_gen by (simp_all add: example_crypto_def example_random_def)
  show "g1_ok (c_ec example_crypto) (ppk (vk example_keypair))" "g1_ok (c_ec example_crypto) (spk (vk example_keypair))"
    by (simp_all add: g1_ok_def example_crypto_def example_keypair_def example_ec_lib_def)
qed

lemma example_random_ok: "random_ok example_random"
  by (simp add: random_ok_def example_random_def)

lemma example_proof_ok: "proof_ok Groth16 (example_groth16, [1])"
  by (auto simp: proof_ok_def example_groth16_params)

lemma example_provider: "get_zksnark_provider (zksnark_name example_config) = Inr Groth16"
  by code_simp

lemma units_ok_units: "0 \<le> n \<Longrightarrow> n < 2 ^ 53 \<Longrightarrow> units_ok \<lparr>wei = n * ZETH_PUBLIC_UNIT_VALUE\<rparr>"
  using to_zeth_units_exact [of n] by (simp add: units_ok_def)

section \<open>Properties\<close>

text \<open>
  C16. A well-formed call is always built: with at most two inputs that are notes at addresses of the
  tree, at most two outputs to valid addresses with values of at most 64 bits in units, and a
  service that answers with a proof, the client makes the parameters without raising. They
  have the proof of the padded call, two ciphertexts, and a signature that verifies under the
  included key on sender, ciphertexts, proof and public inputs.
\<close>

theorem mix_call_built:
  assumes "call_ok C sender inputs outputs v_in v_out" "c_toWei C (NumInt 0) ''ether'' = Inr 0" "random_ok R"
    and "0 < D" "length xs \<le> 2 ^ D" "enc_lib_laws (c_enc C)"
    and "ec_lib_laws (c_ec C)" "gen_signing_keypair (c_ec C) (r_urandom_x R) (r_urandom_y R) = Inr kp"
      "r_urandom_x R (key_size_byte (c_ec C)) \<noteq> []" "r_urandom_y R (key_size_byte (c_ec C)) \<noteq> []"
      "g1_ok (c_ec C) (ppk (vk kp))" "g1_ok (c_ec C) (spk (vk kp))"
    and "encode_bytes32_law (c_encode_single C)" "eth_address_to_bytes32 eth = Inr ab"
    and "get_zksnark_provider (zksnark_name config) = Inr z" "\<And>pinputs. proof_ok z (prove pinputs)"
      "\<And>pinputs. length (pi_js_inputs pinputs) = JS_INPUTS \<Longrightarrow> get_proof fl srv st pinputs = (st', Inr (prove pinputs))"
  shows "\<exists>mp pinputs. create_mix_parameters_and_signing_key C R fl srv config st (tree_of h D xs (length xs)) sender eth
        inputs outputs v_in v_out None disp = (st', Inr (mp, kp))
    \<and> bindR (mix_call_description C R (tree_of h D xs (length xs)) sender inputs outputs v_in v_out None) (create_prover_inputs C R) =
        Inr (pinputs, kp)
    \<and> mp_extended_proof mp = fst (prove pinputs) \<and> mp_public_data mp = snd (prove pinputs) \<and> mp_signature_vk mp = vk kp
    \<and> length (mp_ciphertexts mp) = JS_OUTPUTS
    \<and> verify (c_ec C) (c_sha256 C) (mp_signature_vk mp) (digest_bytes (c_sha256 C (signed_message ab z mp disp))) (mp_signature mp) = Inr True"
  using assms by (rule mix_parameters_total)

definition example_call_note :: ZethNote where
  "example_call_note = \<lparr>apk = bytes_hex (replicate 32 1), note_value = bytes_hex (be_bytes 8 5),
     rho = bytes_hex (replicate 32 1), trap_r = bytes_hex (replicate 32 1)\<rparr>"

definition example_call_outputs :: "(256 word ZethAddressPub \<times> EtherValue) list" where
  "example_call_outputs = [(\<lparr>pub_a_pk = replicate 32 6, pub_k_pk = 9\<rparr>, \<lparr>wei = 5 * ZETH_PUBLIC_UNIT_VALUE\<rparr>)]"

lemma example_call_ok:
  "call_ok example_crypto \<lparr>a_sk = replicate 32 2, a_pk = replicate 32 6\<rparr> [(0, example_call_note)] example_call_outputs \<lparr>wei = 0\<rparr> \<lparr>wei = 0\<rparr>"
proof -
  have "note_ok example_call_note"
    unfolding note_ok_def example_call_note_def
    by (rule exI [of _ "replicate 32 1"], rule exI [of _ "be_bytes 8 5"], rule exI [of _ "replicate 32 1"],
        rule exI [of _ "replicate 32 1"]) simp
  moreover have "public_key (c_enc example_crypto) 8 = 9"
    by (simp add: example_crypto_def example_enc_lib_def)
  then have "9 \<in> range (public_key (c_enc example_crypto))"
    by (metis rangeI)
  ultimately show ?thesis
    using units_ok_units [of 5] units_ok_units [of 0]
    by (simp add: call_ok_def example_call_outputs_def JS_INPUTS_def JS_OUTPUTS_def)
qed

theorem mix_call_built_witness:
  "\<exists>mp pinputs. create_mix_parameters_and_signing_key example_crypto example_random (\<lambda>n. 3) example_prover example_config example_state
        (tree_of append 2 [replicate 32 9] (length [replicate 32 (9 :: byte)])) \<lparr>a_sk = replicate 32 2, a_pk = replicate 32 6\<rparr> ZERO_ADDRESS
        [(0, example_call_note)] example_call_outputs \<lparr>wei = 0\<rparr> \<lparr>wei = 0\<rparr> None False = (example_state, Inr (mp, example_keypair))
    \<and> bindR (mix_call_description example_crypto example_random (tree_of append 2 [replicate 32 9] (length [replicate 32 (9 :: byte)]))
          \<lparr>a_sk = replicate 32 2, a_pk = replicate 32 6\<rparr> [(0, example_call_note)] example_call_outputs \<lparr>wei = 0\<rparr> \<lparr>wei = 0\<rparr> None)
          (create_prover_inputs example_crypto example_random) = Inr (pinputs, example_keypair)
    \<and> mp_extended_proof mp = fst (example_groth16, [1 :: int]) \<and> mp_public_data mp = snd (example_groth16, [1 :: int])
    \<and> mp_signature_vk mp = vk example_keypair \<and> length (mp_ciphertexts mp) = JS_OUTPUTS
    \<and> verify (c_ec example_crypto) (c_sha256 example_crypto) (mp_signature_vk mp)
        (digest_bytes (c_sha256 example_crypto (signed_message (replicate 32 0) Groth16 mp False))) (mp_signature mp) = Inr True"
  by (rule mix_call_built [where prove = "\<lambda>_. (example_groth16, [1])"])
    (simp_all add: example_call_ok example_crypto_laws example_random_keypair example_proof_ok example_provider example_get_proof
      example_address example_random_ok)

end
