(* ===== verification/Wallet.thy ===== *)
theory Wallet
  imports Mixer_Client "HOL-Library.AList" "HOL-Library.List_Lexorder" "HOL-Library.Char_ord"
begin

text \<open>
  \<open>client/zeth/core/wallet.py\<close>: the notes of a user, one file for each in the wallet directory, moved
  to a subdirectory when spent; the map from nullifiers to short commitments; and the
  persistent Merkle tree. A directory is an association list from file names to documents.
  Glob patterns have the wildcards \<open>*\<close> and \<open>?\<close>; character sets are not represented. An
  operation returns the wallet next to its outcome, since an exception does not undo what was
  done before it.
\<close>

section \<open>Names and patterns\<close>

function glob_match :: "string \<Rightarrow> string \<Rightarrow> bool" where
  "glob_match [] s = (s = [])"
| "glob_match (c # p) s =
     (if c = CHR ''*'' then glob_match p s \<or> (if s = [] then False else glob_match (c # p) (tl s))
      else case s of [] \<Rightarrow> False | x # xs \<Rightarrow> (c = CHR ''?'' \<or> c = x) \<and> glob_match p xs)"
  by pat_completeness auto
termination
  by (relation "measure (\<lambda>(p, s). length p + length s)") auto

declare glob_match.simps(2) [simp del]

text \<open>\<open>"%04d" % n\<close>.\<close>

definition format_04d :: "int \<Rightarrow> string" where
  "format_04d n =
     (if n < 0 then ''-'' @ pad_left 3 CHR ''0'' (num_str 10 (- n)) else pad_left 4 CHR ''0'' (num_str 10 n))"

type_synonym 'a dir = "(string \<times> 'a) list"

definition glob :: "'a dir \<Rightarrow> string \<Rightarrow> string list" where
  "glob d pattern = filter (glob_match pattern) (map fst d)"

section \<open>Notes and state\<close>

record ZethNoteDescription =
  nd_note :: ZethNote
  nd_address :: int
  nd_commitment :: bytes

definition as_input :: "ZethNoteDescription \<Rightarrow> int \<times> ZethNote" where
  "as_input d = (nd_address d, nd_note d)"

definition note_desc_to_json :: "ZethNoteDescription \<Rightarrow> json" where
  "note_desc_to_json d =
     JObj [(''note'', JObj [(''a_pk'', JStr (apk (nd_note d))), (''value'', JStr (note_value (nd_note d))),
                            (''rho'', JStr (rho (nd_note d))), (''trap_r'', JStr (trap_r (nd_note d)))]),
           (''address'', JStr (str_int (nd_address d))),
           (''commitment'', JStr (bytes_hex (nd_commitment d)))]"

definition note_desc_from_json :: "json \<Rightarrow> ZethNoteDescription res" where
  "note_desc_from_json j =
     bindR (jget j ''note'') (\<lambda>n.
     bindR (jget_str n ''a_pk'') (\<lambda>a.
     bindR (jget_str n ''value'') (\<lambda>v.
     bindR (jget_str n ''rho'') (\<lambda>r.
     bindR (jget_str n ''trap_r'') (\<lambda>t.
     bindR (bindR (jget_str j ''address'') (\<lambda>s. py_int_str s 10)) (\<lambda>addr.
     bindR (bindR (jget_str j ''commitment'') bytes_fromhex) (\<lambda>cm.
       Inr \<lparr>nd_note = \<lparr>apk = a, note_value = v, rho = r, trap_r = t\<rparr>, nd_address = addr, nd_commitment = cm\<rparr>)))))))"

record WalletState =
  next_block :: int
  num_notes :: int
  nullifier_map :: "(string \<times> string) list"

definition wallet_state_to_json :: "WalletState \<Rightarrow> json" where
  "wallet_state_to_json st =
     JObj [(''next_block'', JInt (next_block st)), (''num_notes'', JInt (num_notes st)),
           (''nullifier_map'', JObj (map (\<lambda>(k, v). (k, JStr v)) (nullifier_map st)))]"

definition j_str_entries :: "json \<Rightarrow> (string \<times> string) list res" where
  "j_str_entries j =
     (case j of
        JObj kvs \<Rightarrow> mapR (\<lambda>(k, v). bindR (j_str v) (\<lambda>s. Inr (k, s))) kvs
      | _ \<Rightarrow> Inl TypeError)"

definition wallet_state_from_json :: "json \<Rightarrow> WalletState res" where
  "wallet_state_from_json j =
     bindR (jget_int j ''next_block'') (\<lambda>n.
     bindR (jget_int j ''num_notes'') (\<lambda>k.
     bindR (bindR (jget j ''nullifier_map'') j_str_entries) (\<lambda>m.
       Inr \<lparr>next_block = n, num_notes = k, nullifier_map = m\<rparr>)))"

definition load_state_or_default :: "json option \<Rightarrow> WalletState res" where
  "load_state_or_default state_file =
     (case state_file of
        None \<Rightarrow> Inr \<lparr>next_block = 1, num_notes = 0, nullifier_map = []\<rparr>
      | Some j \<Rightarrow> wallet_state_from_json j)"

section \<open>The wallet\<close>

text \<open>The files of the wallet directory: notes, spent notes, state and Merkle tree.\<close>

record wallet_disk =
  disk_notes :: "json dir"
  disk_spent :: "json dir"
  disk_state :: "json option"
  disk_tree :: "MerkleTreeJson option"

record 'sk Wallet =
  username :: string
  w_a_sk :: bytes
  w_k_sk :: 'sk
  w_state :: WalletState
  w_tree :: MerkleTree
  merkle_tree_changed :: bool
  next_addr :: int
  w_disk :: wallet_disk

text \<open>What the wallet calls: the cryptography, the tree hash and \<open>EtherValue.ether\<close>.\<close>

record ('sk, 'pk) wallet_env =
  we_crypto :: "('sk, 'pk) crypto"
  we_hash :: tree_hash_fn
  we_int_log2 :: "nat \<Rightarrow> nat"
  we_ether :: "EtherValue \<Rightarrow> string"

definition wallet_init ::
  "('sk, 'pk) wallet_env \<Rightarrow> string \<Rightarrow> 'sk ZethAddressPriv \<Rightarrow> wallet_disk \<Rightarrow> 'sk Wallet res" where
  "wallet_init env user secret_address disk =
     assertR (CHR ''_'' \<notin> set user)
       (bindR (load_state_or_default (disk_state disk)) (\<lambda>st.
        bindR (persistent_open (we_int_log2 env) (disk_tree disk) (2 ^ ZETH_MERKLE_TREE_DEPTH) (we_hash env)) (\<lambda>t.
        bindR (get_num_entries t) (\<lambda>n.
          Inr \<lparr>username = user, w_a_sk = priv_a_sk secret_address, w_k_sk = priv_k_sk secret_address, w_state = st,
               w_tree = t, merkle_tree_changed = False, next_addr = int n, w_disk = disk\<rparr>))))"

definition check_note :: "('sk, 'pk) wallet_env \<Rightarrow> bytes \<Rightarrow> ZethNote \<Rightarrow> PairingParameters \<Rightarrow> bool res" where
  "check_note env commit note pp =
     bindR (compute_commitment (c_blake2s (we_crypto env)) note pp) (\<lambda>cm. Inr (commit = cm))"

definition note_basename :: "('sk, 'pk) wallet_env \<Rightarrow> 'sk Wallet \<Rightarrow> ZethNoteDescription \<Rightarrow> string res" where
  "note_basename env w d =
     bindR (py_int_str (note_value (nd_note d)) 16) (\<lambda>v.
     bindR (from_zeth_units (c_toWei (we_crypto env)) v) (\<lambda>value.
       Inr (''note_'' @ username w @ ''_'' @ format_04d (nd_address d) @ ''_'' @
            short_commitment (nd_commitment d) @ ''_'' @ we_ether env value)))"

definition write_note :: "('sk, 'pk) wallet_env \<Rightarrow> 'sk Wallet \<Rightarrow> ZethNoteDescription \<Rightarrow> 'sk Wallet \<times> unit res" where
  "write_note env w d =
     (case note_basename env w d of
        Inl e \<Rightarrow> (w, Inl e)
      | Inr name \<Rightarrow>
          (w\<lparr>w_disk := (w_disk w)\<lparr>disk_notes := AList.update name (note_desc_to_json d) (disk_notes (w_disk w))\<rparr>\<rparr>, Inr ()))"

definition wallet_receive_note ::
  "('sk, 'pk) wallet_env \<Rightarrow> 'sk Wallet \<Rightarrow> int \<Rightarrow> MixOutputEvents \<Rightarrow> PairingParameters \<Rightarrow>
   'sk Wallet \<times> ZethNoteDescription option res" where
  "wallet_receive_note env w comm_addr out_ev pp =
     bindS (w, receive_note (c_enc (we_crypto env)) out_ev (w_k_sk w)) (\<lambda>w our_note.
       case our_note of
         None \<Rightarrow> (w, Inr None)
       | Some (commit, note) \<Rightarrow>
           bindS (w, check_note env commit note pp) (\<lambda>w ok.
           if \<not> ok then (w, Inr None)
           else let d = \<lparr>nd_note = note, nd_address = comm_addr, nd_commitment = commit\<rparr>
                in bindS (write_note env w d) (\<lambda>w _.
                   bindS (w, compute_nullifier (c_blake2s (we_crypto env)) note (w_a_sk w)) (\<lambda>w nullifier.
                     (w\<lparr>w_state := (w_state w)\<lparr>nullifier_map :=
                          AList.update (bytes_hex nullifier) (short_commitment commit) (nullifier_map (w_state w))\<rparr>\<rparr>,
                      Inr (Some d))))))"

fun receive_notes_loop ::
  "('sk, 'pk) wallet_env \<Rightarrow> PairingParameters \<Rightarrow> 'sk Wallet \<Rightarrow> MixOutputEvents list \<Rightarrow> ZethNoteDescription list \<Rightarrow>
   'sk Wallet \<times> ZethNoteDescription list res" where
  "receive_notes_loop env pp w [] new_notes = (w, Inr new_notes)"
| "receive_notes_loop env pp w (ev # evs) new_notes =
     bindS (w, insert_leaf (w_tree w) (oe_commitment ev)) (\<lambda>w t.
     bindS (wallet_receive_note env (w\<lparr>w_tree := t\<rparr>) (next_addr w) ev pp) (\<lambda>w d.
       receive_notes_loop env pp (w\<lparr>next_addr := next_addr w + 1\<rparr>) evs
         (case d of None \<Rightarrow> new_notes | Some x \<Rightarrow> new_notes @ [x])))"

definition receive_notes ::
  "('sk, 'pk) wallet_env \<Rightarrow> 'sk Wallet \<Rightarrow> MixOutputEvents list \<Rightarrow> PairingParameters \<Rightarrow>
   'sk Wallet \<times> ZethNoteDescription list res" where
  "receive_notes env w evs pp =
     bindS (receive_notes_loop env pp (w\<lparr>merkle_tree_changed := (evs \<noteq> [])\<rparr>) evs []) (\<lambda>w new_notes.
       (w\<lparr>w_state := (w_state w)\<lparr>num_notes := num_notes (w_state w) + int (length evs)\<rparr>\<rparr>, Inr new_notes))"

definition find_note_file :: "'sk Wallet \<Rightarrow> string \<Rightarrow> string option" where
  "find_note_file w key =
     (let candidates = (\<lambda>wildcard. case glob (disk_notes (w_disk w)) wildcard of [f] \<Rightarrow> Some f | _ \<Rightarrow> None)
      in if length key < 5 then
           (case py_int_str key 10 of
              Inl _ \<Rightarrow> None
            | Inr n \<Rightarrow> candidates (''note_'' @ username w @ ''_'' @ format_04d n @ ''_*''))
         else candidates (''note_'' @ username w @ ''_*_'' @ key @ ''_*''))"

definition mark_note_spent :: "'sk Wallet \<Rightarrow> string \<Rightarrow> string \<Rightarrow> 'sk Wallet \<times> unit res" where
  "mark_note_spent w nullifier_hex short_commit =
     (case find_note_file w short_commit of
        None \<Rightarrow> (w, Inl (PyException (''expected to find file for commit '' @ short_commit)))
      | Some f \<Rightarrow>
          let d = w_disk w; doc = the (map_of (disk_notes d) f)
          in (w\<lparr>w_disk := d\<lparr>disk_notes := AList.delete f (disk_notes d), disk_spent := AList.update f doc (disk_spent d)\<rparr>,
                w_state := (w_state w)\<lparr>nullifier_map := AList.delete nullifier_hex (nullifier_map (w_state w))\<rparr>\<rparr>, Inr ()))"

fun mark_nullifiers_used :: "'sk Wallet \<Rightarrow> bytes list \<Rightarrow> string list \<Rightarrow> 'sk Wallet \<times> string list res" where
  "mark_nullifiers_used w [] commits = (w, Inr commits)"
| "mark_nullifiers_used w (nullifier # nullifiers) commits =
     (case map_of (nullifier_map (w_state w)) (bytes_hex nullifier) of
        Some short_commit \<Rightarrow>
          if short_commit \<noteq> [] then
            bindS (mark_note_spent w (bytes_hex nullifier) short_commit) (\<lambda>w _.
              mark_nullifiers_used w nullifiers (commits @ [short_commit]))
          else mark_nullifiers_used w nullifiers commits
      | None \<Rightarrow> mark_nullifiers_used w nullifiers commits)"

definition save_merkle_tree_if_changed :: "('sk, 'pk) wallet_env \<Rightarrow> 'sk Wallet \<Rightarrow> 'sk Wallet \<times> unit res" where
  "save_merkle_tree_if_changed env w =
     (if merkle_tree_changed w then
        let w = w\<lparr>merkle_tree_changed := False\<rparr>
        in bindS (w, recompute_root (we_hash env) (w_tree w)) (\<lambda>w (t, _).
             (w\<lparr>w_tree := t, w_disk := (w_disk w)\<lparr>disk_tree := Some (persistent_save t)\<rparr>\<rparr>, Inr ()))
      else (w, Inr ()))"

definition update_and_save_state :: "('sk, 'pk) wallet_env \<Rightarrow> 'sk Wallet \<Rightarrow> int \<Rightarrow> 'sk Wallet \<times> unit res" where
  "update_and_save_state env w nb =
     (let st = (w_state w)\<lparr>next_block := nb\<rparr>
      in save_merkle_tree_if_changed env
           (w\<lparr>w_state := st, w_disk := (w_disk w)\<lparr>disk_state := Some (wallet_state_to_json st)\<rparr>\<rparr>))"

definition find_note :: "'sk Wallet \<Rightarrow> string \<Rightarrow> ZethNoteDescription res" where
  "find_note w note_id =
     (case find_note_file w note_id of
        None \<Rightarrow> Inl (PyException (''no note with id '' @ note_id))
      | Some f \<Rightarrow> (case map_of (disk_notes (w_disk w)) f of
                      None \<Rightarrow> Inl FileNotFoundError
                    | Some j \<Rightarrow> note_desc_from_json j))"

section \<open>Summaries\<close>

definition decode_basename :: "('sk, 'pk) wallet_env \<Rightarrow> string \<Rightarrow> (int \<times> string \<times> EtherValue) res" where
  "decode_basename env filename =
     (let components = split_on CHR ''_'' filename
      in bindR (bindR (py_index components 2) (\<lambda>s. py_int_str s 10)) (\<lambda>addr.
         bindR (py_index components 3) (\<lambda>short_commit.
         bindR (bindR (py_index components 4) (\<lambda>s. ether_value (c_toWei (we_crypto env)) (NumStr s) ''ether'')) (\<lambda>value.
           Inr (addr, short_commit, value)))))"

text \<open>
  Files that raise \<open>ValueError\<close> are skipped, any other error ends the iteration. Names are sorted
  by the codes of their characters.
\<close>

fun decode_files :: "('sk, 'pk) wallet_env \<Rightarrow> string list \<Rightarrow> (int \<times> string \<times> EtherValue) list res" where
  "decode_files env [] = Inr []"
| "decode_files env (f # fs) =
     (case decode_basename env f of
        Inr x \<Rightarrow> bindR (decode_files env fs) (\<lambda>xs. Inr (x # xs))
      | Inl e \<Rightarrow> if e = ValueError then decode_files env fs else Inl e)"

definition decode_note_files_in_dir ::
  "('sk, 'pk) wallet_env \<Rightarrow> 'sk Wallet \<Rightarrow> json dir \<Rightarrow> (int \<times> string \<times> EtherValue) list res" where
  "decode_note_files_in_dir env w d =
     decode_files env (sort (glob d (''note_'' @ username w @ ''_*'')))"

definition note_summaries where
  "note_summaries env w = decode_note_files_in_dir env w (disk_notes (w_disk w))"

definition spent_note_summaries where
  "spent_note_summaries env w = decode_note_files_in_dir env w (disk_spent (w_disk w))"

section \<open>Lemmas on patterns\<close>

definition literal :: "string \<Rightarrow> bool" where
  "literal p \<longleftrightarrow> CHR ''*'' \<notin> set p \<and> CHR ''?'' \<notin> set p"

lemma glob_match_star: "glob_match (CHR ''*'' # p) s \<longleftrightarrow> (\<exists>u t. s = u @ t \<and> glob_match p t)"
proof (induction s)
  case Nil
  then show ?case by (simp add: glob_match.simps(2))
next
  case (Cons x s)
  have "(\<exists>u t. x # s = u @ t \<and> glob_match p t) \<longleftrightarrow> glob_match p (x # s) \<or> (\<exists>u t. s = u @ t \<and> glob_match p t)"
    by (auto simp: Cons_eq_append_conv)
  with Cons show ?case
    by (subst glob_match.simps(2)) simp
qed

lemma glob_match_star_all: "glob_match ''*'' s"
  using glob_match_star [of "[]" s] by simp

lemma glob_match_literal: "literal p \<Longrightarrow> glob_match (p @ q) s \<longleftrightarrow> (\<exists>t. s = p @ t \<and> glob_match q t)"
proof (induction p arbitrary: s)
  case (Cons c p)
  then have IH: "glob_match (p @ q) s \<longleftrightarrow> (\<exists>t. s = p @ t \<and> glob_match q t)" for s
    by (simp add: literal_def)
  have "glob_match ((c # p) @ q) s \<longleftrightarrow> (\<exists>t. s = c # t \<and> glob_match (p @ q) t)"
    using Cons.prems unfolding append_Cons
    by (subst glob_match.simps(2)) (auto simp: literal_def split: list.split)
  with IH show ?case by auto
qed simp

text \<open>Underscores separate the components of a name.\<close>

lemma component_match:
  assumes "c \<notin> set a" "c \<notin> set b" "c \<notin> set v" "c \<notin> set key"
  shows "(\<exists>u t. a @ c # b @ c # v = u @ c # key @ c # t) \<longleftrightarrow> b = key"
proof
  assume "\<exists>u t. a @ c # b @ c # v = u @ c # key @ c # t"
  then obtain u t where eq: "a @ c # b @ c # v = u @ c # key @ c # t" by blast
  have "count_list (a @ c # b @ c # v) c = count_list (u @ c # key @ c # t) c"
    by (simp only: eq)
  then have "c \<notin> set u"
    using assms by (simp add: count_list_0_iff)
  with eq assms show "b = key"
    by (simp add: sep_unique)
qed auto

section \<open>Finding note files\<close>

text \<open>The name and the contents of the file of a note.\<close>

definition desc_value :: "ZethNoteDescription \<Rightarrow> EtherValue" where
  "desc_value d = \<lparr>wei = digits_value 16 (note_value (nd_note d)) * ZETH_PUBLIC_UNIT_VALUE\<rparr>"

definition file_name :: "('sk, 'pk) wallet_env \<Rightarrow> string \<Rightarrow> ZethNoteDescription \<Rightarrow> string" where
  "file_name env user d =
     ''note_'' @ user @ ''_'' @ format_04d (nd_address d) @ ''_'' @
       short_commitment (nd_commitment d) @ ''_'' @ we_ether env (desc_value d)"

definition note_files :: "('sk, 'pk) wallet_env \<Rightarrow> string \<Rightarrow> ZethNoteDescription list \<Rightarrow> json dir" where
  "note_files env user ds = map (\<lambda>d. (file_name env user d, note_desc_to_json d)) ds"

text \<open>Notes as the wallet receives them, in an environment whose decimals have no underscore.\<close>

definition desc_ok :: "ZethNoteDescription \<Rightarrow> bool" where
  "desc_ok d \<longleftrightarrow> note_ok (nd_note d) \<and> 0 \<le> nd_address d \<and> length (nd_commitment d) = 32"

definition env_ok :: "('sk, 'pk) wallet_env \<Rightarrow> bool" where
  "env_ok env \<longleftrightarrow> to_wei_law (c_toWei (we_crypto env)) \<and> (\<forall>v. CHR ''_'' \<notin> set (we_ether env v))"

abbreviation sc :: "ZethNoteDescription \<Rightarrow> string" where
  "sc d \<equiv> short_commitment (nd_commitment d)"

lemma literal_append [simp]: "literal (p @ q) \<longleftrightarrow> literal p \<and> literal q"
  by (auto simp: literal_def)

lemma short_commitment_chars [simp]:
  "CHR ''_'' \<notin> set (short_commitment cm)" "literal (short_commitment cm)"
  by (simp_all add: short_commitment_def literal_def bytes_hex_not_in)

lemma all_digits_no_sep: "all_digits base s \<Longrightarrow> CHR ''_'' \<notin> set s"
  by (auto simp: all_digits_def)

lemma format_04d_chars: "0 \<le> n \<Longrightarrow> CHR ''_'' \<notin> set (format_04d n)"
  using all_digits_no_sep [OF num_str_all_digits [of 10 n]] by (auto simp: format_04d_def pad_left_def)

lemma file_name_match:
  assumes "env_ok env" "desc_ok d" "CHR ''_'' \<notin> set key" "literal user" "literal key"
  shows "glob_match (''note_'' @ user @ ''_*_'' @ key @ ''_*'') (file_name env user d) \<longleftrightarrow> sc d = key"
proof -
  let ?pre = "''note_'' @ user @ ''_''" and ?v = "we_ether env (desc_value d)"
  let ?rest = "format_04d (nd_address d) @ CHR ''_'' # sc d @ CHR ''_'' # ?v"
  have lit: "literal ?pre" "literal (''_'' @ key @ ''_'')"
    using assms by (auto simp: literal_def)
  have pat: "''note_'' @ user @ ''_*_'' @ key @ ''_*'' = ?pre @ CHR ''*'' # (''_'' @ key @ ''_'') @ ''*''"
    by simp
  have name: "file_name env user d = ?pre @ ?rest"
    by (simp add: file_name_def)
  have "glob_match (''note_'' @ user @ ''_*_'' @ key @ ''_*'') (file_name env user d) \<longleftrightarrow>
      (\<exists>u t. ?rest = u @ CHR ''_'' # key @ CHR ''_'' # t)"
    unfolding pat name glob_match_literal [OF lit(1)] glob_match_star glob_match_literal [OF lit(2)]
    by (auto simp: glob_match_star_all)
  also have "\<dots> \<longleftrightarrow> sc d = key"
    using assms by (intro component_match) (auto simp: env_ok_def desc_ok_def format_04d_chars)
  finally show ?thesis .
qed

text \<open>Looking a short commitment up among the files of notes with distinct short commitments.\<close>

lemma glob_note_files:
  assumes "env_ok env" "\<forall>d \<in> set ds. desc_ok d" "literal user" "literal key" "CHR ''_'' \<notin> set key"
  shows "glob (note_files env user ds) (''note_'' @ user @ ''_*_'' @ key @ ''_*'') =
    map (file_name env user) (filter (\<lambda>d. sc d = key) ds)"
  using assms(2) file_name_match [OF assms(1) _ assms(5,3,4)]
  by (simp add: glob_def note_files_def filter_map comp_def cong: filter_cong)

lemma filter_unique: "distinct (map f ds) \<Longrightarrow> d \<in> set ds \<Longrightarrow> filter (\<lambda>x. f x = f d) ds = [d]"
  by (induction ds) (auto simp: filter_empty_conv image_iff)

lemma find_note_file_unique:
  assumes "env_ok env" "\<forall>d \<in> set ds. desc_ok d" "literal (username w)"
    and "disk_notes (w_disk w) = note_files env (username w) ds" "distinct (map sc ds)" "d \<in> set ds"
  shows "find_note_file w (sc d) = Some (file_name env (username w) d)"
proof -
  have "length (sc d) = 8"
    using assms(2,6) by (simp add: desc_ok_def short_commitment_def)
  then show ?thesis
    using glob_note_files [OF assms(1-3), of "sc d"] filter_unique [OF assms(5,6)] assms(4)
    by (simp add: find_note_file_def)
qed

lemma file_name_inj:
  assumes "env_ok env" "desc_ok d" "desc_ok d'" "file_name env user d = file_name env user d'"
  shows "sc d = sc d'"
  using assms by (auto simp: file_name_def sep_unique format_04d_chars desc_ok_def)

lemma distinct_file_names:
  assumes "env_ok env" "\<forall>d \<in> set ds. desc_ok d" "distinct (map sc ds)"
  shows "distinct (map (file_name env user) ds)"
  using assms by (induction ds) (auto dest: file_name_inj [OF assms(1)])

lemma note_desc_json [simp]: "note_desc_from_json (note_desc_to_json d) = Inr d"
  by (simp add: note_desc_from_json_def note_desc_to_json_def json_get_defs py_int_str_int)

lemma note_files_lookup:
  assumes "distinct (map (file_name env user) ds)" "d \<in> set ds"
  shows "map_of (note_files env user ds) (file_name env user d) = Some (note_desc_to_json d)"
  using assms by (auto simp: note_files_def map_of_eq_Some_iff comp_def)

section \<open>The abstract wallet\<close>

text \<open>
  Abstractly a wallet is the list of its unspent notes and the list of its spent ones. The files
  and the nullifier map represent them; short commitments and nullifiers are assumed to be
  distinct, as the file names and the map rely on it.
\<close>

definition desc_nf :: "digest_fn \<Rightarrow> bytes \<Rightarrow> ZethNoteDescription \<Rightarrow> string" where
  "desc_nf blake2s ask d =
     bytes_hex (digest_bytes (blake2s (tagged_leg 14 ask @ projr (bytes_fromhex (rho (nd_note d))))))"

abbreviation wallet_nf :: "('sk, 'pk) wallet_env \<Rightarrow> 'sk Wallet \<Rightarrow> ZethNoteDescription \<Rightarrow> string" where
  "wallet_nf env w \<equiv> desc_nf (c_blake2s (we_crypto env)) (w_a_sk w)"

definition wallet_rel ::
  "('sk, 'pk) wallet_env \<Rightarrow> 'sk Wallet \<Rightarrow> ZethNoteDescription list \<Rightarrow> ZethNoteDescription list \<Rightarrow> bool" where
  "wallet_rel env w us ss \<longleftrightarrow>
     literal (username w) \<and> length (w_a_sk w) = 32 \<and> (\<forall>d \<in> set (us @ ss). desc_ok d)
     \<and> distinct (map sc (us @ ss)) \<and> distinct (map (wallet_nf env w) us)
     \<and> disk_notes (w_disk w) = note_files env (username w) us
     \<and> disk_spent (w_disk w) = note_files env (username w) ss
     \<and> nullifier_map (w_state w) = map (\<lambda>d. (wallet_nf env w d, sc d)) us"

text \<open>What the operations on notes leave alone.\<close>

definition same_tree :: "'sk Wallet \<Rightarrow> 'sk Wallet \<Rightarrow> bool" where
  "same_tree w w' \<longleftrightarrow>
     username w' = username w \<and> w_a_sk w' = w_a_sk w \<and> w_k_sk w' = w_k_sk w \<and> w_tree w' = w_tree w
     \<and> merkle_tree_changed w' = merkle_tree_changed w \<and> next_addr w' = next_addr w
     \<and> disk_tree (w_disk w') = disk_tree (w_disk w) \<and> disk_state (w_disk w') = disk_state (w_disk w)
     \<and> next_block (w_state w') = next_block (w_state w) \<and> num_notes (w_state w') = num_notes (w_state w)"

lemma same_tree_refl [simp]: "same_tree w w"
  by (simp add: same_tree_def)

lemma same_tree_trans: "same_tree w w' \<Longrightarrow> same_tree w' w'' \<Longrightarrow> same_tree w w''"
  by (simp add: same_tree_def)

lemma delete_keyed:
  assumes "distinct (map f us)" "d \<in> set us"
  shows "AList.delete (f d) (map (\<lambda>x. (f x, g x)) us) = map (\<lambda>x. (f x, g x)) (filter (\<lambda>x. x \<noteq> d) us)"
proof -
  have "filter (\<lambda>x. f d \<noteq> f x) us = filter (\<lambda>x. x \<noteq> d) us"
    using assms by (intro filter_cong) (auto simp: distinct_map dest: inj_onD)
  then show ?thesis
    by (simp add: AList.delete_eq filter_map comp_def)
qed

lemma update_new: "k \<notin> fst ` set al \<Longrightarrow> AList.update k v al = al @ [(k, v)]"
  by (induction al) auto

lemma desc_ok_sc: "desc_ok d \<Longrightarrow> sc d \<noteq> []"
  by (auto simp: desc_ok_def short_commitment_def simp flip: length_0_conv)

lemma distinct_move:
  assumes "distinct (map f (us @ ss))" "d \<in> set us"
  shows "distinct (map f (filter (\<lambda>x. x \<noteq> d) us @ ss @ [d]))"
proof -
  obtain xs ys where us: "us = xs @ d # ys"
    using assms(2) split_list by fast
  have "d \<notin> set xs" "d \<notin> set ys"
    using assms(1) us by auto
  then have "filter (\<lambda>x. x \<noteq> d) xs = xs" "filter (\<lambda>x. x \<noteq> d) ys = ys"
    by (auto intro!: filter_True)
  then have "filter (\<lambda>x. x \<noteq> d) us = xs @ ys"
    by (simp add: us)
  with us show ?thesis
    using assms(1) by auto
qed

lemma mark_note_spent_ok:
  assumes "env_ok env" "wallet_rel env w us ss" "d \<in> set us"
  shows "\<exists>w'. mark_note_spent w (wallet_nf env w d) (sc d) = (w', Inr ())
    \<and> wallet_rel env w' (filter (\<lambda>x. x \<noteq> d) us) (ss @ [d]) \<and> same_tree w w'"
proof -
  let ?n = "file_name env (username w)"
  have rel: "\<forall>x \<in> set (us @ ss). desc_ok x" "distinct (map sc (us @ ss))" "distinct (map (wallet_nf env w) us)"
    using assms(2) by (auto simp: wallet_rel_def)
  have names: "distinct (map ?n (us @ ss))"
    by (rule distinct_file_names [OF assms(1) rel(1,2)])
  have fl: "find_note_file w (sc d) = Some (?n d)"
    using assms by (intro find_note_file_unique) (auto simp: wallet_rel_def)
  have new: "?n d \<notin> fst ` set (note_files env (username w) ss)"
    using names assms(3) by (auto simp: note_files_def)
  define w' where "w' = fst (mark_note_spent w (wallet_nf env w d) (sc d))"
  have eq: "mark_note_spent w (wallet_nf env w d) (sc d) = (w', Inr ())"
    by (simp add: w'_def mark_note_spent_def fl Let_def)
  have lookup: "map_of (note_files env (username w) us) (?n d) = Some (note_desc_to_json d)"
    using names assms(3) by (intro note_files_lookup) auto
  have disks: "disk_notes (w_disk w) = note_files env (username w) us" "disk_spent (w_disk w) = note_files env (username w) ss"
      "nullifier_map (w_state w) = map (\<lambda>d. (wallet_nf env w d, sc d)) us"
    using assms(2) by (simp_all add: wallet_rel_def)
  have st: "same_tree w w'"
    by (simp add: w'_def mark_note_spent_def fl Let_def same_tree_def)
  have "disk_notes (w_disk w') = AList.delete (?n d) (note_files env (username w) us)"
    by (simp add: w'_def mark_note_spent_def fl Let_def disks)
  also have "\<dots> = note_files env (username w) (filter (\<lambda>x. x \<noteq> d) us)"
    unfolding note_files_def using names assms(3) by (intro delete_keyed) auto
  finally have disk1: "disk_notes (w_disk w') = note_files env (username w) (filter (\<lambda>x. x \<noteq> d) us)" .
  have "disk_spent (w_disk w') = AList.update (?n d) (note_desc_to_json d) (note_files env (username w) ss)"
    by (simp add: w'_def mark_note_spent_def fl Let_def disks lookup)
  also have "\<dots> = note_files env (username w) (ss @ [d])"
    using update_new [OF new] by (simp add: note_files_def)
  finally have disk2: "disk_spent (w_disk w') = note_files env (username w) (ss @ [d])" .
  have "nullifier_map (w_state w') = AList.delete (wallet_nf env w d) (map (\<lambda>d. (wallet_nf env w d, sc d)) us)"
    by (simp add: w'_def mark_note_spent_def fl Let_def disks)
  also have "\<dots> = map (\<lambda>x. (wallet_nf env w x, sc x)) (filter (\<lambda>x. x \<noteq> d) us)"
    by (rule delete_keyed [OF rel(3) assms(3)])
  finally have disk3: "nullifier_map (w_state w') = map (\<lambda>x. (wallet_nf env w x, sc x)) (filter (\<lambda>x. x \<noteq> d) us)" .
  have "distinct (map sc (filter (\<lambda>x. x \<noteq> d) us @ ss @ [d]))" "distinct (map (wallet_nf env w) (filter (\<lambda>x. x \<noteq> d) us))"
    using distinct_move [OF rel(2) assms(3)] rel(3) by (simp_all add: distinct_map_filter)
  then have "wallet_rel env w' (filter (\<lambda>x. x \<noteq> d) us) (ss @ [d])"
    using assms(2,3) st disk1 disk2 disk3 by (auto simp: wallet_rel_def same_tree_def)
  with eq st show ?thesis by blast
qed

lemma map_of_keyed:
  assumes "distinct (map f us)"
  shows "map_of (map (\<lambda>d. (f d, g d)) us) k = (case filter (\<lambda>d. f d = k) us of [] \<Rightarrow> None | d # _ \<Rightarrow> Some (g d))"
  by (induction us) auto

lemma mark_nullifiers_used_ok:
  assumes "env_ok env" "wallet_rel env w us ss"
  shows "\<exists>w' spent. mark_nullifiers_used w ns commits = (w', Inr (commits @ map sc spent))
    \<and> wallet_rel env w' (filter (\<lambda>d. wallet_nf env w d \<notin> bytes_hex ` set ns) us) (ss @ spent)
    \<and> set spent = {d \<in> set us. wallet_nf env w d \<in> bytes_hex ` set ns} \<and> same_tree w w'"
  using assms(2)
proof (induction ns arbitrary: w us ss commits)
  case Nil
  then show ?case by (intro exI [of _ w] exI [of _ "[]"]) simp
next
  case (Cons n ns)
  have map: "map_of (nullifier_map (w_state w)) (bytes_hex n) =
      (case filter (\<lambda>d. wallet_nf env w d = bytes_hex n) us of [] \<Rightarrow> None | d # _ \<Rightarrow> Some (sc d))"
    using Cons.prems map_of_keyed [of "wallet_nf env w" us sc] by (simp add: wallet_rel_def)
  show ?case
  proof (cases "\<exists>d \<in> set us. wallet_nf env w d = bytes_hex n")
    case False
    then have none: "map_of (nullifier_map (w_state w)) (bytes_hex n) = None"
      and flt: "filter (\<lambda>d. wallet_nf env w d \<notin> bytes_hex ` set (n # ns)) us =
          filter (\<lambda>d. wallet_nf env w d \<notin> bytes_hex ` set ns) us"
        "{d \<in> set us. wallet_nf env w d \<in> bytes_hex ` set (n # ns)} = {d \<in> set us. wallet_nf env w d \<in> bytes_hex ` set ns}"
      by (auto simp: map filter_empty_conv split: list.splits intro!: filter_cong)
    show ?thesis
      using Cons.IH [OF Cons.prems, of commits] unfolding flt by (simp add: none)
  next
    case True
    then obtain d where d: "d \<in> set us" "wallet_nf env w d = bytes_hex n" by blast
    have dist: "distinct (map (wallet_nf env w) us)" and ok: "desc_ok d"
      using Cons.prems d(1) by (auto simp: wallet_rel_def)
    have some: "map_of (nullifier_map (w_state w)) (bytes_hex n) = Some (sc d)"
      using filter_unique [OF dist d(1)] d(2) by (simp add: map)
    obtain w1 where w1: "mark_note_spent w (bytes_hex n) (sc d) = (w1, Inr ())"
        "wallet_rel env w1 (filter (\<lambda>x. x \<noteq> d) us) (ss @ [d])" "same_tree w w1"
      using mark_note_spent_ok [OF assms(1) Cons.prems d(1)] d(2) by auto
    have nf: "wallet_nf env w1 = wallet_nf env w"
      using w1(3) by (simp add: same_tree_def)
    obtain w' spent where w': "mark_nullifiers_used w1 ns (commits @ [sc d]) = (w', Inr ((commits @ [sc d]) @ map sc spent))"
        "wallet_rel env w' (filter (\<lambda>x. wallet_nf env w x \<notin> bytes_hex ` set ns) (filter (\<lambda>x. x \<noteq> d) us)) ((ss @ [d]) @ spent)"
        "set spent = {x \<in> set (filter (\<lambda>x. x \<noteq> d) us). wallet_nf env w x \<in> bytes_hex ` set ns}" "same_tree w1 w'"
      using Cons.IH [OF w1(2), of "commits @ [sc d]"] unfolding nf by blast
    have eq: "x = d \<longleftrightarrow> wallet_nf env w x = bytes_hex n" if "x \<in> set us" for x
      using dist d that inj_onD [of "wallet_nf env w" "set us" x d] by (auto simp: distinct_map)
    have "filter (\<lambda>x. wallet_nf env w x \<notin> bytes_hex ` set ns) (filter (\<lambda>x. x \<noteq> d) us) =
        filter (\<lambda>x. wallet_nf env w x \<notin> bytes_hex ` set (n # ns)) us"
      using d(2) by (auto simp: eq intro!: filter_cong)
    moreover have "set (d # spent) = {x \<in> set us. wallet_nf env w x \<in> bytes_hex ` set (n # ns)}"
      using w'(3) d by (auto simp: eq)
    ultimately show ?thesis
      using w' w1 some desc_ok_sc [OF ok] same_tree_trans
      by (intro exI [of _ w'] exI [of _ "d # spent"]) (simp add: bindS_def)
  qed
qed

section \<open>Receiving notes\<close>

text \<open>
  The environment in which nothing raises on well-formed events: the decoder of public keys and
  the exchange raise nothing but \<open>ValueError\<close>, and the scalar field has at most 256 bits.
\<close>

definition recv_ok :: "('sk, 'pk) wallet_env \<Rightarrow> 'sk \<Rightarrow> PairingParameters \<Rightarrow> bool" where
  "recv_ok env k pp \<longleftrightarrow>
     env_ok env
     \<and> (\<forall>bs e. from_public_bytes (c_enc (we_crypto env)) bs = Inl e \<longrightarrow> e = ValueError)
     \<and> (\<forall>pk e. exchange (c_enc (we_crypto env)) k pk = Inl e \<longrightarrow> e = ValueError)
     \<and> (\<exists>r. scalar_field_mod pp = Inr r \<and> 0 < r \<and> r \<le> 2 ^ 256)"

definition event_ok :: "MixOutputEvents \<Rightarrow> bool" where
  "event_ok ev \<longleftrightarrow> length (oe_ciphertext ev) = ENCRYPTED_NOTE_LENGTH_BYTES"

text \<open>The note that an event at an address gives to the holder of a key.\<close>

definition abs_receive ::
  "('sk, 'pk) wallet_env \<Rightarrow> 'sk \<Rightarrow> PairingParameters \<Rightarrow> int \<Rightarrow> MixOutputEvents \<Rightarrow> ZethNoteDescription list" where
  "abs_receive env k pp addr ev =
     (case receive_note (c_enc (we_crypto env)) ev k of
        Inr (Some (cm, n)) \<Rightarrow>
          if compute_commitment (c_blake2s (we_crypto env)) n pp = Inr cm
          then [\<lparr>nd_note = n, nd_address = addr, nd_commitment = cm\<rparr>] else []
      | _ \<Rightarrow> [])"

fun abs_news ::
  "('sk, 'pk) wallet_env \<Rightarrow> 'sk \<Rightarrow> PairingParameters \<Rightarrow> int \<Rightarrow> MixOutputEvents list \<Rightarrow> ZethNoteDescription list" where
  "abs_news env k pp addr [] = []"
| "abs_news env k pp addr (ev # evs) = abs_receive env k pp addr ev @ abs_news env k pp (addr + 1) evs"

lemma note_basename_ok:
  assumes "env_ok env" "desc_ok d"
  shows "note_basename env w d = Inr (file_name env (username w) d)"
proof -
  obtain v where v: "note_value (nd_note d) = bytes_hex v" "length v = 8"
    using assms(2) by (auto simp: desc_ok_def note_ok_def)
  then have "v \<noteq> []" by auto
  have "0 \<le> int_from_bytes v" "int_from_bytes v < 2 ^ 64"
    using int_from_bytes_less [of v] v(2) by simp_all
  then have "from_zeth_units (c_toWei (we_crypto env)) (int_from_bytes v) = Inr \<lparr>wei = int_from_bytes v * ZETH_PUBLIC_UNIT_VALUE\<rparr>"
    using assms(1) by (intro from_zeth_units_ok) (auto simp: env_ok_def)
  then show ?thesis
    using py_int_bytes_hex [OF \<open>v \<noteq> []\<close>] v(1)
    by (simp add: note_basename_def file_name_def desc_value_def digits_value_bytes_hex)
qed

lemma nullifier_desc_nf:
  assumes "note_ok (nd_note d)" "length ask = 32"
  shows "\<exists>nf. compute_nullifier blake2s (nd_note d) ask = Inr nf \<and> bytes_hex nf = desc_nf blake2s ask d"
proof -
  obtain r where "rho (nd_note d) = bytes_hex r"
    using assms(1) by (auto simp: note_ok_def)
  then show ?thesis
    using compute_nullifier_ok [OF assms(2)] by (auto simp: desc_nf_def)
qed

lemma abs_receive_cases:
  obtains (none) "abs_receive env k pp addr ev = []"
  | (some) cm n where "abs_receive env k pp addr ev = [\<lparr>nd_note = n, nd_address = addr, nd_commitment = cm\<rparr>]"
      "receive_note (c_enc (we_crypto env)) ev k = Inr (Some (cm, n))"
      "compute_commitment (c_blake2s (we_crypto env)) n pp = Inr cm"
proof (cases "receive_note (c_enc (we_crypto env)) ev k")
  case (Inr r)
  then show ?thesis
    using none some by (cases r) (auto simp: abs_receive_def split: if_split_asm, presburger)
qed (use none in \<open>simp add: abs_receive_def\<close>)

lemma abs_receive_ok:
  assumes "recv_ok env k pp" "0 \<le> addr" "d \<in> set (abs_receive env k pp addr ev)"
  shows "desc_ok d"
proof (cases rule: abs_receive_cases [of env k pp addr ev])
  case (some cm n)
  then have n: "note_ok n" "d = \<lparr>nd_note = n, nd_address = addr, nd_commitment = cm\<rparr>"
    using assms(3) receive_note_Some by auto
  obtain r where "scalar_field_mod pp = Inr r" "0 < r" "r \<le> 2 ^ 256"
    using assms(1) by (auto simp: recv_ok_def)
  then have "length cm = 32"
    using compute_commitment_ok [OF n(1)] some(3) by (metis sum.inject(2))
  with n assms(2) show ?thesis
    by (simp add: desc_ok_def)
qed (use assms in simp)

lemma wallet_receive_note_ok:
  assumes "recv_ok env (w_k_sk w) pp" "event_ok ev" "0 \<le> addr" "wallet_rel env w us ss"
    and "distinct (map sc (us @ abs_receive env (w_k_sk w) pp addr ev @ ss))"
    and "distinct (map (wallet_nf env w) (us @ abs_receive env (w_k_sk w) pp addr ev))"
  shows "\<exists>w'. wallet_receive_note env w addr ev pp =
      (w', Inr (case abs_receive env (w_k_sk w) pp addr ev of [] \<Rightarrow> None | d # _ \<Rightarrow> Some d))
    \<and> wallet_rel env w' (us @ abs_receive env (w_k_sk w) pp addr ev) ss \<and> same_tree w w'"
proof (cases rule: abs_receive_cases [of env "w_k_sk w" pp addr ev])
  case none
  obtain r where r: "receive_note (c_enc (we_crypto env)) ev (w_k_sk w) = Inr r"
    using receive_note_total assms(1,2) unfolding recv_ok_def event_ok_def by metis
  have "wallet_receive_note env w addr ev pp = (w, Inr None)"
  proof (cases r)
    case (Some x)
    obtain cm n where x: "x = (cm, n)" by (cases x)
    obtain q where "scalar_field_mod pp = Inr q" "0 < q" "q \<le> 2 ^ 256"
      using assms(1) by (auto simp: recv_ok_def)
    then obtain cm' where "compute_commitment (c_blake2s (we_crypto env)) n pp = Inr cm'"
      using compute_commitment_ok receive_note_Some(2) r Some x by metis
    with none r Some x show ?thesis
      by (auto simp: wallet_receive_note_def bindS_def check_note_def abs_receive_def split: if_splits)
  qed (simp add: wallet_receive_note_def bindS_def r)
  with none assms(4) show ?thesis by simp
next
  case (some cm n)
  define d where "d = \<lparr>nd_note = n, nd_address = addr, nd_commitment = cm\<rparr>"
  have env: "env_ok env" and ok: "desc_ok d"
    using assms(1,3) abs_receive_ok [of env "w_k_sk w" pp addr d ev] some(1) by (auto simp: recv_ok_def d_def)
  let ?f = "file_name env (username w) d"
  obtain nf where nf: "compute_nullifier (c_blake2s (we_crypto env)) n (w_a_sk w) = Inr nf" "bytes_hex nf = wallet_nf env w d"
    using nullifier_desc_nf [of d "w_a_sk w" "c_blake2s (we_crypto env)"] ok assms(4)
    by (auto simp: d_def desc_ok_def wallet_rel_def)
  have ds: "\<forall>x \<in> set (us @ [d] @ ss). desc_ok x" "distinct (map sc (us @ [d] @ ss))" "distinct (map (wallet_nf env w) (us @ [d]))"
    using assms(4-6) ok some(1) by (auto simp: wallet_rel_def d_def)
  have "?f \<notin> fst ` set (note_files env (username w) us)"
    using distinct_file_names [OF env ds(1,2), of "username w"] by (auto simp: note_files_def)
  from update_new [OF this] have files: "AList.update ?f (note_desc_to_json d) (note_files env (username w) us) = note_files env (username w) (us @ [d])"
    by (simp add: note_files_def)
  have "wallet_nf env w d \<notin> fst ` set (map (\<lambda>d. (wallet_nf env w d, sc d)) us)"
    using ds(3) by auto
  from update_new [OF this] have nmap: "AList.update (wallet_nf env w d) (sc d) (map (\<lambda>d. (wallet_nf env w d, sc d)) us) =
      map (\<lambda>d. (wallet_nf env w d, sc d)) (us @ [d])"
    by simp
  define w' where "w' = fst (wallet_receive_note env w addr ev pp)"
  have run: "wallet_receive_note env w addr ev pp = (w', Inr (Some d))"
    using some nf note_basename_ok [OF env ok, of w]
    by (simp add: w'_def wallet_receive_note_def bindS_def check_note_def Let_def write_note_def flip: d_def)
  have st: "same_tree w w'"
    using some nf note_basename_ok [OF env ok, of w]
    by (simp add: w'_def wallet_receive_note_def bindS_def check_note_def Let_def write_note_def same_tree_def flip: d_def)
  have "disk_notes (w_disk w') = note_files env (username w) (us @ [d])" "disk_spent (w_disk w') = disk_spent (w_disk w)"
      "nullifier_map (w_state w') = map (\<lambda>d. (wallet_nf env w d, sc d)) (us @ [d])"
    using some nf note_basename_ok [OF env ok, of w] assms(4) files nmap
    by (simp_all add: w'_def wallet_receive_note_def bindS_def check_note_def Let_def write_note_def wallet_rel_def d_def)
  then have "wallet_rel env w' (us @ [d]) ss"
    using assms(4) st ds by (auto simp: wallet_rel_def same_tree_def)
  with run st some(1) show ?thesis
    by (simp add: d_def)
qed

definition same_meta :: "'sk Wallet \<Rightarrow> 'sk Wallet \<Rightarrow> bool" where
  "same_meta w w' \<longleftrightarrow>
     username w' = username w \<and> w_a_sk w' = w_a_sk w \<and> w_k_sk w' = w_k_sk w
     \<and> merkle_tree_changed w' = merkle_tree_changed w
     \<and> disk_tree (w_disk w') = disk_tree (w_disk w) \<and> disk_state (w_disk w') = disk_state (w_disk w)
     \<and> next_block (w_state w') = next_block (w_state w) \<and> num_notes (w_state w') = num_notes (w_state w)"

lemma receive_notes_loop_ok:
  assumes "recv_ok env (w_k_sk w) pp" "\<forall>ev \<in> set evs. event_ok ev" "wallet_rel env w us ss"
    and "w_tree w = tree_of h D xs m" "next_addr w = int (length xs)"
    and "m \<le> length xs" "length xs + length evs \<le> 2 ^ D"
    and "distinct (map sc (us @ abs_news env (w_k_sk w) pp (int (length xs)) evs @ ss))"
    and "distinct (map (wallet_nf env w) (us @ abs_news env (w_k_sk w) pp (int (length xs)) evs))"
  shows "\<exists>w'. receive_notes_loop env pp w evs acc = (w', Inr (acc @ abs_news env (w_k_sk w) pp (int (length xs)) evs))
    \<and> wallet_rel env w' (us @ abs_news env (w_k_sk w) pp (int (length xs)) evs) ss
    \<and> w_tree w' = tree_of h D (xs @ map oe_commitment evs) m \<and> next_addr w' = int (length xs + length evs)
    \<and> same_meta w w'"
  using assms
proof (induction evs arbitrary: w us xs acc)
  case Nil
  then show ?case by (simp add: same_meta_def)
next
  case (Cons ev evs)
  let ?a = "int (length xs)" and ?k = "w_k_sk w"
  let ?d = "abs_receive env ?k pp ?a ev" and ?xs' = "xs @ [oe_commitment ev]"
  have ins: "insert_leaf (w_tree w) (oe_commitment ev) = Inr (tree_of h D ?xs' m)"
    using Cons.prems(4,6,7) by (simp add: insert_leaf_tree_of)
  let ?w = "w\<lparr>w_tree := tree_of h D ?xs' m\<rparr>"
  have rel: "wallet_rel env ?w us ss"
    using Cons.prems(3) by (simp add: wallet_rel_def)
  let ?n = "abs_news env ?k pp (int (length ?xs')) evs"
  have news: "abs_news env ?k pp ?a (ev # evs) = ?d @ ?n"
    by (simp add: add.commute)
  have d12: "distinct (map sc (us @ ?d @ ss))" "distinct (map (wallet_nf env ?w) (us @ ?d))"
    and d34: "distinct (map sc ((us @ ?d) @ ?n @ ss))" "distinct (map (wallet_nf env w) ((us @ ?d) @ ?n))"
    using Cons.prems(8,9) unfolding news by (auto simp: Int_Un_distrib Int_Un_distrib2)
  have k: "recv_ok env (w_k_sk ?w) pp" "event_ok ev" "0 \<le> ?a" "w_k_sk ?w = ?k"
    using Cons.prems(1,2) by auto
  obtain w1 where w1: "wallet_receive_note env ?w ?a ev pp = (w1, Inr (case ?d of [] \<Rightarrow> None | d # _ \<Rightarrow> Some d))"
      "wallet_rel env w1 (us @ ?d) ss" "same_tree ?w w1"
    using wallet_receive_note_ok [OF k(1-3) rel] d12 unfolding k(4) by blast
  let ?w1 = "w1\<lparr>next_addr := next_addr w1 + 1\<rparr>"
  have rel1: "wallet_rel env ?w1 (us @ ?d) ss"
    using w1(2) by (simp add: wallet_rel_def)
  have meta: "w_k_sk ?w1 = ?k" "w_a_sk ?w1 = w_a_sk w" "w_tree ?w1 = tree_of h D ?xs' m" "next_addr ?w1 = int (length ?xs')"
    using w1(3) Cons.prems(5) by (auto simp: same_tree_def)
  have acc: "(case ?d of [] \<Rightarrow> None | d # _ \<Rightarrow> Some d) = None \<Longrightarrow> ?d = []"
    "\<And>x. (case ?d of [] \<Rightarrow> None | d # _ \<Rightarrow> Some d) = Some x \<Longrightarrow> ?d = [x]"
    by (auto split: list.splits simp: abs_receive_def split: sum.splits option.splits if_splits)
  have step: "receive_notes_loop env pp w (ev # evs) acc = receive_notes_loop env pp ?w1 evs (acc @ ?d)"
    using ins w1(1) acc Cons.prems(5) by (auto simp: bindS_def split: option.splits)
  obtain w' where "receive_notes_loop env pp ?w1 evs (acc @ ?d) = (w', Inr ((acc @ ?d) @ ?n))"
      "wallet_rel env w' ((us @ ?d) @ ?n) ss"
      "w_tree w' = tree_of h D (?xs' @ map oe_commitment evs) m" "next_addr w' = int (length ?xs' + length evs)" "same_meta ?w1 w'"
    using Cons.IH [of ?w1 "us @ ?d" ?xs' "acc @ ?d"] Cons.prems(1,2,6,7) d34 rel1 unfolding meta by auto
  moreover have "same_meta w w'"
    using w1(3) \<open>same_meta ?w1 w'\<close> by (simp add: same_meta_def same_tree_def)
  ultimately show ?case
    unfolding step news by simp
qed

lemma receive_notes_ok:
  assumes "recv_ok env (w_k_sk w) pp" "\<forall>ev \<in> set evs. event_ok ev" "wallet_rel env w us ss"
    and "w_tree w = tree_of h D xs m" "next_addr w = int (length xs)"
    and "m \<le> length xs" "length xs + length evs \<le> 2 ^ D"
    and "distinct (map sc (us @ abs_news env (w_k_sk w) pp (int (length xs)) evs @ ss))"
    and "distinct (map (wallet_nf env w) (us @ abs_news env (w_k_sk w) pp (int (length xs)) evs))"
  shows "\<exists>w'. receive_notes env w evs pp = (w', Inr (abs_news env (w_k_sk w) pp (int (length xs)) evs))
    \<and> wallet_rel env w' (us @ abs_news env (w_k_sk w) pp (int (length xs)) evs) ss
    \<and> w_tree w' = tree_of h D (xs @ map oe_commitment evs) m \<and> next_addr w' = int (length xs + length evs)
    \<and> merkle_tree_changed w' = (evs \<noteq> []) \<and> w_k_sk w' = w_k_sk w \<and> w_a_sk w' = w_a_sk w
    \<and> num_notes (w_state w') = num_notes (w_state w) + int (length evs)"
proof -
  let ?w = "w\<lparr>merkle_tree_changed := (evs \<noteq> [])\<rparr>"
  have "wallet_rel env ?w us ss"
    using assms(3) by (simp add: wallet_rel_def)
  then obtain w1 where w1: "receive_notes_loop env pp ?w evs [] = (w1, Inr (abs_news env (w_k_sk w) pp (int (length xs)) evs))"
      "wallet_rel env w1 (us @ abs_news env (w_k_sk w) pp (int (length xs)) evs) ss"
      "w_tree w1 = tree_of h D (xs @ map oe_commitment evs) m" "next_addr w1 = int (length xs + length evs)" "same_meta ?w w1"
    using receive_notes_loop_ok [of env ?w pp evs us ss h D xs m "[]"] assms by auto
  let ?w2 = "w1\<lparr>w_state := (w_state w1)\<lparr>num_notes := num_notes (w_state w1) + int (length evs)\<rparr>\<rparr>"
  have "receive_notes env w evs pp = (?w2, Inr (abs_news env (w_k_sk w) pp (int (length xs)) evs))"
    using w1(1) by (simp add: receive_notes_def bindS_def)
  moreover have "wallet_rel env ?w2 (us @ abs_news env (w_k_sk w) pp (int (length xs)) evs) ss"
    using w1(2) by (simp add: wallet_rel_def)
  ultimately show ?thesis
    using w1(3-5) by (simp add: same_meta_def)
qed

section \<open>Examples\<close>

definition example_wallet_env :: "(256 word, 256 word) wallet_env" where
  "example_wallet_env = \<lparr>we_crypto = example_crypto, we_hash = append, we_int_log2 = (\<lambda>n. 32), we_ether = (\<lambda>v. ''1'')\<rparr>"

definition example_note :: "byte \<Rightarrow> ZethNote" where
  "example_note b = \<lparr>apk = bytes_hex (replicate 32 b), note_value = bytes_hex (replicate 8 0),
     rho = bytes_hex (replicate 32 b), trap_r = bytes_hex (replicate 32 b)\<rparr>"

definition example_desc :: ZethNoteDescription where
  "example_desc = \<lparr>nd_note = example_note 1, nd_address = 0, nd_commitment = replicate 32 9\<rparr>"

definition example_wallet :: "256 word Wallet" where
  "example_wallet = \<lparr>username = ''u'', w_a_sk = replicate 32 2, w_k_sk = 8,
     w_state = \<lparr>next_block = 1, num_notes = 0,
       nullifier_map = [(desc_nf (c_blake2s example_crypto) (replicate 32 2) example_desc, sc example_desc)]\<rparr>,
     w_tree = tree_of append 32 [replicate 32 9] 0, merkle_tree_changed = False, next_addr = 1,
     w_disk = \<lparr>disk_notes = note_files example_wallet_env ''u'' [example_desc], disk_spent = [], disk_state = None, disk_tree = None\<rparr>\<rparr>"

lemma example_note_ok: "note_ok (example_note b)"
  unfolding note_ok_def example_note_def
  by (intro exI [of _ "replicate 32 b"] exI [of _ "replicate 8 0"]) simp

lemma example_env_ok: "env_ok example_wallet_env"
  by (simp add: env_ok_def example_wallet_env_def example_crypto_def to_wei_law_def)

lemma example_wallet_rel: "wallet_rel example_wallet_env example_wallet [example_desc] []"
  by (simp add: wallet_rel_def example_wallet_def literal_def desc_ok_def example_desc_def example_note_ok
      example_wallet_env_def note_files_def)

lemma find_note_sc:
  assumes "env_ok env" "wallet_rel env w us ss" "d \<in> set us"
  shows "find_note w (sc d) = Inr d"
proof -
  have rel: "\<forall>d \<in> set us. desc_ok d" "literal (username w)" "disk_notes (w_disk w) = note_files env (username w) us"
      "distinct (map sc us)"
    using assms(2) by (auto simp: wallet_rel_def)
  show ?thesis
    using find_note_file_unique [OF assms(1) rel assms(3)]
      note_files_lookup [OF distinct_file_names [OF assms(1) rel(1,4)] assms(3)] rel(3)
    by (simp add: find_note_def)
qed

lemma find_note_missing:
  assumes "env_ok env" "wallet_rel env w us ss" "length cm = 32" "short_commitment cm \<notin> sc ` set us"
  shows "find_note w (short_commitment cm) = Inl (PyException (''no note with id '' @ short_commitment cm))"
proof -
  have rel: "\<forall>d \<in> set us. desc_ok d" "literal (username w)" "disk_notes (w_disk w) = note_files env (username w) us"
    using assms(2) by (auto simp: wallet_rel_def)
  have "filter (\<lambda>d. sc d = short_commitment cm) us = []"
    using assms(4) by (auto simp: filter_empty_conv image_iff)
  then show ?thesis
    using glob_note_files [OF assms(1) rel(1,2), of "short_commitment cm"] assms(3) rel(3)
    by (simp add: find_note_def find_note_file_def) (simp add: short_commitment_def)
qed

section \<open>Properties\<close>

text \<open>
  C9. Processing nullifiers on a wallet that represents unspent and spent notes: exactly the unspent
  notes with one of the nullifiers become spent (file moved, entry of the nullifier map
  removed), their short commitments are returned, and nothing raises.
\<close>

theorem mark_nullifiers_refines:
  assumes "env_ok env" "wallet_rel env w us ss"
  shows "\<exists>w' spent. mark_nullifiers_used w ns [] = (w', Inr (map sc spent))
    \<and> wallet_rel env w' (filter (\<lambda>d. wallet_nf env w d \<notin> bytes_hex ` set ns) us) (ss @ spent)
    \<and> set spent = {d \<in> set us. wallet_nf env w d \<in> bytes_hex ` set ns}"
  using mark_nullifiers_used_ok [OF assms, of ns "[]"] by auto

theorem mark_nullifiers_refines_witness:
  "\<exists>w' spent. mark_nullifiers_used example_wallet [[1], [2]] [] = (w', Inr (map sc spent))
    \<and> wallet_rel example_wallet_env w'
        (filter (\<lambda>d. wallet_nf example_wallet_env example_wallet d \<notin> bytes_hex ` set [[1], [2]]) [example_desc]) ([] @ spent)
    \<and> set spent = {d \<in> set [example_desc]. wallet_nf example_wallet_env example_wallet d \<in> bytes_hex ` set [[1], [2]]}"
  by (rule mark_nullifiers_refines [OF example_env_ok example_wallet_rel])

text \<open>
  C10. An unspent note is found by its short commitment, with the contents that were stored; a short
  commitment of no unspent note is reported as an error.
\<close>

theorem find_note_by_commitment:
  assumes "env_ok env" "wallet_rel env w us ss"
  shows "(d \<in> set us \<longrightarrow> find_note w (sc d) = Inr d)
    \<and> (length cm = 32 \<and> short_commitment cm \<notin> sc ` set us \<longrightarrow>
         find_note w (short_commitment cm) = Inl (PyException (''no note with id '' @ short_commitment cm)))"
  using find_note_sc [OF assms] find_note_missing [OF assms] by blast

theorem find_note_by_commitment_witness:
  "find_note example_wallet (sc example_desc) = Inr example_desc
   \<and> find_note example_wallet (short_commitment (replicate 32 7)) =
       Inl (PyException (''no note with id '' @ short_commitment (replicate 32 7)))"
proof -
  have "sc example_desc \<noteq> short_commitment (replicate 32 7)"
    by (auto simp: short_commitment_def example_desc_def dest: bytes_hex_inj)
  with find_note_by_commitment [OF example_env_ok example_wallet_rel, of example_desc "replicate 32 7"] show ?thesis
    by simp
qed

end
