(* ===== verification/Sync.thy ===== *)
theory Sync
  imports Wallet
begin

text \<open>
  \<open>do_sync\<close> of \<open>client/zeth/cli/utils.py\<close>: the wallet processes the mix results of the blocks it has
  not seen, saves its state and checks its Merkle root against the last one reported. The
  number of the last block and the stream of results come from the node. \<open>None\<close> stands for a
  query that does not end.
\<close>

fun sync_loop ::
  "('sk, 'pk) wallet_env \<Rightarrow> PairingParameters \<Rightarrow> 'sk Wallet \<Rightarrow> bytes option \<Rightarrow> MixResult list \<Rightarrow>
   'sk Wallet \<times> bytes option res" where
  "sync_loop env pp w root [] = (w, Inr root)"
| "sync_loop env pp w root (mix_result # rest) =
     bindS (receive_notes env w (output_events mix_result) pp) (\<lambda>w _.
     bindS (mark_nullifiers_used w (mr_nullifiers mix_result) []) (\<lambda>w _.
       sync_loop env pp w (Some (new_merkle_root mix_result)) rest))"

definition check_root :: "'sk Wallet \<Rightarrow> bytes option \<Rightarrow> int \<Rightarrow> 'sk Wallet \<times> int res" where
  "check_root w root chain_block_number =
     (case root of
        Some r \<Rightarrow>
          if r \<noteq> [] then bindS (w, get_root (w_tree w)) (\<lambda>w our_root. (w, assertR (r = our_root) (Inr chain_block_number)))
          else (w, Inr chain_block_number)
      | None \<Rightarrow> (w, Inr chain_block_number))"

definition sync_once ::
  "('sk, 'pk) wallet_env \<Rightarrow> PairingParameters \<Rightarrow> (int \<Rightarrow> int \<Rightarrow> MixResult gen option) \<Rightarrow> int \<Rightarrow> 'sk Wallet \<Rightarrow>
   ('sk Wallet \<times> int res) option" where
  "sync_once env pp mix_results chain_block_number w =
     (if chain_block_number \<ge> next_block (w_state w) then
        map_option (\<lambda>(results, err).
            bindS (sync_loop env pp w None results) (\<lambda>w root.
              case err of
                Some e \<Rightarrow> (w, Inl e)
              | None \<Rightarrow> bindS (update_and_save_state env w (chain_block_number + 1)) (\<lambda>w _.
                          check_root w root chain_block_number)))
          (mix_results (next_block (w_state w)) chain_block_number)
      else Some (w, Inr chain_block_number))"

text \<open>
  With a transaction to wait for, the wallet syncs twice; the node may have more blocks, and
  other results, the second time. Waiting for the receipt may raise, for example on a timeout.
\<close>

definition do_sync ::
  "('sk, 'pk) wallet_env \<Rightarrow> PairingParameters \<Rightarrow> (int \<Rightarrow> int \<Rightarrow> MixResult gen option) \<Rightarrow> int \<Rightarrow>
   (int \<Rightarrow> int \<Rightarrow> MixResult gen option) \<Rightarrow> int \<Rightarrow> (string \<Rightarrow> unit res) \<Rightarrow> string option \<Rightarrow> 'sk Wallet \<Rightarrow>
   ('sk Wallet \<times> int res) option" where
  "do_sync env pp results1 block1 results2 block2 wait_receipt wait_tx w =
     (let tx = case wait_tx of None \<Rightarrow> [] | Some tx \<Rightarrow> tx
      in if tx \<noteq> [] then
           Option.bind (sync_once env pp results1 block1 w) (\<lambda>(w, r).
             case bindR r (\<lambda>_. wait_receipt tx) of
               Inl e \<Rightarrow> Some (w, Inl e)
             | Inr _ \<Rightarrow> sync_once env pp results2 block2 w)
         else sync_once env pp results1 block1 w)"

section \<open>The abstract sync\<close>

fun all_commitments :: "MixResult list \<Rightarrow> bytes list" where
  "all_commitments [] = []"
| "all_commitments (r # rs) = map oe_commitment (output_events r) @ all_commitments rs"

text \<open>The notes the results give to the holder of a key, and those unspent after all of them.\<close>

fun abs_all ::
  "('sk, 'pk) wallet_env \<Rightarrow> 'sk \<Rightarrow> PairingParameters \<Rightarrow> int \<Rightarrow> MixResult list \<Rightarrow> ZethNoteDescription list" where
  "abs_all env k pp a [] = []"
| "abs_all env k pp a (r # rs) =
     abs_news env k pp a (output_events r) @ abs_all env k pp (a + int (length (output_events r))) rs"

fun abs_unspent ::
  "('sk, 'pk) wallet_env \<Rightarrow> 'sk \<Rightarrow> bytes \<Rightarrow> PairingParameters \<Rightarrow> int \<Rightarrow> ZethNoteDescription list \<Rightarrow> MixResult list \<Rightarrow>
   ZethNoteDescription list" where
  "abs_unspent env k ask pp a us [] = us"
| "abs_unspent env k ask pp a us (r # rs) =
     abs_unspent env k ask pp (a + int (length (output_events r)))
       (filter (\<lambda>d. desc_nf (c_blake2s (we_crypto env)) ask d \<notin> bytes_hex ` set (mr_nullifiers r))
          (us @ abs_news env k pp a (output_events r))) rs"

lemma images_disjoint:
  assumes "X \<subseteq> A \<union> N" "f ` (N \<union> R) \<inter> f ` A = {}" "f ` N \<inter> f ` R = {}"
  shows "f ` R \<inter> f ` X = {}"
proof -
  have "f ` X \<subseteq> f ` A \<union> f ` N"
    using image_mono [OF assms(1)] by (simp add: image_Un)
  then show ?thesis
    using assms(2,3) unfolding image_Un by blast
qed

lemma sync_loop_ok:
  assumes "recv_ok env (w_k_sk w) pp" "\<forall>r \<in> set rs. \<forall>ev \<in> set (output_events r). event_ok ev" "wallet_rel env w us ss"
    and "w_tree w = tree_of h D xs m" "next_addr w = int (length xs)"
    and "m \<le> length xs" "length xs + length (all_commitments rs) \<le> 2 ^ D"
    and "distinct (map sc (abs_all env (w_k_sk w) pp (int (length xs)) rs))"
    and "sc ` set (abs_all env (w_k_sk w) pp (int (length xs)) rs) \<inter> sc ` (set us \<union> set ss) = {}"
    and "distinct (map (wallet_nf env w) (abs_all env (w_k_sk w) pp (int (length xs)) rs))"
    and "wallet_nf env w ` set (abs_all env (w_k_sk w) pp (int (length xs)) rs) \<inter> wallet_nf env w ` set us = {}"
  shows "\<exists>w' ss'. sync_loop env pp w root rs =
      (w', Inr (if rs = [] then root else Some (new_merkle_root (last rs))))
    \<and> wallet_rel env w' (abs_unspent env (w_k_sk w) (w_a_sk w) pp (int (length xs)) us rs) ss'
    \<and> w_tree w' = tree_of h D (xs @ all_commitments rs) m
    \<and> (rs \<noteq> [] \<longrightarrow> merkle_tree_changed w' = (output_events (last rs) \<noteq> []))"
  using assms
proof (induction rs arbitrary: w us ss xs root)
  case Nil
  then show ?case by auto
next
  case (Cons r rs)
  let ?k = "w_k_sk w" and ?a = "int (length xs)" and ?nf = "wallet_nf env w"
  let ?news = "abs_news env ?k pp ?a (output_events r)"
  let ?xs' = "xs @ map oe_commitment (output_events r)"
  let ?rest = "abs_all env ?k pp (int (length ?xs')) rs"
  have all: "abs_all env ?k pp ?a (r # rs) = ?news @ ?rest"
    by simp
  have d1: "distinct (map sc (us @ ?news @ ss))" "distinct (map ?nf (us @ ?news))"
    using Cons.prems(3,8-11) unfolding all by (auto simp: wallet_rel_def Int_Un_distrib Int_Un_distrib2 Int_commute image_Un)
  obtain w1 where w1: "receive_notes env w (output_events r) pp = (w1, Inr ?news)"
      "wallet_rel env w1 (us @ ?news) ss" "w_tree w1 = tree_of h D ?xs' m" "next_addr w1 = int (length ?xs')"
      "merkle_tree_changed w1 = (output_events r \<noteq> [])" "w_k_sk w1 = ?k" "w_a_sk w1 = w_a_sk w"
    using receive_notes_ok [OF Cons.prems(1) _ Cons.prems(3-6) _ d1] Cons.prems(2,7) by auto
  have nf1: "wallet_nf env w1 = ?nf"
    using w1(7) by simp
  let ?us' = "filter (\<lambda>d. ?nf d \<notin> bytes_hex ` set (mr_nullifiers r)) (us @ ?news)"
  have env: "env_ok env"
    using Cons.prems(1) by (simp add: recv_ok_def)
  obtain w2 spent where w2: "mark_nullifiers_used w1 (mr_nullifiers r) [] = (w2, Inr (map sc spent))"
      "wallet_rel env w2 ?us' (ss @ spent)" "set spent \<subseteq> set (us @ ?news)" "same_tree w1 w2"
    using mark_nullifiers_used_ok [OF env w1(2), of "mr_nullifiers r" "[]"] unfolding nf1 by auto
  have meta: "w_k_sk w2 = ?k" "w_a_sk w2 = w_a_sk w" "w_tree w2 = tree_of h D ?xs' m" "next_addr w2 = int (length ?xs')"
      "merkle_tree_changed w2 = (output_events r \<noteq> [])"
    using w1 w2(4) by (simp_all add: same_tree_def)
  have sub: "set ?us' \<union> set (ss @ spent) \<subseteq> (set us \<union> set ss) \<union> set ?news" "set ?us' \<subseteq> set us \<union> set ?news"
    using w2(3) by auto
  have dj: "sc ` (set ?news \<union> set ?rest) \<inter> sc ` (set us \<union> set ss) = {}" "sc ` set ?news \<inter> sc ` set ?rest = {}"
      "?nf ` (set ?news \<union> set ?rest) \<inter> ?nf ` set us = {}" "?nf ` set ?news \<inter> ?nf ` set ?rest = {}"
    using Cons.prems(8-11) unfolding all by simp_all
  have d2: "sc ` set ?rest \<inter> sc ` (set ?us' \<union> set (ss @ spent)) = {}" "?nf ` set ?rest \<inter> ?nf ` set ?us' = {}"
    by (rule images_disjoint [OF sub(1) dj(1,2)], rule images_disjoint [OF sub(2) dj(3,4)])
  have d3: "distinct (map sc ?rest)" "distinct (map ?nf ?rest)"
    using Cons.prems(8,10) unfolding all by simp_all
  have "\<exists>w' ss'. sync_loop env pp w2 (Some (new_merkle_root r)) rs =
        (w', Inr (if rs = [] then Some (new_merkle_root r) else Some (new_merkle_root (last rs))))
      \<and> wallet_rel env w' (abs_unspent env ?k (w_a_sk w) pp (int (length ?xs')) ?us' rs) ss'
      \<and> w_tree w' = tree_of h D (?xs' @ all_commitments rs) m
      \<and> (rs \<noteq> [] \<longrightarrow> merkle_tree_changed w' = (output_events (last rs) \<noteq> []))"
    using Cons.IH [of w2 ?us' "ss @ spent" ?xs' "Some (new_merkle_root r)"] Cons.prems(1,2,6,7) w2(2) d2 d3
    unfolding meta by auto
  then obtain w' ss' where w': "sync_loop env pp w2 (Some (new_merkle_root r)) rs =
        (w', Inr (if rs = [] then Some (new_merkle_root r) else Some (new_merkle_root (last rs))))"
      "wallet_rel env w' (abs_unspent env ?k (w_a_sk w) pp (int (length ?xs')) ?us' rs) ss'"
      "w_tree w' = tree_of h D (?xs' @ all_commitments rs) m"
      "rs \<noteq> [] \<longrightarrow> merkle_tree_changed w' = (output_events (last rs) \<noteq> [])"
    by blast
  have step: "sync_loop env pp w root (r # rs) = sync_loop env pp w2 (Some (new_merkle_root r)) rs"
    using w1(1) w2(1) by (simp add: bindS_def)
  have last: "merkle_tree_changed w' = (output_events (last (r # rs)) \<noteq> [])"
    using w'(1,4) meta(5) by (cases "rs = []") auto
  have "wallet_rel env w' (abs_unspent env ?k (w_a_sk w) pp ?a us (r # rs)) ss'"
    using w'(2) by simp
  with w'(1,3) last show ?case
    unfolding step by (intro exI [of _ w'] exI [of _ ss']) simp
qed


text \<open>
  What a sync relies on: the wallet represents the notes \<open>us\<close> (unspent) and \<open>ss\<close> (spent) and the
  commitments \<open>xs\<close>, the results fit into the tree, and the short commitments and nullifiers
  of the received notes do not collide.
\<close>

definition sync_pre ::
  "('sk, 'pk) wallet_env \<Rightarrow> PairingParameters \<Rightarrow> 'sk Wallet \<Rightarrow> ZethNoteDescription list \<Rightarrow> ZethNoteDescription list \<Rightarrow>
   nat \<Rightarrow> bytes list \<Rightarrow> MixResult list \<Rightarrow> bool" where
  "sync_pre env pp w us ss D xs rs \<longleftrightarrow>
     0 < D \<and> D \<le> 52 \<and> recv_ok env (w_k_sk w) pp \<and> (\<forall>r \<in> set rs. \<forall>ev \<in> set (output_events r). event_ok ev)
     \<and> wallet_rel env w us ss \<and> w_tree w = tree_of (we_hash env) D xs (length xs) \<and> next_addr w = int (length xs)
     \<and> length xs + length (all_commitments rs) \<le> 2 ^ D
     \<and> distinct (map sc (abs_all env (w_k_sk w) pp (int (length xs)) rs))
     \<and> sc ` set (abs_all env (w_k_sk w) pp (int (length xs)) rs) \<inter> sc ` (set us \<union> set ss) = {}
     \<and> distinct (map (wallet_nf env w) (abs_all env (w_k_sk w) pp (int (length xs)) rs))
     \<and> wallet_nf env w ` set (abs_all env (w_k_sk w) pp (int (length xs)) rs) \<inter> wallet_nf env w ` set us = {}"

lemma update_and_save_changed:
  assumes "merkle_tree_changed w" "w_tree w = tree_of (we_hash env) D xs m" "0 < D" "D \<le> 52" "m \<le> length xs" "length xs \<le> 2 ^ D"
    and "wallet_rel env w us ss"
  shows "\<exists>w'. update_and_save_state env w nb = (w', Inr ()) \<and> wallet_rel env w' us ss
    \<and> w_tree w' = tree_of (we_hash env) D xs (length xs) \<and> w_state w' = (w_state w)\<lparr>next_block := nb\<rparr>
    \<and> disk_state (w_disk w') = Some (wallet_state_to_json (w_state w'))
    \<and> disk_tree (w_disk w') = Some (persistent_save (w_tree w'))"
  using assms(1,2,7) recompute_root_tree_of [OF assms(3-6), of "we_hash env"]
  by (simp add: update_and_save_state_def save_merkle_tree_if_changed_def Let_def bindS_def wallet_rel_def)

section \<open>Examples\<close>

text \<open>A result whose only output is for somebody else: its tag does not verify.\<close>

definition example_event :: MixOutputEvents where
  "example_event = \<lparr>oe_commitment = replicate 32 7,
     oe_ciphertext = public_bytes example_enc_lib 2 @ replicate 104 0 @ replicate 16 1\<rparr>"

definition example_result :: MixResult where
  "example_result = \<lparr>new_merkle_root = [1], mr_nullifiers = [[1], [2]], output_events = [example_event]\<rparr>"

definition example_synced :: "256 word Wallet" where
  "example_synced = example_wallet\<lparr>w_tree := tree_of append 32 [replicate 32 9] 1\<rparr>"

lemma example_event_foreign: "receive_note example_enc_lib example_event 8 = Inr None"
proof -
  obtain symk mack where k: "kdf example_enc_lib (public_bytes example_enc_lib 2) (digest_bytes (8 + 2)) = Inr (symk, mack)"
    using kdf_ok by blast
  have "exchange example_enc_lib 8 2 = Inr (digest_bytes (8 + 2))"
    by (simp add: example_enc_lib_def)
  from decrypt_append [OF example_enc_lib_laws _ _ this k, of "replicate 104 0" "replicate 16 1"]
  have "decrypt example_enc_lib (oe_ciphertext example_event) 8 = Inl InvalidSignature"
    by (simp add: example_event_def constants_defs) (simp add: example_enc_lib_def sum_list_replicate numeral_eq_Suc)
  then show ?thesis
    by (simp add: receive_note_def)
qed

lemma example_scalar_field: "scalar_field_mod example_pp = Inr 13"
  by code_simp

lemma example_sync_pre: "sync_pre example_wallet_env example_pp example_synced [example_desc] [] 32 [replicate 32 9] [example_result]"
proof -
  have none: "abs_receive example_wallet_env 8 example_pp a example_event = []" for a
    using example_event_foreign by (simp add: abs_receive_def example_wallet_env_def example_crypto_def)
  have ok: "recv_ok example_wallet_env 8 example_pp"
    using example_env_ok example_scalar_field
    by (simp add: recv_ok_def example_wallet_env_def example_crypto_def example_enc_lib_def)
  have len: "event_ok example_event"
    by (simp add: event_ok_def example_event_def example_enc_lib_def enc_constants)
  have rel: "wallet_rel example_wallet_env example_synced [example_desc] []"
    using example_wallet_rel by (simp add: wallet_rel_def example_synced_def)
  have sel: "w_k_sk example_synced = 8" "w_tree example_synced = tree_of append 32 [replicate 32 9] 1" "next_addr example_synced = 1"
      "we_hash example_wallet_env = append" "output_events example_result = [example_event]"
    by (simp_all add: example_synced_def example_wallet_def example_wallet_env_def example_result_def)
  show ?thesis
    using ok len rel none unfolding sync_pre_def by (simp add: sel)
qed

lemma sync_once_ok:
  assumes pre: "sync_pre env pp w us ss D xs rs"
    and blocks: "next_block (w_state w) \<le> chain" "mix_results (next_block (w_state w)) chain = Some (rs, None)"
    and rs: "rs \<noteq> []" "output_events (last rs) \<noteq> []" "new_merkle_root (last rs) \<noteq> []"
  shows "\<exists>w' ss'. sync_once env pp mix_results chain w =
      Some (w', if new_merkle_root (last rs) = spec_node (we_hash env) (xs @ all_commitments rs) D 0
                then Inr chain else Inl AssertionError)
    \<and> wallet_rel env w' (abs_unspent env (w_k_sk w) (w_a_sk w) pp (int (length xs)) us rs) ss'
    \<and> w_tree w' = tree_of (we_hash env) D (xs @ all_commitments rs) (length (xs @ all_commitments rs))
    \<and> next_block (w_state w') = chain + 1
    \<and> disk_state (w_disk w') = Some (wallet_state_to_json (w_state w'))
    \<and> disk_tree (w_disk w') = Some (persistent_save (w_tree w'))"
proof -
  let ?ys = "xs @ all_commitments rs"
  have D: "0 < D" "D \<le> 52" and len: "length xs \<le> length ?ys" "length ?ys \<le> 2 ^ D"
    using pre by (simp_all add: sync_pre_def)
  obtain w1 ss' where w1: "sync_loop env pp w None rs = (w1, Inr (Some (new_merkle_root (last rs))))"
      "wallet_rel env w1 (abs_unspent env (w_k_sk w) (w_a_sk w) pp (int (length xs)) us rs) ss'"
      "w_tree w1 = tree_of (we_hash env) D ?ys (length xs)" "merkle_tree_changed w1"
    using sync_loop_ok [of env w pp rs us ss "we_hash env" D xs "length xs" None] pre rs(1,2)
    by (auto simp: sync_pre_def)
  obtain w2 where w2: "update_and_save_state env w1 (chain + 1) = (w2, Inr ())"
      "wallet_rel env w2 (abs_unspent env (w_k_sk w) (w_a_sk w) pp (int (length xs)) us rs) ss'"
      "w_tree w2 = tree_of (we_hash env) D ?ys (length ?ys)" "w_state w2 = (w_state w1)\<lparr>next_block := chain + 1\<rparr>"
      "disk_state (w_disk w2) = Some (wallet_state_to_json (w_state w2))"
      "disk_tree (w_disk w2) = Some (persistent_save (w_tree w2))"
    using update_and_save_changed [OF w1(4,3) D len w1(2)] by blast
  have "sync_once env pp mix_results chain w =
      Some (w2, if new_merkle_root (last rs) = spec_node (we_hash env) ?ys D 0 then Inr chain else Inl AssertionError)"
    using w1(1) w2(1,3) blocks rs(3) get_root_tree_of [OF D(1), of "we_hash env" ?ys]
    by (simp add: sync_once_def check_root_def bindS_def assertR_def)
  with w2 show ?thesis
    by (intro exI [of _ w2] exI [of _ ss']) simp
qed

section \<open>Properties\<close>

text \<open>
  C8. Syncing over mix results of which the last has outputs: the wallet then holds exactly the unspent
  notes of the abstract replay of the results, its tree has all the commitments in order and
  is fully hashed, state and tree are saved with the block after the last one, and the sync
  succeeds exactly if the last root reported on chain is the root of the reference tree over
  these commitments.
\<close>

theorem sync_correct:
  assumes pre: "sync_pre env pp w us ss D xs rs"
    and blocks: "next_block (w_state w) \<le> chain" "mix_results (next_block (w_state w)) chain = Some (rs, None)"
    and rs: "rs \<noteq> []" "output_events (last rs) \<noteq> []" "new_merkle_root (last rs) \<noteq> []"
  shows "\<exists>w' ss'. sync_once env pp mix_results chain w =
      Some (w', if new_merkle_root (last rs) = spec_node (we_hash env) (xs @ all_commitments rs) D 0
                then Inr chain else Inl AssertionError)
    \<and> wallet_rel env w' (abs_unspent env (w_k_sk w) (w_a_sk w) pp (int (length xs)) us rs) ss'
    \<and> w_tree w' = tree_of (we_hash env) D (xs @ all_commitments rs) (length (xs @ all_commitments rs))
    \<and> next_block (w_state w') = chain + 1
    \<and> disk_state (w_disk w') = Some (wallet_state_to_json (w_state w'))
    \<and> disk_tree (w_disk w') = Some (persistent_save (w_tree w'))"
  using assms by (rule sync_once_ok)

theorem sync_correct_witness:
  "\<exists>w' ss'. sync_once example_wallet_env example_pp (\<lambda>a b. Some ([example_result], None)) 5 example_synced =
      Some (w', if new_merkle_root (last [example_result]) =
                   spec_node (we_hash example_wallet_env) ([replicate 32 9] @ all_commitments [example_result]) 32 0
                then Inr 5 else Inl AssertionError)
    \<and> wallet_rel example_wallet_env w'
        (abs_unspent example_wallet_env (w_k_sk example_synced) (w_a_sk example_synced) example_pp
           (int (length [replicate 32 (9 :: byte)])) [example_desc] [example_result]) ss'
    \<and> w_tree w' = tree_of (we_hash example_wallet_env) 32 ([replicate 32 9] @ all_commitments [example_result])
        (length ([replicate 32 9] @ all_commitments [example_result]))
    \<and> next_block (w_state w') = 5 + 1
    \<and> disk_state (w_disk w') = Some (wallet_state_to_json (w_state w'))
    \<and> disk_tree (w_disk w') = Some (persistent_save (w_tree w'))"
  by (rule sync_correct [OF example_sync_pre])
    (simp_all add: example_result_def example_synced_def example_wallet_def)

end
