(* ===== verification/Payment.thy ===== *)
theory Payment
  imports Mix_Call Sync
begin

text \<open>
  A payment from end to end: the call that the sender's client makes, the event that the mixer
  emits for it, and the wallets that sync with the event.
\<close>

section \<open>What the mixer emits\<close>

text \<open>
  The event of an accepted call: the contract reassembles nullifiers and commitments from the
  public inputs of the proof, which are those of the prover inputs, and copies the ciphertexts.
\<close>

definition mixer_emits :: "digest_fn \<Rightarrow> PairingParameters \<Rightarrow> ProofInputs \<Rightarrow> MixParameters \<Rightarrow> event_args \<Rightarrow> bool" where
  "mixer_emits blake2s pp pinputs mp ea \<longleftrightarrow>
     ea_ciphertexts ea = mp_ciphertexts mp
     \<and> mapR (\<lambda>n. compute_commitment blake2s n pp) (pi_js_outputs pinputs) = Inr (ea_commitments ea)
     \<and> mapR (\<lambda>i. bytes_fromhex (ji_nullifier i)) (pi_js_inputs pinputs) = Inr (ea_nullifiers ea)"

lemma abs_news_nth:
  "i < length evs \<Longrightarrow> d \<in> set (abs_receive env k pp (addr + int i) (evs ! i)) \<Longrightarrow> d \<in> set (abs_news env k pp addr evs)"
proof (induction evs arbitrary: i addr)
  case (Cons ev evs)
  then show ?case
    by (cases i) (auto simp: algebra_simps)
qed simp

text \<open>The note at an index of a call, once the ciphertext is made for a key.\<close>

lemma output_received:
  assumes "enc_lib_laws L" "encrypt_notes L eph ns = Inr cts" "i < length ns" "ns ! i = (n, public_key L k)" "note_ok n"
  shows "receive_note L \<lparr>oe_commitment = cm, oe_ciphertext = cts ! i\<rparr> k = Inr (Some (cm, n))"
proof -
  obtain bs where bs: "zeth_note_to_bytes n = Inr bs" "length bs = NOTE_LENGTH_BYTES" "zeth_note_from_bytes bs = Inr n"
    using note_ok_bytes [OF assms(5)] by blast
  have "encrypt L (eph i) bs (public_key L k) = Inr (cts ! i)"
    using mapR_enumerate_nth [OF assms(2) [unfolded encrypt_notes_def] assms(3)] assms(4) bs(1) by simp
  then have "decrypt L (cts ! i) k = Inr bs"
    using decrypt_encrypt [OF assms(1) bs(2), of "eph i" k] by auto
  with bs(3) show ?thesis
    by (simp add: receive_note_def)
qed

text \<open>The note of an output, as the wallet of its receiver describes it.\<close>

definition output_desc :: "ProofInputs \<Rightarrow> event_args \<Rightarrow> nat \<Rightarrow> nat \<Rightarrow> ZethNoteDescription" where
  "output_desc pinputs ea next_index i =
     \<lparr>nd_note = pi_js_outputs pinputs ! i, nd_address = int (next_index + i), nd_commitment = ea_commitments ea ! i\<rparr>"

lemma event_outputs:
  assumes "length (ea_commitments ea) = n" "length (ea_ciphertexts ea) = n" "i < n"
  shows "output_events (event_args_to_mix_result ea) ! i = \<lparr>oe_commitment = ea_commitments ea ! i, oe_ciphertext = ea_ciphertexts ea ! i\<rparr>"
    and "length (output_events (event_args_to_mix_result ea)) = n"
  using assms by (simp_all add: event_args_to_mix_result_def)

lemma abs_receive_single: "d \<in> set (abs_receive env k pp a ev) \<Longrightarrow> abs_receive env k pp a ev = [d]"
  by (auto simp: abs_receive_def split: sum.splits option.splits if_splits)

lemma output_received_desc:
  assumes call: "create_mix_parameters_and_signing_key C R fl srv config st tree sender eth inputs outputs v_in v_out cb disp =
      (st', Inr (mp, kp))"
    and pinputs: "bindR (mix_call_description C R tree sender inputs outputs v_in v_out cb) (create_prover_inputs C R) = Inr (pinputs, kp)"
    and emits: "mixer_emits (c_blake2s C) pp pinputs mp ea"
    and lib: "enc_lib_laws (c_enc C)" "we_crypto env = C" "length (r_trap R i) = 32"
    and i: "i < length outputs" "pub_k_pk (fst (outputs ! i)) = public_key (c_enc C) k" "length (pub_a_pk (fst (outputs ! i))) = 32"
  shows "abs_receive env k pp (int n + int i) (output_events (event_args_to_mix_result ea) ! i) = [output_desc pinputs ea n i]"
    and "\<exists>u h r. to_zeth_units (snd (outputs ! i)) = Inr u \<and> compute_rho_i (c_blake2s C) (r_phi R) h i = Inr r
      \<and> pi_js_outputs pinputs ! i = \<lparr>apk = bytes_hex (pub_a_pk (fst (outputs ! i))), note_value = bytes_hex (be_bytes 8 u),
          rho = bytes_hex r, trap_r = bytes_hex (r_trap R i)\<rparr>"
    and "compute_commitment (c_blake2s C) (pi_js_outputs pinputs ! i) pp = Inr (ea_commitments ea ! i)"
    and "length (output_events (event_args_to_mix_result ea)) = JS_OUTPUTS" "i < JS_OUTPUTS"
proof -
  obtain desc where d: "mix_call_description C R tree sender inputs outputs v_in v_out cb = Inr desc"
      "create_prover_inputs C R desc = Inr (pinputs, kp)" "length (mc_outputs desc) = JS_OUTPUTS"
      "length (pi_js_outputs pinputs) = JS_OUTPUTS"
    and cts: "encrypt_notes (c_enc C) (r_eph R)
       (map (\<lambda>((zeth_addr, _), note). (note, pub_k_pk zeth_addr)) (zip (mc_outputs desc) (pi_js_outputs pinputs))) =
       Inr (mp_ciphertexts mp)"
    by (rule call_parts [OF call pinputs])
  let ?ns = "map (\<lambda>((zeth_addr, _), note). (note, pub_k_pk zeth_addr)) (zip (mc_outputs desc) (pi_js_outputs pinputs))"
  let ?n = "pi_js_outputs pinputs ! i" and ?cm = "ea_commitments ea ! i"
  obtain zs where zs: "mc_outputs desc = outputs @ zs"
    using mix_call_parts [OF d(1)] by blast
  then have len: "i < length (mc_outputs desc)" "mc_outputs desc ! i = outputs ! i" "i < JS_OUTPUTS"
    using i(1) d(3) by (auto simp: nth_append)
  obtain u h where u: "to_zeth_units (snd (outputs ! i)) = Inr u"
      "create_api_zeth_note (c_blake2s C) (r_phi R) h i (r_trap R i) (pub_a_pk (fst (outputs ! i))) u = Inr ?n"
    using prover_inputs_notes [OF d(2) len(1)] len(2) by auto
  note n = created_note [OF u(2) i(3) lib(3)]
  have lens: "length (ea_commitments ea) = JS_OUTPUTS" "length (ea_ciphertexts ea) = JS_OUTPUTS"
    and ct: "ea_ciphertexts ea = mp_ciphertexts mp" and cm: "compute_commitment (c_blake2s C) ?n pp = Inr ?cm"
    using emits d(3,4) len(3) mapR_length [OF cts [unfolded encrypt_notes_def]]
    by (auto simp: mixer_emits_def dest: mapR_length mapR_nth [of _ _ _ i])
  have "?ns ! i = (?n, public_key (c_enc C) k)" "i < length ?ns"
    using len i(2) d(3,4) by (simp_all add: split_def)
  then have "receive_note (c_enc C) \<lparr>oe_commitment = ?cm, oe_ciphertext = ea_ciphertexts ea ! i\<rparr> k = Inr (Some (?cm, ?n))"
    using output_received [OF lib(1) cts] n ct by simp
  then have "output_desc pinputs ea n i \<in> set (abs_receive env k pp (int n + int i) (output_events (event_args_to_mix_result ea) ! i))"
    using cm lib(2) event_outputs(1) [OF lens len(3)] by (simp add: abs_receive_def output_desc_def)
  then show "abs_receive env k pp (int n + int i) (output_events (event_args_to_mix_result ea) ! i) = [output_desc pinputs ea n i]"
    by (rule abs_receive_single)
  show "\<exists>u h r. to_zeth_units (snd (outputs ! i)) = Inr u \<and> compute_rho_i (c_blake2s C) (r_phi R) h i = Inr r
      \<and> ?n = \<lparr>apk = bytes_hex (pub_a_pk (fst (outputs ! i))), note_value = bytes_hex (be_bytes 8 u),
          rho = bytes_hex r, trap_r = bytes_hex (r_trap R i)\<rparr>"
    using u(1) n by blast
  show "compute_commitment (c_blake2s C) ?n pp = Inr ?cm" "i < JS_OUTPUTS"
    by (fact cm len(3))+
  show "length (output_events (event_args_to_mix_result ea)) = JS_OUTPUTS"
    by (rule event_outputs(2) [OF lens len(3)])
qed

lemma output_in_news:
  assumes "create_mix_parameters_and_signing_key C R fl srv config st tree sender eth inputs outputs v_in v_out cb disp =
      (st', Inr (mp, kp))"
    and "bindR (mix_call_description C R tree sender inputs outputs v_in v_out cb) (create_prover_inputs C R) = Inr (pinputs, kp)"
    and "mixer_emits (c_blake2s C) pp pinputs mp ea"
    and "enc_lib_laws (c_enc C)" "we_crypto env = C" "length (r_trap R i) = 32"
    and "i < length outputs" "pub_k_pk (fst (outputs ! i)) = public_key (c_enc C) k" "length (pub_a_pk (fst (outputs ! i))) = 32"
  shows "output_desc pinputs ea n i \<in> set (abs_news env k pp (int n) (output_events (event_args_to_mix_result ea)))
    \<and> (\<exists>u. to_zeth_units (snd (outputs ! i)) = Inr u \<and> note_value (pi_js_outputs pinputs ! i) = bytes_hex (be_bytes 8 u)
         \<and> apk (pi_js_outputs pinputs ! i) = bytes_hex (pub_a_pk (fst (outputs ! i))))"
  using output_received_desc(1) [OF assms, of n] output_received_desc(2-5) [OF assms] 
    abs_news_nth [of i "output_events (event_args_to_mix_result ea)" "output_desc pinputs ea n i" env k pp "int n"] by auto

lemma call_event:
  fixes C :: "('a, 'b) crypto"
  assumes "create_mix_parameters_and_signing_key C R fl srv config st tree sender eth inputs outputs v_in v_out cb disp =
      (st', Inr (mp, kp))" "mixer_emits (c_blake2s C) pp pinputs mp ea"
    and "bindR (mix_call_description C R tree sender inputs outputs v_in v_out cb) (create_prover_inputs C R) = Inr (pinputs, kp)"
  shows "length (output_events (event_args_to_mix_result ea)) = JS_OUTPUTS"
    and "map oe_commitment (output_events (event_args_to_mix_result ea)) = ea_commitments ea"
proof -
  obtain desc :: "'b MixCallDescription" where "length (mc_outputs desc) = JS_OUTPUTS" "length (pi_js_outputs pinputs) = JS_OUTPUTS"
    and cts: "encrypt_notes (c_enc C) (r_eph R)
       (map (\<lambda>((zeth_addr, _), note). (note, pub_k_pk zeth_addr)) (zip (mc_outputs desc) (pi_js_outputs pinputs))) =
       Inr (mp_ciphertexts mp)"
    by (rule call_parts [OF assms(1,3)]) (rule that, assumption+)
  then have "length (ea_ciphertexts ea) = JS_OUTPUTS" "length (ea_commitments ea) = JS_OUTPUTS"
    using assms(2) mapR_length [OF cts [unfolded encrypt_notes_def]] by (auto simp: mixer_emits_def dest: mapR_length)
  then show "length (output_events (event_args_to_mix_result ea)) = JS_OUTPUTS"
      "map oe_commitment (output_events (event_args_to_mix_result ea)) = ea_commitments ea"
    by (auto simp: event_args_to_mix_result_def intro!: nth_equalityI)
qed

lemma input_nullified:
  assumes pinputs: "bindR (mix_call_description C R tree sender inputs outputs v_in v_out cb) (create_prover_inputs C R) = Inr (pinputs, kp)"
    and emits: "mixer_emits (c_blake2s C) pp pinputs mp ea"
    and d: "as_input d \<in> set inputs" "desc_ok d" "length (a_sk sender) = 32"
  shows "desc_nf (c_blake2s C) (a_sk sender) d \<in> bytes_hex ` set (ea_nullifiers ea)"
proof -
  obtain desc where desc: "mix_call_description C R tree sender inputs outputs v_in v_out cb = Inr desc"
      "create_prover_inputs C R desc = Inr (pinputs, kp)"
    using pinputs by (auto simp: bindR_eq_Inr)
  then have "as_input d \<in> set (mc_inputs desc)" "mc_sender desc = sender"
    using mix_call_parts [OF desc(1)] d(1) by auto
  then obtain ji nf where ji: "ji \<in> set (pi_js_inputs pinputs)"
      "compute_nullifier (c_blake2s C) (nd_note d) (a_sk sender) = Inr nf" "ji_nullifier ji = bytes_hex nf"
    using prover_inputs_nullifiers [OF desc(2)] by (fastforce simp: as_input_def)
  moreover obtain r where "rho (nd_note d) = bytes_hex r"
    using d(2) by (auto simp: desc_ok_def note_ok_def)
  ultimately have "desc_nf (c_blake2s C) (a_sk sender) d = bytes_hex nf"
    using compute_nullifier_ok [OF d(3), of "nd_note d" r "c_blake2s C"] by (simp add: desc_nf_def)
  moreover have "nf \<in> set (ea_nullifiers ea)"
    using emits ji(1,3) mapR_in [of "\<lambda>i. bytes_fromhex (ji_nullifier i)"] by (fastforce simp: mixer_emits_def)
  ultimately show ?thesis by blast
qed

section \<open>Syncing with one call\<close>

text \<open>
  After a sync with the result of one call, the notes found are the old and new ones that the
  call did not nullify.
\<close>

lemma sync_one_result:
  assumes pre: "sync_pre env pp w us ss D xs [event_args_to_mix_result ea]"
    and blocks: "next_block (w_state w) \<le> chain" "mix_results (next_block (w_state w)) chain = Some ([event_args_to_mix_result ea], None)"
    and out: "output_events (event_args_to_mix_result ea) \<noteq> []" "ea_root ea \<noteq> []"
    and root: "ea_root ea = spec_node (we_hash env) (xs @ all_commitments [event_args_to_mix_result ea]) D 0"
  defines "keep \<equiv> \<lambda>d. wallet_nf env w d \<notin> bytes_hex ` set (ea_nullifiers ea)"
    and "news \<equiv> abs_news env (w_k_sk w) pp (int (length xs)) (output_events (event_args_to_mix_result ea))"
  shows "\<exists>w'. sync_once env pp mix_results chain w = Some (w', Inr chain)
    \<and> (\<forall>d \<in> set (us @ news). keep d \<longrightarrow> find_note w' (sc d) = Inr d)
    \<and> (\<forall>d \<in> set us. \<not> keep d \<longrightarrow> find_note w' (sc d) = Inl (PyException (''no note with id '' @ sc d)))"
proof -
  let ?r = "event_args_to_mix_result ea"
  have sel: "new_merkle_root ?r = ea_root ea" "mr_nullifiers ?r = ea_nullifiers ea"
    by (simp_all add: event_args_to_mix_result_def)
  have ok: "env_ok env" and rel: "wallet_rel env w us ss" and dist: "distinct (map sc news)"
      "sc ` set news \<inter> sc ` (set us \<union> set ss) = {}"
    using pre by (simp_all add: sync_pre_def recv_ok_def news_def)
  obtain w' ss' where w': "sync_once env pp mix_results chain w = Some (w', Inr chain)"
      "wallet_rel env w' (filter keep (us @ news)) ss'"
    using sync_once_ok [of env pp w us ss D xs "[?r]" chain mix_results] pre blocks out root sel
    by (auto simp: keep_def news_def)
  have "find_note w' (sc d) = Inr d" if "d \<in> set (us @ news)" "keep d" for d
    using find_note_sc [OF ok w'(2)] that by simp
  moreover have "find_note w' (sc d) = Inl (PyException (''no note with id '' @ sc d))" if "d \<in> set us" "\<not> keep d" for d
  proof (rule find_note_missing [OF ok w'(2)])
    show "length (nd_commitment d) = 32"
      using rel that(1) by (auto simp: wallet_rel_def desc_ok_def)
    have "inj_on sc (set us)"
      using rel by (auto simp: wallet_rel_def distinct_map)
    then show "sc d \<notin> sc ` set (filter keep (us @ news))"
      using that dist(2) by (auto dest: inj_onD)
  qed
  ultimately show ?thesis
    using w'(1) by blast
qed

section \<open>An example\<close>

text \<open>
  A wallet spends its two notes and pays itself two others. The hash puts one byte of its input
  in front: the first one, or the first of the argument for the tag of nullifiers.
\<close>

definition payment_hash :: digest_fn where
  "payment_hash bs = word_of_int ((if uint (hd bs) < 224 then uint (hd bs) else uint (bs ! 32)) * 2 ^ 248)"

definition payment_crypto :: "(256 word, 256 word) crypto" where
  "payment_crypto = example_crypto\<lparr>c_blake2s := payment_hash\<rparr>"

definition payment_env :: "(256 word, 256 word) wallet_env" where
  "payment_env = example_wallet_env\<lparr>we_crypto := payment_crypto\<rparr>"

definition payment_random :: "256 word mix_random" where
  "payment_random = example_random\<lparr>r_trap := \<lambda>i. replicate 32 (5 + of_nat i)\<rparr>"

definition payment_pp :: PairingParameters where
  "payment_pp = example_pp\<lparr>pp_r := ''0x1'' @ replicate 63 CHR ''0''\<rparr>"

definition payment_desc :: "byte \<Rightarrow> int \<Rightarrow> ZethNoteDescription" where
  "payment_desc b a = \<lparr>nd_note = example_note b, nd_address = a, nd_commitment = replicate 32 (b + 8)\<rparr>"

abbreviation payment_notes :: "ZethNoteDescription list" where
  "payment_notes \<equiv> [payment_desc 1 0, payment_desc 2 1]"

definition payment_leaves :: "bytes list" where
  "payment_leaves = map nd_commitment payment_notes"

definition payment_sender :: OwnershipKeyPair where
  "payment_sender = \<lparr>a_sk = replicate 32 2, a_pk = replicate 32 6\<rparr>"

definition payment_outputs :: "(256 word ZethAddressPub \<times> EtherValue) list" where
  "payment_outputs = [(\<lparr>pub_a_pk = replicate 32 6, pub_k_pk = 9\<rparr>, \<lparr>wei = 5 * ZETH_PUBLIC_UNIT_VALUE\<rparr>),
     (\<lparr>pub_a_pk = replicate 32 6, pub_k_pk = 9\<rparr>, \<lparr>wei = 7 * ZETH_PUBLIC_UNIT_VALUE\<rparr>)]"

definition payment_wallet :: "256 word Wallet" where
  "payment_wallet = \<lparr>username = ''u'', w_a_sk = replicate 32 2, w_k_sk = 8,
     w_state = \<lparr>next_block = 1, num_notes = 2,
       nullifier_map = map (\<lambda>d. (desc_nf payment_hash (replicate 32 2) d, sc d)) payment_notes\<rparr>,
     w_tree = tree_of append 2 payment_leaves (length payment_leaves), merkle_tree_changed = False, next_addr = 2,
     w_disk = \<lparr>disk_notes = note_files payment_env ''u'' payment_notes, disk_spent = [], disk_state = None, disk_tree = None\<rparr>\<rparr>"

text \<open>The hashes that occur: nullifiers, the new rhos and the new commitments.\<close>

lemma payment_legs:
  "hd (tagged_leg 14 (replicate 32 2)) = 224" "hd (tagged_leg 2 (replicate 32 4)) = 32" "hd (tagged_leg 6 (replicate 32 4)) = 96"
  "length (tagged_leg 14 (replicate 32 2)) = 32" "length (tagged_leg 2 (replicate 32 4)) = 32" "length (tagged_leg 6 (replicate 32 4)) = 32"
  by code_simp+

lemma digest_top: "0 \<le> x \<Longrightarrow> x < 256 \<Longrightarrow> digest_bytes (word_of_int (x * 2 ^ 248)) = word_of_int x # replicate 31 0"
proof -
  assume x: "0 \<le> x" "x < 256"
  have fit: "uint (word_of_int k :: 256 word) = k" if "0 \<le> k" "k < 2 ^ 256" for k
    using that by (simp add: uint_word_of_int)
  have "uint (word_of_int (x * 2 ^ 248) :: 256 word) = x * 2 ^ 248"
    using x by (intro fit) simp_all
  moreover have "be_bytes 32 (int_from_bytes (word_of_int x # replicate 31 0)) = word_of_int x # replicate 31 0"
    using be_bytes_from_bytes [of "word_of_int x # replicate 31 0"] by simp
  moreover have "int_from_bytes (word_of_int x # replicate 31 0) = x * 2 ^ 248"
    using x int_from_bytes_zeros [of 31 "[]"] by (simp add: int_from_bytes_Cons uint_word_of_int)
  ultimately show ?thesis
    by (simp add: digest_bytes_def)
qed

lemma payment_nf:
  assumes "rho (nd_note d) = bytes_hex r" "r \<noteq> []"
  shows "desc_nf payment_hash (replicate 32 2) d = bytes_hex (hd r # replicate 31 0)"
proof -
  have "(tagged_leg 14 (replicate 32 2) @ r) ! 32 = hd r"
    using assms(2) payment_legs(4) by (simp add: nth_append hd_conv_nth)
  moreover have "hd (tagged_leg 14 (replicate 32 2) @ r) = 224"
    using payment_legs(1,4) by (metis hd_append2 list.size(3) zero_neq_numeral)
  ultimately have "payment_hash (tagged_leg 14 (replicate 32 2) @ r) = word_of_int (uint (hd r) * 2 ^ 248)"
    by (simp add: payment_hash_def)
  then show ?thesis
    using digest_top [of "uint (hd r)"] assms(1) by (simp add: desc_nf_def)
qed

lemma payment_rho:
  assumes "i < JS_OUTPUTS"
  shows "compute_rho_i payment_hash (replicate 32 4) h i = Inr (word_of_int (32 + 64 * int i) # replicate 31 0)"
proof -
  have leg: "tagged_leg (2 + 4 * int i) (replicate 32 4) \<noteq> []" "uint (hd (tagged_leg (2 + 4 * int i) (replicate 32 4))) = 32 + 64 * int i"
    using payment_legs assms by (auto simp: JS_OUTPUTS_def less_2_cases_iff)
  then have "payment_hash (tagged_leg (2 + 4 * int i) (replicate 32 4) @ h) = word_of_int ((32 + 64 * int i) * 2 ^ 248)"
    using assms by (simp add: payment_hash_def hd_append2 JS_OUTPUTS_def)
  then show ?thesis
    using compute_rho_i_ok [of "replicate 32 4" i payment_hash h] digest_top [of "32 + 64 * int i"] assms
    by (simp add: JS_OUTPUTS_def)
qed

lemma payment_field: "scalar_field_mod payment_pp = Inr (2 ^ 252)"
proof -
  have "scalar_field_mod payment_pp = py_int_str (''0x1'' @ replicate 63 CHR ''0'') 16"
    by (simp add: scalar_field_mod_def payment_pp_def)
  also have "\<dots> = Inr (2 ^ 252)"
    by code_simp
  finally show ?thesis .
qed

lemma payment_commitment:
  assumes "trap_r n = bytes_hex (replicate 32 b)" "uint b < 16" "apk n = bytes_hex a" "rho n = bytes_hex r" "note_value n = bytes_hex v"
  shows "compute_commitment payment_hash n payment_pp = Inr (b # replicate 31 0)"
proof -
  have "hd (replicate 32 b @ a @ r @ v) = b"
    by (simp add: numeral_eq_Suc)
  then have h: "digest_bytes (payment_hash (replicate 32 b @ a @ r @ v)) = b # replicate 31 0"
    using digest_top [of "uint b"] assms(2) by (simp add: payment_hash_def)
  have v: "int_from_bytes (b # replicate 31 0) = uint b * 2 ^ 248"
    using int_from_bytes_zeros [of 31 "[]"] by (simp add: int_from_bytes_Cons)
  have "uint b * 2 ^ 248 mod 2 ^ 252 = uint b * 2 ^ 248"
    using assms(2) by (intro mod_pos_pos_trivial) simp_all
  then show ?thesis
    using assms h v payment_field int_to_from_bytes [of "b # replicate 31 0"] by (simp add: compute_commitment_def)
qed

lemma payment_note_ok: "note_ok (example_note b)" "desc_ok (payment_desc b a) \<longleftrightarrow> 0 \<le> a"
  using example_note_ok by (simp_all add: desc_ok_def payment_desc_def)

lemma payment_laws:
  "enc_lib_laws (c_enc payment_crypto)" "ec_lib_laws (c_ec payment_crypto)" "encode_bytes32_law (c_encode_single payment_crypto)"
  "c_toWei payment_crypto (NumInt 0) ''ether'' = Inr 0" "random_ok payment_random" "c_blake2s payment_crypto = payment_hash"
  "c_ec payment_crypto = c_ec example_crypto" "r_urandom_x payment_random = r_urandom_x example_random"
  "r_urandom_y payment_random = r_urandom_y example_random" "public_key (c_enc payment_crypto) 8 = 9"
  using example_crypto_laws example_random_ok
  by (simp_all add: payment_crypto_def payment_random_def random_ok_def example_crypto_def example_enc_lib_def)

lemma payment_call_ok:
  "call_ok payment_crypto payment_sender (map as_input payment_notes) payment_outputs \<lparr>wei = 12 * ZETH_PUBLIC_UNIT_VALUE\<rparr> \<lparr>wei = 0\<rparr>"
proof -
  have "9 \<in> range (public_key (c_enc payment_crypto))"
    using payment_laws(10) by (metis rangeI)
  then show ?thesis
    using units_ok_units [of 5] units_ok_units [of 7] units_ok_units [of 12] units_ok_units [of 0] payment_note_ok(1)
    by (simp add: call_ok_def payment_outputs_def payment_sender_def as_input_def payment_desc_def JS_INPUTS_def JS_OUTPUTS_def)
qed

lemma payment_built:
  "\<exists>mp pinputs. create_mix_parameters_and_signing_key payment_crypto payment_random (\<lambda>n. 3) example_prover example_config example_state
        (tree_of append 2 payment_leaves (length payment_leaves)) payment_sender ZERO_ADDRESS
        (map as_input payment_notes) payment_outputs \<lparr>wei = 12 * ZETH_PUBLIC_UNIT_VALUE\<rparr> \<lparr>wei = 0\<rparr> None False =
        (example_state, Inr (mp, example_keypair))
    \<and> bindR (mix_call_description payment_crypto payment_random (tree_of append 2 payment_leaves (length payment_leaves)) payment_sender
        (map as_input payment_notes) payment_outputs \<lparr>wei = 12 * ZETH_PUBLIC_UNIT_VALUE\<rparr> \<lparr>wei = 0\<rparr> None)
        (create_prover_inputs payment_crypto payment_random) = Inr (pinputs, example_keypair)"
proof -
  have D: "0 < (2 :: nat)" "length payment_leaves \<le> 2 ^ 2"
    by (simp_all add: payment_leaves_def)
  have kp: "gen_signing_keypair (c_ec payment_crypto) (r_urandom_x payment_random) (r_urandom_y payment_random) = Inr example_keypair"
      "r_urandom_x payment_random (key_size_byte (c_ec payment_crypto)) \<noteq> []"
      "r_urandom_y payment_random (key_size_byte (c_ec payment_crypto)) \<noteq> []"
      "g1_ok (c_ec payment_crypto) (ppk (vk example_keypair))" "g1_ok (c_ec payment_crypto) (spk (vk example_keypair))"
    unfolding payment_laws(7-9) by (fact example_random_keypair)+
  show ?thesis
    using mix_parameters_total [where prove = "\<lambda>_. (example_groth16, [1])", OF payment_call_ok payment_laws(4,5) D payment_laws(1,2) kp
        payment_laws(3) example_address example_provider example_proof_ok example_get_proof, where h = append and fl = "\<lambda>n. 3" and disp = False]
    by blast
qed

text \<open>Every nullifier of the event is that of an input.\<close>

lemma mapR_out: "mapR f xs = Inr ys \<Longrightarrow> y \<in> set ys \<Longrightarrow> \<exists>x \<in> set xs. f x = Inr y"
  by (induction xs arbitrary: ys) (auto simp: bindR_eq_Inr)

lemma event_nullifier:
  assumes "create_prover_inputs C R desc = Inr (pinputs, kp)" "mixer_emits (c_blake2s C) pp pinputs mp ea" "nf \<in> set (ea_nullifiers ea)"
  shows "\<exists>inp \<in> set (mc_inputs desc). compute_nullifier (c_blake2s C) (snd inp) (a_sk (mc_sender desc)) = Inr nf"
proof -
  obtain ji where ji: "ji \<in> set (pi_js_inputs pinputs)" "bytes_fromhex (ji_nullifier ji) = Inr nf"
    using assms(2) mapR_out [OF _ assms(3), of "\<lambda>i. bytes_fromhex (ji_nullifier i)" "pi_js_inputs pinputs"]
    by (auto simp: mixer_emits_def)
  have "mapR (create_api_input (c_blake2s C) (mc_mk_tree desc) (a_sk (mc_sender desc))) (mc_inputs desc) = Inr (pi_js_inputs pinputs)"
    using assms(1) by (auto simp: create_prover_inputs_def bindR_eq_Inr)
  from mapR_out [OF this ji(1)] obtain inp where inp: "inp \<in> set (mc_inputs desc)"
      "create_api_input (c_blake2s C) (mc_mk_tree desc) (a_sk (mc_sender desc)) inp = Inr ji"
    by blast
  show ?thesis
    using inp(2) ji(2)
    by (intro bexI [OF _ inp(1)]) (auto simp: create_api_input_def create_api_joinsplit_input_def bindR_eq_Inr)
qed

lemma mixer_emits_total:
  assumes d: "create_prover_inputs C R desc = Inr (pinputs, kp)" "length (pi_js_outputs pinputs) = length (mc_outputs desc)"
    and len: "\<forall>x \<in> set (mc_outputs desc). length (pub_a_pk (fst x)) = 32" "\<forall>i. length (r_trap R i) = 32"
    and r: "scalar_field_mod pp = Inr r" "0 < r" "r \<le> 2 ^ 256"
  shows "\<exists>ea. mixer_emits (c_blake2s C) pp pinputs mp ea \<and> ea_root ea = root (ea_commitments ea)"
proof -
  have notes_ok: "note_ok n" if mem: "n \<in> set (pi_js_outputs pinputs)" for n
  proof -
    obtain i where "i < length (mc_outputs desc)" "n = pi_js_outputs pinputs ! i"
      using mem d(2) by (auto simp: in_set_conv_nth)
    then show ?thesis
      using prover_inputs_notes [OF d(1)] created_note len by (metis nth_mem)
  qed
  obtain cms where "mapR (\<lambda>n. compute_commitment (c_blake2s C) n pp) (pi_js_outputs pinputs) = Inr cms"
    using mapR_total [of "pi_js_outputs pinputs" "\<lambda>n. compute_commitment (c_blake2s C) n pp"] compute_commitment_ok [OF notes_ok r]
    by blast
  moreover obtain nfs where "mapR (\<lambda>i. bytes_fromhex (ji_nullifier i)) (pi_js_inputs pinputs) = Inr nfs"
  proof -
    have "mapR (create_api_input (c_blake2s C) (mc_mk_tree desc) (a_sk (mc_sender desc))) (mc_inputs desc) = Inr (pi_js_inputs pinputs)"
      using d(1) by (auto simp: create_prover_inputs_def bindR_eq_Inr)
    from mapR_out [OF this] have "\<exists>nf. bytes_fromhex (ji_nullifier ji) = Inr nf" if "ji \<in> set (pi_js_inputs pinputs)" for ji
      using that by (fastforce simp: create_api_input_def create_api_joinsplit_input_def bindR_eq_Inr)
    then show thesis
      using mapR_total [of "pi_js_inputs pinputs" "\<lambda>i. bytes_fromhex (ji_nullifier i)"] that by blast
  qed
  ultimately show ?thesis
    by (intro exI [of _ "\<lparr>ea_root = root cms, ea_nullifiers = nfs, ea_commitments = cms, ea_ciphertexts = mp_ciphertexts mp\<rparr>"])
      (simp add: mixer_emits_def)
qed

lemma payment_sel:
  "username payment_wallet = ''u''" "w_a_sk payment_wallet = replicate 32 2" "w_k_sk payment_wallet = 8"
  "disk_notes (w_disk payment_wallet) = note_files payment_env ''u'' payment_notes" "disk_spent (w_disk payment_wallet) = []"
  "nullifier_map (w_state payment_wallet) = map (\<lambda>d. (desc_nf payment_hash (replicate 32 2) d, sc d)) payment_notes"
  "w_tree payment_wallet = tree_of append 2 payment_leaves (length payment_leaves)" "next_addr payment_wallet = 2"
  "c_blake2s (we_crypto payment_env) = payment_hash" "we_crypto payment_env = payment_crypto" "we_hash payment_env = append"
  "next_block (w_state payment_wallet) = 1" "length payment_leaves = 2"
  by (simp_all add: payment_wallet_def payment_env_def payment_laws(6) example_wallet_env_def payment_leaves_def)

lemma payment_desc_nf: "desc_nf payment_hash (replicate 32 2) (payment_desc b a) = bytes_hex (b # replicate 31 0)"
  using payment_nf [of "payment_desc b a" "replicate 32 b"]
  by (simp add: payment_desc_def example_note_def numeral_eq_Suc)

lemma payment_distinct:
  "short_commitment (replicate 32 9) \<noteq> short_commitment (replicate 32 10)"
  "hex_byte 1 \<noteq> hex_byte 2" "hex_byte 32 \<noteq> hex_byte 96" "hex_byte 32 \<notin> {hex_byte 1, hex_byte 2}" "hex_byte 96 \<notin> {hex_byte 1, hex_byte 2}"
  "short_commitment (5 # replicate 31 0) \<noteq> short_commitment (6 # replicate 31 0)"
  "short_commitment (5 # replicate 31 0) \<notin> {short_commitment (replicate 32 9), short_commitment (replicate 32 10)}"
  "short_commitment (6 # replicate 31 0) \<notin> {short_commitment (replicate 32 9), short_commitment (replicate 32 10)}"
  by code_simp+

lemma payment_wallet_rel: "wallet_rel payment_env payment_wallet payment_notes []"
proof -
  have "sc (payment_desc 1 0) = short_commitment (replicate 32 9)" "sc (payment_desc 2 1) = short_commitment (replicate 32 10)"
    by (simp_all add: payment_desc_def)
  then show ?thesis
    using payment_note_ok(2) payment_distinct(1,2)
    by (simp add: wallet_rel_def payment_sel payment_laws(6) payment_desc_nf literal_def note_files_def)
qed

lemma payment_recv_ok: "recv_ok payment_env 8 payment_pp"
proof -
  have "env_ok payment_env"
    using example_env_ok by (simp add: env_ok_def payment_env_def payment_crypto_def example_wallet_env_def)
  then show ?thesis
    using payment_field by (simp add: recv_ok_def payment_sel payment_crypto_def example_crypto_def example_enc_lib_def)
qed

definition payment_call :: "MixParameters \<Rightarrow> ProofInputs \<Rightarrow> event_args \<Rightarrow> bool" where
  "payment_call mp pinputs ea \<longleftrightarrow>
     create_mix_parameters_and_signing_key payment_crypto payment_random (\<lambda>n. 3) example_prover example_config example_state
        (tree_of append 2 payment_leaves (length payment_leaves)) payment_sender ZERO_ADDRESS
        (map as_input payment_notes) payment_outputs \<lparr>wei = 12 * ZETH_PUBLIC_UNIT_VALUE\<rparr> \<lparr>wei = 0\<rparr> None False =
        (example_state, Inr (mp, example_keypair))
     \<and> bindR (mix_call_description payment_crypto payment_random (tree_of append 2 payment_leaves (length payment_leaves)) payment_sender
        (map as_input payment_notes) payment_outputs \<lparr>wei = 12 * ZETH_PUBLIC_UNIT_VALUE\<rparr> \<lparr>wei = 0\<rparr> None)
        (create_prover_inputs payment_crypto payment_random) = Inr (pinputs, example_keypair)
     \<and> mixer_emits (c_blake2s payment_crypto) payment_pp pinputs mp ea"

lemma abs_receive_event_ok: "d \<in> set (abs_receive env k pp a ev) \<Longrightarrow> event_ok ev"
  by (rule ccontr)
    (auto simp: decrypt_wrong_length abs_receive_def receive_note_def event_ok_def bindR_eq_Inr split: sum.splits option.splits if_splits)

lemma payment_output:
  assumes "payment_call mp pinputs ea" "i < 2"
  defines "d \<equiv> output_desc pinputs ea 2 i" and "evs \<equiv> output_events (event_args_to_mix_result ea)"
  shows "length evs = 2" "abs_receive payment_env 8 payment_pp (2 + int i) (evs ! i) = [d]"
    "nd_commitment d = (5 + of_nat i) # replicate 31 0"
    "desc_nf payment_hash (replicate 32 2) d = bytes_hex (word_of_int (32 + 64 * int i) # replicate 31 0)"
proof -
  have i: "i < length payment_outputs" "pub_k_pk (fst (payment_outputs ! i)) = public_key (c_enc payment_crypto) 8"
      "length (pub_a_pk (fst (payment_outputs ! i))) = 32"
    using assms(2) payment_laws(10) by (auto simp: payment_outputs_def less_2_cases_iff)
  have t: "length (r_trap payment_random i) = 32" "r_phi payment_random = replicate 32 4"
      "r_trap payment_random i = replicate 32 (5 + of_nat i)"
    by (simp_all add: payment_random_def example_random_def)
  note parts = assms(1) [unfolded payment_call_def, THEN conjunct1]
    assms(1) [unfolded payment_call_def, THEN conjunct2, THEN conjunct1]
    assms(1) [unfolded payment_call_def, THEN conjunct2, THEN conjunct2]
  note r = output_received_desc [OF parts payment_laws(1) payment_sel(10) t(1) i]
  show "length evs = 2" "abs_receive payment_env 8 payment_pp (2 + int i) (evs ! i) = [d]"
    using r(1) [of 2] r(4) by (simp_all add: evs_def d_def JS_OUTPUTS_def)
  obtain u h x where n: "compute_rho_i payment_hash (replicate 32 4) h i = Inr x"
      "pi_js_outputs pinputs ! i = \<lparr>apk = bytes_hex (pub_a_pk (fst (payment_outputs ! i))), note_value = bytes_hex (be_bytes 8 u),
          rho = bytes_hex x, trap_r = bytes_hex (replicate 32 (5 + of_nat i))\<rparr>"
    using r(2) by (auto simp: payment_laws(6) t(2,3))
  have "uint (5 + of_nat i :: byte) < 16"
    using assms(2) by (auto simp: less_2_cases_iff)
  then have "compute_commitment payment_hash (pi_js_outputs pinputs ! i) payment_pp = Inr ((5 + of_nat i) # replicate 31 0)"
    using n(2) by (intro payment_commitment) simp_all
  then show "nd_commitment d = (5 + of_nat i) # replicate 31 0"
    using r(3) by (simp add: d_def output_desc_def payment_laws(6))
  have "x = word_of_int (32 + 64 * int i) # replicate 31 0"
    using payment_rho [of i h] n(1) assms(2) by (simp add: JS_OUTPUTS_def)
  then show "desc_nf payment_hash (replicate 32 2) d = bytes_hex (word_of_int (32 + 64 * int i) # replicate 31 0)"
    using n(2) payment_nf [of d x] by (simp add: d_def output_desc_def)
qed

lemma payment_news:
  assumes "payment_call mp pinputs ea"
  defines "evs \<equiv> output_events (event_args_to_mix_result ea)"
  shows "abs_news payment_env 8 payment_pp 2 evs = [output_desc pinputs ea 2 0, output_desc pinputs ea 2 1]" "\<forall>ev \<in> set evs. event_ok ev"
    "length evs = 2"
proof -
  note p = payment_output [OF assms(1), of 0] payment_output [OF assms(1), of 1]
  then obtain a b where evs: "evs = [a, b]"
    by (auto simp: evs_def [symmetric] numeral_2_eq_2 length_Suc_conv)
  have r: "abs_receive payment_env 8 payment_pp 2 a = [output_desc pinputs ea 2 0]"
      "abs_receive payment_env 8 payment_pp 3 b = [output_desc pinputs ea 2 1]"
    using p(2,6) evs by (simp_all add: evs_def [symmetric])
  then show "abs_news payment_env 8 payment_pp 2 evs = [output_desc pinputs ea 2 0, output_desc pinputs ea 2 1]"
    by (simp add: evs)
  show "\<forall>ev \<in> set evs. event_ok ev"
    using abs_receive_event_ok [of "output_desc pinputs ea 2 0" payment_env 8 payment_pp 2 a]
      abs_receive_event_ok [of "output_desc pinputs ea 2 1" payment_env 8 payment_pp 3 b] r evs by simp
  show "length evs = 2"
    by (simp add: evs)
qed

lemma payment_sync_pre:
  assumes "payment_call mp pinputs ea"
  shows "sync_pre payment_env payment_pp payment_wallet payment_notes [] 2 payment_leaves [event_args_to_mix_result ea]"
proof -
  note news = payment_news [OF assms]
  note p = payment_output [OF assms, of 0, simplified] payment_output [OF assms, of 1, simplified]
  have sc: "sc (payment_desc 1 0) = short_commitment (replicate 32 9)" "sc (payment_desc 2 1) = short_commitment (replicate 32 10)"
    by (simp_all add: payment_desc_def)
  show ?thesis
    unfolding sync_pre_def
    using payment_recv_ok payment_wallet_rel news(2,3) payment_distinct p(3,4,7,8) sc
    by (simp add: payment_sel news(1) payment_laws(6) payment_desc_nf)
qed

lemma payment_call_exists: "\<exists>mp pinputs ea. payment_call mp pinputs ea \<and> ea_root ea = root (ea_commitments ea)"
proof -
  obtain mp pinputs where built: "create_mix_parameters_and_signing_key payment_crypto payment_random (\<lambda>n. 3) example_prover example_config example_state
        (tree_of append 2 payment_leaves (length payment_leaves)) payment_sender ZERO_ADDRESS
        (map as_input payment_notes) payment_outputs \<lparr>wei = 12 * ZETH_PUBLIC_UNIT_VALUE\<rparr> \<lparr>wei = 0\<rparr> None False =
        (example_state, Inr (mp, example_keypair))"
      "bindR (mix_call_description payment_crypto payment_random (tree_of append 2 payment_leaves (length payment_leaves)) payment_sender
        (map as_input payment_notes) payment_outputs \<lparr>wei = 12 * ZETH_PUBLIC_UNIT_VALUE\<rparr> \<lparr>wei = 0\<rparr> None)
        (create_prover_inputs payment_crypto payment_random) = Inr (pinputs, example_keypair)"
    using payment_built by blast
  obtain desc where d: "mix_call_description payment_crypto payment_random (tree_of append 2 payment_leaves (length payment_leaves))
        payment_sender (map as_input payment_notes) payment_outputs \<lparr>wei = 12 * ZETH_PUBLIC_UNIT_VALUE\<rparr> \<lparr>wei = 0\<rparr> None = Inr desc"
      "create_prover_inputs payment_crypto payment_random desc = Inr (pinputs, example_keypair)" "length (mc_outputs desc) = JS_OUTPUTS"
      "length (pi_js_outputs pinputs) = JS_OUTPUTS"
    by (rule call_parts [OF built])
  have "mc_outputs desc = payment_outputs"
    using mix_call_parts [OF d(1)] d(3) by (auto simp: payment_outputs_def JS_OUTPUTS_def)
  moreover have "length (r_trap payment_random i) = 32" for i
    by (simp add: payment_random_def)
  ultimately obtain ea where "mixer_emits (c_blake2s payment_crypto) payment_pp pinputs mp ea" "ea_root ea = root (ea_commitments ea)"
    using mixer_emits_total [OF d(2), where pp = payment_pp and r = "2 ^ 252" and root = root and mp = mp] d(3,4) payment_field
    by (auto simp: payment_outputs_def)
  with built show ?thesis
    unfolding payment_call_def by blast
qed

lemma payment_fresh:
  assumes "payment_call mp pinputs ea" "i < 2"
  shows "desc_nf payment_hash (replicate 32 2) (output_desc pinputs ea 2 i) \<notin> bytes_hex ` set (ea_nullifiers ea)"
proof
  assume "desc_nf payment_hash (replicate 32 2) (output_desc pinputs ea 2 i) \<in> bytes_hex ` set (ea_nullifiers ea)"
  then obtain nf where nf: "nf \<in> set (ea_nullifiers ea)" "desc_nf payment_hash (replicate 32 2) (output_desc pinputs ea 2 i) = bytes_hex nf"
    by blast
  note parts = assms(1) [unfolded payment_call_def, THEN conjunct1]
    assms(1) [unfolded payment_call_def, THEN conjunct2, THEN conjunct1]
    assms(1) [unfolded payment_call_def, THEN conjunct2, THEN conjunct2]
  obtain desc where d: "mix_call_description payment_crypto payment_random (tree_of append 2 payment_leaves (length payment_leaves))
        payment_sender (map as_input payment_notes) payment_outputs \<lparr>wei = 12 * ZETH_PUBLIC_UNIT_VALUE\<rparr> \<lparr>wei = 0\<rparr> None = Inr desc"
      "create_prover_inputs payment_crypto payment_random desc = Inr (pinputs, example_keypair)"
    using parts(2) by (auto simp: bindR_eq_Inr)
  have "mc_inputs desc = map as_input payment_notes" "mc_sender desc = payment_sender"
    using d(1) by (auto simp: mix_call_description_def bindR_eq_Inr assertR_eq_Inr Let_def JS_INPUTS_def split: if_splits)
  then obtain x where x: "x \<in> set payment_notes" "compute_nullifier payment_hash (nd_note x) (replicate 32 2) = Inr nf"
    using event_nullifier [OF d(2) parts(3) nf(1)] by (auto simp: as_input_def payment_sender_def payment_laws(6))
  have "bytes_hex nf \<in> {bytes_hex (1 # replicate 31 0), bytes_hex (2 # replicate 31 0)}"
  proof -
    have "rho (nd_note (payment_desc b a)) = bytes_hex (replicate 32 b)" for a b
      by (simp add: payment_desc_def example_note_def)
    then have "bytes_hex nf = desc_nf payment_hash (replicate 32 2) x"
      using x compute_nullifier_ok [of "replicate 32 2" "nd_note x" _ payment_hash] by (auto simp: desc_nf_def)
    then show ?thesis
      using x(1) payment_desc_nf by auto
  qed
  then show False
    using nf(2) payment_output(4) [OF assms] assms(2) payment_distinct(4,5) by (auto simp: less_2_cases_iff)
qed

section \<open>Properties\<close>

text \<open>
  C3. A call that the client built, the event the mixer emits for it, and a wallet that syncs with
  the event. Each output made for the wallet's key is found by its short commitment, at the
  next addresses of the tree, with the receiver's address key and the units of the value;
  unless the call itself spent it. Each note of the wallet that was an input of the call, made
  with the wallet's spending key, is not found any more.
\<close>

theorem payment_end_to_end:
  assumes call: "create_mix_parameters_and_signing_key C R fl srv config st tree sender eth inputs outputs v_in v_out cb disp =
      (st', Inr (mp, kp))"
    and pinputs: "bindR (mix_call_description C R tree sender inputs outputs v_in v_out cb) (create_prover_inputs C R) = Inr (pinputs, kp)"
    and emits: "mixer_emits (c_blake2s C) pp pinputs mp ea"
    and lib: "enc_lib_laws (c_enc C)" "we_crypto env = C" "\<forall>i. length (r_trap R i) = 32"
    and pre: "sync_pre env pp w us ss D xs [event_args_to_mix_result ea]"
    and blocks: "next_block (w_state w) \<le> chain" "mix_results (next_block (w_state w)) chain = Some ([event_args_to_mix_result ea], None)"
    and root: "ea_root ea = spec_node (we_hash env) (xs @ all_commitments [event_args_to_mix_result ea]) D 0" "ea_root ea \<noteq> []"
  shows "\<exists>w'. sync_once env pp mix_results chain w = Some (w', Inr chain)
    \<and> (\<forall>i < length outputs. pub_k_pk (fst (outputs ! i)) = public_key (c_enc C) (w_k_sk w)
         \<and> length (pub_a_pk (fst (outputs ! i))) = 32
         \<and> wallet_nf env w (output_desc pinputs ea (length xs) i) \<notin> bytes_hex ` set (ea_nullifiers ea) \<longrightarrow>
         find_note w' (short_commitment (ea_commitments ea ! i)) = Inr (output_desc pinputs ea (length xs) i)
         \<and> (\<exists>u. to_zeth_units (snd (outputs ! i)) = Inr u \<and> note_value (pi_js_outputs pinputs ! i) = bytes_hex (be_bytes 8 u)
              \<and> apk (pi_js_outputs pinputs ! i) = bytes_hex (pub_a_pk (fst (outputs ! i)))))
    \<and> (\<forall>d \<in> set us. as_input d \<in> set inputs \<and> w_a_sk w = a_sk sender \<longrightarrow>
         find_note w' (sc d) = Inl (PyException (''no note with id '' @ sc d)))"
proof -
  let ?evs = "output_events (event_args_to_mix_result ea)"
  have out: "?evs \<noteq> []"
    using call_event(1) [OF call emits pinputs] by (auto simp: JS_OUTPUTS_def)
  have rel: "\<forall>d \<in> set us. desc_ok d" "length (w_a_sk w) = 32"
    using pre by (auto simp: sync_pre_def wallet_rel_def)
  note news = output_in_news [OF call pinputs emits lib(1,2) spec [OF lib(3)], of _ "w_k_sk w" "length xs"]
  note spent = input_nullified [OF pinputs emits]
  obtain w' where w': "sync_once env pp mix_results chain w = Some (w', Inr chain)"
      "\<forall>d \<in> set (us @ abs_news env (w_k_sk w) pp (int (length xs)) ?evs).
         wallet_nf env w d \<notin> bytes_hex ` set (ea_nullifiers ea) \<longrightarrow> find_note w' (sc d) = Inr d"
      "\<forall>d \<in> set us. \<not> wallet_nf env w d \<notin> bytes_hex ` set (ea_nullifiers ea) \<longrightarrow>
         find_note w' (sc d) = Inl (PyException (''no note with id '' @ sc d))"
    using sync_one_result [of env pp w us ss D xs ea chain mix_results] pre blocks out root by blast
  have sc: "sc (output_desc pinputs ea n i) = short_commitment (ea_commitments ea ! i)" for n i
    by (simp add: output_desc_def)
  show ?thesis
  proof (intro exI [of _ w'] conjI allI ballI impI w'(1))
    fix d assume "d \<in> set us" "as_input d \<in> set inputs \<and> w_a_sk w = a_sk sender"
    then show "find_note w' (sc d) = Inl (PyException (''no note with id '' @ sc d))"
      using w'(3) spent [of d] rel lib(2) by auto
  qed (use news w'(2) sc in \<open>auto simp: ball_Un\<close>)
qed

theorem payment_end_to_end_witness:
  "\<exists>mp pinputs ea w'. payment_call mp pinputs ea
    \<and> sync_once payment_env payment_pp (\<lambda>_ _. Some ([event_args_to_mix_result ea], None)) 5 payment_wallet = Some (w', Inr 5)
    \<and> find_note w' (short_commitment (ea_commitments ea ! 0)) = Inr (output_desc pinputs ea 2 0)
    \<and> find_note w' (sc (payment_desc 1 0)) = Inl (PyException (''no note with id '' @ sc (payment_desc 1 0)))"
proof -
  obtain mp pinputs ea where ea: "payment_call mp pinputs ea" "ea_root ea = spec_node append (payment_leaves @ ea_commitments ea) 2 0"
    using payment_call_exists [of "\<lambda>cms. spec_node append (payment_leaves @ cms) 2 0"] by blast
  note parts = ea(1) [unfolded payment_call_def, THEN conjunct1]
    ea(1) [unfolded payment_call_def, THEN conjunct2, THEN conjunct1]
    ea(1) [unfolded payment_call_def, THEN conjunct2, THEN conjunct2]
  have cms: "all_commitments [event_args_to_mix_result ea] = ea_commitments ea"
    using call_event(2) [OF parts(1,3,2)] by simp
  have root: "ea_root ea = spec_node (we_hash payment_env) (payment_leaves @ all_commitments [event_args_to_mix_result ea]) 2 0"
      "ea_root ea \<noteq> []"
    using ea(2) cms by (simp_all add: payment_sel payment_leaves_def payment_desc_def numeral_2_eq_2)
  have out: "0 < length payment_outputs" "pub_k_pk (fst (payment_outputs ! 0)) = public_key (c_enc payment_crypto) (w_k_sk payment_wallet)"
      "length (pub_a_pk (fst (payment_outputs ! 0))) = 32" "a_sk payment_sender = w_a_sk payment_wallet" "\<forall>i. length (r_trap payment_random i) = 32"
    using payment_laws(10) by (simp_all add: payment_outputs_def payment_sel payment_sender_def payment_random_def)
  have "wallet_nf payment_env payment_wallet (output_desc pinputs ea (length payment_leaves) 0) \<notin> bytes_hex ` set (ea_nullifiers ea)"
    using payment_fresh [OF ea(1), of 0] by (simp add: payment_sel payment_laws(6))
  with payment_end_to_end [OF parts payment_laws(1) payment_sel(10) out(5) payment_sync_pre [OF ea(1)],
      of 5 "\<lambda>_ _. Some ([event_args_to_mix_result ea], None)"] root out
  obtain w' where "sync_once payment_env payment_pp (\<lambda>_ _. Some ([event_args_to_mix_result ea], None)) 5 payment_wallet = Some (w', Inr 5)"
      "find_note w' (short_commitment (ea_commitments ea ! 0)) = Inr (output_desc pinputs ea 2 0)"
      "find_note w' (sc (payment_desc 1 0)) = Inl (PyException (''no note with id '' @ sc (payment_desc 1 0)))"
    by (auto simp: payment_sel(12,13))
  with ea(1) show ?thesis
    by blast
qed

end
