(* ===== verification/Scenario.thy ===== *)
theory Scenario
  imports Mix_Call
begin

text \<open>
  \<open>client/test_commands/scenario.py\<close> and \<open>mock.py\<close>: the scenarios that the integration tests run
  against a deployed mixer: a deposit, a transfer, a withdrawal, the attempt to spend a note
  twice with shifted nullifiers, and the attempt to corrupt a deposit. The tree is changed by
  every transaction and an exception does not undo it, so it is part of the state.
\<close>

section \<open>The test key store\<close>

type_synonym ('sk, 'pk) KeyStore = "string \<rightharpoonup> ('sk, 'pk) ZethAddress"

text \<open>The keys of a user: random ownership keys, and encryption keys from their bytes.\<close>

definition test_address ::
  "digest_fn \<Rightarrow> encode_abi_fn \<Rightarrow> ('sk, 'pk) enc_lib \<Rightarrow> bytes \<Rightarrow> bytes \<Rightarrow> bytes \<Rightarrow> ('sk, 'pk) ZethAddress res" where
  "test_address blake2s encode_abi L random_bytes enc_private_key enc_public_key =
     bindR (gen_ownership_keypair blake2s encode_abi random_bytes) (\<lambda>ownership.
     bindR (decode_encryption_secret_key L enc_private_key) (\<lambda>ksk.
     bindR (decode_encryption_public_key L enc_public_key) (\<lambda>kpk.
       Inr (zeth_address_from_key_pairs ownership \<lparr>k_sk = ksk, k_pk = kpk\<rparr>))))"

definition alice_25519_enc_private_key :: bytes where
  "alice_25519_enc_private_key =
     [0xde, 0xa2, 0xc1, 0x0b, 0xd1, 0xf7, 0x13, 0xf8, 0x4a, 0xa4, 0x3a, 0xa4, 0xb6, 0xfa, 0xbd, 0xd5, 0xc9,
      0x8a, 0xd9, 0xb6, 0xb4, 0xc4, 0xc4, 0x49, 0x88, 0xa4, 0xd9, 0xe2, 0xee, 0x9e, 0x9a, 0xff]"

definition alice_25519_enc_public_key :: bytes where
  "alice_25519_enc_public_key =
     [0x1e, 0x4f, 0x22, 0x0a, 0xda, 0x57, 0x6e, 0x55, 0x2b, 0xf5, 0xaa, 0x8a, 0x23, 0xd2, 0x2a, 0xd3, 0x11,
      0x9f, 0x63, 0xe5, 0x32, 0x20, 0xd8, 0x5e, 0xbc, 0x2d, 0xb6, 0xf1, 0xee, 0x6a, 0xf4, 0x31]"

definition bob_25519_enc_private_key :: bytes where
  "bob_25519_enc_private_key =
     [0xd3, 0xf0, 0x8f, 0x20, 0x2c, 0x1d, 0x23, 0xdc, 0xac, 0x2c, 0x93, 0xbd, 0xd0, 0xd9, 0xed, 0x8c, 0x92, 0x82, 0x32,
      0xef, 0xd6, 0x97, 0x5e, 0x86, 0xf7, 0xe4, 0x2f, 0x85, 0xb6, 0x10, 0xe6, 0x6f]"

definition bob_25519_enc_public_key :: bytes where
  "bob_25519_enc_public_key =
     [0x74, 0xc5, 0x7b, 0x35, 0x6a, 0xb5, 0x8a, 0xd3, 0x6e, 0xb3, 0xab, 0x39, 0xe8, 0x73, 0x5e, 0x31, 0x33, 0xba, 0xa2,
      0x91, 0x78, 0xb0, 0x31, 0x28, 0xf9, 0xbb, 0xf9, 0x40, 0x72, 0x5f, 0x91, 0x7d]"

definition charlie_25519_enc_private_key :: bytes where
  "charlie_25519_enc_private_key =
     [0x7a, 0x48, 0xb6, 0x36, 0x71, 0x97, 0x0b, 0x4f, 0xcb, 0xb9, 0x71, 0x9b, 0xbd, 0x2d, 0x31, 0x60, 0x49,
      0xae, 0x00, 0x2d, 0x11, 0xb9, 0xed, 0x7d, 0x18, 0x9f, 0xf6, 0x8d, 0x72, 0xaa, 0xd4, 0x52]"

definition charlie_25519_enc_public_key :: bytes where
  "charlie_25519_enc_public_key =
     [0x75, 0xe7, 0x88, 0x9c, 0xbf, 0x45, 0x28, 0xf8, 0x99, 0xca, 0x3c, 0xa8, 0x5b, 0x3c, 0xa2, 0x88, 0x6d, 0xad, 0x0d, 0x4e, 0x22, 0xf0, 0x7d,
      0xec, 0xfc, 0x42, 0x89, 0xe6, 0x96, 0xcf, 0x19, 0x55]"

definition init_test_keystore ::
  "digest_fn \<Rightarrow> encode_abi_fn \<Rightarrow> ('sk, 'pk) enc_lib \<Rightarrow> (nat \<Rightarrow> bytes) \<Rightarrow> ('sk, 'pk) KeyStore res" where
  "init_test_keystore blake2s encode_abi L random_bytes =
     bindR (test_address blake2s encode_abi L (random_bytes 0) alice_25519_enc_private_key alice_25519_enc_public_key) (\<lambda>alice.
     bindR (test_address blake2s encode_abi L (random_bytes 1) bob_25519_enc_private_key bob_25519_enc_public_key) (\<lambda>bob.
     bindR (test_address blake2s encode_abi L (random_bytes 2) charlie_25519_enc_private_key charlie_25519_enc_public_key) (\<lambda>charlie.
       Inr [''Alice'' \<mapsto> alice, ''Bob'' \<mapsto> bob, ''Charlie'' \<mapsto> charlie])))"

definition get_dummy_merkle_path :: "int \<Rightarrow> string list" where
  "get_dummy_merkle_path len =
     replicate (nat len) ''6461f753bfe21ba2219ced74875b8dbd8c114c3c79d7e41306dd82118de1895b''"

section \<open>The setting\<close>

text \<open>
  The node changes from one transaction to the next: \<open>sn_web3 n\<close> is the node that the \<open>n\<close>-th
  transaction of a scenario reaches. \<open>sn_receipt\<close> waits for a receipt and returns its logs.
  \<open>sn_fake\<close> and \<open>sn_urandom_x\<close>, \<open>sn_urandom_y\<close> are the random values that Charlie draws.
\<close>

record ('sk, 'pk, 'call, 'tx, 'd) scenario_env =
  sn_web3 :: "nat \<Rightarrow> ('call, 'tx) web3_lib"
  sn_functions_mix :: "abi_value list \<Rightarrow> 'call res"
  sn_crypto :: "('sk, 'pk) crypto"
  sn_random :: "'sk mix_random"
  sn_floor_log2 :: "int \<Rightarrow> int"
  sn_prover :: prover_server
  sn_config :: ProverConfiguration
  sn_hash :: tree_hash_fn
  sn_receipt :: "string \<Rightarrow> 'd event_log list res"
  sn_mixer_address :: string
  sn_log_topic :: bytes
  sn_processLog :: "'d event_log \<Rightarrow> event_args res"
  sn_fake :: "nat \<Rightarrow> bytes"
  sn_urandom_x :: "nat \<Rightarrow> bytes"
  sn_urandom_y :: "nat \<Rightarrow> bytes"

record scenario_state =
  sn_client :: prover_state
  sn_tree :: MerkleTree

definition on_client :: "(prover_state \<Rightarrow> prover_state \<times> 'a res) \<Rightarrow> scenario_state \<Rightarrow> scenario_state \<times> 'a res" where
  "on_client f st = (case f (sn_client st) of (c, r) \<Rightarrow> (st\<lparr>sn_client := c\<rparr>, r))"

definition BOB_DEPOSIT_ETH :: int where "BOB_DEPOSIT_ETH = 200"
definition BOB_SPLIT_1_ETH :: int where "BOB_SPLIT_1_ETH = 100"
definition BOB_SPLIT_2_ETH :: int where "BOB_SPLIT_2_ETH = 100"
definition BOB_TO_CHARLIE_ETH :: int where "BOB_TO_CHARLIE_ETH = 50"
definition BOB_TO_CHARLIE_CHANGE_ETH :: int where "BOB_TO_CHARLIE_CHANGE_ETH = BOB_SPLIT_1_ETH - BOB_TO_CHARLIE_ETH"
definition CHARLIE_WITHDRAW_ETH :: num_arg where "CHARLIE_WITHDRAW_ETH = NumFloat 21 1"
definition CHARLIE_WITHDRAW_CHANGE_ETH :: num_arg where "CHARLIE_WITHDRAW_CHANGE_ETH = NumFloat 79 1"

abbreviation eth :: "('sk, 'pk, 'call, 'tx, 'd) scenario_env \<Rightarrow> num_arg \<Rightarrow> EtherValue res" where
  "eth env n \<equiv> ether_value (c_toWei (sn_crypto env)) n ''ether''"

section \<open>Waiting for a transaction\<close>

definition parse_mix_call :: "('sk, 'pk, 'call, 'tx, 'd) scenario_env \<Rightarrow> 'd event_log list \<Rightarrow> MixResult res" where
  "parse_mix_call env logs =
     bindR (gen_list (receipt_events (sn_mixer_address env) (sn_log_topic env) (sn_processLog env) logs)) (\<lambda>log_mix_events.
       py_index (map event_args_to_mix_result log_mix_events) 0)"

fun insert_commitments :: "scenario_state \<Rightarrow> MixOutputEvents list \<Rightarrow> scenario_state \<times> unit res" where
  "insert_commitments st [] = (st, Inr ())"
| "insert_commitments st (out_ev # evs) =
     bindS (st, insert_leaf (sn_tree st) (oe_commitment out_ev)) (\<lambda>st t. insert_commitments (st\<lparr>sn_tree := t\<rparr>) evs)"

definition wait_for_tx_update_mk_tree ::
  "('sk, 'pk, 'call, 'tx, 'd) scenario_env \<Rightarrow> string \<Rightarrow> scenario_state \<Rightarrow> scenario_state \<times> MixResult res" where
  "wait_for_tx_update_mk_tree env tx_hash st =
     bindS (st, sn_receipt env tx_hash) (\<lambda>st logs.
     bindS (st, parse_mix_call env logs) (\<lambda>st result.
     bindS (insert_commitments st (output_events result)) (\<lambda>st _.
     bindS (st, recompute_root (sn_hash env) (sn_tree st)) (\<lambda>st (t, root).
       (st\<lparr>sn_tree := t\<rparr>,
        if root \<noteq> new_merkle_root result then Inl (PyException ''Merkle root mismatch between log and local tree'')
        else Inr result)))))"

section \<open>Honest scenarios\<close>

definition get_mix_parameters_components ::
  "('sk, 'pk, 'call, 'tx, 'd) scenario_env \<Rightarrow> OwnershipKeyPair \<Rightarrow> (int \<times> ZethNote) list \<Rightarrow> ('pk ZethAddressPub \<times> EtherValue) list \<Rightarrow>
   EtherValue \<Rightarrow> EtherValue \<Rightarrow> h_sig_fn option \<Rightarrow> scenario_state \<Rightarrow>
   scenario_state \<times> (ZethNote \<times> ZethNote \<times> ExtendedProof \<times> int list \<times> SigningKeyPair) res" where
  "get_mix_parameters_components env sender inputs outputs v_in v_out cb st =
     bindS (st, mix_call_description (sn_crypto env) (sn_random env) (sn_tree st) sender inputs outputs v_in v_out cb) (\<lambda>st mix_call_desc.
     bindS (st, create_prover_inputs (sn_crypto env) (sn_random env) mix_call_desc) (\<lambda>st (prover_inputs, signing_keypair).
     bindS (on_client (\<lambda>c. get_proof (sn_floor_log2 env) (sn_prover env) c prover_inputs) st) (\<lambda>st (ext_proof, public_data).
       (st, bindR (py_index (pi_js_outputs prover_inputs) 0) (\<lambda>output0.
            bindR (py_index (pi_js_outputs prover_inputs) 1) (\<lambda>output1.
              Inr (output0, output1, ext_proof, public_data, signing_keypair)))))))"

definition bob_deposit ::
  "('sk, 'pk, 'call, 'tx, 'd) scenario_env \<Rightarrow> string \<Rightarrow> ('sk, 'pk) KeyStore \<Rightarrow> EtherValue option \<Rightarrow> scenario_state \<Rightarrow>
   scenario_state \<times> MixResult res" where
  "bob_deposit env bob_eth_address keystore value st =
     bindS (st, dict_get keystore ''Bob'') (\<lambda>st bob.
     bindS (st, eth env (NumInt BOB_SPLIT_1_ETH)) (\<lambda>st v1.
     bindS (st, eth env (NumInt BOB_SPLIT_2_ETH)) (\<lambda>st v2.
     bindS (st, eth env (NumInt BOB_DEPOSIT_ETH)) (\<lambda>st v_in.
     bindS (on_client (\<lambda>c. mixer_deposit (sn_web3 env 0) (sn_functions_mix env) (sn_crypto env) (sn_random env) (sn_floor_log2 env)
              (sn_prover env) (sn_config env) c (sn_tree st) bob bob_eth_address None v_in
              (Some [(addr_pk bob, v1), (addr_pk bob, v2)]) value) st) (\<lambda>st tx_hash.
       wait_for_tx_update_mk_tree env tx_hash st)))))"

definition bob_to_charlie ::
  "('sk, 'pk, 'call, 'tx, 'd) scenario_env \<Rightarrow> int \<times> ZethNote \<Rightarrow> string \<Rightarrow> ('sk, 'pk) KeyStore \<Rightarrow> scenario_state \<Rightarrow>
   scenario_state \<times> MixResult res" where
  "bob_to_charlie env input1 bob_eth_address keystore st =
     bindS (st, dict_get keystore ''Bob'') (\<lambda>st bob.
     bindS (st, dict_get keystore ''Charlie'') (\<lambda>st charlie.
     bindS (st, eth env (NumInt BOB_TO_CHARLIE_ETH)) (\<lambda>st v0.
     bindS (st, eth env (NumInt BOB_TO_CHARLIE_CHANGE_ETH)) (\<lambda>st v1.
     bindS (st, eth env (NumInt 0)) (\<lambda>st zero.
     bindS (st, ether_value (c_toWei (sn_crypto env)) (NumInt 1) ''wei'') (\<lambda>st one_wei.
     bindS (on_client (\<lambda>c. mixer_joinsplit (sn_web3 env 0) (sn_functions_mix env) (sn_crypto env) (sn_random env) (sn_floor_log2 env)
              (sn_prover env) (sn_config env) c (sn_tree st)
              \<lparr>a_sk = priv_a_sk (addr_sk bob), a_pk = pub_a_pk (addr_pk bob)\<rparr> bob_eth_address None
              [input1] [(addr_pk bob, v0), (addr_pk charlie, v1)] zero zero (Some one_wei) None) st) (\<lambda>st tx_hash.
       wait_for_tx_update_mk_tree env tx_hash st)))))))"

definition charlie_withdraw ::
  "('sk, 'pk, 'call, 'tx, 'd) scenario_env \<Rightarrow> int \<times> ZethNote \<Rightarrow> string \<Rightarrow> ('sk, 'pk) KeyStore \<Rightarrow> scenario_state \<Rightarrow>
   scenario_state \<times> MixResult res" where
  "charlie_withdraw env input1 charlie_eth_address keystore st =
     bindS (st, dict_get keystore ''Charlie'') (\<lambda>st charlie.
     bindS (st, eth env CHARLIE_WITHDRAW_CHANGE_ETH) (\<lambda>st change.
     bindS (st, eth env (NumInt 0)) (\<lambda>st zero.
     bindS (st, eth env CHARLIE_WITHDRAW_ETH) (\<lambda>st v_out.
     bindS (st, ether_value (c_toWei (sn_crypto env)) (NumInt 1) ''wei'') (\<lambda>st one_wei.
     bindS (on_client (\<lambda>c. mixer_joinsplit (sn_web3 env 0) (sn_functions_mix env) (sn_crypto env) (sn_random env) (sn_floor_log2 env)
              (sn_prover env) (sn_config env) c (sn_tree st)
              \<lparr>a_sk = priv_a_sk (addr_sk charlie), a_pk = pub_a_pk (addr_pk charlie)\<rparr> charlie_eth_address None
              [input1] [(addr_pk charlie, change)] zero v_out (Some one_wei) None) st) (\<lambda>st tx_hash.
       wait_for_tx_update_mk_tree env tx_hash st))))))"

section \<open>Spending a note twice\<close>

text \<open>\<open>xs[:k]\<close> and \<open>xs[k:]\<close>; a negative position counts from the end.\<close>

definition slice_pos :: "nat \<Rightarrow> int \<Rightarrow> nat" where
  "slice_pos len k = (if 0 \<le> k then nat k else nat (int len + k))"

definition slice_to :: "int \<Rightarrow> 'a list \<Rightarrow> 'a list" where
  "slice_to k xs = take (slice_pos (length xs) k) xs"

definition slice_from :: "int \<Rightarrow> 'a list \<Rightarrow> 'a list" where
  "slice_from k xs = drop (slice_pos (length xs) k) xs"

text \<open>\<open>"{0:0256b}".format(v)\<close> and \<open>"{0:064x}".format(v)\<close>.\<close>

definition format_0256b :: "int \<Rightarrow> string" where
  "format_0256b v = pad_left 256 CHR ''0'' (num_str 2 v)"

definition format_064x :: "int \<Rightarrow> string" where
  "format_064x v = pad_left 64 CHR ''0'' (num_str 16 v)"

text \<open>The shifted public input and the nullifier reassembled from it.\<close>

definition attack_nullifier :: "int \<Rightarrow> int \<Rightarrow> bytes \<Rightarrow> (int \<times> bytes) res" where
  "attack_nullifier capacity modulus nf =
     bindR (py_int_str (bytes_hex nf) 16) (\<lambda>n.
       let nf_rev = format_0256b n;
           primary_input_bits = slice_to capacity nf_rev;
           primary_input_res_bits = slice_from capacity nf_rev
       in bindR (py_int_str primary_input_bits 2) (\<lambda>p.
            let attack_primary_input = p + modulus;
                attack_primary_input_bits = format_0256b attack_primary_input;
                attack_nf_bits =
                  slice_from (int (length attack_primary_input_bits) - capacity) attack_primary_input_bits @ primary_input_res_bits
            in bindR (py_int_str attack_nf_bits 2) (\<lambda>v.
               bindR (bytes_fromhex (format_064x v)) (\<lambda>attack_nf.
                 Inr (attack_primary_input, attack_nf)))))"

definition compute_h_sig_attack_nf :: "digest_fn \<Rightarrow> int \<Rightarrow> int \<Rightarrow> h_sig_fn" where
  "compute_h_sig_attack_nf sha256 capacity modulus nfs sign_vk =
     assertR (length nfs = 2)
       (bindR (mapR (attack_nullifier capacity modulus) nfs) (\<lambda>attacks. compute_h_sig sha256 (map snd attacks) sign_vk))"

text \<open>
  The callback stores the shifted inputs in variables of the enclosing function. It is called
  once, with the nullifiers of the inputs of the call: the values it leaves there.
\<close>

definition attack_primary_inputs ::
  "('sk, 'pk, 'call, 'tx, 'd) scenario_env \<Rightarrow> int \<Rightarrow> int \<Rightarrow> OwnershipKeyPair \<Rightarrow> (int \<times> ZethNote) list \<Rightarrow> scenario_state \<Rightarrow> int list res" where
  "attack_primary_inputs env capacity modulus sender inputs st =
     bindR (mapR (create_api_input (c_blake2s (sn_crypto env)) (sn_tree st) (a_sk sender)) inputs) (\<lambda>api_inputs.
     bindR (mapR (\<lambda>i. bytes_fromhex (ji_nullifier i)) api_inputs) (\<lambda>nfs.
     bindR (mapR (attack_nullifier capacity modulus) nfs) (\<lambda>attacks. Inr (map fst attacks))))"

text \<open>The parameters of the attack, up to the construction of \<open>MixParameters\<close>.\<close>

definition double_withdraw_parameters ::
  "('sk, 'pk, 'call, 'tx, 'd) scenario_env \<Rightarrow> IZKSnarkProvider \<Rightarrow> int \<times> ZethNote \<Rightarrow> string \<Rightarrow> ('sk, 'pk) KeyStore \<Rightarrow> scenario_state \<Rightarrow>
   scenario_state \<times> MixParameters res" where
  "double_withdraw_parameters env zksnark input1 charlie_eth_address keystore st =
     (let C = sn_crypto env; R = sn_random env; pp = pairing_parameters (sn_config env)
      in bindS (st, scalar_field_mod pp) (\<lambda>st modulus.
         bindS (st, dict_get keystore ''Charlie'') (\<lambda>st charlie.
         bindS (st, get_dummy_input_and_address (pub_a_pk (addr_pk charlie)) (r_dummy_rho R 0) (r_dummy_trap R 0)) (\<lambda>st input2.
         bindS (st, eth env CHARLIE_WITHDRAW_CHANGE_ETH) (\<lambda>st note1_value.
         bindS (st, eth env CHARLIE_WITHDRAW_ETH) (\<lambda>st v_out.
         bindS (st, eth env (NumInt 0)) (\<lambda>st zero.
         bindS (get_mix_parameters_components env (ownership_keypair charlie) [input1, input2]
                  [(addr_pk charlie, note1_value), (addr_pk charlie, zero)] zero v_out
                  (Some (compute_h_sig_attack_nf (c_sha256 C) (scalar_field_capacity pp) modulus)) st)
           (\<lambda>st (output_note1, output_note2, proof, public_data, signing_keypair).
         bindS (st, attack_primary_inputs env (scalar_field_capacity pp) modulus (ownership_keypair charlie) [input1, input2] st) (\<lambda>st attacks.
         bindS (st, assertR (attacks ! 0 \<noteq> 0) (assertR (attacks ! 1 \<noteq> 0) (Inr ()))) (\<lambda>st _.
         bindS (st, bindR (py_set public_data 3 (attacks ! 0)) (\<lambda>pd. py_set pd 4 (attacks ! 1))) (\<lambda>st public_data.
         bindS (st, encrypt_notes (c_enc C) (r_eph R)
                  [(output_note1, pub_k_pk (addr_pk charlie)), (output_note2, pub_k_pk (addr_pk charlie))]) (\<lambda>st ciphertexts.
         bindS (st, joinsplit_sign C zksnark signing_keypair charlie_eth_address ciphertexts proof public_data False) (\<lambda>st signature.
           (st, Inr \<lparr>mp_extended_proof = proof, mp_public_data = public_data, mp_signature_vk = vk signing_keypair,
                     mp_signature = signature, mp_ciphertexts = ciphertexts\<rparr>))))))))))))))"

definition charlie_double_withdraw ::
  "('sk, 'pk, 'call, 'tx, 'd) scenario_env \<Rightarrow> IZKSnarkProvider \<Rightarrow> int \<times> ZethNote \<Rightarrow> string \<Rightarrow> ('sk, 'pk) KeyStore \<Rightarrow> scenario_state \<Rightarrow>
   scenario_state \<times> MixResult res" where
  "charlie_double_withdraw env zksnark input1 charlie_eth_address keystore st =
     bindS (double_withdraw_parameters env zksnark input1 charlie_eth_address keystore st) (\<lambda>st mix_params.
     bindS (st, ether_value (c_toWei (sn_crypto env)) (NumInt 1) ''wei'') (\<lambda>st one_wei.
     bindS (st, mixer_mix (sn_web3 env 0) (sn_functions_mix env) (sn_config env) mix_params charlie_eth_address None one_wei None) (\<lambda>st tx_hash.
       wait_for_tx_update_mk_tree env tx_hash st)))"

section \<open>Corrupting a deposit\<close>

text \<open>
  The calls of the scenario differ in the key, in the address and the ciphertexts that are
  signed, in the ciphertexts that are sent, and in the sender.
\<close>

definition signed_parameters ::
  "('sk, 'pk) crypto \<Rightarrow> IZKSnarkProvider \<Rightarrow> SigningKeyPair \<Rightarrow> string \<Rightarrow> bytes list \<Rightarrow> bytes list \<Rightarrow> ExtendedProof \<Rightarrow> int list \<Rightarrow>
   MixParameters res" where
  "signed_parameters C zksnark keypair signed_address signed_ciphertexts sent_ciphertexts proof public_data =
     bindR (joinsplit_sign C zksnark keypair signed_address signed_ciphertexts proof public_data False) (\<lambda>sig.
       Inr \<lparr>mp_extended_proof = proof, mp_public_data = public_data, mp_signature_vk = vk keypair,
            mp_signature = sig, mp_ciphertexts = sent_ciphertexts\<rparr>)"

definition send_deposit ::
  "('sk, 'pk, 'call, 'tx, 'd) scenario_env \<Rightarrow> nat \<Rightarrow> MixParameters res \<Rightarrow> string \<Rightarrow> int option \<Rightarrow> scenario_state \<Rightarrow>
   scenario_state \<times> MixResult res" where
  "send_deposit env n params sender gas st =
     bindS (st, params) (\<lambda>st mix_params.
     bindS (st, eth env (NumInt BOB_DEPOSIT_ETH)) (\<lambda>st v.
     bindS (st, mixer_mix (sn_web3 env n) (sn_functions_mix env) (sn_config env) mix_params sender None v gas) (\<lambda>st tx_hash.
       wait_for_tx_update_mk_tree env tx_hash st)))"

text \<open>\<open>try: ... except Exception\<close>, then \<open>assert result is None\<close>.\<close>

definition expect_rejected :: "scenario_state \<times> MixResult res \<Rightarrow> scenario_state \<times> unit res" where
  "expect_rejected x = (case x of (st, Inl _) \<Rightarrow> (st, Inr ()) | (st, Inr _) \<Rightarrow> (st, Inl AssertionError))"

text \<open>What Bob prepares: the proof with its public inputs, the signing key and the ciphertexts.\<close>

definition deposit_components ::
  "('sk, 'pk, 'call, 'tx, 'd) scenario_env \<Rightarrow> ('sk, 'pk) KeyStore \<Rightarrow> scenario_state \<Rightarrow>
   scenario_state \<times> (ExtendedProof \<times> int list \<times> SigningKeyPair \<times> bytes list) res" where
  "deposit_components env keystore st =
     (let C = sn_crypto env; R = sn_random env
      in bindS (st, dict_get keystore ''Bob'') (\<lambda>st bob.
         bindS (on_client (get_configuration (sn_floor_log2 env) (sn_prover env)) st) (\<lambda>st _.
         bindS (st, get_dummy_input_and_address (pub_a_pk (addr_pk bob)) (r_dummy_rho R 0) (r_dummy_trap R 0)) (\<lambda>st input1.
         bindS (st, get_dummy_input_and_address (pub_a_pk (addr_pk bob)) (r_dummy_rho R 1) (r_dummy_trap R 1)) (\<lambda>st input2.
         bindS (st, eth env (NumInt BOB_SPLIT_1_ETH)) (\<lambda>st note1_value.
         bindS (st, eth env (NumInt BOB_SPLIT_2_ETH)) (\<lambda>st note2_value.
         bindS (st, eth env (NumInt BOB_DEPOSIT_ETH)) (\<lambda>st v_in.
         bindS (st, eth env (NumInt 0)) (\<lambda>st v_out.
         bindS (get_mix_parameters_components env (ownership_keypair bob) [input1, input2]
                  [(addr_pk bob, note1_value), (addr_pk bob, note2_value)] v_in v_out None st)
           (\<lambda>st (output_note1, output_note2, proof, public_data, joinsplit_keypair).
         bindS (st, encrypt_notes (c_enc C) (r_eph R)
                  [(output_note1, pub_k_pk (addr_pk bob)), (output_note2, pub_k_pk (addr_pk bob))]) (\<lambda>st ciphertexts.
           (st, Inr (proof, public_data, joinsplit_keypair, ciphertexts)))))))))))))"

definition charlie_corrupt_bob_deposit ::
  "('sk, 'pk, 'call, 'tx, 'd) scenario_env \<Rightarrow> IZKSnarkProvider \<Rightarrow> string \<Rightarrow> string \<Rightarrow> ('sk, 'pk) KeyStore \<Rightarrow> scenario_state \<Rightarrow>
   scenario_state \<times> MixResult res" where
  "charlie_corrupt_bob_deposit env zksnark bob_eth_address charlie_eth_address keystore st =
     (let C = sn_crypto env
      in bindS (deposit_components env keystore st) (\<lambda>st (proof, public_data, joinsplit_keypair, ciphertexts).
         bindS (expect_rejected (send_deposit env 0
                  (signed_parameters C zksnark joinsplit_keypair charlie_eth_address ciphertexts [sn_fake env 0, sn_fake env 1] proof public_data)
                  charlie_eth_address None st)) (\<lambda>st _.
         bindS (st, gen_signing_keypair (c_ec C) (sn_urandom_x env) (sn_urandom_y env)) (\<lambda>st new_joinsplit_keypair.
         bindS (expect_rejected (send_deposit env 1
                  (signed_parameters C zksnark new_joinsplit_keypair charlie_eth_address [sn_fake env 2, sn_fake env 3]
                     [sn_fake env 2, sn_fake env 3] proof public_data)
                  charlie_eth_address None st)) (\<lambda>st _.
         bindS (expect_rejected (send_deposit env 2
                  (signed_parameters C zksnark joinsplit_keypair bob_eth_address ciphertexts ciphertexts proof public_data)
                  charlie_eth_address (Some 4000000) st)) (\<lambda>st _.
           send_deposit env 3 (signed_parameters C zksnark joinsplit_keypair bob_eth_address ciphertexts ciphertexts proof public_data)
             bob_eth_address None st))))))"

section \<open>The tree after a transaction\<close>

lemma insert_commitments_tree_of:
  assumes "sn_tree st = tree_of h D xs m" "m \<le> length xs" "length xs + length evs \<le> 2 ^ D"
  shows "insert_commitments st evs = (st\<lparr>sn_tree := tree_of h D (xs @ map oe_commitment evs) m\<rparr>, Inr ())"
  using assms
proof (induction evs arbitrary: st xs)
  case (Cons ev evs)
  then have "insert_leaf (sn_tree st) (oe_commitment ev) = Inr (tree_of h D (xs @ [oe_commitment ev]) m)"
    by (simp add: insert_leaf_tree_of)
  then show ?case
    using Cons.IH [of "st\<lparr>sn_tree := tree_of h D (xs @ [oe_commitment ev]) m\<rparr>" "xs @ [oe_commitment ev]"] Cons.prems
    by (simp add: bindS_simps)
qed simp

definition mix_event :: "('sk, 'pk, 'call, 'tx, 'd) scenario_env \<Rightarrow> string \<Rightarrow> MixResult res" where
  "mix_event env tx_hash = bindR (sn_receipt env tx_hash) (parse_mix_call env)"

lemma wait_for_tx_rejected:
  "mix_event env tx_hash = Inl e \<Longrightarrow> wait_for_tx_update_mk_tree env tx_hash st = (st, Inl e)"
  by (auto simp: mix_event_def wait_for_tx_update_mk_tree_def bindR_def bindS_def split: sum.splits)

lemma wait_for_tx_tree_of:
  assumes "mix_event env tx_hash = Inr result"
    and "sn_tree st = tree_of (sn_hash env) D xs (length xs)" "0 < D" "D \<le> 52"
    and "length xs + length (output_events result) \<le> 2 ^ D"
  defines "ys \<equiv> xs @ map oe_commitment (output_events result)"
  shows "wait_for_tx_update_mk_tree env tx_hash st =
    (st\<lparr>sn_tree := tree_of (sn_hash env) D ys (length ys)\<rparr>,
     if new_merkle_root result = spec_node (sn_hash env) ys D 0 then Inr result
     else Inl (PyException ''Merkle root mismatch between log and local tree''))"
proof -
  obtain logs where "sn_receipt env tx_hash = Inr logs" "parse_mix_call env logs = Inr result"
    using assms(1) by (auto simp: mix_event_def bindR_eq_Inr)
  moreover have "recompute_root (sn_hash env) (tree_of (sn_hash env) D ys (length xs)) =
      Inr (tree_of (sn_hash env) D ys (length ys), spec_node (sn_hash env) ys D 0)"
    using recompute_root_tree_of [of D "length xs" ys] assms(3-5) by (simp add: ys_def)
  ultimately show ?thesis
    using insert_commitments_tree_of [OF assms(2) order_refl assms(5)]
    by (auto simp: wait_for_tx_update_mk_tree_def bindS_simps ys_def)
qed

section \<open>The shifted nullifiers\<close>

lemma digits_value_drop:
  assumes "all_digits base s" "1 < base" "k \<le> length s"
  shows "digits_value base (drop (length s - k) s) = digits_value base s mod base ^ k"
proof -
  let ?t = "drop (length s - k) s"
  have "all_digits base ?t" "length ?t = k"
    using assms(1,3) by (auto simp: all_digits_def dest: in_set_dropD)
  then have "0 \<le> digits_value base ?t" "digits_value base ?t < base ^ k"
    using digits_value_bounds [of base ?t] assms(2) by auto
  moreover have "digits_value base s = digits_value base (take (length s - k) s) * base ^ k + digits_value base ?t"
    using digits_value_append [of base "take (length s - k) s" ?t] assms(3) by simp
  ultimately show ?thesis
    by simp
qed

lemma all_digits_take_drop:
  "all_digits base s \<Longrightarrow> all_digits base (take k s)" "all_digits base s \<Longrightarrow> all_digits base (drop k s)"
  by (auto simp: all_digits_def dest: in_set_takeD in_set_dropD)

lemma format_0256b_digits:
  assumes "0 \<le> v"
  shows "all_digits 2 (format_0256b v)" "digits_value 2 (format_0256b v) = v" "256 \<le> length (format_0256b v)"
    "v < 2 ^ 256 \<Longrightarrow> length (format_0256b v) = 256"
  using assms pad_left_num_str [of 2 v 256]
  by (simp_all add: format_0256b_def pad_left_def num_str_all_digits num_str_value digits_value_zeros)

lemma attack_nullifier_ok:
  assumes "length nf = 32" "c + k = 256" "0 < c" "0 \<le> r"
  defines "n \<equiv> int_from_bytes nf"
  shows "\<exists>nf'. attack_nullifier (int c) r nf = Inr (n div 2 ^ k + r, nf') \<and> length nf' = 32
    \<and> int_from_bytes nf' = (n div 2 ^ k + r) mod 2 ^ c * 2 ^ k + n mod 2 ^ k"
proof -
  let ?hi = "n div 2 ^ k" and ?s = "format_0256b n"
  let ?a = "?hi + r" and ?t = "format_0256b (?hi + r)"
  let ?v = "?a mod 2 ^ c * 2 ^ k + n mod 2 ^ k"
  have n: "0 \<le> n" "n < 2 ^ 256" and a: "0 \<le> ?a"
    using int_from_bytes_less [of nf] assms(1,4) by (simp_all add: n_def pos_imp_zdiv_nonneg_iff)
  note s = format_0256b_digits [OF n(1)] and t = format_0256b_digits [OF a]
  have ls: "length ?s = 256" and c: "256 - k = c" "k \<le> 256"
    using s(4) n(2) assms(2) by simp_all
  then have ne: "?s \<noteq> []"
    by fastforce
  have hi: "py_int_str (take c ?s) 2 = Inr ?hi"
    using py_int_str_digits [of 2 "take c ?s"] digits_value_take [of 2 ?s k] s(1,2) ls assms(3) ne c
    by (simp add: all_digits_take_drop)
  have lo: "all_digits 2 (drop c ?s)" "digits_value 2 (drop c ?s) = n mod 2 ^ k" "length (drop c ?s) = k"
    using digits_value_drop [of 2 ?s k] s(1,2) ls c assms(2) by (simp_all add: all_digits_take_drop)
  let ?u = "drop (length ?t - c) ?t"
  have u: "all_digits 2 ?u" "digits_value 2 ?u = ?a mod 2 ^ c" "?u \<noteq> []"
    using digits_value_drop [of 2 ?t c] t assms(2,3) by (auto simp: all_digits_take_drop)
  have v: "py_int_str (?u @ drop c ?s) 2 = Inr ?v"
    using py_int_str_digits [of 2 "?u @ drop c ?s"] u lo by (simp add: digits_value_append)
  have "?v < 2 ^ 256"
  proof -
    have "?a mod 2 ^ c + 1 \<le> 2 ^ c"
      by (simp add: add1_zle_eq)
    then have "(?a mod 2 ^ c + 1) * 2 ^ k \<le> 2 ^ c * 2 ^ k"
      by (rule mult_right_mono) simp
    moreover have "n mod 2 ^ k < 2 ^ k"
      by simp
    moreover have "(2 :: int) ^ c * 2 ^ k = 2 ^ 256"
      using assms(2) by (metis power_add)
    ultimately show ?thesis
      unfolding distrib_right by linarith
  qed
  moreover have "0 \<le> ?v" by simp
  ultimately obtain nf' where nf': "bytes_fromhex (format_064x ?v) = Inr nf'" "2 * length nf' = 64" "int_from_bytes nf' = ?v"
    using fromhex_digits [of "format_064x ?v"] pad_left_num_str [of 16 ?v 64] by (auto simp: format_064x_def)
  have pos: "slice_to (int c) ?s = take c ?s" "slice_from (int c) ?s = drop c ?s"
      "slice_from (int (length ?t) - int c) ?t = ?u"
    using t(3) assms(2) by (simp_all add: slice_to_def slice_from_def slice_pos_def nat_diff_distrib)
  have "py_int_str (bytes_hex nf) 16 = Inr n"
    using py_int_bytes_hex [of nf] assms(1) by (cases nf) (simp_all add: n_def)
  then have "attack_nullifier (int c) r nf = Inr (?a, nf')"
    unfolding attack_nullifier_def using hi v nf'(1) by (simp add: Let_def pos)
  with nf' show ?thesis
    by auto
qed

text \<open>
  A nullifier that keeps its last \<open>k\<close> bits and whose first bits are shifted by the modulus.
\<close>

definition shifted_nullifier :: "nat \<Rightarrow> nat \<Rightarrow> int \<Rightarrow> bytes \<Rightarrow> bytes \<Rightarrow> bool" where
  "shifted_nullifier c k r nf nf' \<longleftrightarrow>
     length nf' = 32
     \<and> int_from_bytes nf' div 2 ^ k = (int_from_bytes nf div 2 ^ k + r) mod 2 ^ c
     \<and> int_from_bytes nf' mod 2 ^ k = int_from_bytes nf mod 2 ^ k
     \<and> (nf' = nf \<longleftrightarrow> 2 ^ c dvd r)"

lemma attack_nullifier_shifted:
  assumes "length nf = 32" "c + k = 256" "0 < c" "0 \<le> r"
  shows "\<exists>nf'. attack_nullifier (int c) r nf = Inr (int_from_bytes nf div 2 ^ k + r, nf') \<and> shifted_nullifier c k r nf nf'"
proof -
  let ?n = "int_from_bytes nf"
  obtain nf' where nf': "attack_nullifier (int c) r nf = Inr (?n div 2 ^ k + r, nf')" "length nf' = 32"
      "int_from_bytes nf' = (?n div 2 ^ k + r) mod 2 ^ c * 2 ^ k + ?n mod 2 ^ k"
    using attack_nullifier_ok [OF assms] by blast
  have parts: "int_from_bytes nf' div 2 ^ k = (?n div 2 ^ k + r) mod 2 ^ c" "int_from_bytes nf' mod 2 ^ k = ?n mod 2 ^ k"
    unfolding nf'(3) by simp_all
  have "?n < 2 ^ c * 2 ^ k"
    using int_from_bytes_less [of nf] assms(1,2) by (simp flip: power_add)
  then have hi: "?n div 2 ^ k < 2 ^ c" "0 \<le> ?n div 2 ^ k"
    by (simp_all add: int_div_less_mult mult.commute pos_imp_zdiv_nonneg_iff)
  have "nf' = nf \<longleftrightarrow> int_from_bytes nf' = ?n"
    using int_from_bytes_inj [of nf' nf] nf'(2) assms(1) by auto
  also have "\<dots> \<longleftrightarrow> (?n div 2 ^ k + r) mod 2 ^ c = ?n div 2 ^ k"
    using parts by (metis div_mult_mod_eq)
  also have "\<dots> \<longleftrightarrow> (?n div 2 ^ k + r) mod 2 ^ c = ?n div 2 ^ k mod 2 ^ c"
    using hi by simp
  also have "\<dots> \<longleftrightarrow> 2 ^ c dvd r"
    by (simp add: mod_eq_dvd_iff)
  finally show ?thesis
    using nf'(1,2) parts by (auto simp: shifted_nullifier_def)
qed

lemma compute_nullifier_length: "compute_nullifier blake2s note ask = Inr nf \<Longrightarrow> length nf = 32"
  by (auto simp: compute_nullifier_def Let_def bindR_eq_Inr)

lemma api_input_nullifier:
  assumes "create_api_input blake2s tree ask inp = Inr ji" "bytes_fromhex (ji_nullifier ji) = Inr nf"
  shows "compute_nullifier blake2s (snd inp) ask = Inr nf"
  using assms by (auto simp: create_api_input_def create_api_joinsplit_input_def bindR_eq_Inr)

lemma attack_primary_inputs_two:
  assumes "attack_primary_inputs env (int c) r sender [input1, input2] st = Inr as" "c + k = 256" "0 < c" "0 \<le> r"
  shows "\<exists>nf0 nf1 nf0' nf1'. compute_nullifier (c_blake2s (sn_crypto env)) (snd input1) (a_sk sender) = Inr nf0
    \<and> compute_nullifier (c_blake2s (sn_crypto env)) (snd input2) (a_sk sender) = Inr nf1
    \<and> as = [int_from_bytes nf0 div 2 ^ k + r, int_from_bytes nf1 div 2 ^ k + r]
    \<and> attack_nullifier (int c) r nf0 = Inr (int_from_bytes nf0 div 2 ^ k + r, nf0')
    \<and> attack_nullifier (int c) r nf1 = Inr (int_from_bytes nf1 div 2 ^ k + r, nf1')
    \<and> shifted_nullifier c k r nf0 nf0' \<and> shifted_nullifier c k r nf1 nf1'"
proof -
  obtain ji0 ji1 nf0 nf1 where nf: "create_api_input (c_blake2s (sn_crypto env)) (sn_tree st) (a_sk sender) input1 = Inr ji0"
      "create_api_input (c_blake2s (sn_crypto env)) (sn_tree st) (a_sk sender) input2 = Inr ji1"
      "bytes_fromhex (ji_nullifier ji0) = Inr nf0" "bytes_fromhex (ji_nullifier ji1) = Inr nf1"
      "bindR (mapR (attack_nullifier (int c) r) [nf0, nf1]) (\<lambda>attacks. Inr (map fst attacks)) = Inr as"
    using assms(1) by (auto simp: attack_primary_inputs_def bindR_eq_Inr)
  note n0 = api_input_nullifier [OF nf(1,3)] and n1 = api_input_nullifier [OF nf(2,4)]
  obtain nf0' nf1' where "attack_nullifier (int c) r nf0 = Inr (int_from_bytes nf0 div 2 ^ k + r, nf0')"
      "shifted_nullifier c k r nf0 nf0'"
      "attack_nullifier (int c) r nf1 = Inr (int_from_bytes nf1 div 2 ^ k + r, nf1')" "shifted_nullifier c k r nf1 nf1'"
    using attack_nullifier_shifted [OF compute_nullifier_length [OF n0] assms(2-4)]
      attack_nullifier_shifted [OF compute_nullifier_length [OF n1] assms(2-4)] by blast
  with n0 n1 nf(5) show ?thesis
    by auto
qed

lemma py_set_two:
  assumes "bindR (py_set xs 3 a) (\<lambda>ys. py_set ys 4 b) = Inr zs"
  shows "4 < length xs \<and> zs = xs[3 := a, 4 := b]"
  using assms by (auto simp: bindR_eq_Inr py_set_def py_pos_def split: option.splits if_splits)

lemma double_withdraw_parts:
  assumes "double_withdraw_parameters env zksnark input1 addr keystore st = (st', Inr mp)" "keystore ''Charlie'' = Some charlie"
    and "scalar_field_mod (pairing_parameters (sn_config env)) = Inr r"
  shows "\<exists>input2 st1 as pd. attack_primary_inputs env (scalar_field_capacity (pairing_parameters (sn_config env))) r
      (ownership_keypair charlie) [input1, input2] st1 = Inr as \<and> bindR (py_set pd 3 (as ! 0)) (\<lambda>ys. py_set ys 4 (as ! 1)) = Inr (mp_public_data mp)"
  using assms unfolding double_withdraw_parameters_def Let_def bindS_eq_Inr
  by (auto simp: dict_get_def bindS_eq_Inr split: prod.splits) blast

section \<open>Rejected calls\<close>

text \<open>
  What the mixer contract checks of a call: the signature on the sender, the ciphertexts and the
  proof, and that the public inputs have the \<open>h_sig\<close> of their nullifiers and the key. A call that
  fails a check raises when it is sent, or its receipt has no event.
\<close>

definition mixer_accepts ::
  "('sk, 'pk, 'call, 'tx, 'd) scenario_env \<Rightarrow> nat \<Rightarrow> MixParameters \<Rightarrow> string \<Rightarrow> EtherValue \<Rightarrow> int option \<Rightarrow> bool" where
  "mixer_accepts env n mp sender v gas \<longleftrightarrow>
     (\<exists>r. bindR (mixer_mix (sn_web3 env n) (sn_functions_mix env) (sn_config env) mp sender None v gas) (mix_event env) = Inr r)"

definition mixer_checks ::
  "('sk, 'pk, 'call, 'tx, 'd) scenario_env \<Rightarrow> IZKSnarkProvider \<Rightarrow> (int list \<Rightarrow> bytes) \<Rightarrow> (int list \<Rightarrow> bytes list) \<Rightarrow> bool" where
  "mixer_checks env zksnark h_sig_of nullifiers_of \<longleftrightarrow>
     (\<forall>n mp sender v gas. mixer_accepts env n mp sender v gas \<longrightarrow>
        (\<exists>msg. joinsplit_message (sn_crypto env) zksnark sender (mp_ciphertexts mp) (mp_extended_proof mp) (mp_public_data mp) False = Inr msg
           \<and> verify (c_ec (sn_crypto env)) (c_sha256 (sn_crypto env)) (mp_signature_vk mp)
               (digest_bytes (c_sha256 (sn_crypto env) msg)) (mp_signature mp) = Inr True)
        \<and> compute_h_sig (c_sha256 (sn_crypto env)) (nullifiers_of (mp_public_data mp)) (mp_signature_vk mp) =
            Inr (h_sig_of (mp_public_data mp)))"

lemma send_deposit_rejected:
  assumes "\<And>mp v. params = Inr mp \<Longrightarrow> \<not> mixer_accepts env n mp sender v gas"
  shows "\<exists>e. send_deposit env n params sender gas st = (st, Inl e)"
proof (cases params)
  case (Inr mp)
  show ?thesis
  proof (cases "eth env (NumInt BOB_DEPOSIT_ETH)")
    case v: (Inr v)
    show ?thesis
    proof (cases "mixer_mix (sn_web3 env n) (sn_functions_mix env) (sn_config env) mp sender None v gas")
      case tx: (Inr tx)
      then obtain e where "mix_event env tx = Inl e"
        using assms [OF Inr, of v] by (cases "mix_event env tx") (auto simp: mixer_accepts_def)
      then show ?thesis
        using Inr v tx wait_for_tx_rejected by (fastforce simp: send_deposit_def bindS_simps)
    qed (use Inr v in \<open>simp add: send_deposit_def bindS_simps\<close>)
  qed (use Inr in \<open>simp add: send_deposit_def bindS_simps\<close>)
qed (simp add: send_deposit_def bindS_simps)

text \<open>A signature made for another message is accepted only if the challenges are the same.\<close>

lemma signed_parameters_verify:
  assumes "signed_parameters C zksnark kp addr cts sent proof pub = Inr mp"
    and "ec_lib_laws (c_ec C)" "ec_order_law (c_ec C)" "keypair_ok (c_ec C) kp" "psk (sk kp) \<noteq> 0" "g1_ok (c_ec C) (spk (vk kp))"
    and "verify (c_ec C) (c_sha256 C) (mp_signature_vk mp) m' (mp_signature mp) = Inr True"
  shows "\<exists>msg. joinsplit_message C zksnark addr cts proof pub False = Inr msg
    \<and> schnorr_challenge (c_ec C) (c_sha256 C) (spk (vk kp)) (digest_bytes (c_sha256 C msg)) =
      schnorr_challenge (c_ec C) (c_sha256 C) (spk (vk kp)) m'"
proof -
  obtain msg where msg: "joinsplit_message C zksnark addr cts proof pub False = Inr msg"
      "sign (c_ec C) (c_sha256 C) (sk kp) (digest_bytes (c_sha256 C msg)) = Inr (mp_signature mp)" "mp_signature_vk mp = vk kp"
    using assms(1) by (auto simp: signed_parameters_def joinsplit_sign_def bindR_eq_Inr assertR_eq_Inr)
  have "fq (c_ec C) (mp_signature mp) mod curve_order (c_ec C) = mp_signature mp"
    using schnorr_complete [OF assms(2,4,6), of "c_sha256 C" "digest_bytes (c_sha256 C msg)"] msg(2) ec_lib_lawsD [OF assms(2)]
    by (auto simp: fq_def)
  then have "sign (c_ec C) (c_sha256 C) (sk kp) m' = Inr (mp_signature mp)"
    using schnorr_exact [OF assms(2-4,6), of "c_sha256 C" m' "mp_signature mp"] assms(7) msg(3) by simp
  then show ?thesis
    using sign_eq_iff [OF assms(2-6)] msg(1,2) by metis
qed

text \<open>
  No collision: the calls with these senders and ciphertexts have different challenges.
\<close>

definition challenges_differ ::
  "('sk, 'pk) crypto \<Rightarrow> IZKSnarkProvider \<Rightarrow> SigningKeyPair \<Rightarrow> ExtendedProof \<Rightarrow> int list \<Rightarrow> string \<times> bytes list \<Rightarrow> string \<times> bytes list \<Rightarrow> bool" where
  "challenges_differ C zksnark kp proof public_data call call' \<longleftrightarrow>
     (\<forall>msg msg'. joinsplit_message C zksnark (fst call) (snd call) proof public_data False = Inr msg
        \<and> joinsplit_message C zksnark (fst call') (snd call') proof public_data False = Inr msg' \<longrightarrow>
        schnorr_challenge (c_ec C) (c_sha256 C) (spk (vk kp)) (digest_bytes (c_sha256 C msg)) \<noteq>
        schnorr_challenge (c_ec C) (c_sha256 C) (spk (vk kp)) (digest_bytes (c_sha256 C msg')))"

lemma changed_call_not_accepted:
  assumes checks: "mixer_checks env zksnark h_sig_of nullifiers_of"
    and params: "signed_parameters (sn_crypto env) zksnark kp addr cts sent proof pub = Inr mp"
    and ec: "ec_lib_laws (c_ec (sn_crypto env))" "ec_order_law (c_ec (sn_crypto env))" "keypair_ok (c_ec (sn_crypto env)) kp"
      "psk (sk kp) \<noteq> 0" "g1_ok (c_ec (sn_crypto env)) (spk (vk kp))"
    and differ: "challenges_differ (sn_crypto env) zksnark kp proof pub (addr, cts) (sender, sent)"
  shows "\<not> mixer_accepts env n mp sender v gas"
proof
  assume "mixer_accepts env n mp sender v gas"
  moreover have "mp_ciphertexts mp = sent" "mp_extended_proof mp = proof" "mp_public_data mp = pub"
    using params by (auto simp: signed_parameters_def bindR_eq_Inr)
  ultimately obtain msg' where msg': "joinsplit_message (sn_crypto env) zksnark sender sent proof pub False = Inr msg'"
      "verify (c_ec (sn_crypto env)) (c_sha256 (sn_crypto env)) (mp_signature_vk mp)
         (digest_bytes (c_sha256 (sn_crypto env) msg')) (mp_signature mp) = Inr True"
    using checks unfolding mixer_checks_def by blast
  from signed_parameters_verify [OF params ec msg'(2)] msg'(1) differ show False
    by (auto simp: challenges_differ_def)
qed

lemma changed_key_not_accepted:
  assumes "mixer_checks env zksnark h_sig_of nullifiers_of"
    and "signed_parameters (sn_crypto env) zksnark kp' addr cts sent proof pub = Inr mp"
    and "compute_h_sig (c_sha256 (sn_crypto env)) (nullifiers_of pub) (vk kp) = Inr (h_sig_of pub)"
    and "compute_h_sig (c_sha256 (sn_crypto env)) (nullifiers_of pub) (vk kp') \<noteq>
         compute_h_sig (c_sha256 (sn_crypto env)) (nullifiers_of pub) (vk kp)"
  shows "\<not> mixer_accepts env n mp sender v gas"
proof
  assume "mixer_accepts env n mp sender v gas"
  moreover have "mp_signature_vk mp = vk kp'" "mp_public_data mp = pub"
    using assms(2) by (auto simp: signed_parameters_def bindR_eq_Inr)
  ultimately show False
    using assms(1,3,4) unfolding mixer_checks_def by metis
qed

section \<open>Well-formed scenarios\<close>

text \<open>The components of a call with two inputs and two outputs are made for every well-formed call.\<close>

lemma components_total:
  assumes call: "call_ok (sn_crypto env) sender inputs outputs v_in v_out" "length inputs = JS_INPUTS" "length outputs = JS_OUTPUTS"
      "random_ok (sn_random env)"
    and tree: "sn_tree st = tree_of h D xs (length xs)" "0 < D" "length xs \<le> 2 ^ D"
    and ec: "gen_signing_keypair (c_ec (sn_crypto env)) (r_urandom_x (sn_random env)) (r_urandom_y (sn_random env)) = Inr kp"
      "ec_lib_laws (c_ec (sn_crypto env))" "g1_ok (c_ec (sn_crypto env)) (ppk (vk kp))" "g1_ok (c_ec (sn_crypto env)) (spk (vk kp))"
    and cb: "\<forall>f. cb = Some f \<longrightarrow> (\<forall>nfs. length nfs = JS_INPUTS \<and> (\<forall>nf \<in> set nfs. length nf = 32) \<longrightarrow> (\<exists>hs. f nfs (vk kp) = Inr hs))"
    and prover: "\<And>pinputs. length (pi_js_inputs pinputs) = JS_INPUTS \<Longrightarrow>
      get_proof (sn_floor_log2 env) (sn_prover env) (sn_client st) pinputs = (sn_client st, Inr (ep, pub))"
  shows "\<exists>n0 n1. get_mix_parameters_components env sender inputs outputs v_in v_out cb st = (st, Inr (n0, n1, ep, pub, kp))
    \<and> note_ok n0 \<and> note_ok n1"
proof -
  let ?d = "\<lparr>mc_mk_tree = sn_tree st, mc_sender = sender, mc_v_in = v_in, mc_v_out = v_out, mc_compute_h_sig_cb = cb,
      mc_inputs = inputs, mc_outputs = outputs\<rparr>"
  have d: "mix_call_description (sn_crypto env) (sn_random env) (sn_tree st) sender inputs outputs v_in v_out cb = Inr ?d"
    using call(2,3) by (simp add: mix_call_description_def)
  have "\<forall>(a, n) \<in> set inputs. 0 \<le> a \<and> (\<exists>r. rho n = bytes_hex r)"
    using call(1) by (fastforce simp: call_ok_def note_ok_def)
  then obtain pinputs where p: "create_prover_inputs (sn_crypto env) (sn_random env) ?d = Inr (pinputs, kp)"
      "length (pi_js_inputs pinputs) = JS_INPUTS" "length (pi_js_outputs pinputs) = JS_OUTPUTS" "\<forall>n \<in> set (pi_js_outputs pinputs). note_ok n"
    using prover_inputs_total [of ?d h D xs "range (public_key (c_enc (sn_crypto env)))" "sn_random env" "sn_crypto env" kp]
      call tree ec cb by (auto simp: call_ok_def)
  obtain n0 n1 where "pi_js_outputs pinputs = [n0, n1]"
    using p(3) by (auto simp: JS_OUTPUTS_def numeral_2_eq_2 length_Suc_conv)
  with d p prover [OF p(2)] show ?thesis
    by (simp add: get_mix_parameters_components_def on_client_def bindS_simps)
qed

text \<open>\<open>get_dummy_input_and_address\<close> returns a well-formed note of value zero.\<close>

lemma dummy_input_ok:
  assumes "length pk = 32" "length r = 32" "length t = 32"
  shows "\<exists>n. get_dummy_input_and_address pk r t = Inr (0, n) \<and> note_ok n"
proof -
  have "ZERO_UNITS_HEX = bytes_hex (replicate 8 0)"
    by code_simp
  then show ?thesis
    using assms by (auto simp: get_dummy_input_and_address_def ownership_key_as_hex_32 note_ok_def)
      (metis length_replicate)
qed

section \<open>An example\<close>

text \<open>
  The hash is the sum of two bytes at the border between address and ciphertexts, or the last
  byte of the input of a challenge. The node accepts one call of Bob and emits an event for it.
\<close>

definition scenario_sha :: digest_fn where
  "scenario_sha bs = word_of_int (if length bs = 96 then uint (bs ! 95) else uint (bs ! 31) + uint (bs ! 32))"

definition scenario_toWei :: to_wei where
  "scenario_toWei v units =
     (let unit = if units = ''ether'' then 10 ^ 18 else 1
      in case v of NumInt n \<Rightarrow> Inr (n * unit) | NumFloat m k \<Rightarrow> Inr (m * unit div 2 ^ k) | NumStr s \<Rightarrow> Inl ValueError)"

definition scenario_crypto :: "(256 word, 256 word) crypto" where
  "scenario_crypto = example_crypto\<lparr>c_sha256 := scenario_sha, c_toWei := scenario_toWei\<rparr>"

definition scenario_prover :: prover_server where
  "scenario_prover = example_prover\<lparr>srv_Prove := \<lambda>_. Inr (projr (extended_proof_to_proto Groth16 example_groth16), replicate 9 ''0x1'')\<rparr>"

definition bob_address :: string where
  "bob_address = ''0x0000000000000000000000000000000000000001''"

definition charlie_address :: string where
  "charlie_address = ''0x0000000000000000000000000000000000000002''"

definition scenario_web3 :: "abi_value list \<Rightarrow> (abi_value list, unit) web3_lib" where
  "scenario_web3 good = \<lparr>w3_gasPrice = 0, w3_getTransactionCount = (\<lambda>_. 0), w3_buildTransaction = (\<lambda>_ _. Inl ValueError),
     w3_signTransaction = (\<lambda>_ _. Inl ValueError), w3_sendRawTransaction = (\<lambda>_. Inl ValueError),
     w3_transact = (\<lambda>call desc. if call = good \<and> tx_from desc = bob_address then Inr [1] else Inl ValueError),
     w3_call = (\<lambda>_ _. Inl ValueError), w3_constructor = (\<lambda>_ _ _. Inl ValueError), w3_contractAddress = (\<lambda>_. Inl ValueError)\<rparr>"

definition scenario_event :: event_args where
  "scenario_event = \<lparr>ea_root = spec_node append [[1], [2]] 2 0, ea_nullifiers = [], ea_commitments = [[1], [2]], ea_ciphertexts = [[3], [4]]\<rparr>"

definition scenario_example :: "abi_value list \<Rightarrow> (256 word, 256 word, abi_value list, unit, event_args) scenario_env" where
  "scenario_example good = \<lparr>sn_web3 = (\<lambda>_. scenario_web3 good), sn_functions_mix = Inr, sn_crypto = scenario_crypto,
     sn_random = example_random, sn_floor_log2 = (\<lambda>_. 3), sn_prover = scenario_prover, sn_config = example_config, sn_hash = append,
     sn_receipt = (\<lambda>_. Inr [\<lparr>log_address = ''0xa'', log_topics = [[1]], log_data = scenario_event\<rparr>]),
     sn_mixer_address = ''0xa'', sn_log_topic = [1], sn_processLog = (\<lambda>l. Inr (log_data l)),
     sn_fake = (\<lambda>_. replicate 32 3), sn_urandom_x = (\<lambda>n. replicate n 2), sn_urandom_y = (\<lambda>n. replicate n 5)\<rparr>"

definition scenario_start :: scenario_state where
  "scenario_start = \<lparr>sn_client = example_state, sn_tree = tree_of append 2 [] (length ([] :: bytes list))\<rparr>"

definition scenario_address :: "(256 word, 256 word) ZethAddress" where
  "scenario_address = zeth_address_init (replicate 32 6) 9 (replicate 32 2) 8"

definition scenario_keystore :: "(256 word, 256 word) KeyStore" where
  "scenario_keystore = [''Bob'' \<mapsto> scenario_address, ''Charlie'' \<mapsto> scenario_address]"

lemma scenario_get_proof:
  assumes "length (pi_js_inputs pinputs) = JS_INPUTS"
  shows "get_proof fl scenario_prover example_state pinputs = (example_state, Inr (example_groth16, replicate 9 1))"
proof -
  have "is_groth16_proof (ep_proof example_groth16)"
    by (simp add: example_groth16_def Let_def)
  then obtain m where "extended_proof_to_proto Groth16 example_groth16 = Inr m" "extended_proof_from_proto Groth16 m = Inr example_groth16"
    using groth16.ext_msg by blast
  moreover have "py_int_str ''0x1'' 16 = Inr 1" "get_zksnark_provider ''GROTH16'' = Inr Groth16"
    by code_simp+
  moreover have "mapR (\<lambda>x. py_int_str x 16) (replicate 9 ''0x1'') = Inr (map (\<lambda>_. 1) (replicate 9 ''0x1''))"
    using \<open>py_int_str ''0x1'' 16 = Inr 1\<close> by (intro mapR_Inr) simp
  ultimately show ?thesis
    using assms by (simp add: get_proof_def scenario_prover_def example_prover_def client_get_zksnark_provider_def get_configuration_def
        example_state_def example_config_def)
qed

lemma scenario_crypto_laws:
  "enc_lib_laws (c_enc scenario_crypto)" "ec_lib_laws (c_ec scenario_crypto)" "encode_bytes32_law (c_encode_single scenario_crypto)"
  "c_ec scenario_crypto = c_ec example_crypto" "ec_order_law (c_ec scenario_crypto)" "keypair_ok (c_ec scenario_crypto) example_keypair"
  "9 \<in> range (public_key (c_enc scenario_crypto))" "c_sha256 scenario_crypto = scenario_sha" "c_ec scenario_crypto = example_ec_lib"
proof -
  have "public_key (c_enc scenario_crypto) 8 = 9"
    by (simp add: scenario_crypto_def example_crypto_def example_enc_lib_def)
  then show "9 \<in> range (public_key (c_enc scenario_crypto))"
    by (metis rangeI)
qed (use example_crypto_laws example_ec_order example_keypair_ok in \<open>simp_all add: scenario_crypto_def example_crypto_def\<close>)

lemma scenario_sel:
  "sn_crypto (scenario_example good) = scenario_crypto" "sn_random (scenario_example good) = example_random"
  "sn_config (scenario_example good) = example_config" "sn_client scenario_start = example_state"
  "sn_tree scenario_start = tree_of append 2 [] (length ([] :: bytes list))" "sn_prover (scenario_example good) = scenario_prover"
  "dict_get scenario_keystore ''Bob'' = Inr scenario_address" "dict_get scenario_keystore ''Charlie'' = Inr scenario_address"
  "pub_a_pk (addr_pk scenario_address) = replicate 32 6" "pub_k_pk (addr_pk scenario_address) = 9"
  "priv_a_sk (addr_sk scenario_address) = replicate 32 2"
  by (simp_all add: scenario_example_def scenario_start_def scenario_keystore_def dict_get_def scenario_address_def zeth_address_init_def)

lemma scenario_eth:
  "eth (scenario_example good) (NumInt n) = Inr \<lparr>wei = n * 1000000 * ZETH_PUBLIC_UNIT_VALUE\<rparr>"
  "eth (scenario_example good) CHARLIE_WITHDRAW_ETH = Inr \<lparr>wei = 10500000 * ZETH_PUBLIC_UNIT_VALUE\<rparr>"
  "eth (scenario_example good) CHARLIE_WITHDRAW_CHANGE_ETH = Inr \<lparr>wei = 39500000 * ZETH_PUBLIC_UNIT_VALUE\<rparr>"
  by (simp_all add: scenario_sel scenario_crypto_def scenario_toWei_def ether_value_def ZETH_PUBLIC_UNIT_VALUE_def
      CHARLIE_WITHDRAW_ETH_def CHARLIE_WITHDRAW_CHANGE_ETH_def)

lemma scenario_components:
  assumes "note_ok n" "note_ok n'" "0 \<le> a" "0 \<le> v1" "v1 < 2 ^ 53" "0 \<le> v2" "v2 < 2 ^ 53" "0 \<le> v3" "v3 < 2 ^ 53" "0 \<le> v4" "v4 < 2 ^ 53"
    and "\<forall>f. cb = Some f \<longrightarrow> (\<forall>nfs. length nfs = JS_INPUTS \<and> (\<forall>nf \<in> set nfs. length nf = 32) \<longrightarrow> (\<exists>hs. f nfs (vk example_keypair) = Inr hs))"
  shows "\<exists>n0 n1. get_mix_parameters_components (scenario_example good) (ownership_keypair scenario_address) [(a, n), (0, n')]
        [(addr_pk scenario_address, \<lparr>wei = v1 * ZETH_PUBLIC_UNIT_VALUE\<rparr>), (addr_pk scenario_address, \<lparr>wei = v2 * ZETH_PUBLIC_UNIT_VALUE\<rparr>)]
        \<lparr>wei = v3 * ZETH_PUBLIC_UNIT_VALUE\<rparr> \<lparr>wei = v4 * ZETH_PUBLIC_UNIT_VALUE\<rparr> cb scenario_start =
      (scenario_start, Inr (n0, n1, example_groth16, replicate 9 1, example_keypair)) \<and> note_ok n0 \<and> note_ok n1"
proof (rule components_total [where h = append and D = 2 and xs = "[]"])
  show "call_ok (sn_crypto (scenario_example good)) (ownership_keypair scenario_address) [(a, n), (0, n')]
        [(addr_pk scenario_address, \<lparr>wei = v1 * ZETH_PUBLIC_UNIT_VALUE\<rparr>), (addr_pk scenario_address, \<lparr>wei = v2 * ZETH_PUBLIC_UNIT_VALUE\<rparr>)]
        \<lparr>wei = v3 * ZETH_PUBLIC_UNIT_VALUE\<rparr> \<lparr>wei = v4 * ZETH_PUBLIC_UNIT_VALUE\<rparr>"
    using assms units_ok_units scenario_crypto_laws(7)
    by (simp add: call_ok_def scenario_sel ownership_keypair_def JS_INPUTS_def JS_OUTPUTS_def)
qed (use example_random_ok example_random_keypair scenario_crypto_laws scenario_get_proof assms(12) in
    \<open>simp_all add: scenario_sel JS_INPUTS_def JS_OUTPUTS_def\<close>)

lemma scenario_deposit:
  "\<exists>cts. (\<forall>good. deposit_components (scenario_example good) scenario_keystore scenario_start =
        (scenario_start, Inr (example_groth16, replicate 9 1, example_keypair, cts)))
    \<and> length cts = 2 \<and> (\<exists>bs. hd cts = 0 # bs)"
proof -
  obtain n n' where dummy: "get_dummy_input_and_address (replicate 32 6) (replicate 32 1) (replicate 32 2) = Inr (0, n)" "note_ok n"
    using dummy_input_ok [of "replicate 32 6" "replicate 32 1" "replicate 32 2"] by auto
  obtain n0 n1 where comp: "get_mix_parameters_components (scenario_example []) (ownership_keypair scenario_address) [(0, n), (0, n)]
        [(addr_pk scenario_address, \<lparr>wei = 100000000 * ZETH_PUBLIC_UNIT_VALUE\<rparr>), (addr_pk scenario_address, \<lparr>wei = 100000000 * ZETH_PUBLIC_UNIT_VALUE\<rparr>)]
        \<lparr>wei = 200000000 * ZETH_PUBLIC_UNIT_VALUE\<rparr> \<lparr>wei = 0 * ZETH_PUBLIC_UNIT_VALUE\<rparr> None scenario_start =
      (scenario_start, Inr (n0, n1, example_groth16, replicate 9 1, example_keypair))" "note_ok n0" "note_ok n1"
    using scenario_components [of n n 0 100000000 100000000 200000000 0 None "[]"] dummy(2) by auto
  obtain cts where cts: "encrypt_notes (c_enc scenario_crypto) (r_eph example_random) [(n0, 9), (n1, 9)] = Inr cts" "length cts = 2"
    using encrypt_notes_total [of "c_enc scenario_crypto" "[(n0, 9), (n1, 9)]" "r_eph example_random"] comp(2,3) scenario_crypto_laws(1,7) by auto
  have first: "\<exists>bs. hd cts = 0 # bs"
  proof -
    obtain m where "encrypt (c_enc scenario_crypto) 0 m 9 = Inr (hd cts)"
      using cts(1) by (auto simp: encrypt_notes_def bindR_eq_Inr example_random_def)
    then have "\<exists>rest. digest_bytes 1 @ rest = hd cts"
      by (auto simp: encrypt_def generate_encryption_keypair_def bindR_eq_Inr assertR_eq_Inr Let_def scenario_crypto_def example_crypto_def
          example_enc_lib_def)
    moreover have "hd (digest_bytes 1) = 0" "digest_bytes 1 \<noteq> []"
      by code_simp+
    ultimately show ?thesis
      by (metis append_Cons hd_Cons_tl)
  qed
  have indep: "get_mix_parameters_components (scenario_example good) sender inputs outputs v_in v_out cb st =
      get_mix_parameters_components (scenario_example []) sender inputs outputs v_in v_out cb st" for good sender inputs outputs v_in v_out cb st
    by (simp add: get_mix_parameters_components_def scenario_example_def)
  have conf: "on_client (get_configuration (sn_floor_log2 (scenario_example good)) scenario_prover) scenario_start = (scenario_start, Inr example_config)"
    for good
    by (simp add: on_client_def get_configuration_def scenario_start_def example_state_def)
  have "deposit_components (scenario_example good) scenario_keystore scenario_start =
      (scenario_start, Inr (example_groth16, replicate 9 1, example_keypair, cts))" for good
    unfolding deposit_components_def Let_def scenario_sel bindS_simps conf
    using dummy(1) comp(1) cts(1)
    by (simp add: indep [of good] scenario_eth [unfolded scenario_sel] bindS_simps example_random_def BOB_SPLIT_1_ETH_def BOB_SPLIT_2_ETH_def BOB_DEPOSIT_ETH_def)
  with cts(2) first show ?thesis
    by blast
qed

text \<open>The challenges of the calls: the sum of the last byte of the address and the first of the ciphertexts.\<close>

lemma scenario_address_bytes:
  "eth_address_to_bytes32 bob_address = Inr (replicate 31 0 @ [1])" "eth_address_to_bytes32 charlie_address = Inr (replicate 31 0 @ [2])"
proof -
  have "drop 2 bob_address = bytes_hex (replicate 19 0 @ [1])" "length bob_address = 42" "startswith bob_address ''0x''"
    "drop 2 charlie_address = bytes_hex (replicate 19 0 @ [2])" "length charlie_address = 42" "startswith charlie_address ''0x''"
    by code_simp+
  moreover have "replicate 12 (0 :: byte) @ replicate 19 0 = replicate 31 0"
    by (simp flip: replicate_add)
  ultimately show "eth_address_to_bytes32 bob_address = Inr (replicate 31 0 @ [1])"
      "eth_address_to_bytes32 charlie_address = Inr (replicate 31 0 @ [2])"
    by (simp_all add: eth_address_to_bytes32_def eth_address_to_bytes_def extend_32bytes_def
        bytes_fromhex_hex_byte [of _ "[]", simplified] flip: append_assoc)
qed

lemma scenario_challenge:
  assumes "joinsplit_message scenario_crypto Groth16 addr cts example_groth16 (replicate 9 1) False = Inr msg"
    and "eth_address_to_bytes32 addr = Inr (replicate 31 0 @ [a])" "hd cts = b # bs" "cts \<noteq> []" "uint a + uint b < 256"
  shows "schnorr_challenge example_ec_lib scenario_sha (spk (vk example_keypair)) (digest_bytes (scenario_sha msg)) =
    Inr ((uint a + uint b) mod 7)"
proof -
  have *: "\<exists>rest. msg = replicate 31 0 @ [a] @ b # rest \<and> 96 < length msg"
    using joinsplit_message_ok [OF scenario_crypto_laws(3) assms(2) example_groth16_params, of "replicate 9 1" cts False] assms(1,3,4)
    by (cases cts) auto
  define x where "x = uint a + uint b"
  with * have sha: "scenario_sha msg = word_of_int x"
    by (auto simp: scenario_sha_def nth_append)
  have x: "0 \<le> x" "x < 256"
    using assms(5) by (simp_all add: x_def)
  then have w: "uint (word_of_int x :: 256 word) = x" "uint (word_of_int x :: byte) = x"
    by (simp_all add: uint_word_of_int)
  have gb: "g1_to_bytes (spk (vk example_keypair)) = Inr (be_bytes 32 5 @ be_bytes 32 0)"
    by (simp add: example_keypair_def g1_to_bytes_def g1_coords_def int_to_bytes_def)
  have "digest_bytes (word_of_int x) = be_bytes 31 (x div 256) @ [word_of_int x]"
    using be_bytes.simps(2) [of 31 x] w(1) by (simp add: digest_bytes_def)
  then have "((be_bytes 32 5 @ be_bytes 32 0) @ digest_bytes (word_of_int x)) ! 95 = word_of_int x"
    by (simp add: nth_append)
  then have "scenario_sha ((be_bytes 32 5 @ be_bytes 32 0) @ digest_bytes (word_of_int x)) = word_of_int x"
    using w(2) by (simp add: scenario_sha_def)
  moreover have "py_int_str (bytes_hex (digest_bytes (word_of_int x))) 16 = Inr x"
  proof -
    have "digest_bytes (word_of_int x) \<noteq> []"
      using length_digest_bytes [of "word_of_int x"] by fastforce
    then show ?thesis
      using py_int_bytes_hex [of "digest_bytes (word_of_int x)"] x w(1) by (simp add: digest_bytes_def int_from_be_bytes)
  qed
  ultimately show ?thesis
    using gb sha by (simp add: schnorr_challenge_def example_ec_lib_def x_def)
qed

lemma scenario_differ:
  assumes "length cts = 2" "hd cts = 0 # bs"
  shows "challenges_differ scenario_crypto Groth16 example_keypair example_groth16 (replicate 9 1)
      (charlie_address, cts) (charlie_address, [replicate 32 3, replicate 32 3])"
    and "challenges_differ scenario_crypto Groth16 example_keypair example_groth16 (replicate 9 1)
      (bob_address, cts) (charlie_address, cts)"
proof -
  have ne: "cts \<noteq> []" "hd [replicate 32 (3 :: byte), replicate 32 3] = 3 # replicate 31 3"
    using assms(1) by (auto simp: numeral_eq_Suc)
  note c = scenario_challenge [OF _ scenario_address_bytes(2) assms(2) ne(1)]
    scenario_challenge [OF _ scenario_address_bytes(1) assms(2) ne(1)]
    scenario_challenge [OF _ scenario_address_bytes(2) ne(2)]
  show "challenges_differ scenario_crypto Groth16 example_keypair example_groth16 (replicate 9 1)
      (charlie_address, cts) (charlie_address, [replicate 32 3, replicate 32 3])"
    "challenges_differ scenario_crypto Groth16 example_keypair example_groth16 (replicate 9 1)
      (bob_address, cts) (charlie_address, cts)"
    unfolding challenges_differ_def scenario_crypto_laws(8,9) using c by auto
qed

text \<open>The new key of Charlie, and the \<open>h_sig\<close> of both keys.\<close>

definition scenario_new_key :: SigningKeyPair where
  "scenario_new_key = \<lparr>sk = \<lparr>psk = 2, ssk = (5, Some (5, 0))\<rparr>, vk = \<lparr>ppk = Some (2, 0), spk = Some (5, 0)\<rparr>\<rparr>"

lemma scenario_new_key_gen:
  "gen_signing_keypair (c_ec scenario_crypto) (sn_urandom_x (scenario_example good)) (sn_urandom_y (scenario_example good)) = Inr scenario_new_key"
proof -
  have "gen_signing_keypair example_ec_lib (\<lambda>n. replicate n 2) (\<lambda>n. replicate n 5) = Inr scenario_new_key"
    by code_simp
  then show ?thesis
    by (simp add: scenario_crypto_laws(9) scenario_example_def)
qed

lemma scenario_h_sig:
  "compute_h_sig scenario_sha [] (vk example_keypair) = Inr (digest_bytes 3)"
  "compute_h_sig scenario_sha [] (vk scenario_new_key) = Inr (digest_bytes 2)"
  "digest_bytes 3 \<noteq> digest_bytes 2"
  by code_simp+

lemma vk_mix_parameter_inj:
  "verification_key_as_mix_parameter key = Inr ps \<Longrightarrow> verification_key_as_mix_parameter key' = Inr ps \<Longrightarrow> key = key'"
  by (cases key; cases key') (auto simp: verification_key_as_mix_parameter_def g1_coords_def bindR_eq_Inr split: option.splits)

text \<open>Equal arguments of the contract have equal keys, signatures, public inputs, ciphertexts and messages.\<close>

lemma contract_arguments_inj:
  assumes "mix_parameters_to_contract_arguments z mp = Inr args" "mix_parameters_to_contract_arguments z mp' = Inr args"
  shows "mp_signature_vk mp = mp_signature_vk mp'" "mp_signature mp = mp_signature mp'" "mp_public_data mp = mp_public_data mp'"
    "mp_ciphertexts mp = mp_ciphertexts mp'"
    "joinsplit_message C z addr cts (mp_extended_proof mp) pub d = joinsplit_message C z addr cts (mp_extended_proof mp') pub d"
  using assms vk_mix_parameter_inj
  by (auto simp: mix_parameters_to_contract_arguments_def bindR_eq_Inr signature_as_mix_parameter_def joinsplit_message_def
      proof_and_inputs_to_bytes_def)

lemma scenario_sends_good:
  "mixer_mix (scenario_web3 good) Inr example_config mp sender None v gas = Inr tx \<longleftrightarrow>
    mix_parameters_to_contract_arguments Groth16 mp = Inr good \<and> sender = bob_address \<and> tx = bytes_hex [1]"
  by (auto simp: mixer_mix_def create_mix_call_def example_provider bindR_eq_Inr send_contract_call_def scenario_web3_def Let_def
      value_and_gas_def split: if_splits)

lemma scenario_checks:
  assumes bob: "signed_parameters scenario_crypto Groth16 example_keypair bob_address cts cts ep pub = Inr mp"
    and good: "mix_parameters_to_contract_arguments Groth16 mp = Inr good"
  shows "mixer_checks (scenario_example good) Groth16 (\<lambda>_. digest_bytes 3) (\<lambda>_. [])"
proof -
  obtain msg where mp: "joinsplit_message scenario_crypto Groth16 bob_address cts ep pub False = Inr msg"
      "sign (c_ec scenario_crypto) scenario_sha (sk example_keypair) (digest_bytes (scenario_sha msg)) = Inr (mp_signature mp)"
      "mp_extended_proof mp = ep" "mp_public_data mp = pub" "mp_signature_vk mp = vk example_keypair" "mp_ciphertexts mp = cts"
    using bob by (auto simp: signed_parameters_def joinsplit_sign_def bindR_eq_Inr assertR_eq_Inr scenario_crypto_laws(8))
  have "g1_ok (c_ec scenario_crypto) (spk (vk example_keypair))"
    unfolding scenario_crypto_laws(4) by (rule example_random_keypair(5))
  then have v: "verify (c_ec scenario_crypto) scenario_sha (vk example_keypair) (digest_bytes (scenario_sha msg)) (mp_signature mp) = Inr True"
    using schnorr_complete [OF scenario_crypto_laws(2,6), of scenario_sha "digest_bytes (scenario_sha msg)"] mp(2) by auto
  show ?thesis
    unfolding mixer_checks_def
  proof (intro allI impI)
    fix n mp' sender v gas
    assume "mixer_accepts (scenario_example good) n mp' sender v gas"
    then have s: "mix_parameters_to_contract_arguments Groth16 mp' = Inr good" "sender = bob_address"
      by (auto simp: mixer_accepts_def bindR_eq_Inr scenario_example_def scenario_sends_good)
    note eq = contract_arguments_inj [OF s(1) good]
    show "(\<exists>msg. joinsplit_message (sn_crypto (scenario_example good)) Groth16 sender (mp_ciphertexts mp') (mp_extended_proof mp')
              (mp_public_data mp') False = Inr msg
           \<and> verify (c_ec (sn_crypto (scenario_example good))) (c_sha256 (sn_crypto (scenario_example good))) (mp_signature_vk mp')
               (digest_bytes (c_sha256 (sn_crypto (scenario_example good)) msg)) (mp_signature mp') = Inr True)
        \<and> compute_h_sig (c_sha256 (sn_crypto (scenario_example good))) [] (mp_signature_vk mp') = Inr (digest_bytes 3)"
      using mp v by (simp add: scenario_sel scenario_crypto_laws(8) s(2) eq scenario_h_sig(1))
  qed
qed

text \<open>The double spend in the example: the modulus is 13 and field elements have three bits.\<close>

lemma attack_callback_total:
  assumes "ec_lib_laws E" "g1_ok E (ppk key)" "g1_ok E (spk key)" "length nfs = JS_INPUTS" "\<forall>nf \<in> set nfs. length nf = 32"
    and "c + k = 256" "0 < c" "0 \<le> r"
  shows "\<exists>hs. compute_h_sig_attack_nf sha256 (int c) r nfs key = Inr hs"
proof -
  obtain a b where nfs: "nfs = [a, b]"
    using assms(4) by (auto simp: JS_INPUTS_def numeral_2_eq_2 length_Suc_conv)
  obtain a' b' where "attack_nullifier (int c) r a = Inr a'" "attack_nullifier (int c) r b = Inr b'"
    using attack_nullifier_ok [of a, OF _ assms(6-8)] attack_nullifier_ok [of b, OF _ assms(6-8)] assms(5) nfs by auto
  then show ?thesis
    using compute_h_sig_ok [OF assms(1-3)] nfs by (simp add: compute_h_sig_attack_nf_def)
qed

lemma attack_primary_inputs_total:
  assumes "sn_tree st = tree_of h D xs (length xs)" "length xs \<le> 2 ^ D" "length (a_sk sender) = 32" "note_ok n" "note_ok n'" "0 \<le> a" "0 \<le> a'"
    and "c + k = 256" "0 < c" "0 \<le> r"
  shows "\<exists>as. attack_primary_inputs env (int c) r sender [(a, n), (a', n')] st = Inr as"
proof -
  have "\<forall>(a, n) \<in> set [(a, n), (a', n')]. 0 \<le> a \<and> (\<exists>r. rho n = bytes_hex r)"
    using assms(4-7) by (auto simp: note_ok_def)
  from api_inputs_total [OF assms(2,3) this, of "c_blake2s (sn_crypto env)" h] obtain js nfs where
      js: "mapR (create_api_input (c_blake2s (sn_crypto env)) (sn_tree st) (a_sk sender)) [(a, n), (a', n')] = Inr js"
      "mapR (\<lambda>i. bytes_fromhex (ji_nullifier i)) js = Inr nfs" "\<forall>nf \<in> set nfs. length nf = 32"
    unfolding assms(1) by blast
  moreover obtain zs where "mapR (attack_nullifier (int c) r) nfs = Inr zs"
    using mapR_total [of nfs "attack_nullifier (int c) r"] attack_nullifier_ok [OF _ assms(8-10)] js(3) by blast
  ultimately show ?thesis
    by (simp add: attack_primary_inputs_def del: mapR.simps)
qed

lemma scenario_double_withdraw:
  assumes "note_ok n"
  shows "\<exists>mp. double_withdraw_parameters (scenario_example []) Groth16 (0, n) charlie_address scenario_keystore scenario_start =
    (scenario_start, Inr mp)"
proof -
  let ?env = "scenario_example []" and ?own = "ownership_keypair scenario_address"
  let ?cb = "compute_h_sig_attack_nf scenario_sha 3 13"
  obtain n' where dummy: "get_dummy_input_and_address (replicate 32 6) (replicate 32 1) (replicate 32 2) = Inr (0, n')" "note_ok n'"
    using dummy_input_ok [of "replicate 32 6" "replicate 32 1" "replicate 32 2"] by auto
  have key: "g1_ok (c_ec scenario_crypto) (ppk (vk example_keypair))" "g1_ok (c_ec scenario_crypto) (spk (vk example_keypair))"
      "gen_signing_keypair (c_ec scenario_crypto) (r_urandom_x example_random) (r_urandom_y example_random) = Inr example_keypair"
      "r_urandom_x example_random (key_size_byte (c_ec scenario_crypto)) \<noteq> []"
      "r_urandom_y example_random (key_size_byte (c_ec scenario_crypto)) \<noteq> []"
    unfolding scenario_crypto_laws(4) by (fact example_random_keypair)+
  have cb: "\<forall>f. Some ?cb = Some f \<longrightarrow> (\<forall>nfs. length nfs = JS_INPUTS \<and> (\<forall>nf \<in> set nfs. length nf = 32) \<longrightarrow> (\<exists>hs. f nfs (vk example_keypair) = Inr hs))"
    using attack_callback_total [OF scenario_crypto_laws(2) key(1,2), of _ 3 253 13] by simp
  obtain n0 n1 where comp: "get_mix_parameters_components ?env ?own [(0, n), (0, n')]
        [(addr_pk scenario_address, \<lparr>wei = 39500000 * ZETH_PUBLIC_UNIT_VALUE\<rparr>), (addr_pk scenario_address, \<lparr>wei = 0 * ZETH_PUBLIC_UNIT_VALUE\<rparr>)]
        \<lparr>wei = 0 * ZETH_PUBLIC_UNIT_VALUE\<rparr> \<lparr>wei = 10500000 * ZETH_PUBLIC_UNIT_VALUE\<rparr> (Some ?cb) scenario_start =
      (scenario_start, Inr (n0, n1, example_groth16, replicate 9 1, example_keypair))" "note_ok n0" "note_ok n1"
    using scenario_components [OF assms dummy(2), of 0 39500000 0 0 10500000 "Some ?cb" "[]"] cb by auto
  have "length (a_sk ?own) = 32"
    by (simp add: ownership_keypair_def scenario_sel)
  then obtain as where as: "attack_primary_inputs ?env (int 3) 13 ?own [(0, n), (0, n')] scenario_start = Inr as"
    using attack_primary_inputs_total [of scenario_start append 2 "[]" ?own n n' 0 0 3 253 13 ?env] assms dummy(2) by (auto simp: scenario_sel)
  obtain x y where xy: "as = [x, y]" "0 < x" "x < 2 ^ 256" "0 < y" "y < 2 ^ 256"
  proof -
    have hi: "0 \<le> int_from_bytes nf div 2 ^ 253" "int_from_bytes nf div 2 ^ 253 < 8" if len: "length nf = 32" for nf
      using int_from_bytes_less [of nf] len by (simp_all add: pos_imp_zdiv_nonneg_iff int_div_less_mult)
    obtain nf0 nf1 where nf: "compute_nullifier (c_blake2s (sn_crypto ?env)) n (a_sk ?own) = Inr nf0"
        "compute_nullifier (c_blake2s (sn_crypto ?env)) n' (a_sk ?own) = Inr nf1"
        "as = [int_from_bytes nf0 div 2 ^ 253 + 13, int_from_bytes nf1 div 2 ^ 253 + 13]"
      using attack_primary_inputs_two [OF as, of 253] by auto
    show thesis
      using hi [OF compute_nullifier_length [OF nf(1)]] hi [OF compute_nullifier_length [OF nf(2)]] by (intro that [OF nf(3)]) simp_all
  qed
  have field: "scalar_field_mod (pairing_parameters example_config) = Inr 13" "scalar_field_capacity (pairing_parameters example_config) = 3"
    by code_simp+
  obtain cts where cts: "encrypt_notes (c_enc scenario_crypto) (r_eph example_random) [(n0, 9), (n1, 9)] = Inr cts" "length cts = 2"
    using encrypt_notes_total [of "c_enc scenario_crypto" "[(n0, 9), (n1, 9)]" "r_eph example_random"] comp(2,3) scenario_crypto_laws(1,7) by auto
  have words: "\<forall>w \<in> set [1, 2, 1, 2, 2, 1, 1, 2] \<union> set ((replicate 9 1)[3 := x, 4 := y]). 0 \<le> w \<and> w < (2 :: int) ^ 256"
    using xy by (auto simp: numeral_eq_Suc)
  obtain sigma where "joinsplit_sign scenario_crypto Groth16 example_keypair charlie_address cts example_groth16 ((replicate 9 1)[3 := x, 4 := y]) False = Inr sigma"
    using joinsplit_sign_ok [OF scenario_crypto_laws(2) key(3-5,2) scenario_crypto_laws(3) scenario_address_bytes(2) example_groth16_params words, of cts False]
      cts(2) by (auto simp: JS_INPUTS_def)
  moreover have "bindR (py_set (replicate 9 1) 3 x) (\<lambda>pd. py_set pd 4 y) = Inr ((replicate 9 1)[3 := x, 4 := y])"
    by simp
  ultimately show ?thesis
    using field dummy(1) comp(1) as xy(1,2,4) cts(1)
    by (simp add: double_withdraw_parameters_def scenario_sel scenario_eth [unfolded scenario_sel] scenario_crypto_laws(8) bindS_simps
        assertR_def example_random_def)
qed

section \<open>Properties\<close>

text \<open>
  C5. Waiting for a transaction: without a mixer event in the receipt the tree is unchanged and the
  error is that of the receipt. With one, the tree is that of all old and new commitments, and
  the result is returned exactly if its root is that of this tree; otherwise the commitments
  stay in the tree although the function raises.
\<close>

theorem transaction_updates_tree:
  assumes "sn_tree st = tree_of (sn_hash env) D xs (length xs)" "0 < D" "D \<le> 52"
    and "\<forall>result. mix_event env tx_hash = Inr result \<longrightarrow> length xs + length (output_events result) \<le> 2 ^ D"
  shows "wait_for_tx_update_mk_tree env tx_hash st =
    (case mix_event env tx_hash of
       Inl e \<Rightarrow> (st, Inl e)
     | Inr result \<Rightarrow>
         let ys = xs @ map oe_commitment (output_events result)
         in (st\<lparr>sn_tree := tree_of (sn_hash env) D ys (length ys)\<rparr>,
             if new_merkle_root result = spec_node (sn_hash env) ys D 0 then Inr result
             else Inl (PyException ''Merkle root mismatch between log and local tree'')))"
  using wait_for_tx_rejected [of env tx_hash _ st] wait_for_tx_tree_of [OF _ assms(1-3)] assms(4)
  by (simp split: sum.split)

theorem transaction_updates_tree_witness:
  "wait_for_tx_update_mk_tree (scenario_example []) ''01'' scenario_start =
    (scenario_start\<lparr>sn_tree := tree_of append 2 [[1], [2]] 2\<rparr>, Inr (event_args_to_mix_result scenario_event))"
proof -
  have ev: "mix_event (scenario_example []) ''01'' = Inr (event_args_to_mix_result scenario_event)"
    by (simp add: mix_event_def parse_mix_call_def scenario_example_def gen_list_def gen_then_def gen_yield_def gen_done_def py_index_def py_pos_def)
  have out: "map oe_commitment (output_events (event_args_to_mix_result scenario_event)) = [[1], [2]]"
      "new_merkle_root (event_args_to_mix_result scenario_event) = spec_node append [[1], [2]] 2 0"
      "length (output_events (event_args_to_mix_result scenario_event)) = 2"
    by (simp_all add: event_args_to_mix_result_def scenario_event_def)
  have tree: "sn_tree scenario_start = tree_of (sn_hash (scenario_example [])) 2 [] (length ([] :: bytes list))" "sn_hash (scenario_example []) = append"
    by (simp_all add: scenario_start_def scenario_example_def)
  show ?thesis
    using transaction_updates_tree [OF tree(1), of "''01''"] ev out tree(2) by (simp add: Let_def numeral_2_eq_2)
qed





end
