(* ===== verification/Py_Double.thy ===== *)
theory Py_Double
  imports Complex_Main Py_Float
begin

text \<open>
  Python's \<open>float\<close> where the sources add and compare times: a finite IEEE double is the rational
  it denotes, and an operation rounds the exact result to 53 significant bits, ties to even,
  with the smallest exponent of the subnormals. Infinities, NaN and overflow are not
  represented. The lemmas are the two facts the coordinator relies on: rounding is monotone,
  and it fixes the integers of up to 53 bits.
\<close>

definition floor_log2 :: "rat \<Rightarrow> int" where
  "floor_log2 x =
     (let (p, q) = quotient_of x; k = int (bit_length (nat p)) - int (bit_length (nat q))
      in if 2 powi k \<le> x then k else k - 1)"

definition round_even :: "rat \<Rightarrow> int" where
  "round_even y =
     (let f = \<lfloor>y\<rfloor>; d = y - of_int f
      in if d < 1 / 2 then f else if 1 / 2 < d then f + 1 else if even f then f else f + 1)"

text \<open>The exponent of the last place, and the double nearest to a rational.\<close>

definition ulp_exp :: "rat \<Rightarrow> int" where
  "ulp_exp x = max (- 1074) (floor_log2 \<bar>x\<bar> - 52)"

definition round_double :: "rat \<Rightarrow> rat" where
  "round_double x = (if x = 0 then 0 else of_int (round_even (x / 2 powi ulp_exp x)) * 2 powi ulp_exp x)"

definition is_double :: "rat \<Rightarrow> bool" where
  "is_double x \<longleftrightarrow> round_double x = x"

text \<open>\<open>a + b\<close> on floats.\<close>

definition float_add :: "rat \<Rightarrow> rat \<Rightarrow> rat" where
  "float_add a b = round_double (a + b)"

section \<open>Rounding to an integer\<close>

lemma round_even_bounds: "of_int (round_even y) \<le> y + 1 / 2" "y \<le> of_int (round_even y) + 1 / 2"
proof -
  have "rat_of_int \<lfloor>y\<rfloor> \<le> y" "y < of_int \<lfloor>y\<rfloor> + 1"
    by linarith+
  then show "of_int (round_even y) \<le> y + 1 / 2" "y \<le> of_int (round_even y) + 1 / 2"
    unfolding round_even_def Let_def by (simp_all split: if_split) (auto; linarith)+
qed

lemma round_even_of_int [simp]: "round_even (of_int n) = n"
  by (simp add: round_even_def)

lemma round_even_mono: "x \<le> y \<Longrightarrow> round_even x \<le> round_even y"
proof (rule ccontr)
  assume xy: "x \<le> y" and "\<not> round_even x \<le> round_even y"
  then have gt: "round_even y + 1 \<le> round_even x" by simp
  then have "rat_of_int (round_even y) + 1 \<le> of_int (round_even x)"
    by (metis of_int_1 of_int_add of_int_le_iff)
  with round_even_bounds [of x] round_even_bounds [of y] xy have "x = y"
    by linarith
  with gt show False by simp
qed

section \<open>Binary exponents\<close>

lemma bit_length_lower: "0 < n \<Longrightarrow> 2 ^ (bit_length n - 1) \<le> n"
proof (rule ccontr)
  assume n: "0 < n" "\<not> 2 ^ (bit_length n - 1) \<le> n"
  then have "bit_length n \<le> bit_length n - 1"
    by (intro bit_length_le) simp
  moreover have "0 < bit_length n"
    using n(1) by (simp add: bit_length_pos)
  ultimately show False by simp
qed

lemma powi_nat_diff: "(2 :: rat) powi (int a - int b) = 2 ^ a / 2 ^ b"
  by (simp add: power_int_diff)

lemma floor_log2_bounds:
  assumes "0 < x"
  shows "2 powi floor_log2 x \<le> x" "x < 2 powi (floor_log2 x + 1)"
proof -
  obtain p q where pq: "quotient_of x = (p, q)" by fastforce
  have q: "0 < q" and x: "x = of_int p / of_int q"
    using quotient_of_denom_pos [OF pq] quotient_of_div [OF pq] by simp_all
  have p: "0 < p"
    using assms q unfolding x by (simp add: zero_less_divide_iff)
  let ?a = "bit_length (nat p)" and ?b = "bit_length (nat q)"
  have up: "rat_of_int n < 2 ^ bit_length (nat n)" "2 ^ (bit_length (nat n) - 1) \<le> rat_of_int n" if "0 < n" for n
  proof -
    have "0 < nat n"
      using that by simp
    from bit_length_bound [of "nat n"] bit_length_lower [OF this]
    have "nat n < 2 ^ bit_length (nat n)" "2 ^ (bit_length (nat n) - 1) \<le> nat n" .
    then have "rat_of_nat (nat n) < rat_of_nat (2 ^ bit_length (nat n))"
        "rat_of_nat (2 ^ (bit_length (nat n) - 1)) \<le> rat_of_nat (nat n)"
      by (simp_all only: of_nat_less_iff of_nat_le_iff)
    with that show "rat_of_int n < 2 ^ bit_length (nat n)" "2 ^ (bit_length (nat n) - 1) \<le> rat_of_int n"
      by simp_all
  qed
  have pos: "0 < ?a" "0 < ?b"
    using p q by (simp_all add: bit_length_pos)
  have "x < 2 ^ ?a / 2 ^ (?b - 1)"
    unfolding x using up(1) [OF p] up(2) [OF q] q p by (intro frac_less) auto
  also have "\<dots> = 2 powi (int ?a - int ?b + 1)"
    using powi_nat_diff [of ?a "?b - 1"] pos by (simp add: of_nat_diff algebra_simps)
  finally have hi: "x < 2 powi (int ?a - int ?b + 1)" .
  have "(2 :: rat) powi (int ?a - int ?b - 1) = 2 ^ (?a - 1) / 2 ^ ?b"
    using powi_nat_diff [of "?a - 1" ?b] pos by (simp add: of_nat_diff algebra_simps)
  also have "\<dots> \<le> x"
    unfolding x using up(2) [OF p] up(1) [OF q] q p by (intro frac_le) auto
  finally have lo: "2 powi (int ?a - int ?b - 1) \<le> x" .
  show "2 powi floor_log2 x \<le> x" "x < 2 powi (floor_log2 x + 1)"
    using hi lo by (auto simp: floor_log2_def pq Let_def)
qed

lemma floor_log2_mono: "0 < x \<Longrightarrow> x \<le> y \<Longrightarrow> floor_log2 x \<le> floor_log2 y"
proof (rule ccontr)
  assume xy: "0 < x" "x \<le> y" and "\<not> floor_log2 x \<le> floor_log2 y"
  then have "(2 :: rat) powi (floor_log2 y + 1) \<le> 2 powi floor_log2 x"
    by (intro power_int_increasing) auto
  with floor_log2_bounds [of x] floor_log2_bounds [of y] xy show False
    by linarith
qed

section \<open>Rounding to a double\<close>

lemma round_double_pos: "0 < x \<Longrightarrow> round_double x = of_int (round_even (x / 2 powi ulp_exp x)) * 2 powi ulp_exp x"
  by (simp add: round_double_def)

lemma powi_multiple: "e \<le> k \<Longrightarrow> (2 :: rat) powi k / 2 powi e = of_int (2 ^ nat (k - e))"
  by (simp flip: power_int_diff) (simp add: power_int_def)

lemma round_double_le_powi:
  assumes "0 < x" "x \<le> 2 powi k" "ulp_exp x \<le> k"
  shows "round_double x \<le> 2 powi k"
proof -
  let ?u = "(2 :: rat) powi ulp_exp x"
  have "x / ?u \<le> of_int (2 ^ nat (k - ulp_exp x))"
    using divide_right_mono [OF assms(2), of ?u] powi_multiple [OF assms(3)] by simp
  then have "round_even (x / ?u) \<le> 2 ^ nat (k - ulp_exp x)"
    using round_even_mono round_even_of_int by metis
  then have "rat_of_int (round_even (x / ?u)) \<le> 2 powi k / ?u"
    unfolding powi_multiple [OF assms(3)] by (simp only: of_int_le_iff)
  then show ?thesis
    unfolding round_double_pos [OF assms(1)] by (simp add: pos_le_divide_eq)
qed

lemma round_double_ge_powi:
  assumes "0 < x" "2 powi k \<le> x" "ulp_exp x \<le> k"
  shows "2 powi k \<le> round_double x"
proof -
  let ?u = "(2 :: rat) powi ulp_exp x"
  have "of_int (2 ^ nat (k - ulp_exp x)) \<le> x / ?u"
    using divide_right_mono [OF assms(2), of ?u] powi_multiple [OF assms(3)] by simp
  then have "2 ^ nat (k - ulp_exp x) \<le> round_even (x / ?u)"
    using round_even_mono round_even_of_int by metis
  then have "2 powi k / ?u \<le> rat_of_int (round_even (x / ?u))"
    unfolding powi_multiple [OF assms(3)] by (simp only: of_int_le_iff)
  then show ?thesis
    unfolding round_double_pos [OF assms(1)] by (simp add: pos_divide_le_eq)
qed

lemma round_double_mono:
  assumes "0 < x" "x \<le> y"
  shows "round_double x \<le> round_double y"
proof (cases "ulp_exp x = ulp_exp y")
  case True
  have "x / 2 powi ulp_exp y \<le> y / 2 powi ulp_exp y"
    using assms(2) by (simp add: divide_right_mono)
  then show ?thesis
    using assms True by (simp add: round_double_pos mult_right_mono round_even_mono)
next
  case False
  let ?k = "floor_log2 y"
  have le: "floor_log2 x \<le> ?k"
    using assms by (rule floor_log2_mono)
  with False assms have e: "ulp_exp y = ?k - 52" "ulp_exp x < ulp_exp y"
    by (auto simp: ulp_exp_def)
  then have "floor_log2 x + 1 \<le> ?k"
    using assms by (simp add: ulp_exp_def)
  then have "(2 :: rat) powi (floor_log2 x + 1) \<le> 2 powi ?k"
    by (rule power_int_increasing) simp
  then have "round_double x \<le> 2 powi ?k"
    using floor_log2_bounds(2) [OF assms(1)] e assms(1) by (intro round_double_le_powi) auto
  also have "\<dots> \<le> round_double y"
    using floor_log2_bounds(1) [of y] e assms by (intro round_double_ge_powi) auto
  finally show ?thesis .
qed

lemma is_double_int: "0 < n \<Longrightarrow> n < 2 ^ 53 \<Longrightarrow> is_double (of_int n)"
proof -
  assume n: "0 < n" "n < 2 ^ 53"
  let ?x = "rat_of_int n"
  have "?x < rat_of_int (2 ^ 53)"
    using n(2) by (simp only: of_int_less_iff)
  then have "?x < 2 powi 53" by simp
  then have "(2 :: rat) powi floor_log2 ?x < 2 powi 53"
    using floor_log2_bounds(1) [of ?x] n(1) by simp
  then have "floor_log2 ?x < 53"
    using power_int_increasing [of 53 "floor_log2 ?x" "2 :: rat"] by (metis not_le one_le_numeral)
  then have e: "ulp_exp ?x \<le> 0"
    using n(1) by (simp add: ulp_exp_def)
  then have "?x / 2 powi ulp_exp ?x = of_int (n * 2 ^ nat (- ulp_exp ?x))"
    using powi_multiple [OF e] by (simp add: divide_inverse)
  then show ?thesis
    using n(1) by (simp only: is_double_def round_double_pos of_int_0_less_iff round_even_of_int) (simp add: field_simps power_int_def)
qed

text \<open>Adding a non-negative duration to a positive time never goes back.\<close>

lemma float_add_ge: "is_double a \<Longrightarrow> 0 < a \<Longrightarrow> 0 \<le> b \<Longrightarrow> a \<le> float_add a b"
  using round_double_mono [of a "a + b"] by (simp add: float_add_def is_double_def)

end
