(* ===== verification/Timer.thy ===== *)
theory Timer
  imports Py_Double
begin

text \<open>
  \<open>client/zeth/core/timer.py\<close>: a timer that is started once and read any number of times. The
  times of \<open>time.time()\<close> are doubles and arguments.
\<close>

record Timer =
  timer_start_time :: "rat option"

definition timer_init :: Timer where
  "timer_init = \<lparr>timer_start_time = None\<rparr>"

definition timer_start :: "rat \<Rightarrow> Timer \<Rightarrow> Timer \<times> unit res" where
  "timer_start now t =
     (if timer_start_time t = None then (t\<lparr>timer_start_time := Some now\<rparr>, Inr ()) else (t, Inl AssertionError))"

definition timer_started :: "rat \<Rightarrow> Timer \<times> unit res" where
  "timer_started now = timer_start now timer_init"

text \<open>\<open>a - b\<close> on floats.\<close>

definition float_sub :: "rat \<Rightarrow> rat \<Rightarrow> rat" where
  "float_sub a b = round_double (a - b)"

definition timer_elapsed_seconds :: "rat \<Rightarrow> Timer \<Rightarrow> rat res" where
  "timer_elapsed_seconds now t =
     (case timer_start_time t of None \<Rightarrow> Inl AssertionError | Some s \<Rightarrow> Inr (float_sub now s))"

text \<open>
  A started timer reads the rounded difference, which is not negative and grows with the time;
  a second start raises and changes nothing.
\<close>

lemma timer_reads:
  assumes "timer_started s = (t, r)"
  shows "timer_elapsed_seconds now t = Inr (round_double (now - s))"
    and "s \<le> now \<Longrightarrow> 0 \<le> round_double (now - s)"
    and "timer_start now t = (t, Inl AssertionError)"
    and "timer_elapsed_seconds now timer_init = Inl AssertionError"
proof -
  have "0 \<le> round_double (now - s)" if "s \<le> now"
    using round_even_mono [of 0 "(now - s) / 2 powi ulp_exp (now - s)"] round_even_of_int [of 0] that
    by (simp add: round_double_def)
  then show "s \<le> now \<Longrightarrow> 0 \<le> round_double (now - s)" .
qed (use assms in \<open>auto simp: timer_started_def timer_start_def timer_init_def timer_elapsed_seconds_def float_sub_def\<close>)

end
