(* ===== verification/Server_Configuration.thy ===== *)
theory Server_Configuration
  imports Py_Double Py_Json Py_Text
begin

text \<open>
  \<open>mpc/coordinator/server_configuration.py\<close>: the static configuration of the coordinator. The
  texts that \<open>time.strftime\<close>/\<open>time.strptime\<close> and \<open>str\<close>/\<open>float\<close> exchange with numbers are
  functions of the record \<open>number_text\<close>; \<open>exists\<close> is the set of existing paths.
\<close>

text \<open>
  \<open>time.strftime(TIME_FORMAT, time.gmtime(t))\<close>, \<open>calendar.timegm(time.strptime(s, TIME_FORMAT))\<close>,
  \<open>str(x)\<close> and \<open>float(s)\<close>.
\<close>

record number_text =
  format_time :: "rat \<Rightarrow> string"
  parse_time :: "string \<Rightarrow> int res"
  format_float :: "rat \<Rightarrow> string"
  parse_float :: "string \<Rightarrow> rat res"

text \<open>
  The documented behaviour: the format has whole seconds, and the text of a float denotes it
  exactly.
\<close>

definition number_text_laws :: "number_text \<Rightarrow> bool" where
  "number_text_laws T \<longleftrightarrow>
     (\<forall>t. parse_time T (format_time T t) = Inr \<lfloor>t\<rfloor>) \<and> (\<forall>x. is_double x \<longrightarrow> parse_float T (format_float T x) = Inr x)"

text \<open>The truth value of an optional string, \<open>os.path.dirname\<close> and \<open>os.path.join\<close>.\<close>

definition truthy :: "string option \<Rightarrow> bool" where
  "truthy x = (case x of None \<Rightarrow> False | Some s \<Rightarrow> s \<noteq> [])"

definition dirname :: "string \<Rightarrow> string" where
  "dirname p =
     (let head = rev (dropWhile (\<lambda>c. c \<noteq> CHR ''/'') (rev p))
      in if list_all (\<lambda>c. c = CHR ''/'') head then head else rev (dropWhile (\<lambda>c. c = CHR ''/'') (rev head)))"

definition path_join :: "string \<Rightarrow> string \<Rightarrow> string" where
  "path_join a b =
     (if startswith b ''/'' then b else if a = [] \<or> last a = CHR ''/'' then a @ b else a @ ''/'' @ b)"

record Configuration =
  contributors_file :: string
  start_time_utc :: rat
  contribution_interval :: rat
  email_server :: "string option"
  email_address :: "string option"
  email_password_file :: "string option"
  tls_key :: string
  tls_certificate :: string
  config_port :: int

definition configuration_init ::
  "string set \<Rightarrow> string \<Rightarrow> rat \<Rightarrow> rat \<Rightarrow> string \<Rightarrow> string \<Rightarrow> int \<Rightarrow> string option \<Rightarrow> string option \<Rightarrow> string option \<Rightarrow>
   Configuration res" where
  "configuration_init paths contributors start interval key cert port server address password =
     (if contributors = [] then Inl (PyException ''no contributors file specified'')
      else if start = 0 then Inl (PyException ''invalid start time'')
      else if (truthy server \<or> truthy address \<or> truthy password) \<and> \<not> (truthy server \<and> truthy address \<and> truthy password)
      then Inl (PyException ''must all or none of email server, address and password file in config'')
      else if truthy password \<and> the password \<notin> paths
      then Inl (PyException (''no email password file: '' @ the password))
      else Inr \<lparr>contributors_file = contributors, start_time_utc = round_double start,
                contribution_interval = round_double interval, email_server = server, email_address = address,
                email_password_file = password, tls_key = key, tls_certificate = cert, config_port = port\<rparr>)"

definition configuration_template :: "string set \<Rightarrow> rat \<Rightarrow> Configuration res" where
  "configuration_template paths now =
     configuration_init paths ''contributors.json'' (float_add now (6 * 60 * 60)) (24 * 60 * 60) ''key.pem'' ''cert.pem'' 5000
       (Some ''smtp.mymail.com:465'') (Some ''mpc_coordinator@mymail.com'') (Some ''password.txt'')"

definition j_opt_str :: "string option \<Rightarrow> json" where
  "j_opt_str x = (case x of None \<Rightarrow> JNull | Some s \<Rightarrow> JStr s)"

definition opt_str :: "json \<Rightarrow> string option res" where
  "opt_str j = (case j of JNull \<Rightarrow> Inr None | JStr s \<Rightarrow> Inr (Some s) | _ \<Rightarrow> Inl TypeError)"

definition configuration_to_json_dict :: "number_text \<Rightarrow> Configuration \<Rightarrow> json" where
  "configuration_to_json_dict T c =
     JObj [(''contributors_file'', JStr (contributors_file c)),
           (''start_time_utc'', JStr (format_time T (start_time_utc c))),
           (''contribution_interval'', JStr (format_float T (contribution_interval c))),
           (''email_server'', j_opt_str (email_server c)),
           (''email_address'', j_opt_str (email_address c)),
           (''email_password_file'', j_opt_str (email_password_file c)),
           (''tls_key'', JStr (tls_key c)),
           (''tls_certificate'', JStr (tls_certificate c)),
           (''port'', JInt (config_port c))]"

definition configuration_to_json_template_dict :: "number_text \<Rightarrow> Configuration \<Rightarrow> json" where
  "configuration_to_json_template_dict T c =
     JObj [(''contributors_file'', JStr (contributors_file c)),
           (''help'', JStr (''This is a generated template. Populate the fields below, '' @
              ''removing _REQUIRED_ and _OPTIONAL_ prefixes as necessary.'')),
           (''_REQUIRED_start_time_utc'', JStr (format_time T (start_time_utc c))),
           (''_REQUIRED_contribution_interval'', JStr (format_float T (contribution_interval c))),
           (''_OPTIONAL_email_server'', j_opt_str (email_server c)),
           (''_OPTIONAL_email_address'', j_opt_str (email_address c)),
           (''_OPTIONAL_email_password_file'', j_opt_str (email_password_file c)),
           (''_REQUIRED_tls_key'', JStr (tls_key c)),
           (''_REQUIRED_tls_certificate'', JStr (tls_certificate c)),
           (''_REQUIRED_port'', JInt (config_port c))]"

text \<open>\<open>int(x)\<close> on a value of a document.\<close>

definition j_to_int :: "json \<Rightarrow> int res" where
  "j_to_int j =
     (case j of JInt i \<Rightarrow> Inr i | JStr s \<Rightarrow> py_int_str s 10 | JBool b \<Rightarrow> Inr (of_bool b) | _ \<Rightarrow> Inl TypeError)"

definition configuration_from_json_dict ::
  "number_text \<Rightarrow> string set \<Rightarrow> json \<Rightarrow> string option \<Rightarrow> Configuration res" where
  "configuration_from_json_dict T paths j config_path =
     bindR (bindR (jget_str j ''start_time_utc'') (parse_time T)) (\<lambda>start.
     bindR (bindR (jget_default j ''email_password_file'' JNull) opt_str) (\<lambda>pw.
     let pw = if truthy pw \<and> truthy config_path then Some (path_join (dirname (the config_path)) (the pw)) else pw in
     bindR (jget_str j ''contributors_file'') (\<lambda>contributors.
     bindR (bindR (jget_str j ''contribution_interval'') (parse_float T)) (\<lambda>interval.
     bindR (bindR (jget_default j ''email_server'' JNull) opt_str) (\<lambda>server.
     bindR (bindR (jget_default j ''email_address'' JNull) opt_str) (\<lambda>address.
     bindR (jget_str j ''tls_key'') (\<lambda>key.
     bindR (jget_str j ''tls_certificate'') (\<lambda>cert.
     bindR (bindR (jget j ''port'') j_to_int) (\<lambda>port.
       configuration_init paths contributors (of_int start) interval key cert port server address pw)))))))))"

section \<open>Lemmas\<close>

text \<open>A configuration that the constructor made in a file system.\<close>

definition configuration_ok :: "string set \<Rightarrow> Configuration \<Rightarrow> bool" where
  "configuration_ok paths c \<longleftrightarrow>
     contributors_file c \<noteq> [] \<and> is_double (start_time_utc c) \<and> is_double (contribution_interval c)
     \<and> truthy (email_server c) = truthy (email_address c) \<and> truthy (email_server c) = truthy (email_password_file c)
     \<and> (truthy (email_password_file c) \<longrightarrow> the (email_password_file c) \<in> paths)"

lemma opt_str_json [simp]: "opt_str (j_opt_str x) = Inr x"
  by (simp add: opt_str_def j_opt_str_def split: option.splits)

lemma configuration_json:
  assumes "number_text_laws T" "configuration_ok paths c" "\<lfloor>start_time_utc c\<rfloor> \<noteq> 0"
  shows "configuration_from_json_dict T paths (configuration_to_json_dict T c) None =
    Inr (c\<lparr>start_time_utc := round_double (of_int \<lfloor>start_time_utc c\<rfloor>)\<rparr>)"
  using assms
  by (auto simp: configuration_from_json_dict_def configuration_to_json_dict_def json_get_defs number_text_laws_def
      configuration_ok_def configuration_init_def j_to_int_def truthy_def is_double_def Let_def)

end
