(* ===== verification/Cli_Utils.thy ===== *)
theory Cli_Utils
  imports Sync Server_Configuration
begin

text \<open>
  \<open>client/zeth/cli/utils.py\<close> and its constants: network and mixer descriptions, the files of
  addresses and keys, the parsing of outputs, and opening clients and wallets. A file, named
  by its path as the commands spell it, has a text, a document, the entries of a secret
  address or of a signing key pair, or bytes; reading one as another kind raises.
  \<open>Web3.toChecksumAddress\<close>, the connection to the network and the Solidity compiler are
  arguments. Writing to the console is left out.
\<close>

datatype cli_file =
    TextFile string
  | JsonFile json
  | SecretFile "string \<rightharpoonup> string"
  | KeyPairFile "(string \<times> string \<times> g1_json) \<times> g1_json \<times> g1_json"
  | BytesFile bytes

type_synonym cli_files = "string \<rightharpoonup> cli_file"

definition read_text :: "cli_files \<Rightarrow> string \<Rightarrow> string res" where
  "read_text fs f = (case fs f of None \<Rightarrow> Inl FileNotFoundError | Some (TextFile s) \<Rightarrow> Inr s | _ \<Rightarrow> Inl ValueError)"

definition read_json :: "cli_files \<Rightarrow> string \<Rightarrow> json res" where
  "read_json fs f = (case fs f of None \<Rightarrow> Inl FileNotFoundError | Some (JsonFile j) \<Rightarrow> Inr j | _ \<Rightarrow> Inl ValueError)"

section \<open>Constants\<close>

definition ETH_RPC_ENDPOINT_DEFAULTS :: "(string \<times> string) list" where
  "ETH_RPC_ENDPOINT_DEFAULTS =
     [(''ganache'', ''http://localhost:8545''), (''autonity-helloworld'', ''http://localhost:8541''),
      (''bakerloo'', ''https://rpc3.bakerloo.autonity.network:8545'')]"

definition ETH_NETWORK_FILE_DEFAULT :: string where "ETH_NETWORK_FILE_DEFAULT = ''eth-network''"
definition ETH_NETWORK_DEFAULT :: string where "ETH_NETWORK_DEFAULT = ''ganache''"
definition ZETH_SECRET_ADDRESS_FILE_DEFAULT :: string where "ZETH_SECRET_ADDRESS_FILE_DEFAULT = ''zeth-address.priv''"
definition ZETH_PUBLIC_ADDRESS_FILE_DEFAULT :: string where "ZETH_PUBLIC_ADDRESS_FILE_DEFAULT = ''zeth-address.pub''"
definition PROVER_SERVER_ENDPOINT_DEFAULT :: string where "PROVER_SERVER_ENDPOINT_DEFAULT = ''localhost:50051''"

definition INSTANCE_FILE_DEFAULT :: string where "INSTANCE_FILE_DEFAULT = ''zeth-instance''"

definition PROVER_CONFIGURATION_FILE_DEFAULT :: string where "PROVER_CONFIGURATION_FILE_DEFAULT = ''prover-config.cache''"

definition WALLET_DIR_DEFAULT :: string where "WALLET_DIR_DEFAULT = ''./wallet''"

definition ETH_ADDRESS_DEFAULT :: string where "ETH_ADDRESS_DEFAULT = ''eth-address''"
definition ETH_PRIVATE_KEY_FILE_DEFAULT :: string where "ETH_PRIVATE_KEY_FILE_DEFAULT = ''eth-private-key''"
definition WALLET_USERNAME :: string where "WALLET_USERNAME = ''zeth''"

section \<open>Networks\<close>

record NetworkConfig =
  net_name :: string
  net_endpoint :: string
  net_certificate :: "string option"
  net_insecure :: bool

definition network_to_json :: "NetworkConfig \<Rightarrow> json" where
  "network_to_json c =
     JObj ([(''name'', JStr (net_name c)), (''endpoint'', JStr (net_endpoint c))] @
           (if truthy (net_certificate c) then [(''certificate'', JStr (the (net_certificate c)))] else []) @
           (if net_insecure c then [(''insecure'', JBool True)] else []))"

text \<open>A missing \<open>insecure\<close> is \<open>None\<close>, which is only used as a truth value.\<close>

definition network_from_json :: "json \<Rightarrow> NetworkConfig res" where
  "network_from_json j =
     bindR (jget_str j ''name'') (\<lambda>name.
     bindR (jget_str j ''endpoint'') (\<lambda>endpoint.
     bindR (bindR (jget_default j ''certificate'' JNull) opt_str) (\<lambda>certificate.
     bindR (jget_default j ''insecure'' JNull) (\<lambda>insecure.
       Inr \<lparr>net_name = name, net_endpoint = endpoint, net_certificate = certificate, net_insecure = j_truth insecure\<rparr>))))"

definition get_eth_network :: "cli_files \<Rightarrow> string option \<Rightarrow> NetworkConfig res" where
  "get_eth_network fs eth_network =
     (let net = (case eth_network of
                   Some n \<Rightarrow> n
                 | None \<Rightarrow> if fs ETH_NETWORK_FILE_DEFAULT \<noteq> None then ETH_NETWORK_FILE_DEFAULT else ETH_NETWORK_DEFAULT)
      in if startswith net ''http''
         then Inr \<lparr>net_name = ETH_NETWORK_DEFAULT, net_endpoint = net, net_certificate = None, net_insecure = False\<rparr>
         else if fs net \<noteq> None then bindR (read_json fs net) network_from_json
         else (case map_of ETH_RPC_ENDPOINT_DEFAULTS net of
                 Some endpoint \<Rightarrow>
                   Inr \<lparr>net_name = net, net_endpoint = endpoint, net_certificate = None, net_insecure = False\<rparr>
               | None \<Rightarrow> Inl (ClickException (''invalid network name / url: '' @ net))))"

definition load_contract_address :: "(string \<Rightarrow> string res) \<Rightarrow> cli_files \<Rightarrow> string \<Rightarrow> string res" where
  "load_contract_address toChecksumAddress fs contract_addr =
     (if startswith contract_addr ''0x'' then toChecksumAddress contract_addr
      else if fs contract_addr \<noteq> None then
        bindR (bindR (read_json fs contract_addr) instance_from_json_dict) (\<lambda>i. toChecksumAddress (inst_address i))
      else Inl (ClickException (''failed to parse as address or instance file: '' @ contract_addr)))"

section \<open>Mixer descriptions\<close>

record MixerDescription =
  md_mixer :: InstanceDescription
  md_token :: "InstanceDescription option"
  md_permitted_dispatcher :: "string option"
  md_vk_hash :: "string option"

definition mixer_desc_to_json_dict :: "MixerDescription \<Rightarrow> json" where
  "mixer_desc_to_json_dict d =
     (let zeth_mixer =
        (case md_token d of None \<Rightarrow> [] | Some t \<Rightarrow> [(''token'', instance_to_json_dict t)]) @
        (if truthy (md_permitted_dispatcher d) then [(''permitted_dispatcher'', JStr (the (md_permitted_dispatcher d)))] else []) @
        (if truthy (md_vk_hash d) then [(''vk_hash'', JStr (the (md_vk_hash d)))] else [])
      in case instance_to_json_dict (md_mixer d) of
           JObj kvs \<Rightarrow> JObj (kvs @ [(''zeth_mixer'', JObj zeth_mixer)])
         | j \<Rightarrow> j)"

definition mixer_desc_from_json_dict :: "json \<Rightarrow> MixerDescription res" where
  "mixer_desc_from_json_dict j =
     bindR (jget j ''zeth_mixer'') (\<lambda>zeth_mixer.
     bindR (instance_from_json_dict j) (\<lambda>mixer.
     bindR (jget_default zeth_mixer ''token'' JNull) (\<lambda>token_dict.
     bindR (if j_truth token_dict then bindR (instance_from_json_dict token_dict) (\<lambda>t. Inr (Some t)) else Inr None) (\<lambda>token.
     bindR (bindR (jget_default zeth_mixer ''permitted_dispatcher'' JNull) opt_str) (\<lambda>dispatcher.
     bindR (bindR (jget_default zeth_mixer ''vk_hash'' JNull) opt_str) (\<lambda>vk_hash.
       Inr \<lparr>md_mixer = mixer, md_token = token, md_permitted_dispatcher = dispatcher, md_vk_hash = vk_hash\<rparr>))))))"

definition write_mixer_description :: "cli_files \<Rightarrow> string \<Rightarrow> MixerDescription \<Rightarrow> cli_files" where
  "write_mixer_description fs f d = fs(f \<mapsto> JsonFile (mixer_desc_to_json_dict d))"

definition load_mixer_description :: "cli_files \<Rightarrow> string \<Rightarrow> MixerDescription res" where
  "load_mixer_description fs f = bindR (read_json fs f) mixer_desc_from_json_dict"

section \<open>Addresses and keys\<close>

text \<open>\<open>os.path.splitext(p)[0]\<close>: without the last extension of the last component.\<close>

definition splitext_root :: "string \<Rightarrow> string" where
  "splitext_root p =
     (let name = rev (takeWhile (\<lambda>c. c \<noteq> CHR ''/'') (rev p));
          dir = rev (dropWhile (\<lambda>c. c \<noteq> CHR ''/'') (rev p));
          stem = rev (tl (dropWhile (\<lambda>c. c \<noteq> CHR ''.'') (rev name)))
      in if CHR ''.'' \<in> set name \<and> \<not> list_all (\<lambda>c. c = CHR ''.'') stem then dir @ stem else p)"

definition pub_address_file :: "string \<Rightarrow> string" where
  "pub_address_file addr_file = splitext_root addr_file @ ''.pub''"

definition find_pub_address_file :: "cli_files \<Rightarrow> string \<Rightarrow> string res" where
  "find_pub_address_file fs base_file =
     (let pub_addr_file = pub_address_file base_file
      in if fs pub_addr_file \<noteq> None then Inr pub_addr_file
         else if fs base_file \<noteq> None then Inr base_file
         else Inl (ClickException (''No public key file '' @ pub_addr_file @ '' or '' @ base_file)))"

definition load_zeth_address_public :: "('sk, 'pk) enc_lib \<Rightarrow> cli_files \<Rightarrow> string \<Rightarrow> 'pk ZethAddressPub res" where
  "load_zeth_address_public L fs address_file =
     bindR (read_text fs (pub_address_file address_file)) (zeth_address_pub_parse L)"

definition write_zeth_address_public ::
  "('sk, 'pk) enc_lib \<Rightarrow> cli_files \<Rightarrow> 'pk ZethAddressPub \<Rightarrow> string \<Rightarrow> cli_files \<times> unit res" where
  "write_zeth_address_public L fs pub_addr f =
     (case zeth_address_pub_str L pub_addr of
        Inl e \<Rightarrow> (fs(f \<mapsto> TextFile []), Inl e)
      | Inr s \<Rightarrow> (fs(f \<mapsto> TextFile s), Inr ()))"

definition load_zeth_address_secret :: "('sk, 'pk) enc_lib \<Rightarrow> cli_files \<Rightarrow> string \<Rightarrow> 'sk ZethAddressPriv res" where
  "load_zeth_address_secret L fs address_file =
     (case fs address_file of
        None \<Rightarrow> Inl FileNotFoundError
      | Some (SecretFile d) \<Rightarrow> zeth_address_priv_from_json_dict L d
      | _ \<Rightarrow> Inl ValueError)"

definition write_zeth_address_secret ::
  "('sk, 'pk) enc_lib \<Rightarrow> cli_files \<Rightarrow> 'sk ZethAddressPriv \<Rightarrow> string \<Rightarrow> cli_files \<times> unit res" where
  "write_zeth_address_secret L fs secret_addr f =
     (case zeth_address_priv_to_json_dict L secret_addr of
        Inl e \<Rightarrow> (fs(f \<mapsto> TextFile []), Inl e)
      | Inr d \<Rightarrow> (fs(f \<mapsto> SecretFile d), Inr ()))"

definition load_zeth_address :: "('sk, 'pk) enc_lib \<Rightarrow> cli_files \<Rightarrow> string \<Rightarrow> ('sk, 'pk) ZethAddress res" where
  "load_zeth_address L fs address_file =
     bindR (load_zeth_address_secret L fs address_file) (\<lambda>sk.
     bindR (load_zeth_address_public L fs address_file) (\<lambda>pk.
       Inr (zeth_address_from_secret_public sk pk)))"

definition parse_output :: "('sk, 'pk) crypto \<Rightarrow> cli_files \<Rightarrow> string \<Rightarrow> ('pk ZethAddressPub \<times> EtherValue) res" where
  "parse_output C fs output_str =
     bindR (case split_on CHR '','' output_str of
              [v] \<Rightarrow> Inr (ZETH_PUBLIC_ADDRESS_FILE_DEFAULT, v)
            | [a, v] \<Rightarrow> Inr (a, v)
            | _ \<Rightarrow> Inl (ClickException (''invalid output spec: '' @ output_str))) (\<lambda>(addr, v).
     bindR (if fs addr \<noteq> None then read_text fs addr else Inr addr) (\<lambda>addr.
     bindR (zeth_address_pub_parse (c_enc C) addr) (\<lambda>pub.
     bindR (ether_value (c_toWei C) (NumStr v) ''ether'') (\<lambda>value.
       Inr (pub, value)))))"

definition load_eth_address :: "(string \<Rightarrow> string res) \<Rightarrow> cli_files \<Rightarrow> string option \<Rightarrow> string res" where
  "load_eth_address toChecksumAddress fs eth_addr =
     (let addr = if truthy eth_addr then the eth_addr else ETH_ADDRESS_DEFAULT
      in if startswith addr ''0x'' then toChecksumAddress addr
         else if fs addr \<noteq> None then bindR (read_text fs addr) (\<lambda>s. toChecksumAddress (rstrip s))
         else Inl (ClickException (''could find file or parse eth address: '' @ addr)))"

definition write_eth_address :: "cli_files \<Rightarrow> string \<Rightarrow> string \<Rightarrow> cli_files \<times> unit res" where
  "write_eth_address fs eth_addr f =
     (if fs f \<noteq> None then (fs, Inl (ClickException (''refusing to overwrite address '' @ [CHR 0x22] @ f @ [CHR 0x22])))
      else (fs(f \<mapsto> TextFile eth_addr), Inr ()))"

text \<open>
  The bytes of a file; \<open>encode_doc\<close> is the JSON encoding of the documents.
\<close>

definition file_bytes :: "(cli_file \<Rightarrow> bytes) \<Rightarrow> cli_file \<Rightarrow> bytes" where
  "file_bytes encode_doc c = (case c of BytesFile bs \<Rightarrow> bs | TextFile s \<Rightarrow> map of_char s | _ \<Rightarrow> encode_doc c)"

definition load_eth_private_key :: "(cli_file \<Rightarrow> bytes) \<Rightarrow> cli_files \<Rightarrow> string option \<Rightarrow> bytes option" where
  "load_eth_private_key encode_doc fs private_key_file =
     (let f = if truthy private_key_file then the private_key_file else ETH_PRIVATE_KEY_FILE_DEFAULT
      in map_option (\<lambda>c. take 32 (file_bytes encode_doc c)) (fs f))"

definition write_eth_private_key :: "cli_files \<Rightarrow> bytes \<Rightarrow> string \<Rightarrow> cli_files \<times> unit res" where
  "write_eth_private_key fs private_key f =
     (if fs f \<noteq> None then (fs, Inl (ClickException (''refusing to overwrite private key '' @ [CHR 0x22] @ f @ [CHR 0x22])))
      else (fs(f \<mapsto> BytesFile private_key), Inr ()))"

definition zeth_note_short :: "('sk, 'pk) wallet_env \<Rightarrow> ZethNoteDescription \<Rightarrow> string res" where
  "zeth_note_short env d =
     bindR (bindR (py_int_str (note_value (nd_note d)) 16) (from_zeth_units (c_toWei (we_crypto env)))) (\<lambda>value.
       Inr (short_commitment (nd_commitment d) @ '': value='' @ we_ether env value @ '' ETH, addr='' @ str_int (nd_address d)))"

section \<open>Clients\<close>

text \<open>
  What the commands work with: the wallet's environment, Keccak, the prover service, checksum
  addresses, the connection to a network and the Solidity compiler. A connection is opened
  with the URL, the timeout and \<open>verify\<close>: \<open>Inl False\<close>, or the certificate.
\<close>

record ('sk, 'pk) cli_env =
  ce_wallet :: "('sk, 'pk) wallet_env"
  ce_keccak :: digest_fn
  ce_floor_log2 :: "int \<Rightarrow> int"
  ce_server :: prover_server
  ce_checksum :: "string \<Rightarrow> string res"
  ce_http_provider :: "string \<Rightarrow> int \<Rightarrow> bool + string option \<Rightarrow> unit res"
  ce_instantiate :: "InstanceDescription \<Rightarrow> unit res"
  ce_compile_files :: "string list \<Rightarrow> json res"
  ce_zeth_dir :: string
  ce_encode_doc :: "cli_file \<Rightarrow> bytes"

definition WEB3_HTTP_PROVIDER_TIMEOUT_SEC :: int where "WEB3_HTTP_PROVIDER_TIMEOUT_SEC = 60"

definition open_web3 ::
  "(string \<Rightarrow> int \<Rightarrow> bool + string option \<Rightarrow> unit res) \<Rightarrow> cli_files \<Rightarrow> string \<Rightarrow> string option \<Rightarrow> bool \<Rightarrow> unit res" where
  "open_web3 http_provider fs url certificate insecure =
     (if truthy certificate \<and> fs (the certificate) = None then Inl FileNotFoundError
      else http_provider url WEB3_HTTP_PROVIDER_TIMEOUT_SEC (if insecure then Inl False else Inr certificate))"

record ClientConfig =
  cc_eth_network :: "string option"
  cc_prover_server_endpoint :: string
  cc_prover_config_file :: string
  cc_instance_file :: string
  cc_address_file :: string
  cc_wallet_dir :: string

definition open_web3_from_network :: "('sk, 'pk) cli_env \<Rightarrow> cli_files \<Rightarrow> NetworkConfig \<Rightarrow> unit res" where
  "open_web3_from_network env fs eth_net =
     open_web3 (ce_http_provider env) fs (net_endpoint eth_net) (net_certificate eth_net) (net_insecure eth_net)"

definition open_web3_from_ctx :: "('sk, 'pk) cli_env \<Rightarrow> cli_files \<Rightarrow> ClientConfig \<Rightarrow> unit res" where
  "open_web3_from_ctx env fs ctx = bindR (get_eth_network fs (cc_eth_network ctx)) (open_web3_from_network env fs)"

definition load_mixer_description_from_ctx :: "cli_files \<Rightarrow> ClientConfig \<Rightarrow> MixerDescription res" where
  "load_mixer_description_from_ctx fs ctx = load_mixer_description fs (cc_instance_file ctx)"

definition get_zeth_address_file :: "ClientConfig \<Rightarrow> string" where
  "get_zeth_address_file ctx = cc_address_file ctx"

definition get_erc20_abi :: "('sk, 'pk) cli_env \<Rightarrow> json res" where
  "get_erc20_abi env =
     (let openzeppelin_dir = path_join (path_join (path_join (ce_zeth_dir env) ''zeth_contracts'') ''node_modules'') ''openzeppelin-solidity'';
          ierc20_path = path_join (path_join (path_join (path_join openzeppelin_dir ''contracts'') ''token'') ''ERC20'') ''IERC20.sol''
      in bindR (ce_compile_files env [ierc20_path]) (\<lambda>compiled_sol.
         bindR (jget compiled_sol (ierc20_path @ '':IERC20'')) (\<lambda>erc20_interface.
           jget erc20_interface ''abi'')))"

definition get_erc20_instance_description :: "('sk, 'pk) cli_env \<Rightarrow> string \<Rightarrow> InstanceDescription res" where
  "get_erc20_instance_description env token_address =
     bindR (get_erc20_abi env) (\<lambda>abi. Inr \<lparr>inst_address = token_address, inst_abi = abi\<rparr>)"

text \<open>The cache file of the prover configuration is kept apart from the other files.\<close>

definition create_prover_client :: "ClientConfig \<Rightarrow> ProverClient" where
  "create_prover_client ctx = prover_client_init (Some (cc_prover_config_file ctx))"

text \<open>The mixer client is its prover configuration.\<close>

definition create_mixer_client_and_mixer_desc ::
  "('sk, 'pk) cli_env \<Rightarrow> cli_files \<Rightarrow> ClientConfig \<Rightarrow> prover_state \<Rightarrow> prover_state \<times> (ProverConfiguration \<times> MixerDescription) res" where
  "create_mixer_client_and_mixer_desc env fs ctx st =
     bindS (st, open_web3_from_ctx env fs ctx) (\<lambda>st _.
     bindS (st, load_mixer_description_from_ctx fs ctx) (\<lambda>st mixer_desc.
     bindS (st, ce_instantiate env (md_mixer mixer_desc)) (\<lambda>st _.
     bindS (get_configuration (ce_floor_log2 env) (ce_server env) st) (\<lambda>st config.
       (st, Inr (config, mixer_desc))))))"

definition create_mixer_client ::
  "('sk, 'pk) cli_env \<Rightarrow> cli_files \<Rightarrow> ClientConfig \<Rightarrow> prover_state \<Rightarrow> prover_state \<times> ProverConfiguration res" where
  "create_mixer_client env fs ctx st =
     bindS (create_mixer_client_and_mixer_desc env fs ctx st) (\<lambda>st (mixer_client, _). (st, Inr mixer_client))"

text \<open>
  Directories from the variables of the process; \<open>module_root\<close> is the directory three levels above
  the module.
\<close>

definition get_zeth_dir :: "(string \<rightharpoonup> string) \<Rightarrow> string \<Rightarrow> string" where
  "get_zeth_dir environ module_root = (case environ ''ZETH'' of Some d \<Rightarrow> d | None \<Rightarrow> module_root)"

definition get_contracts_dir :: "(string \<rightharpoonup> string) \<Rightarrow> string \<Rightarrow> string" where
  "get_contracts_dir environ module_root =
     (case environ ''ZETH_CONTRACTS_DIR'' of
        Some d \<Rightarrow> d
      | None \<Rightarrow> path_join (path_join (get_zeth_dir environ module_root) ''zeth_contracts'') ''contracts'')"

text \<open>
  The wallet is opened with a prover client of its own, which shares only the cache file with
  the caller's. The hash of the tree is that of the pairing in the configuration; the
  wallet comes with its environment in which this hash is set.
\<close>

definition open_wallet ::
  "('sk, 'pk) cli_env \<Rightarrow> ClientConfig \<Rightarrow> json_files \<Rightarrow> 'sk ZethAddressPriv \<Rightarrow> wallet_disk \<Rightarrow> 
   json_files \<times> (('sk, 'pk) wallet_env \<times> 'sk Wallet) res" where
  "open_wallet env ctx jf js_secret disk =
     (let (st, prover_config) = get_configuration (ce_floor_log2 env) (ce_server env) (create_prover_client ctx, jf)
      in (snd st,
          bindR prover_config (\<lambda>config.
          bindR (get_tree_hash_for_pairing (ce_keccak env) (pp_name (pairing_parameters config))) (\<lambda>tree_hash.
            let wenv = (ce_wallet env)\<lparr>we_hash := mimc_tree_hash (ce_keccak env) tree_hash\<rparr>
            in bindR (wallet_init wenv WALLET_USERNAME js_secret disk) (\<lambda>w. Inr (wenv, w))))))"

section \<open>Lemmas\<close>

text \<open>The two default names of the address files belong together, as the constants require.\<close>

lemma default_address_files:
  "pub_address_file ZETH_SECRET_ADDRESS_FILE_DEFAULT = ZETH_PUBLIC_ADDRESS_FILE_DEFAULT"
  "fs ZETH_PUBLIC_ADDRESS_FILE_DEFAULT \<noteq> None \<Longrightarrow>
     find_pub_address_file fs ZETH_SECRET_ADDRESS_FILE_DEFAULT = Inr ZETH_PUBLIC_ADDRESS_FILE_DEFAULT"
proof -
  show *: "pub_address_file ZETH_SECRET_ADDRESS_FILE_DEFAULT = ZETH_PUBLIC_ADDRESS_FILE_DEFAULT"
    by code_simp
  show "find_pub_address_file fs ZETH_SECRET_ADDRESS_FILE_DEFAULT = Inr ZETH_PUBLIC_ADDRESS_FILE_DEFAULT"
    if "fs ZETH_PUBLIC_ADDRESS_FILE_DEFAULT \<noteq> None"
    using that by (simp add: find_pub_address_file_def *)
qed

text \<open>Descriptions read back, up to empty strings, which are not written.\<close>

definition drop_empty :: "string option \<Rightarrow> string option" where
  "drop_empty x = (if truthy x then x else None)"

lemma opt_str_simps [simp]: "opt_str JNull = Inr None" "opt_str (JStr s) = Inr (Some s)"
  by (simp_all add: opt_str_def)

lemma truthy_Some_the: "truthy x \<Longrightarrow> Some (the x) = x"
  by (cases x) (simp_all add: truthy_def)

lemma mixer_desc_json:
  "mixer_desc_from_json_dict (mixer_desc_to_json_dict d) =
     Inr (d\<lparr>md_permitted_dispatcher := drop_empty (md_permitted_dispatcher d), md_vk_hash := drop_empty (md_vk_hash d)\<rparr>)"
  by (auto simp: mixer_desc_from_json_dict_def mixer_desc_to_json_dict_def instance_to_json_dict_def
      instance_from_json_dict_def json_get_defs drop_empty_def truthy_Some_the split: option.splits)

lemma load_written_mixer_description:
  "load_mixer_description (write_mixer_description fs f d) f =
     Inr (d\<lparr>md_permitted_dispatcher := drop_empty (md_permitted_dispatcher d), md_vk_hash := drop_empty (md_vk_hash d)\<rparr>)"
  by (simp add: load_mixer_description_def write_mixer_description_def read_json_def mixer_desc_json)

lemma network_json:
  "network_from_json (network_to_json c) = Inr (c\<lparr>net_certificate := drop_empty (net_certificate c)\<rparr>)"
  by (auto simp: network_from_json_def network_to_json_def json_get_defs drop_empty_def truthy_Some_the)

lemma eth_private_key_file:
  assumes "fs f = None" "f \<noteq> []" "length key = 32"
  shows "\<exists>fs'. write_eth_private_key fs key f = (fs', Inr ()) \<and> load_eth_private_key enc fs' (Some f) = Some key"
  using assms by (simp add: write_eth_private_key_def load_eth_private_key_def file_bytes_def truthy_def)

end
