(* ===== verification/Cli_Commands.thy ===== *)
theory Cli_Commands
  imports Cli_Utils
begin

text \<open>
  The commands of \<open>client/zeth/cli\<close>: generating an address, deploying, syncing, listing notes and
  mixing. A command works on the files and the cache of the prover configuration; an exception
  leaves what was written before it. Printing is left out, except for the values printed.
\<close>

section \<open>The command group\<close>

text \<open>
  What \<open>zeth\<close> does before a command runs: options that are not given have their default, and without a
  command, or for \<open>help\<close>, it fails after printing the help. The result is the context of the command.
\<close>

definition click_default :: "string \<Rightarrow> string option \<Rightarrow> string" where
  "click_default d v = (case v of None \<Rightarrow> d | Some s \<Rightarrow> s)"

definition help_cmd :: "'a res" where
  "help_cmd = Inl (ClickException ''no command specified'')"

definition zeth_group ::
  "string option \<Rightarrow> string option \<Rightarrow> string option \<Rightarrow> string option \<Rightarrow> string option \<Rightarrow> string option \<Rightarrow> string option \<Rightarrow> ClientConfig res" where
  "zeth_group subcommand eth_network prover_server config_file instance_file address_file wallet_dir =
     (if click_default ''help'' subcommand = ''help'' then help_cmd
      else Inr \<lparr>cc_eth_network = eth_network,
                cc_prover_server_endpoint = click_default PROVER_SERVER_ENDPOINT_DEFAULT prover_server,
                cc_prover_config_file = click_default PROVER_CONFIGURATION_FILE_DEFAULT config_file,
                cc_instance_file = click_default INSTANCE_FILE_DEFAULT instance_file,
                cc_address_file = click_default ZETH_SECRET_ADDRESS_FILE_DEFAULT address_file,
                cc_wallet_dir = click_default WALLET_DIR_DEFAULT wallet_dir\<rparr>)"

text \<open>\<open>zeth_helper\<close> has the network as the only entry of its context.\<close>

definition zeth_helper_group :: "string option \<Rightarrow> string option \<Rightarrow> string option res" where
  "zeth_helper_group subcommand eth_network =
     (if click_default ''help'' subcommand = ''help'' then help_cmd else Inr eth_network)"

section \<open>Addresses\<close>

text \<open>The generated address is an argument.\<close>

definition gen_address ::
  "('sk, 'pk) enc_lib \<Rightarrow> ('sk, 'pk) ZethAddress res \<Rightarrow> cli_files \<Rightarrow> string \<Rightarrow> cli_files \<times> unit res" where
  "gen_address L generated fs addr_file =
     (if fs addr_file \<noteq> None then (fs, Inl (ClickException (''ZethAddress file '' @ addr_file @ '' exists'')))
      else let pub_addr_file = pub_address_file addr_file
           in if fs pub_addr_file \<noteq> None
              then (fs, Inl (ClickException (''ZethAddress pub file '' @ pub_addr_file @ '' exists'')))
              else bindS (fs, generated) (\<lambda>fs zeth_address.
                   bindS (write_zeth_address_secret L fs (addr_sk zeth_address) addr_file) (\<lambda>fs _.
                     write_zeth_address_public L fs (addr_pk zeth_address) pub_addr_file)))"

section \<open>Deployment\<close>

definition zeth_deploy ::
  "('sk, 'pk) cli_env \<Rightarrow> ('call, 'tx) web3_lib \<Rightarrow> string \<Rightarrow> ClientConfig \<Rightarrow> string option \<Rightarrow> string option \<Rightarrow> string \<Rightarrow>
   string option \<Rightarrow> string option \<Rightarrow> string option \<Rightarrow> int option \<Rightarrow> json_files \<times> cli_files \<Rightarrow> (json_files \<times> cli_files) \<times> unit res" where
  "zeth_deploy env web3 contracts_dir ctx eth_addr eth_private_key instance_out token_address permitted_dispatcher vk_hash deploy_gas st0 =
     bindS (st0, load_eth_address (ce_checksum env) (snd st0) eth_addr) (\<lambda>(jf, fs) eth_address.
     let key = load_eth_private_key (ce_encode_doc env) fs eth_private_key in
     bindS ((jf, fs), open_web3_from_ctx env fs ctx) (\<lambda>(jf, fs) _.
     if truthy permitted_dispatcher \<noteq> truthy vk_hash
     then ((jf, fs), Inl (ClickException ''Must supply BOTH --permitted-dispatch AND --vk-hash, or NEITHER''))
     else
     bindS ((jf, fs), if truthy permitted_dispatcher
                      then bindR (load_contract_address (ce_checksum env) fs (the permitted_dispatcher)) (\<lambda>a. Inr (Some a))
                      else Inr permitted_dispatcher) (\<lambda>(jf, fs) dispatcher.
     bindS ((jf, fs), if truthy token_address
                      then bindR (get_erc20_instance_description env (the token_address)) (\<lambda>d. Inr (Some d))
                      else Inr None) (\<lambda>(jf, fs) token.
     let (st, deployed) = mixer_deploy web3 (ce_compile_files env) (ce_floor_log2 env) (ce_server env)
                            (create_prover_client ctx, jf) contracts_dir eth_address key token_address dispatcher vk_hash deploy_gas in
     bindS ((snd st, fs), deployed) (\<lambda>(jf, fs) (_, mixer).
       ((jf, write_mixer_description fs instance_out
               \<lparr>md_mixer = mixer, md_token = token, md_permitted_dispatcher = dispatcher, md_vk_hash = vk_hash\<rparr>), Inr ()))))))"

section \<open>Syncing and listing\<close>

text \<open>What \<open>sync\<close> and \<open>ls_notes\<close> do first.\<close>

definition open_ctx_wallet ::
  "('sk, 'pk) cli_env \<Rightarrow> ClientConfig \<Rightarrow> cli_files \<Rightarrow> wallet_disk \<Rightarrow> json_files \<Rightarrow>
   json_files \<times> (('sk, 'pk) wallet_env \<times> 'sk Wallet) res" where
  "open_ctx_wallet env ctx fs disk jf =
     bindS (jf, open_web3_from_ctx env fs ctx) (\<lambda>jf _.
     bindS (jf, load_mixer_description_from_ctx fs ctx) (\<lambda>jf mixer_desc.
     bindS (jf, ce_instantiate env (md_mixer mixer_desc)) (\<lambda>jf _.
     bindS (jf, load_zeth_address_secret (c_enc (we_crypto (ce_wallet env))) fs (get_zeth_address_file ctx)) (\<lambda>jf js_secret.
       open_wallet env ctx jf js_secret disk))))"

text \<open>
  The command \<open>sync\<close>, with the node's answers as in \<open>do_sync\<close>; the batch size is in them. The result
  is the wallet, once it is open, and the block synced to.
\<close>

definition zeth_sync ::
  "('sk, 'pk) cli_env \<Rightarrow> ClientConfig \<Rightarrow> cli_files \<Rightarrow> wallet_disk \<Rightarrow> (int \<Rightarrow> int \<Rightarrow> MixResult gen option) \<Rightarrow> int \<Rightarrow>
   (int \<Rightarrow> int \<Rightarrow> MixResult gen option) \<Rightarrow> int \<Rightarrow> (string \<Rightarrow> unit res) \<Rightarrow> string option \<Rightarrow> json_files \<Rightarrow>
   ((json_files \<times> 'sk Wallet option) \<times> int res) option" where
  "zeth_sync env ctx fs disk results1 block1 results2 block2 wait_receipt wait_tx jf =
     (let (jf, opened) = open_ctx_wallet env ctx fs disk jf
      in case opened of
           Inl e \<Rightarrow> Some ((jf, None), Inl e)
         | Inr (wenv, w) \<Rightarrow>
             let (st, config) = get_configuration (ce_floor_log2 env) (ce_server env) (create_prover_client ctx, jf)
             in case config of
                  Inl e \<Rightarrow> Some ((snd st, Some w), Inl e)
                | Inr c \<Rightarrow>
                    map_option (\<lambda>(w, r). ((snd st, Some w), r))
                      (do_sync wenv (pairing_parameters c) results1 block1 results2 block2 wait_receipt wait_tx w))"

fun ether_sum :: "to_wei \<Rightarrow> EtherValue \<Rightarrow> EtherValue list \<Rightarrow> EtherValue res" where
  "ether_sum toWei acc [] = Inr acc"
| "ether_sum toWei acc (v # vs) = bindR (ether_add toWei acc v) (\<lambda>t. ether_sum toWei t vs)"

text \<open>The total balance that \<open>ls_notes\<close> prints, and the spent notes it lists when asked to.\<close>

definition ls_notes_total :: "('sk, 'pk) wallet_env \<Rightarrow> 'sk Wallet \<Rightarrow> EtherValue res" where
  "ls_notes_total env w =
     bindR (ether_value (c_toWei (we_crypto env)) (NumInt 0) ''ether'') (\<lambda>zero.
     bindR (note_summaries env w) (\<lambda>summaries.
       ether_sum (c_toWei (we_crypto env)) zero (map (\<lambda>(_, _, v). v) summaries)))"

definition ls_notes ::
  "('sk, 'pk) cli_env \<Rightarrow> ClientConfig \<Rightarrow> cli_files \<Rightarrow> wallet_disk \<Rightarrow> bool \<Rightarrow> json_files \<Rightarrow>
   json_files \<times> (EtherValue \<times> (int \<times> string \<times> EtherValue) list) res" where
  "ls_notes env ctx fs disk spent jf =
     bindS (open_ctx_wallet env ctx fs disk jf) (\<lambda>jf (wenv, w).
     bindS (jf, ls_notes_total wenv w) (\<lambda>jf balance.
     bindS (jf, if spent then spent_note_summaries wenv w else Inr []) (\<lambda>jf spent_notes.
       (jf, Inr (balance, spent_notes)))))"

text \<open>The short commitments that \<open>ls_commits\<close> prints.\<close>

definition ls_commits ::
  "('sk, 'pk) cli_env \<Rightarrow> ClientConfig \<Rightarrow> cli_files \<Rightarrow> wallet_disk \<Rightarrow> json_files \<Rightarrow> json_files \<times> string list res" where
  "ls_commits env ctx fs disk jf =
     (let (st, client) = create_mixer_client_and_mixer_desc env fs ctx (create_prover_client ctx, jf)
      in bindS (snd st, client) (\<lambda>jf _.
         bindS (jf, load_zeth_address (c_enc (we_crypto (ce_wallet env))) fs (get_zeth_address_file ctx)) (\<lambda>jf zeth_address.
         bindS (open_wallet env ctx jf (addr_sk zeth_address) disk) (\<lambda>jf (wenv, w).
           (jf, bindR (get_leaves (w_tree w)) (\<lambda>leaves. Inr (map short_commitment leaves)))))))"

text \<open>The verification key as a document, written to a file when one is given.\<close>

definition zeth_get_verification_key ::
  "('sk, 'pk) cli_env \<Rightarrow> ClientConfig \<Rightarrow> string option \<Rightarrow> json_files \<times> cli_files \<Rightarrow> (json_files \<times> cli_files) \<times> json res" where
  "zeth_get_verification_key env ctx vk_out start =
     (let (st, key) = get_verification_key (ce_floor_log2 env) (ce_server env) (create_prover_client ctx, fst start)
      in bindS ((snd st, snd start), key) (\<lambda>(jf, fs) k.
           ((jf, if truthy vk_out then fs(the vk_out \<mapsto> JsonFile (ivk_to_json_dict k)) else fs), Inr (ivk_to_json_dict k))))"

section \<open>Waiting for a transaction\<close>

text \<open>The lines for \<open>LogDebug\<close> events, and the \<open>LogMix\<close> events, which are printed as they are.\<close>

definition debug_line :: "string \<times> int \<Rightarrow> string" where
  "debug_line args = '' '' @ fst args @ '': '' @ str_int (snd args) @ '' ('' @ py_hex (snd args) @ '')''"

definition zeth_wait ::
  "('sk, 'pk) cli_env \<Rightarrow> (string \<Rightarrow> 'd event_log list res) \<Rightarrow> bytes \<Rightarrow> ('d event_log \<Rightarrow> (string \<times> int) res) \<Rightarrow> bytes \<Rightarrow>
   ('d event_log \<Rightarrow> event_args res) \<Rightarrow> cli_files \<Rightarrow> ClientConfig \<Rightarrow> string \<Rightarrow> (string list \<times> event_args list) res" where
  "zeth_wait env wait_receipt debug_topic process_debug mix_topic process_mix fs ctx transaction_id =
     bindR (load_mixer_description_from_ctx fs ctx) (\<lambda>mixer_desc.
     bindR (open_web3_from_ctx env fs ctx) (\<lambda>_.
     bindR (ce_instantiate env (md_mixer mixer_desc)) (\<lambda>_.
     bindR (wait_receipt transaction_id) (\<lambda>logs.
     bindR (gen_list (receipt_events (inst_address (md_mixer mixer_desc)) debug_topic process_debug logs)) (\<lambda>debug_logs.
     bindR (gen_list (receipt_events (inst_address (md_mixer mixer_desc)) mix_topic process_mix logs)) (\<lambda>mix_logs.
       Inr (map debug_line debug_logs, mix_logs)))))))"

section \<open>Mixing\<close>

record 'pk MixPlan =
  plan_inputs :: "(int \<times> ZethNote) list"
  plan_outputs :: "('pk ZethAddressPub \<times> EtherValue) list"
  plan_eth_address :: string
  plan_tx_value :: EtherValue

text \<open>From the note identifiers to the value of the transaction, with the check of the balance.\<close>

definition mix_plan ::
  "('sk, 'pk) cli_env \<Rightarrow> cli_files \<Rightarrow> MixerDescription \<Rightarrow> 'sk Wallet \<Rightarrow> EtherValue \<Rightarrow> EtherValue \<Rightarrow> string list \<Rightarrow> string list \<Rightarrow>
   string option \<Rightarrow> 'pk MixPlan res" where
  "mix_plan env fs mixer_desc w vin_pub vout_pub input_notes output_specs eth_addr =
     (let C = we_crypto (ce_wallet env); toWei = c_toWei C in
      bindR (mapR (\<lambda>note_id. bindR (find_note w note_id) (\<lambda>d. Inr (as_input d))) input_notes) (\<lambda>inputs.
      bindR (mapR (parse_output C fs) output_specs) (\<lambda>outputs.
      bindR (mapR (\<lambda>(_, n). py_int_str (note_value n) 16) inputs) (\<lambda>units.
      bindR (from_zeth_units toWei (sum_list units)) (\<lambda>input_note_sum.
      bindR (ether_value toWei (NumInt 0) ''ether'') (\<lambda>zero.
      bindR (ether_sum toWei zero (map snd outputs)) (\<lambda>output_note_sum.
      bindR (ether_add toWei vin_pub input_note_sum) (\<lambda>total_in.
      bindR (ether_add toWei vout_pub output_note_sum) (\<lambda>total_out.
      if total_in \<noteq> total_out then Inl (ClickException ''input and output value mismatch'')
      else bindR (load_eth_address (ce_checksum env) fs eth_addr) (\<lambda>eth_address.
           bindR (if md_token mixer_desc \<noteq> None then ether_value toWei (NumInt 0) ''ether'' else Inr vin_pub) (\<lambda>tx_value.
             Inr \<lparr>plan_inputs = inputs, plan_outputs = outputs, plan_eth_address = eth_address, plan_tx_value = tx_value\<rparr>)))))))))))"

definition dump_to :: "cli_files \<Rightarrow> string option \<Rightarrow> cli_file res \<Rightarrow> cli_files \<times> unit res" where
  "dump_to fs target doc =
     (if truthy target then
        if the target = ''-'' then (fs, bindR doc (\<lambda>_. Inr ()))
        else (case doc of
                Inl e \<Rightarrow> (fs(the target \<mapsto> TextFile []), Inl e)
              | Inr j \<Rightarrow> (fs(the target \<mapsto> j), Inr ()))
      else (fs, Inr ()))"

definition lift_files :: "'st \<Rightarrow> cli_files \<times> 'a res \<Rightarrow> ('st \<times> cli_files) \<times> 'a res" where
  "lift_files st x = ((st, fst x), snd x)"

definition lift_state :: "cli_files \<Rightarrow> 'st \<times> 'a res \<Rightarrow> ('st \<times> cli_files) \<times> 'a res" where
  "lift_state fs x = ((fst x, fs), snd x)"

text \<open>The wallet leaves the memory of the caller's prover client alone.\<close>

definition with_client :: "ProverClient \<Rightarrow> json_files \<times> 'a res \<Rightarrow> prover_state \<times> 'a res" where
  "with_client c x = ((c, fst x), snd x)"

text \<open>
  The command up to the transaction. The result is the wallet, with the hash of the transaction
  unless the run is dry; with \<open>--wait\<close>, \<open>do_sync\<close> follows on both. Dumped parameters are written to
  their files.
\<close>

definition zeth_mix ::
  "('sk, 'pk) cli_env \<Rightarrow> 'sk mix_random \<Rightarrow> ('call, 'tx) web3_lib \<Rightarrow> (abi_value list \<Rightarrow> 'call res) \<Rightarrow> ClientConfig \<Rightarrow> wallet_disk \<Rightarrow>
   string \<Rightarrow> string \<Rightarrow> string list \<Rightarrow> string list \<Rightarrow> string option \<Rightarrow> string option \<Rightarrow> bool \<Rightarrow>
   string option \<Rightarrow> string option \<Rightarrow> bool \<Rightarrow> json_files \<times> cli_files \<Rightarrow>
   (prover_state \<times> cli_files) \<times> (('sk, 'pk) wallet_env \<times> 'sk Wallet \<times> string option) res" where
  "zeth_mix env R web3 functions_mix ctx disk vin vout input_notes output_specs eth_addr eth_private_key
     for_dispatch_call dump_parameters dump_signing_keypair dry_run start =
     (let C = we_crypto (ce_wallet env); st0 = ((create_prover_client ctx, fst start), snd start) in
      if length input_notes > JS_INPUTS then (st0, Inl (ClickException (''too many inputs (max '' @ str_int (int JS_INPUTS) @ '')'')))
      else if length output_specs > JS_OUTPUTS
      then (st0, Inl (ClickException (''too many outputs (max '' @ str_int (int JS_OUTPUTS) @ '')'')))
      else
      bindS (st0, ether_value (c_toWei C) (NumStr vin) ''ether'') (\<lambda>(st, fs) vin_pub.
      bindS ((st, fs), ether_value (c_toWei C) (NumStr vout) ''ether'') (\<lambda>(st, fs) vout_pub.
      bindS (lift_state fs (create_mixer_client_and_mixer_desc env fs ctx st)) (\<lambda>(st, fs) (config, mixer_desc).
      bindS ((st, fs), load_zeth_address (c_enc C) fs (get_zeth_address_file ctx)) (\<lambda>(st, fs) zeth_address.
      bindS (lift_state fs (with_client (fst st) (open_wallet env ctx (snd st) (addr_sk zeth_address) disk))) (\<lambda>(st, fs) (wenv, w).
      bindS ((st, fs), mix_plan env fs mixer_desc w vin_pub vout_pub input_notes output_specs eth_addr) (\<lambda>(st, fs) plan.
      bindS (lift_state fs (create_mix_parameters_and_signing_key C R (ce_floor_log2 env) (ce_server env) config st (w_tree w)
                 (ownership_keypair zeth_address) (plan_eth_address plan) (plan_inputs plan) (plan_outputs plan)
                 vin_pub vout_pub None for_dispatch_call)) (\<lambda>(st, fs) (mix_params, signing_keypair).
      bindS (lift_files st (dump_to fs dump_parameters (bindR (mix_parameters_to_json_dict mix_params) (\<lambda>j. Inr (JsonFile j))))) (\<lambda>(st, fs) _.
      bindS (lift_files st (dump_to fs dump_signing_keypair (bindR (keypair_to_json_dict signing_keypair) (\<lambda>j. Inr (KeyPairFile j))))) (\<lambda>(st, fs) _.
      if for_dispatch_call \<or> dry_run then ((st, fs), Inr (wenv, w, None))
      else let key = load_eth_private_key (ce_encode_doc env) fs eth_private_key in
           ((st, fs), bindR (mixer_mix web3 functions_mix config mix_params (plan_eth_address plan) key (plan_tx_value plan) None)
                        (\<lambda>tx_hash. Inr (wenv, w, Some tx_hash)))))))))))))"

section \<open>Lemmas\<close>

text \<open>The generated files, for a secret file that is not its own public file.\<close>

lemma gen_address_files:
  assumes "enc_lib_laws L" "length (pub_a_pk (addr_pk a)) = 32" "length (priv_a_sk (addr_sk a)) = 32"
    and "fs f = None" "fs (pub_address_file f) = None"
  obtains d s where "gen_address L (Inr a) fs f = (fs(f \<mapsto> SecretFile d, pub_address_file f \<mapsto> TextFile s), Inr ())"
    "zeth_address_priv_from_json_dict L d = Inr (addr_sk a)" "zeth_address_pub_parse L s = Inr (addr_pk a)"
proof -
  obtain s where s: "zeth_address_pub_str L (addr_pk a) = Inr s" "zeth_address_pub_parse L s = Inr (addr_pk a)"
    using zeth_address_pub_text [OF assms(1,2)] by blast
  obtain d where d: "zeth_address_priv_to_json_dict L (addr_sk a) = Inr d" "zeth_address_priv_from_json_dict L d = Inr (addr_sk a)"
    using zeth_address_priv_text [OF assms(1,3)] by blast
  show thesis
    by (rule that [of d s])
      (simp_all add: assms(4,5) s d gen_address_def write_zeth_address_secret_def write_zeth_address_public_def bindS_simps)
qed

text \<open>The value of a note in Zeth units.\<close>

definition note_units :: "ZethNoteDescription \<Rightarrow> int" where
  "note_units d = digits_value 16 (note_value (nd_note d))"

lemma note_units_read:
  assumes "note_ok (nd_note d)"
  shows "py_int_str (note_value (nd_note d)) 16 = Inr (note_units d) \<and> 0 \<le> note_units d"
proof -
  obtain v where v: "length v = 8" "note_value (nd_note d) = bytes_hex v"
    using assms by (auto simp: note_ok_def)
  then have "v \<noteq> []"
    by auto
  with v show ?thesis
    by (simp add: note_units_def digits_value_bytes_hex py_int_bytes_hex)
qed

lemma mapR_Inr_map: "mapR f (map g xs) = Inr (map h xs)" if "\<And>x. x \<in> set xs \<Longrightarrow> f (g x) = Inr (h x)"
  using that by (induction xs) auto

text \<open>Adding amounts within the range of \<open>toWei\<close>.\<close>

lemma ether_add_ok:
  "to_wei_law toWei \<Longrightarrow> 0 \<le> wei a + wei b \<Longrightarrow> wei a + wei b < 2 ^ 256 \<Longrightarrow> ether_add toWei a b = Inr \<lparr>wei = wei a + wei b\<rparr>"
  by (simp add: to_wei_law_def ether_add_def ether_value_def)

lemma ether_sum_ok:
  assumes "to_wei_law toWei" "0 \<le> wei acc" "\<forall>v \<in> set vs. 0 \<le> wei v" "wei acc + sum_list (map wei vs) < 2 ^ 256"
  shows "ether_sum toWei acc vs = Inr \<lparr>wei = wei acc + sum_list (map wei vs)\<rparr>"
  using assms
proof (induction vs arbitrary: acc)
  case (Cons v vs)
  have "0 \<le> sum_list (map wei vs)"
    using Cons.prems(3) by (intro sum_list_nonneg) auto
  with Cons show ?case
    by (simp add: ether_add_ok algebra_simps)
qed simp

text \<open>The notes of a wallet are found by their short commitments and read with their values.\<close>

lemma find_inputs:
  assumes "env_ok env" "wallet_rel env w us ss" "set ds \<subseteq> set us"
  shows "mapR (\<lambda>note_id. bindR (find_note w note_id) (\<lambda>d. Inr (as_input d))) (map sc ds) = Inr (map as_input ds)"
    and "mapR (\<lambda>(_, n). py_int_str (note_value n) 16) (map as_input ds) = Inr (map note_units ds)"
    and "0 \<le> sum_list (map note_units ds)"
proof -
  have ok: "note_ok (nd_note d)" "find_note w (sc d) = Inr d" if "d \<in> set ds" for d
    using that assms find_note_sc [OF assms(1,2)] by (auto simp: wallet_rel_def desc_ok_def)
  show "mapR (\<lambda>note_id. bindR (find_note w note_id) (\<lambda>d. Inr (as_input d))) (map sc ds) = Inr (map as_input ds)"
    by (rule mapR_Inr_map) (simp add: ok)
  show "mapR (\<lambda>(_, n). py_int_str (note_value n) 16) (map as_input ds) = Inr (map note_units ds)"
    by (rule mapR_Inr_map) (simp add: as_input_def note_units_read ok)
  show "0 \<le> sum_list (map note_units ds)"
    by (rule sum_list_nonneg) (auto simp: note_units_read ok)
qed

lemma mix_plan_ok:
  fixes env :: "('sk, 'pk) cli_env" and fs md w vin vout ds specs eth_addr us ss
    and outputs :: "('pk ZethAddressPub \<times> EtherValue) list" and eth_address
  defines "C \<equiv> we_crypto (ce_wallet env)"
    and "inw \<equiv> wei vin + sum_list (map note_units ds) * ZETH_PUBLIC_UNIT_VALUE"
    and "outw \<equiv> wei vout + sum_list (map (\<lambda>(_, v). wei v) outputs)"
  assumes "env_ok (ce_wallet env)" "c_toWei C (NumInt 0) ''ether'' = Inr 0"
    and "wallet_rel (ce_wallet env) w us ss" "set ds \<subseteq> set us"
    and "mapR (parse_output C fs) specs = Inr outputs" "load_eth_address (ce_checksum env) fs eth_addr = Inr eth_address"
    and "0 \<le> wei vin" "0 \<le> wei vout" "\<forall>(_, v) \<in> set outputs. 0 \<le> wei v" "inw < 2 ^ 256" "outw < 2 ^ 256"
  shows "mix_plan env fs md w vin vout (map sc ds) specs eth_addr =
    (if inw = outw
     then Inr \<lparr>plan_inputs = map as_input ds, plan_outputs = outputs, plan_eth_address = eth_address,
               plan_tx_value = if md_token md = None then vin else \<lparr>wei = 0\<rparr>\<rparr>
     else Inl (ClickException ''input and output value mismatch''))"
proof -
  let ?toWei = "c_toWei C" and ?u = "sum_list (map note_units ds)"
  have law: "to_wei_law ?toWei"
    using assms(4) by (simp add: env_ok_def C_def)
  note inp = find_inputs [OF assms(4,6,7)]
  have u: "0 \<le> ?u * ZETH_PUBLIC_UNIT_VALUE"
    using inp(3) by (simp add: ZETH_PUBLIC_UNIT_VALUE_def)
  have nn: "\<forall>v \<in> set (map snd outputs). 0 \<le> wei v"
    using assms(12) by auto
  have so: "sum_list (map wei (map snd outputs)) = sum_list (map (\<lambda>(_, v). wei v) outputs)"
    by (simp add: comp_def split_def)
  have so0: "0 \<le> sum_list (map (\<lambda>(_, v). wei v) outputs)"
    using assms(12) by (intro sum_list_nonneg) auto
  have "from_zeth_units ?toWei ?u = Inr \<lparr>wei = ?u * ZETH_PUBLIC_UNIT_VALUE\<rparr>"
    using law u assms(10,13) by (simp add: from_zeth_units_def ether_value_def to_wei_law_def inw_def)
  moreover have "ether_sum ?toWei \<lparr>wei = 0\<rparr> (map snd outputs) = Inr \<lparr>wei = sum_list (map (\<lambda>(_, v). wei v) outputs)\<rparr>"
    using ether_sum_ok [OF law _ nn, of "\<lparr>wei = 0\<rparr>"] so assms(11,14) by (simp add: outw_def)
  moreover have "ether_add ?toWei vin \<lparr>wei = ?u * ZETH_PUBLIC_UNIT_VALUE\<rparr> = Inr \<lparr>wei = inw\<rparr>"
    using ether_add_ok [OF law, of vin "\<lparr>wei = ?u * ZETH_PUBLIC_UNIT_VALUE\<rparr>"] u assms(10,13) by (simp add: inw_def)
  moreover have "ether_add ?toWei vout \<lparr>wei = sum_list (map (\<lambda>(_, v). wei v) outputs)\<rparr> = Inr \<lparr>wei = outw\<rparr>"
    using ether_add_ok [OF law, of vout "\<lparr>wei = sum_list (map (\<lambda>(_, v). wei v) outputs)\<rparr>"] so0 assms(11,14)
    by (simp add: outw_def)
  moreover have "ether_value ?toWei (NumInt 0) ''ether'' = Inr \<lparr>wei = 0\<rparr>"
    by (simp add: ether_value_def assms(5))
  ultimately show ?thesis
    using assms(8,9) inp(1,2) unfolding mix_plan_def Let_def C_def [symmetric] by simp
qed

section \<open>An example\<close>

text \<open>A wallet with one note of two Ether, and a file with the address of a receiver.\<close>

definition example_cli_env :: "(256 word, 256 word) cli_env" where
  "example_cli_env =
     \<lparr>ce_wallet = example_wallet_env\<lparr>we_crypto := example_crypto\<lparr>c_toWei := \<lambda>v u.
          bindR (case v of NumInt n \<Rightarrow> Inr n | NumStr s \<Rightarrow> py_int_str s 10) (\<lambda>n.
            Inr (if u = ''ether'' then n * 10 ^ 18 else n))\<rparr>\<rparr>,
      ce_keccak = (\<lambda>bs. 0), ce_floor_log2 = id, ce_server = example_server, ce_checksum = Inr,
      ce_http_provider = (\<lambda>_ _ _. Inr ()), ce_instantiate = (\<lambda>_. Inr ()), ce_compile_files = (\<lambda>_. Inl FileNotFoundError),
      ce_zeth_dir = ''zeth'', ce_encode_doc = (\<lambda>_. [])\<rparr>"

definition example_mix_desc :: ZethNoteDescription where
  "example_mix_desc = \<lparr>nd_note = (example_note 1)\<lparr>note_value := bytes_hex (be_bytes 8 2000000)\<rparr>, nd_address = 0,
     nd_commitment = replicate 32 9\<rparr>"

definition example_mix_wallet :: "256 word Wallet" where
  "example_mix_wallet = example_wallet\<lparr>
     w_state := \<lparr>next_block = 1, num_notes = 0,
       nullifier_map = [(desc_nf (c_blake2s example_crypto) (replicate 32 2) example_mix_desc, sc example_mix_desc)]\<rparr>,
     w_disk := \<lparr>disk_notes = note_files (ce_wallet example_cli_env) ''u'' [example_mix_desc], disk_spent = [], disk_state = None, disk_tree = None\<rparr>\<rparr>"

definition example_mixer_desc :: MixerDescription where
  "example_mixer_desc = \<lparr>md_mixer = \<lparr>inst_address = [], inst_abi = JNull\<rparr>, md_token = None, md_permitted_dispatcher = None, md_vk_hash = None\<rparr>"

definition example_receiver :: "256 word ZethAddressPub" where
  "example_receiver = \<lparr>pub_a_pk = replicate 32 4, pub_k_pk = 6\<rparr>"

definition example_mix_files :: cli_files where
  "example_mix_files = [''bob.pub'' \<mapsto> TextFile (bytes_hex (replicate 32 4) @ '':'' @ bytes_hex (digest_bytes 6))]"

lemma example_cli_env_ok: "env_ok (ce_wallet example_cli_env)"
  by (simp add: env_ok_def example_cli_env_def example_wallet_env_def to_wei_law_def)

lemma example_mix_desc_ok: "desc_ok example_mix_desc"
proof -
  have "note_ok (nd_note example_mix_desc)"
    unfolding note_ok_def example_mix_desc_def example_note_def
    by (rule exI [of _ "replicate 32 1"], rule exI [of _ "be_bytes 8 2000000"], rule exI [of _ "replicate 32 1"],
        rule exI [of _ "replicate 32 1"]) simp
  then show ?thesis
    by (simp add: desc_ok_def example_mix_desc_def)
qed

lemma example_mix_wallet_rel: "wallet_rel (ce_wallet example_cli_env) example_mix_wallet [example_mix_desc] []"
  by (simp add: wallet_rel_def example_mix_wallet_def example_wallet_def literal_def example_mix_desc_ok
      example_cli_env_def example_wallet_env_def note_files_def)

lemma example_units: "note_units example_mix_desc = 2000000"
  by (simp add: note_units_def example_mix_desc_def digits_value_bytes_hex int_from_be_bytes)

lemma example_parse:
  "parse_output (we_crypto (ce_wallet example_cli_env)) example_mix_files ''bob.pub,3'' =
     Inr (example_receiver, \<lparr>wei = 3 * 10 ^ 18\<rparr>)"
proof -
  have "zeth_address_pub_str example_enc_lib example_receiver = Inr (bytes_hex (replicate 32 4) @ '':'' @ bytes_hex (digest_bytes 6))"
    by (simp add: zeth_address_pub_str_def example_receiver_def ownership_key_as_hex_32 encryption_public_key_as_hex_def
        example_enc_lib_def)
  then have p: "zeth_address_pub_parse example_enc_lib (bytes_hex (replicate 32 4) @ '':'' @ bytes_hex (digest_bytes 6)) = Inr example_receiver"
    using zeth_address_pub_text [OF example_enc_lib_laws, of example_receiver] by (simp add: example_receiver_def)
  have s: "split_on CHR '','' ''bob.pub,3'' = [''bob.pub'', ''3'']" "py_int_str ''3'' 10 = Inr 3"
    by code_simp+
  show ?thesis
    using p by (simp add: parse_output_def s example_mix_files_def read_text_def ether_value_def example_cli_env_def
        example_wallet_env_def example_crypto_def)
qed

section \<open>Properties\<close>



text \<open>
  C22. The plan of a mix on a wallet that represents its notes: the notes named by their short
  commitments are the inputs; the transaction carries the public input, or nothing when the
  mixer has a token; and the command goes on exactly if the public input and the input notes
  together are worth the public output and the output notes, otherwise it stops with an error.
\<close>

theorem mix_plan_correct:
  fixes outputs :: "('pk ZethAddressPub \<times> EtherValue) list"
  assumes "env_ok (ce_wallet env)" "c_toWei (we_crypto (ce_wallet env)) (NumInt 0) ''ether'' = Inr 0"
    and "wallet_rel (ce_wallet env) w us ss" "set ds \<subseteq> set us"
    and "mapR (parse_output (we_crypto (ce_wallet env)) fs) specs = Inr outputs"
    and "load_eth_address (ce_checksum env) fs eth_addr = Inr eth_address"
    and "0 \<le> wei vin" "0 \<le> wei vout" "\<forall>(_, v) \<in> set outputs. 0 \<le> wei v"
    and "wei vin + sum_list (map note_units ds) * ZETH_PUBLIC_UNIT_VALUE < 2 ^ 256"
    and "wei vout + sum_list (map (\<lambda>(_, v). wei v) outputs) < 2 ^ 256"
  shows "mix_plan env fs md w vin vout (map sc ds) specs eth_addr =
    (if wei vin + sum_list (map note_units ds) * ZETH_PUBLIC_UNIT_VALUE = wei vout + sum_list (map (\<lambda>(_, v). wei v) outputs)
     then Inr \<lparr>plan_inputs = map as_input ds, plan_outputs = outputs, plan_eth_address = eth_address,
               plan_tx_value = if md_token md = None then vin else \<lparr>wei = 0\<rparr>\<rparr>
     else Inl (ClickException ''input and output value mismatch''))"
  using assms by (rule mix_plan_ok)

theorem mix_plan_correct_witness:
  "mix_plan example_cli_env example_mix_files example_mixer_desc example_mix_wallet \<lparr>wei = 10 ^ 18\<rparr> \<lparr>wei = 0\<rparr> [sc example_mix_desc] [''bob.pub,3''] (Some ''0x1'') =
     Inr \<lparr>plan_inputs = [as_input example_mix_desc], plan_outputs = [(example_receiver, \<lparr>wei = 3 * 10 ^ 18\<rparr>)],
          plan_eth_address = ''0x1'', plan_tx_value = \<lparr>wei = 10 ^ 18\<rparr>\<rparr>
   \<and> mix_plan example_cli_env example_mix_files example_mixer_desc example_mix_wallet \<lparr>wei = 0\<rparr> \<lparr>wei = 0\<rparr> [sc example_mix_desc] [''bob.pub,3''] (Some ''0x1'') =
     Inl (ClickException ''input and output value mismatch'')"
proof -
  have e: "load_eth_address (ce_checksum example_cli_env) example_mix_files (Some ''0x1'') = Inr ''0x1''"
    by (simp add: load_eth_address_def truthy_def startswith_Cons example_cli_env_def)
  have z: "c_toWei (we_crypto (ce_wallet example_cli_env)) (NumInt 0) ''ether'' = Inr 0"
    by (simp add: example_cli_env_def)
  have o: "mapR (parse_output (we_crypto (ce_wallet example_cli_env)) example_mix_files) [''bob.pub,3''] =
      Inr [(example_receiver, \<lparr>wei = 3 * 10 ^ 18\<rparr>)]"
    by (simp add: example_parse)
  note r = mix_plan_correct [OF example_cli_env_ok z example_mix_wallet_rel _ o e, of "[example_mix_desc]" _ "\<lparr>wei = 0\<rparr>"]
  show ?thesis
    using r [of "\<lparr>wei = 10 ^ 18\<rparr>" example_mixer_desc] r [of "\<lparr>wei = 0\<rparr>" example_mixer_desc] by (simp add: example_units example_mixer_desc_def ZETH_PUBLIC_UNIT_VALUE_def)
qed

end
