(* ===== verification/Cli_Helpers.thy ===== *)
theory Cli_Helpers
  imports Cli_Utils
begin

text \<open>
  The helper commands of \<open>client/zeth/helper\<close>: Ethereum addresses and keys in files, network
  configurations, sending Ether, approving tokens and reading balances; and the deployment of a
  token for tests. Deriving an address
  from a private key and the calls to the node are arguments. Printed values are results.
\<close>

section \<open>Addresses\<close>

definition gen_eth_private_key :: "(bytes \<Rightarrow> bytes) \<Rightarrow> (nat \<Rightarrow> bytes) \<Rightarrow> bytes" where
  "gen_eth_private_key sha3 urandom = sha3 (urandom 4096)"

definition eth_gen_address ::
  "(bytes \<Rightarrow> string res) \<Rightarrow> (bytes \<Rightarrow> bytes) \<Rightarrow> (nat \<Rightarrow> bytes) \<Rightarrow> cli_files \<Rightarrow> string option \<Rightarrow> string option \<Rightarrow> string option \<Rightarrow>
   cli_files \<times> string res" where
  "eth_gen_address address_from_private_key sha3 urandom fs eth_addr_file eth_private_key_file use_private_key =
     (let addr_file = if truthy eth_addr_file then the eth_addr_file else ETH_ADDRESS_DEFAULT;
          key_file = if truthy eth_private_key_file then the eth_private_key_file else ETH_PRIVATE_KEY_FILE_DEFAULT
      in bindS (fs, if truthy use_private_key then bytes_fromhex (the use_private_key) else Inr (gen_eth_private_key sha3 urandom)) (\<lambda>fs key.
         if length key \<noteq> 32 then (fs, Inl (ClickException ''invalid private key length''))
         else bindS (write_eth_private_key fs key key_file) (\<lambda>fs _.
              bindS (fs, address_from_private_key key) (\<lambda>fs eth_address.
              bindS (write_eth_address fs eth_address addr_file) (\<lambda>fs _.
                (fs, Inr eth_address))))))"

section \<open>Networks\<close>

definition eth_gen_network_config ::
  "cli_files \<Rightarrow> string \<Rightarrow> string option \<Rightarrow> string option \<Rightarrow> bool \<Rightarrow> string \<Rightarrow> cli_files \<times> unit res" where
  "eth_gen_network_config fs eth_network eth_rpc_endpoint eth_rpc_certificate eth_rpc_insecure output_file =
     bindS (fs, case eth_rpc_endpoint of
                  Some endpoint \<Rightarrow> Inr \<lparr>net_name = eth_network, net_endpoint = endpoint,
                                       net_certificate = eth_rpc_certificate, net_insecure = eth_rpc_insecure\<rparr>
                | None \<Rightarrow> get_eth_network fs (Some eth_network)) (\<lambda>fs network.
       (fs(output_file \<mapsto> JsonFile (network_to_json network)), Inr ()))"

definition eth_get_contract_address :: "(string \<Rightarrow> string res) \<Rightarrow> cli_files \<Rightarrow> string \<Rightarrow> string res" where
  "eth_get_contract_address toChecksumAddress fs instance_file = load_contract_address toChecksumAddress fs instance_file"

section \<open>Transfers\<close>

text \<open>The requests to the node that these commands make, beside those of \<open>web3_lib\<close>.\<close>

record send_tx_desc =
  stx_from :: string
  stx_to :: string
  stx_value :: int
  stx_gasPrice :: int
  stx_nonce :: int
  stx_gas :: "int option"

record node =
  nd_gasPrice :: "int res"
  nd_getTransactionCount :: "string \<Rightarrow> int res"
  nd_estimateGas :: "send_tx_desc \<Rightarrow> int res"
  nd_signTransaction :: "send_tx_desc \<Rightarrow> bytes \<Rightarrow> bytes res"
  nd_sendRawTransaction :: "bytes \<Rightarrow> bytes res"
  nd_getBalance :: "string \<Rightarrow> int res"
  nd_waitForReceipt :: "bytes \<Rightarrow> unit res"

definition eth_send ::
  "('sk, 'pk) cli_env \<Rightarrow> node \<Rightarrow> cli_files \<Rightarrow> string option \<Rightarrow> string \<Rightarrow> string option \<Rightarrow> string option \<Rightarrow> string \<Rightarrow> bytes res" where
  "eth_send env node fs eth_network dest_addr eth_private_key eth_addr amount =
     bindR (load_eth_address (ce_checksum env) fs (Some dest_addr)) (\<lambda>dest_addr.
     let key = load_eth_private_key (ce_encode_doc env) fs eth_private_key in
     bindR (load_eth_address (ce_checksum env) fs eth_addr) (\<lambda>eth_addr.
     bindR (get_eth_network fs eth_network) (\<lambda>eth_network.
     bindR (open_web3_from_network env fs eth_network) (\<lambda>_.
     case key of
       None \<Rightarrow> Inl (ClickException ''hosted accounts are not supported'')
     | Some key \<Rightarrow>
         bindR (ether_value (c_toWei (we_crypto (ce_wallet env))) (NumStr amount) ''ether'') (\<lambda>v.
         bindR (nd_gasPrice node) (\<lambda>gasPrice.
         bindR (nd_getTransactionCount node eth_addr) (\<lambda>n.
         let desc = \<lparr>stx_from = eth_addr, stx_to = dest_addr, stx_value = wei v, stx_gasPrice = gasPrice, stx_nonce = n, stx_gas = None\<rparr> in
         bindR (nd_estimateGas node desc) (\<lambda>gas.
         bindR (nd_signTransaction node (desc\<lparr>stx_gas := Some gas\<rparr>) key) (\<lambda>raw.
           nd_sendRawTransaction node raw)))))))))"

definition token_approve ::
  "('sk, 'pk) cli_env \<Rightarrow> node \<Rightarrow> ('call, 'tx) web3_lib \<Rightarrow> (string \<Rightarrow> int \<Rightarrow> 'call res) \<Rightarrow> cli_files \<Rightarrow> string option \<Rightarrow> string \<Rightarrow>
   string option \<Rightarrow> string option \<Rightarrow> bool \<Rightarrow> string \<Rightarrow> bytes res" where
  "token_approve env node web3 functions_approve fs eth_network value eth_addr eth_private_key wait instance_file =
     bindR (ether_value (c_toWei (we_crypto (ce_wallet env))) (NumStr value) ''ether'') (\<lambda>approve_value.
     bindR (load_eth_address (ce_checksum env) fs eth_addr) (\<lambda>eth_addr.
     let key = load_eth_private_key (ce_encode_doc env) fs eth_private_key in
     bindR (bindR (get_eth_network fs eth_network) (open_web3_from_network env fs)) (\<lambda>_.
     bindR (load_mixer_description fs instance_file) (\<lambda>mixer_desc.
     case md_token mixer_desc of
       None \<Rightarrow> Inl (ClickException ''no token for mixer {mixer_desc.mixer.address}'')
     | Some token \<Rightarrow>
         bindR (ce_instantiate env token) (\<lambda>_.
         bindR (functions_approve (inst_address (md_mixer mixer_desc)) (wei approve_value)) (\<lambda>approve_call.
         bindR (send_contract_call web3 approve_call eth_addr key None None) (\<lambda>tx_hash.
           if wait then bindR (nd_waitForReceipt node tx_hash) (\<lambda>_. Inr tx_hash) else Inr tx_hash)))))))"

text \<open>The balance, as a number of Wei or as an amount to print in Ether.\<close>

definition eth_get_balance ::
  "('sk, 'pk) cli_env \<Rightarrow> node \<Rightarrow> cli_files \<Rightarrow> string option \<Rightarrow> string option \<Rightarrow> bool \<Rightarrow> string res" where
  "eth_get_balance env node fs eth_network eth_addr in_wei =
     bindR (load_eth_address (ce_checksum env) fs eth_addr) (\<lambda>eth_addr.
     bindR (bindR (get_eth_network fs eth_network) (open_web3_from_network env fs)) (\<lambda>_.
     bindR (nd_getBalance node eth_addr) (\<lambda>balance_wei.
       if in_wei then Inr (str_int balance_wei)
       else bindR (ether_value (c_toWei (we_crypto (ce_wallet env))) (NumInt balance_wei) ''wei'') (\<lambda>v.
              Inr (we_ether (ce_wallet env) v)))))"

text \<open>Requests that only a node with hosted accounts answers, for test networks.\<close>

record hosted_node =
  hn_accounts :: "string list res"
  hn_unlockAccount :: "string \<Rightarrow> string \<Rightarrow> unit res"
  hn_sendTransaction :: "string \<Rightarrow> string \<Rightarrow> int \<Rightarrow> bytes res"

definition FUND_AMOUNT_DEFAULT :: int where "FUND_AMOUNT_DEFAULT = 1000000"

definition eth_fund ::
  "('sk, 'pk) cli_env \<Rightarrow> hosted_node \<Rightarrow> cli_files \<Rightarrow> string option \<Rightarrow> string option \<Rightarrow> string option \<Rightarrow> int \<Rightarrow> bytes res" where
  "eth_fund env node fs network eth_addr source_addr amount =
     bindR (load_eth_address (ce_checksum env) fs eth_addr) (\<lambda>eth_addr.
     bindR (get_eth_network fs network) (\<lambda>eth_network.
     bindR (open_web3_from_network env fs eth_network) (\<lambda>_.
     bindR (if truthy source_addr then Inr (the source_addr)
            else bindR (bindR (hn_accounts node) (\<lambda>accounts. py_index accounts 0)) (\<lambda>hosted.
                 bindR (if net_name eth_network = ''autonity-helloworld'' then hn_unlockAccount node hosted ''test'' else Inr ()) (\<lambda>_.
                   Inr hosted))) (\<lambda>source_addr.
     bindR (load_eth_address (ce_checksum env) fs (Some source_addr)) (\<lambda>source_addr.
     bindR (ether_value (c_toWei (we_crypto (ce_wallet env))) (NumInt amount) ''ether'') (\<lambda>v.
       hn_sendTransaction node source_addr eth_addr (wei v)))))))"

section \<open>The test token\<close>

text \<open>
  \<open>client/test_commands/deploy_test_token.py\<close>, and the deployment in \<open>mock.py\<close>. The compiler takes
  the sources and the directory it may read.
\<close>

definition compile_token :: "(string list \<Rightarrow> string \<Rightarrow> json res) \<Rightarrow> string \<Rightarrow> json res" where
  "compile_token compile_files zeth_dir =
     (let allowed_path = path_join zeth_dir ''zeth_contracts/contracts'';
          path_to_token = path_join (path_join zeth_dir ''zeth_contracts/contracts'') ''ERC20Mintable.sol''
      in bindR (compile_files [path_to_token] allowed_path) (\<lambda>compiled_sol. jget compiled_sol (path_to_token @ '':ERC20Mintable'')))"

definition deploy_token ::
  "('call, 'tx) web3_lib \<Rightarrow> (string list \<Rightarrow> string \<Rightarrow> json res) \<Rightarrow> string \<Rightarrow> string \<Rightarrow> bytes option \<Rightarrow> int option \<Rightarrow> InstanceDescription res" where
  "deploy_token web3 compile_files zeth_dir deployer_address deployer_private_key deployment_gas =
     bindR (compile_token compile_files zeth_dir) (\<lambda>token_interface.
     bindR (jget token_interface ''abi'') (\<lambda>abi.
     bindR (jget token_interface ''bin'') (\<lambda>code.
     bindR (w3_constructor web3 abi code []) (\<lambda>constructor_call.
     bindR (send_contract_call web3 constructor_call deployer_address deployer_private_key None deployment_gas) (\<lambda>tx_hash.
     bindR (w3_contractAddress web3 tx_hash) (\<lambda>contract_address.
       Inr \<lparr>inst_address = contract_address, inst_abi = abi\<rparr>))))))"

definition mint_token ::
  "('call, 'tx) web3_lib \<Rightarrow> (InstanceDescription \<Rightarrow> string \<Rightarrow> int \<Rightarrow> 'call res) \<Rightarrow> InstanceDescription \<Rightarrow> string \<Rightarrow> string \<Rightarrow> bytes option \<Rightarrow>
   EtherValue \<Rightarrow> bytes res" where
  "mint_token web3 functions_mint token_instance spender_address deployer_address deployer_private_key token_amount =
     bindR (functions_mint token_instance spender_address (wei token_amount)) (\<lambda>mint_call.
       send_contract_call web3 mint_call deployer_address deployer_private_key None None)"

definition deploy_test_token ::
  "('sk, 'pk) cli_env \<Rightarrow> node \<Rightarrow> ('call, 'tx) web3_lib \<Rightarrow> (string list \<Rightarrow> string \<Rightarrow> json res) \<Rightarrow>
   (InstanceDescription \<Rightarrow> string \<Rightarrow> int \<Rightarrow> 'call res) \<Rightarrow> cli_files \<Rightarrow> string option \<Rightarrow> string option \<Rightarrow> string option \<Rightarrow> int \<Rightarrow> string \<Rightarrow>
   string res" where
  "deploy_test_token env node web3 compile_files functions_mint fs eth_network eth_addr eth_private_key mint_amount recipient_address =
     bindR (load_eth_address (ce_checksum env) fs eth_addr) (\<lambda>eth_addr.
     let key = load_eth_private_key (ce_encode_doc env) fs eth_private_key in
     bindR (load_eth_address (ce_checksum env) fs (Some recipient_address)) (\<lambda>recipient_address.
     bindR (bindR (get_eth_network fs eth_network) (open_web3_from_network env fs)) (\<lambda>_.
     bindR (deploy_token web3 compile_files (ce_zeth_dir env) eth_addr key (Some 4000000)) (\<lambda>token_instance.
     bindR (ether_value (c_toWei (we_crypto (ce_wallet env))) (NumInt mint_amount) ''ether'') (\<lambda>amount.
     bindR (mint_token web3 functions_mint token_instance recipient_address eth_addr key amount) (\<lambda>mint_tx_hash.
     bindR (nd_waitForReceipt node mint_tx_hash) (\<lambda>_.
       Inr (inst_address token_instance))))))))"

text \<open>\<open>contract.constructor( **constructor_args )\<close> raises if the arguments are \<open>None\<close>, the default.\<close>

definition deploy_contract ::
  "('call, 'tx) web3_lib \<Rightarrow> (string list \<Rightarrow> json res) \<Rightarrow> (json \<Rightarrow> json \<Rightarrow> (string \<times> abi_value) list \<Rightarrow> 'call res) \<Rightarrow> string \<Rightarrow> string \<Rightarrow> string \<Rightarrow>
   (string \<times> abi_value) list option \<Rightarrow> (json \<times> InstanceDescription) res" where
  "deploy_contract web3 compile_files constructor_keywords contracts_dir deployer_address name constructor_args =
     (let sol_path = path_join contracts_dir (name @ ''.sol'')
      in bindR (compile_files [sol_path]) (\<lambda>compiled_sol.
         bindR (jget compiled_sol (sol_path @ '':'' @ name)) (\<lambda>interface.
         bindR (jget interface ''abi'') (\<lambda>contract_abi.
         bindR (jget interface ''bin'') (\<lambda>code.
         bindR (case constructor_args of Some kws \<Rightarrow> constructor_keywords contract_abi code kws | None \<Rightarrow> Inl TypeError) (\<lambda>deploy_tx.
         bindR (w3_transact web3 deploy_tx (value_and_gas deployer_address None None)) (\<lambda>deploy_tx_hash.
         bindR (w3_contractAddress web3 deploy_tx_hash) (\<lambda>contract_address.
           Inr (interface, \<lparr>inst_address = contract_address, inst_abi = contract_abi\<rparr>)))))))))"

section \<open>Lemmas\<close>

text \<open>The token is deployed as every other contract.\<close>

lemma deploy_token_eq:
  "deploy_token web3 compile_files zeth_dir addr key gas =
     bindR (compile_token compile_files zeth_dir) (\<lambda>compiled. deploy_from_compiled web3 addr key gas compiled [])"
  by (simp add: deploy_token_def deploy_from_compiled_def)

text \<open>Without a source address the first hosted account pays, and is unlocked only on the test network of that name.\<close>

lemma eth_fund_hosted:
  assumes "load_eth_address (ce_checksum env) fs a = Inr addr" "get_eth_network fs net = Inr network"
    and "open_web3_from_network env fs network = Inr ()" "hn_accounts node = Inr (h # hs)"
    and "load_eth_address (ce_checksum env) fs (Some h) = Inr h"
    and "c_toWei (we_crypto (ce_wallet env)) (NumInt n) ''ether'' = Inr v"
  shows "eth_fund env node fs net a None n =
    (if net_name network = ''autonity-helloworld''
     then bindR (hn_unlockAccount node h ''test'') (\<lambda>_. hn_sendTransaction node h addr v)
     else hn_sendTransaction node h addr v)"
  using assms by (cases "hn_unlockAccount node h ''test''")
    (auto simp: eth_fund_def truthy_def ether_value_def)

text \<open>
  The private key is written first: with fresh and different files both are read back, and with an existing
  address file the command fails and leaves the new private key behind.
\<close>

lemma eth_gen_address_outcome:
  assumes "length (gen_eth_private_key sha3 urandom) = 32" "address_from_private_key (gen_eth_private_key sha3 urandom) = Inr a"
    and "fs kf = None" "kf \<noteq> []" "af \<noteq> []" "af \<noteq> kf"
  defines "fs1 \<equiv> fs(kf \<mapsto> BytesFile (gen_eth_private_key sha3 urandom))"
  shows "eth_gen_address address_from_private_key sha3 urandom fs (Some af) (Some kf) None =
    (if fs af = None then (fs1(af \<mapsto> TextFile a), Inr a)
     else (fs1, Inl (ClickException (''refusing to overwrite address '' @ [CHR 0x22] @ af @ [CHR 0x22]))))"
  using assms by (simp add: eth_gen_address_def truthy_def write_eth_private_key_def write_eth_address_def bindS_simps)

text \<open>A generated network configuration is the one that the client opens from the file.\<close>

lemma eth_gen_network_config_read:
  assumes "\<not> startswith f ''http''"
  shows "\<exists>fs'. eth_gen_network_config fs n (Some e) c i f = (fs', Inr ())
    \<and> get_eth_network fs' (Some f) =
        Inr \<lparr>net_name = n, net_endpoint = e, net_certificate = drop_empty c, net_insecure = i\<rparr>"
  using assms by (simp add: eth_gen_network_config_def get_eth_network_def read_json_def network_json bindS_simps)

end
