(* ===== verification/Mpc_Crypto.thy ===== *)
theory Mpc_Crypto
  imports Py_Text
begin

text \<open>
  \<open>mpc/coordinator/crypto.py\<close>: digests, keys and signatures of the MPC contributors. The ECDSA
  package is a record of its functions, SHA-512 a function into 512-bit words; a hash object
  is the sequence of bytes it was fed. Signing takes the nonce the package draws.
\<close>

definition HASH_BYTE_LENGTH :: nat where
  "HASH_BYTE_LENGTH = 64"

definition HASH_FILE_BLOCK_SIZE :: nat where
  "HASH_FILE_BLOCK_SIZE = 4096"

type_synonym sha512_fn = "bytes \<Rightarrow> 512 word"

definition sha512_digest :: "sha512_fn \<Rightarrow> bytes \<Rightarrow> bytes" where
  "sha512_digest H bs = be_bytes 64 (uint (H bs))"

record ('sk, 'vk) ecdsa_lib =
  sk_to_der :: "'sk \<Rightarrow> bytes"
  sk_from_der :: "bytes \<Rightarrow> 'sk res"
  get_verifying_key :: "'sk \<Rightarrow> 'vk"
  vk_to_der :: "'vk \<Rightarrow> bytes"
  vk_from_der :: "bytes \<Rightarrow> 'vk res"
  sign_digest :: "int \<Rightarrow> 'sk \<Rightarrow> bytes \<Rightarrow> bytes"
  verify_digest :: "'vk \<Rightarrow> bytes \<Rightarrow> bytes \<Rightarrow> bool res"

text \<open>What the package documents: keys survive DER, and signatures verify.\<close>

definition ecdsa_laws :: "('sk, 'vk) ecdsa_lib \<Rightarrow> bool" where
  "ecdsa_laws E \<longleftrightarrow>
     (\<forall>sk. sk_from_der E (sk_to_der E sk) = Inr sk) \<and> (\<forall>vk. vk_from_der E (vk_to_der E vk) = Inr vk)
     \<and> (\<forall>k sk d. verify_digest E (get_verifying_key E sk) (sign_digest E k sk d) d = Inr True)"

definition KEY_VALIDATION_CHECK_STRING :: string where
  "KEY_VALIDATION_CHECK_STRING = ''Zeth MPC''"

definition encode_ascii :: "string \<Rightarrow> bytes" where
  "encode_ascii s = map of_char s"

definition compute_key_validation_digest :: "sha512_fn \<Rightarrow> bytes" where
  "compute_key_validation_digest H = sha512_digest H (encode_ascii KEY_VALIDATION_CHECK_STRING)"

definition export_digest :: "bytes \<Rightarrow> string res" where
  "export_digest digest = assertR (length digest = HASH_BYTE_LENGTH) (Inr (bytes_hex digest))"

definition import_digest :: "string \<Rightarrow> bytes res" where
  "import_digest digest_s =
     (if length digest_s \<noteq> 2 * HASH_BYTE_LENGTH
      then Inl (PyException (''unexpected digest string length: '' @ str_int (int (length digest_s))))
      else assertR (length digest_s = 2 * HASH_BYTE_LENGTH) (bytes_fromhex digest_s))"

definition export_signing_key :: "('sk, 'vk) ecdsa_lib \<Rightarrow> 'sk \<Rightarrow> bytes" where
  "export_signing_key E sk = sk_to_der E sk"

definition import_signing_key :: "('sk, 'vk) ecdsa_lib \<Rightarrow> bytes \<Rightarrow> 'sk res" where
  "import_signing_key E sk_b = sk_from_der E sk_b"

definition get_verification_key' :: "('sk, 'vk) ecdsa_lib \<Rightarrow> 'sk \<Rightarrow> 'vk" where
  "get_verification_key' E sk = get_verifying_key E sk"

definition export_verification_key :: "('sk, 'vk) ecdsa_lib \<Rightarrow> 'vk \<Rightarrow> string" where
  "export_verification_key E vk = bytes_hex (vk_to_der E vk)"

definition import_verification_key :: "('sk, 'vk) ecdsa_lib \<Rightarrow> string \<Rightarrow> 'vk res" where
  "import_verification_key E vk_s = bindR (bytes_fromhex vk_s) (vk_from_der E)"

definition export_signature :: "bytes \<Rightarrow> string" where
  "export_signature sig = bytes_hex sig"

definition import_signature :: "string \<Rightarrow> bytes res" where
  "import_signature sig_s = bytes_fromhex sig_s"

text \<open>The blocks fed to the hash object, read from the rest of the file.\<close>

function hash_blocks :: "bytes \<Rightarrow> bytes \<Rightarrow> bytes" where
  "hash_blocks h rest =
     (let block = take HASH_FILE_BLOCK_SIZE rest
      in if block = [] then h else hash_blocks (h @ block) (drop HASH_FILE_BLOCK_SIZE rest))"
  by pat_completeness auto
termination
  by (relation "measure (\<lambda>(h, rest). length rest)") (auto simp: HASH_FILE_BLOCK_SIZE_def)

declare hash_blocks.simps [simp del]

definition compute_file_digest :: "sha512_fn \<Rightarrow> bytes option \<Rightarrow> bytes res" where
  "compute_file_digest H content =
     (case content of None \<Rightarrow> Inl FileNotFoundError | Some bs \<Rightarrow> Inr (sha512_digest H (hash_blocks [] bs)))"

definition mpc_sign :: "('sk, 'vk) ecdsa_lib \<Rightarrow> int \<Rightarrow> 'sk \<Rightarrow> bytes \<Rightarrow> bytes" where
  "mpc_sign E nonce sk digest = sign_digest E nonce sk digest"

definition mpc_verify :: "('sk, 'vk) ecdsa_lib \<Rightarrow> bytes \<Rightarrow> 'vk \<Rightarrow> bytes \<Rightarrow> bool" where
  "mpc_verify E sig vk digest = (case verify_digest E vk sig digest of Inl _ \<Rightarrow> False | Inr b \<Rightarrow> b)"

definition create_key_evidence :: "('sk, 'vk) ecdsa_lib \<Rightarrow> sha512_fn \<Rightarrow> int \<Rightarrow> 'sk \<Rightarrow> bytes" where
  "create_key_evidence E H nonce key = mpc_sign E nonce key (compute_key_validation_digest H)"

definition check_key_evidence :: "('sk, 'vk) ecdsa_lib \<Rightarrow> sha512_fn \<Rightarrow> 'vk \<Rightarrow> bytes \<Rightarrow> bool" where
  "check_key_evidence E H vk key_evidence = mpc_verify E key_evidence vk (compute_key_validation_digest H)"

section \<open>Lemmas\<close>

lemma length_sha512_digest [simp]: "length (sha512_digest H bs) = 64"
  by (simp add: sha512_digest_def)

lemma hash_blocks_all: "hash_blocks h rest = h @ rest"
proof (induction h rest rule: hash_blocks.induct)
  case (1 h rest)
  show ?case
  proof (cases "rest = []")
    case False
    then have "take HASH_FILE_BLOCK_SIZE rest \<noteq> []"
      by (simp add: HASH_FILE_BLOCK_SIZE_def)
    with "1.IH" show ?thesis
      by (subst hash_blocks.simps) (simp add: Let_def)
  qed (simp add: hash_blocks.simps)
qed

lemma compute_file_digest_ok [simp]: "compute_file_digest H (Some bs) = Inr (sha512_digest H bs)"
  by (simp add: compute_file_digest_def hash_blocks_all)

lemma digest_roundtrip [simp]:
  "length d = 64 \<Longrightarrow> bindR (export_digest d) import_digest = Inr d"
  by (simp add: export_digest_def import_digest_def HASH_BYTE_LENGTH_def)

lemma verification_key_roundtrip [simp]:
  "ecdsa_laws E \<Longrightarrow> import_verification_key E (export_verification_key E vk) = Inr vk"
  by (simp add: import_verification_key_def export_verification_key_def ecdsa_laws_def)

lemma signature_roundtrip [simp]: "import_signature (export_signature sig) = Inr sig"
  by (simp add: import_signature_def export_signature_def)

lemma export_verification_key_inj:
  "ecdsa_laws E \<Longrightarrow> export_verification_key E a = export_verification_key E b \<longleftrightarrow> a = b"
  by (metis sum.inject(2) verification_key_roundtrip)

lemma mpc_sign_verify: "ecdsa_laws E \<Longrightarrow> mpc_verify E (mpc_sign E k sk d) (get_verification_key' E sk) d"
  by (simp add: mpc_verify_def mpc_sign_def get_verification_key'_def ecdsa_laws_def)

lemma key_evidence_ok:
  "ecdsa_laws E \<Longrightarrow> check_key_evidence E H (get_verification_key' E sk) (create_key_evidence E H k sk)"
  by (simp add: check_key_evidence_def create_key_evidence_def mpc_sign_verify)

end
