(* ===== verification/Upload_Utils.thy ===== *)
theory Upload_Utils
  imports Mpc_Crypto
begin

text \<open>
  \<open>mpc/coordinator/upload_utils.py\<close>: reading a one-part multipart upload into a file. The request
  stream is the list of pieces in which the bytes arrive: \<open>read(n)\<close> returns at most \<open>n\<close> bytes
  of one piece, and no byte only at the end, so that every loop over short reads is
  represented. Files are a map from names to contents.
\<close>

type_synonym files = "string \<rightharpoonup> bytes"
type_synonym stream = "bytes list"

definition READ_CHUNK_SIZE :: int where
  "READ_CHUNK_SIZE = 4096"

fun stream_read :: "nat \<Rightarrow> stream \<Rightarrow> bytes \<times> stream" where
  "stream_read n [] = ([], [])"
| "stream_read n (p # ps) = (if p = [] then stream_read n ps else (take n p, drop n p # ps))"

fun stream_readline :: "stream \<Rightarrow> bytes \<times> stream" where
  "stream_readline [] = ([], [])"
| "stream_readline (p # ps) =
     (if 10 \<in> set p then (takeWhile (\<lambda>b. b \<noteq> 10) p @ [10], tl (dropWhile (\<lambda>b. b \<noteq> 10) p) # ps)
      else let (l, ps') = stream_readline ps in (p @ l, ps'))"

section \<open>Text\<close>

text \<open>
  \<open>bytes.decode()\<close> raises on byte sequences that are not UTF-8; \<open>utf8_encode\<close> is the encoding of
  the characters up to \<open>U+00FF\<close>, the ones a header can have.
\<close>

definition continuation :: "byte \<Rightarrow> bool" where
  "continuation b \<longleftrightarrow> 128 \<le> b \<and> b \<le> 191"

fun utf8_ok :: "bytes \<Rightarrow> bool" where
  "utf8_ok [] = True"
| "utf8_ok (b # bs) =
     (if b < 128 then utf8_ok bs
      else if 194 \<le> b \<and> b \<le> 223 then
        (case bs of c # cs \<Rightarrow> continuation c \<and> utf8_ok cs | _ \<Rightarrow> False)
      else if 224 \<le> b \<and> b \<le> 239 then
        (case bs of
           c # d # cs \<Rightarrow> continuation c \<and> continuation d \<and> (b = 224 \<longrightarrow> 160 \<le> c) \<and> (b = 237 \<longrightarrow> c \<le> 159) \<and> utf8_ok cs
         | _ \<Rightarrow> False)
      else if 240 \<le> b \<and> b \<le> 244 then
        (case bs of
           c # d # e # cs \<Rightarrow> continuation c \<and> continuation d \<and> continuation e
             \<and> (b = 240 \<longrightarrow> 144 \<le> c) \<and> (b = 244 \<longrightarrow> c \<le> 143) \<and> utf8_ok cs
         | _ \<Rightarrow> False)
      else False)"

definition utf8_char :: "char \<Rightarrow> bytes" where
  "utf8_char c =
     (let n = of_char c :: nat in if n < 128 then [of_nat n] else [of_nat (192 + n div 64), of_nat (128 + n mod 64)])"

definition utf8_encode :: "string \<Rightarrow> bytes" where
  "utf8_encode s = concat (map utf8_char s)"

section \<open>Reading\<close>

lemma stream_readline_concat: "stream_readline s = (l, s') \<Longrightarrow> concat s = l @ concat s'"
proof (induction s arbitrary: l s')
  case (Cons p ps)
  show ?case
  proof (cases "10 \<in> set p")
    case True
    then have ne: "dropWhile (\<lambda>b. b \<noteq> 10) p \<noteq> []"
      by (auto simp: dropWhile_eq_Nil_conv)
    from hd_dropWhile [OF this] have "hd (dropWhile (\<lambda>b. b \<noteq> 10) p) = 10"
      by simp
    with ne have "takeWhile (\<lambda>b. b \<noteq> 10) p @ 10 # tl (dropWhile (\<lambda>b. b \<noteq> 10) p) = p"
      by (metis list.collapse takeWhile_dropWhile_id)
    with True Cons.prems show ?thesis by auto
  qed (use Cons in \<open>auto split: prod.splits\<close>)
qed simp

function read_part_headers :: "stream \<Rightarrow> int \<Rightarrow> (int \<times> stream) res" where
  "read_part_headers s total_bytes =
     (case stream_readline s of
        (line, s') \<Rightarrow>
          let bytes_read = length line; total_bytes = total_bytes + int bytes_read
          in if \<not> utf8_ok line then Inl ValueError
             else if bytes_read < 3 \<and> line \<in> {[13, 10], [10]} then Inr (total_bytes, s')
             else if bytes_read = 0 then Inl (PyException ''unexpected 0-length line'')
             else read_part_headers s' total_bytes)"
  by pat_completeness auto
termination
  by (relation "measure (\<lambda>(s, t). length (concat s))") (auto dest!: stream_readline_concat [OF sym])

declare read_part_headers.simps [simp del]

lemma stream_read_concat: "stream_read n s = (c, s') \<Longrightarrow> concat s = c @ concat s'"
  by (induction n s arbitrary: c s' rule: stream_read.induct) (auto split: if_splits)

lemma stream_read_length: "stream_read n s = (c, s') \<Longrightarrow> length c \<le> n"
  by (induction n s arbitrary: c s' rule: stream_read.induct) (auto split: if_splits)

text \<open>
  \<open>_read_to_file\<close>: the bytes hashed and written, and whether the stream had enough of them.
\<close>

function read_to_file_loop :: "stream \<Rightarrow> bytes \<Rightarrow> int \<Rightarrow> bytes \<times> stream \<times> bool" where
  "read_to_file_loop s out bytes_to_read =
     (if bytes_to_read > 0 then
        (case stream_read (nat (min READ_CHUNK_SIZE bytes_to_read)) s of
           (chunk, s') \<Rightarrow>
             if length chunk = 0 then (out, s', False)
             else read_to_file_loop s' (out @ chunk) (bytes_to_read - int (length chunk)))
      else (out, s, True))"
  by pat_completeness auto
termination
  by (relation "measure (\<lambda>(s, out, n). nat n)") auto

declare read_to_file_loop.simps [simp del]

definition read_to_file ::
  "sha512_fn \<Rightarrow> files \<Rightarrow> stream \<Rightarrow> string \<Rightarrow> int \<Rightarrow> files \<times> stream \<times> bytes option" where
  "read_to_file H fs s file_name bytes_to_read =
     (case read_to_file_loop s [] bytes_to_read of
        (out, s', ok) \<Rightarrow> (fs(file_name \<mapsto> out), s', if ok then Some (sha512_digest H out) else None))"

function read_to_memory_loop :: "stream \<Rightarrow> bytes \<Rightarrow> int \<Rightarrow> bytes option" where
  "read_to_memory_loop s data bytes_to_read =
     (if bytes_to_read > 0 then
        (case stream_read (nat bytes_to_read) s of
           (chunk, s') \<Rightarrow>
             if length chunk = 0 then None
             else read_to_memory_loop s' (data @ chunk) (bytes_to_read - int (length chunk)))
      else Some data)"
  by pat_completeness auto
termination
  by (relation "measure (\<lambda>(s, out, n). nat n)") auto

declare read_to_memory_loop.simps [simp del]

definition read_to_memory :: "stream \<Rightarrow> int \<Rightarrow> bytes option" where
  "read_to_memory s bytes_to_read = read_to_memory_loop s [] bytes_to_read"

definition final_boundary :: "string \<Rightarrow> string" where
  "final_boundary content_boundary = [CHR 0x0D, CHR 0x0A] @ ''--'' @ content_boundary @ ''--'' @ [CHR 0x0D, CHR 0x0A]"

definition handle_upload_request ::
  "sha512_fn \<Rightarrow> files \<Rightarrow> int \<Rightarrow> string \<Rightarrow> bytes \<Rightarrow> stream \<Rightarrow> string \<Rightarrow> files \<times> unit res" where
  "handle_upload_request H fs content_length content_boundary expect_digest s file_name =
     (let final = final_boundary content_boundary; remaining_bytes = content_length - int (length final)
      in case read_part_headers s 0 of
           Inl e \<Rightarrow> (fs, Inl e)
         | Inr (header_bytes, s1) \<Rightarrow>
             (case read_to_file H fs s1 file_name (remaining_bytes - header_bytes) of
                (fs, s2, digest) \<Rightarrow>
                  (fs, case digest of
                         None \<Rightarrow> Inl (PyException ''invalid part format'')
                       | Some d \<Rightarrow>
                           if d \<noteq> expect_digest then Inl (PyException ''digest mismatch'')
                           else (case read_to_memory s2 (int (length final)) of
                                   None \<Rightarrow> Inl (PyException ''invalid part tail'')
                                 | Some tail \<Rightarrow>
                                     if \<not> utf8_ok tail then Inl ValueError
                                     else if tail \<noteq> utf8_encode final then Inl (PyException ''invalid part tail'')
                                     else Inr ()))))"

section \<open>Independence of the pieces\<close>

lemma stream_readline_complete:
  "concat s = a @ 10 # rest \<Longrightarrow> 10 \<notin> set a \<Longrightarrow> \<exists>s'. stream_readline s = (a @ [10], s') \<and> concat s' = rest"
proof (induction s arbitrary: a)
  case (Cons p ps)
  show ?case
  proof (cases "10 \<in> set p")
    case True
    then obtain u v where p: "p = u @ 10 # v" "10 \<notin> set u"
      by (meson split_list_first)
    with Cons.prems have "u @ 10 # (v @ concat ps) = a @ 10 # rest"
      by simp
    then have "u = a \<and> v @ concat ps = rest"
      using sep_unique [OF p(2) Cons.prems(2)] by blast
    moreover have "takeWhile (\<lambda>b. b \<noteq> 10) p = u" "dropWhile (\<lambda>b. b \<noteq> 10) p = 10 # v"
      unfolding p(1) using p(2) by (auto simp: takeWhile_tail dropWhile_append3 intro: takeWhile_eq_all_conv [THEN iffD2])
    ultimately show ?thesis
      using True by simp
  next
    case False
    with Cons.prems(1) obtain a' where a': "a = p @ a'"
      by (auto simp: append_eq_append_conv2 append_eq_Cons_conv)
    with Cons.prems obtain s' where "stream_readline ps = (a' @ [10], s')" "concat s' = rest"
      using Cons.IH [of a'] by auto
    with False a' show ?thesis by simp
  qed
qed simp

lemma read_part_headers_sound:
  "read_part_headers s t = Inr (n, s') \<Longrightarrow> \<exists>hdr. concat s = hdr @ concat s' \<and> n = t + int (length hdr)"
proof (induction s t rule: read_part_headers.induct)
  case (1 s t)
  obtain line s1 where line: "stream_readline s = (line, s1)" by fastforce
  note c = stream_readline_concat [OF line]
  show ?case
  proof (cases "length line < 3 \<and> line \<in> {[13, 10], [10]} \<or> \<not> utf8_ok line")
    case True
    with "1.prems" show ?thesis
      by (subst (asm) read_part_headers.simps) (auto simp: line c Let_def split: if_splits)
  next
    case False
    with "1.prems" have ne: "length line \<noteq> 0" and r: "read_part_headers s1 (t + int (length line)) = Inr (n, s')"
      by (subst (asm) read_part_headers.simps, auto simp: line Let_def split: if_splits)+
    from "1.IH" [OF line [symmetric] refl refl _ _ ne r] False
    obtain hdr where "concat s1 = hdr @ concat s'" "n = t + int (length line) + int (length hdr)"
      by auto
    with c show ?thesis
      by (intro exI [of _ "line @ hdr"]) simp
  qed
qed

text \<open>A header line: text that ends with its only line feed and is not blank.\<close>

definition header_line :: "bytes \<Rightarrow> bool" where
  "header_line l \<longleftrightarrow> utf8_ok l \<and> l \<notin> {[13, 10], [10]} \<and> (\<exists>a. l = a @ [10] \<and> 10 \<notin> set a)"

lemma read_part_headers_complete:
  "concat s = concat hs @ [13, 10] @ rest \<Longrightarrow> \<forall>l \<in> set hs. header_line l \<Longrightarrow>
   \<exists>s'. read_part_headers s t = Inr (t + int (length (concat hs)) + 2, s') \<and> concat s' = rest"
proof (induction hs arbitrary: s t)
  case Nil
  then obtain s' where "stream_readline s = ([13] @ [10], s')" "concat s' = rest"
    using stream_readline_complete [of s "[13]" rest] by auto
  then show ?case
    by (subst read_part_headers.simps) (simp add: Let_def)
next
  case (Cons l hs)
  then obtain a where a: "l = a @ [10]" "10 \<notin> set a" "utf8_ok l" "l \<notin> {[13, 10], [10]}"
    unfolding header_line_def by (metis list.set_intros(1))
  with Cons.prems obtain s1 where s1: "stream_readline s = (l, s1)" "concat s1 = concat hs @ [13, 10] @ rest"
    using stream_readline_complete [of s a "concat hs @ [13, 10] @ rest"] by auto
  have step: "read_part_headers s t = read_part_headers s1 (t + int (length l))"
    using a by (subst read_part_headers.simps) (simp add: s1 Let_def)
  show ?case
    unfolding step using Cons.IH [OF s1(2), of "t + int (length l)"] Cons.prems(2) by (simp add: algebra_simps)
qed

lemma stream_read_progress: "0 < n \<Longrightarrow> stream_read n s = (c, s') \<Longrightarrow> c = [] \<longleftrightarrow> concat s = []"
  by (induction n s arbitrary: c s' rule: stream_read.induct) (auto split: if_splits)

lemma read_to_file_loop_ok:
  "\<exists>s'. read_to_file_loop s out n =
      (out @ take (nat n) (concat s), s', nat n \<le> length (concat s)) \<and> concat s' = drop (nat n) (concat s)"
proof (induction s out n rule: read_to_file_loop.induct)
  case (1 s out n)
  show ?case
  proof (cases "0 < n")
    case True
    let ?k = "nat (min READ_CHUNK_SIZE n)"
    obtain c s1 where c: "stream_read ?k s = (c, s1)" by fastforce
    have k: "0 < ?k" "length c \<le> nat n"
      using True stream_read_length [OF c] by (auto simp: READ_CHUNK_SIZE_def)
    note cat = stream_read_concat [OF c]
    show ?thesis
    proof (cases "c = []")
      case True
      then have "concat s = []" "concat s1 = []"
        using stream_read_progress [OF k(1) c] cat append_Nil by (blast, metis)
      moreover have "read_to_file_loop s out n = (out, s1, False)"
        unfolding read_to_file_loop.simps [of s out n] c using \<open>0 < n\<close> True by simp
      ultimately show ?thesis
        using \<open>0 < n\<close> by (intro exI [of _ s1]) (simp del: concat_eq_Nil_conv)
    next
      case False
      then have "length c \<noteq> 0" by simp
      from "1.IH" [OF True c [symmetric] this] obtain s' where
        "read_to_file_loop s1 (out @ c) (n - int (length c)) =
           ((out @ c) @ take (nat (n - int (length c))) (concat s1), s', nat (n - int (length c)) \<le> length (concat s1))"
        "concat s' = drop (nat (n - int (length c))) (concat s1)"
        by blast
      with True False c k(2) cat show ?thesis
        by (subst read_to_file_loop.simps) (auto simp: nat_diff_distrib)
    qed
  qed (subst read_to_file_loop.simps, simp)
qed

lemma read_to_memory_loop_ok:
  "read_to_memory_loop s data n =
     (if nat n \<le> length (concat s) then Some (data @ take (nat n) (concat s)) else None)"
proof (induction s data n rule: read_to_memory_loop.induct)
  case (1 s data n)
  show ?case
  proof (cases "0 < n")
    case True
    obtain c s1 where c: "stream_read (nat n) s = (c, s1)" by fastforce
    have k: "0 < nat n" "length c \<le> nat n"
      using True stream_read_length [OF c] by auto
    note cat = stream_read_concat [OF c]
    show ?thesis
    proof (cases "c = []")
      case True
      then have "concat s = []" "concat s1 = []"
        using stream_read_progress [OF k(1) c] cat append_Nil by (blast, metis)
      moreover have "read_to_memory_loop s data n = None"
        unfolding read_to_memory_loop.simps [of s data n] c using \<open>0 < n\<close> True by simp
      ultimately show ?thesis
        using \<open>0 < n\<close> by (simp del: concat_eq_Nil_conv)
    next
      case False
      then have "length c \<noteq> 0" by simp
      from "1.IH" [OF True c [symmetric] this] True False c k(2) cat show ?thesis
        by (subst read_to_memory_loop.simps) (auto simp: nat_diff_distrib)
    qed
  qed (subst read_to_memory_loop.simps, simp)
qed

lemma upload_sound_aux:
  assumes "handle_upload_request H fs n b d s f = (fs', Inr ())"
  shows "\<exists>hdr content rest. concat s = hdr @ content @ utf8_encode (final_boundary b) @ rest
    \<and> fs' = fs(f \<mapsto> content) \<and> sha512_digest H content = d
    \<and> length content = nat (n - int (length (final_boundary b)) - int (length hdr))"
proof -
  let ?fb = "final_boundary b" and ?m = "length (final_boundary b)"
  obtain hb s1 where h: "read_part_headers s 0 = Inr (hb, s1)"
    using assms by (fastforce simp: handle_upload_request_def Let_def split: sum.splits)
  from read_part_headers_sound [OF h] obtain hdr where hdr: "concat s = hdr @ concat s1" "hb = int (length hdr)"
    by auto
  let ?k = "nat (n - int ?m - hb)"
  obtain s2 where l: "read_to_file_loop s1 [] (n - int ?m - hb) = (take ?k (concat s1), s2, ?k \<le> length (concat s1))"
      "concat s2 = drop ?k (concat s1)"
    using read_to_file_loop_ok [of s1 "[]" "n - int ?m - hb"] by auto
  have r: "read_to_file H fs s1 f (n - int ?m - hb) =
      (fs(f \<mapsto> take ?k (concat s1)), s2, if ?k \<le> length (concat s1) then Some (sha512_digest H (take ?k (concat s1))) else None)"
    by (simp add: read_to_file_def l)
  have acc: "?k \<le> length (concat s1)" "sha512_digest H (take ?k (concat s1)) = d"
      "take ?m (concat s2) = utf8_encode ?fb" "fs' = fs(f \<mapsto> take ?k (concat s1))"
    using assms unfolding handle_upload_request_def Let_def h sum.case prod.case r
    by (auto simp: read_to_memory_def read_to_memory_loop_ok split: if_splits)
  have "concat s1 = take ?k (concat s1) @ utf8_encode ?fb @ drop ?m (concat s2)"
    using l(2) acc(3) by (metis append_take_drop_id)
  with hdr acc show ?thesis
    by (intro exI [of _ hdr] exI [of _ "take ?k (concat s1)"] exI [of _ "drop ?m (concat s2)"]) simp
qed

definition ascii :: "string \<Rightarrow> bool" where
  "ascii s \<longleftrightarrow> (\<forall>c \<in> set s. (of_char c :: nat) < 128)"

lemma utf8_encode_ascii: "ascii s \<Longrightarrow> utf8_encode s = map of_char s"
  by (induction s) (auto simp: ascii_def utf8_encode_def utf8_char_def of_nat_of_char)

lemma utf8_ok_ascii: "ascii s \<Longrightarrow> utf8_ok (map of_char s)"
proof (induction s)
  case (Cons c s)
  have "(of_char c :: nat) < 128"
    using Cons.prems by (simp add: ascii_def)
  then have "(of_nat (of_char c) :: byte) < 128"
    by (simp add: word_less_nat_alt unat_of_nat)
  then have "(of_char c :: byte) < 128"
    by (simp only: of_nat_of_char)
  with Cons show ?case
    by (simp add: ascii_def)
qed simp

lemma upload_correct_aux:
  assumes "\<forall>l \<in> set hs. header_line l" "ascii boundary"
    and "concat s = concat hs @ [13, 10] @ content @ utf8_encode (final_boundary boundary)"
  shows "handle_upload_request H fs (int (length (concat s))) boundary d s f =
    (fs(f \<mapsto> content), if sha512_digest H content = d then Inr () else Inl (PyException ''digest mismatch''))"
proof -
  let ?fb = "final_boundary boundary"
  have asc: "ascii ?fb"
    using assms(2) by (simp add: ascii_def final_boundary_def)
  have len: "length ?fb = length (utf8_encode ?fb)" and ok: "utf8_ok (utf8_encode ?fb)"
    using asc by (simp_all add: utf8_encode_ascii utf8_ok_ascii)
  obtain s1 where s1: "read_part_headers s 0 = Inr (int (length (concat hs)) + 2, s1)"
      "concat s1 = content @ utf8_encode ?fb"
    using read_part_headers_complete [OF assms(3,1), of 0] by auto
  let ?k = "int (length (concat s)) - int (length ?fb) - (int (length (concat hs)) + 2)"
  have k: "?k = int (length content)"
    unfolding assms(3) by (simp add: len)
  obtain s2 where "read_to_file_loop s1 [] ?k = (content, s2, True)" "concat s2 = utf8_encode ?fb"
    using read_to_file_loop_ok [of s1 "[]" ?k] unfolding k s1(2) by auto
  then show ?thesis
    unfolding handle_upload_request_def Let_def s1(1) sum.case prod.case
    by (simp add: read_to_file_def read_to_memory_def read_to_memory_loop_ok len ok)
qed

definition example_sha512 :: sha512_fn where
  "example_sha512 bs = word_of_int (int_from_bytes bs)"

definition example_stream :: stream where
  "example_stream = [[65, 58, 13, 10, 13], [10, 7, 8, 13, 10, 45], [45, 98, 45, 45, 13, 10]]"

lemma example_stream_ok:
  "header_line [65, 58, 13, 10]" "concat example_stream = [65, 58, 13, 10] @ [13, 10] @ [7, 8] @ utf8_encode (final_boundary ''b'')"
  by (simp add: header_line_def exI [of _ "[65, 58, 13]"]) code_simp

section \<open>Properties\<close>

text \<open>
  C25. A well-formed upload, header lines, a blank line, the content and the closing boundary, is
  written to the file whatever the pieces in which it arrives, and is accepted exactly if
  the SHA-512 digest of the content is the announced one.
\<close>

theorem upload_correct:
  assumes "\<forall>l \<in> set hs. header_line l" "ascii boundary"
    and "concat s = concat hs @ [13, 10] @ content @ utf8_encode (final_boundary boundary)"
  shows "handle_upload_request H fs (int (length (concat s))) boundary d s f =
    (fs(f \<mapsto> content), if sha512_digest H content = d then Inr () else Inl (PyException ''digest mismatch''))"
  using assms by (rule upload_correct_aux)

theorem upload_correct_witness:
  "handle_upload_request example_sha512 Map.empty (int (length (concat example_stream)))
      ''b'' (sha512_digest example_sha512 [7, 8]) example_stream ''upload.raw'' =
    (Map.empty(''upload.raw'' \<mapsto> [7, 8]),
     if sha512_digest example_sha512 [7, 8] = sha512_digest example_sha512 [7, 8] then Inr ()
     else Inl (PyException ''digest mismatch''))"
  by (rule upload_correct [of "[[65, 58, 13, 10]]"]) (simp_all add: example_stream_ok ascii_def)

text \<open>
  Nothing else is accepted: after a successful upload the file holds bytes of the stream that
  have the announced digest and are followed by the closing boundary, and their number is
  what the content length leaves.
\<close>

theorem upload_sound:
  assumes "handle_upload_request H fs n boundary d s f = (fs', Inr ())"
  shows "\<exists>hdr content rest. concat s = hdr @ content @ utf8_encode (final_boundary boundary) @ rest
    \<and> fs' = fs(f \<mapsto> content) \<and> sha512_digest H content = d
    \<and> length content = nat (n - int (length (final_boundary boundary)) - int (length hdr))"
  using assms by (rule upload_sound_aux)

theorem upload_sound_witness:
  "\<exists>hdr content rest. concat example_stream = hdr @ content @ utf8_encode (final_boundary ''b'') @ rest
    \<and> Map.empty(''upload.raw'' \<mapsto> [7, 8]) = Map.empty(''upload.raw'' \<mapsto> content)
    \<and> sha512_digest example_sha512 content = sha512_digest example_sha512 [7, 8]
    \<and> length content = nat (17 - int (length (final_boundary ''b'')) - int (length hdr))"
proof (rule upload_sound)
  have "handle_upload_request example_sha512 Map.empty (int (length (concat example_stream))) ''b''
      (sha512_digest example_sha512 [7, 8]) example_stream ''upload.raw'' = (Map.empty(''upload.raw'' \<mapsto> [7, 8]), Inr ())"
    by (subst upload_correct_aux [of "[[65, 58, 13, 10]]" _ _ "[7, 8]"]) (simp_all add: example_stream_ok ascii_def)
  then show "handle_upload_request example_sha512 Map.empty 17 ''b''
      (sha512_digest example_sha512 [7, 8]) example_stream ''upload.raw'' = (Map.empty(''upload.raw'' \<mapsto> [7, 8]), Inr ())"
    by (simp add: example_stream_def)
qed

end
