(* ===== verification/Mpc_Commands.thy ===== *)
theory Mpc_Commands
  imports Upload_Utils Server_Configuration
begin

text \<open>
  \<open>mpc/coordinator/mpc_command.py\<close>, \<open>powersoftau_command.py\<close> and \<open>powersoftau_process_command.py\<close>:
  the command lines of the external tools. \<open>subprocess.run\<close> is a function of the files, the
  arguments and the standard input to the files after the run and the return code; the
  variant that captures the output also returns it.
\<close>

record tool_runner =
  run_tool :: "files \<Rightarrow> string list \<Rightarrow> bytes option \<Rightarrow> files \<times> int"
  run_output :: "files \<Rightarrow> string list \<Rightarrow> bytes \<times> int"

text \<open>\<open>os.rename\<close>, \<open>os.remove\<close> and \<open>os.path.exists\<close>.\<close>

definition file_exists :: "files \<Rightarrow> string \<Rightarrow> bool" where
  "file_exists fs f \<longleftrightarrow> fs f \<noteq> None"

definition rename_file :: "files \<Rightarrow> string \<Rightarrow> string \<Rightarrow> files res" where
  "rename_file fs a b =
     (case fs a of None \<Rightarrow> Inl FileNotFoundError | Some c \<Rightarrow> Inr ((fs(a := None))(b \<mapsto> c)))"

definition remove_file :: "files \<Rightarrow> string \<Rightarrow> files" where
  "remove_file fs a = fs(a := None)"

section \<open>The phase 2 tool\<close>

record MPCCommand =
  mpc_tool :: string
  mpc_dry_run :: bool

definition mpc_command_init :: "files \<Rightarrow> string \<Rightarrow> string option \<Rightarrow> bool \<Rightarrow> MPCCommand res" where
  "mpc_command_init fs default_mpc_tool tool dry_run =
     (let tool = if truthy tool then the tool else default_mpc_tool
      in assertR (file_exists fs tool) (Inr \<lparr>mpc_tool = tool, mpc_dry_run = dry_run\<rparr>))"

definition mpc_exec :: "tool_runner \<Rightarrow> MPCCommand \<Rightarrow> files \<Rightarrow> string list \<Rightarrow> files \<times> bool" where
  "mpc_exec R m fs args =
     (if mpc_dry_run m then (fs, True)
      else case run_tool R fs (mpc_tool m # args) None of (fs', code) \<Rightarrow> (fs', code = 0))"

text \<open>An option with its value, present if the value is.\<close>

definition opt_arg :: "string \<Rightarrow> string option \<Rightarrow> string list" where
  "opt_arg name v = (if truthy v then [name, the v] else [])"

definition int_arg :: "string \<Rightarrow> int option \<Rightarrow> string list" where
  "int_arg name v = (case v of None \<Rightarrow> [] | Some n \<Rightarrow> if n = 0 then [] else [name, str_int n])"

definition linear_combination where
  "linear_combination R m fs powersoftau_file lagrange_file linear_comb_out_file pot_degree =
     mpc_exec R m fs
       ([''linear-combination''] @ int_arg ''--pot-degree'' pot_degree @
        [powersoftau_file, lagrange_file, linear_comb_out_file])"

definition phase2_begin where
  "phase2_begin R m fs linear_comb_file challenge_0_file =
     mpc_exec R m fs [''phase2-begin'', linear_comb_file, challenge_0_file]"

definition phase2_verify_contribution where
  "phase2_verify_contribution R m fs orig_challenge response out_new_challenge transcript =
     mpc_exec R m fs
       ([''phase2-verify-contribution''] @ opt_arg ''--new-challenge'' out_new_challenge @
        opt_arg ''--transcript'' transcript @ [orig_challenge, response])"

definition phase2_verify_transcript where
  "phase2_verify_transcript R m fs orig_challenge final_challenge transcript digest_file =
     mpc_exec R m fs
       ([''phase2-verify-transcript''] @ opt_arg ''--digest'' digest_file @ [orig_challenge, transcript, final_challenge])"

definition phase2_contribute where
  "phase2_contribute R m fs challenge_file output_file digest_file skip_user_input =
     mpc_exec R m fs
       ([''phase2-contribute'', challenge_file, output_file] @ opt_arg ''--digest'' digest_file @
        (if skip_user_input then [''--skip-user-input''] else []))"

definition create_keypair where
  "create_keypair R m fs powersoftau_file linear_comb_file final_challenge keypair_out_file pot_degree =
     mpc_exec R m fs
       ([''create-keypair''] @ int_arg ''--pot-degree'' pot_degree @
        [powersoftau_file, linear_comb_file, final_challenge, keypair_out_file])"

section \<open>The powers of tau tools\<close>

definition CHALLENGE_FILE :: string where
  "CHALLENGE_FILE = ''challenge''"

definition NEW_CHALLENGE_FILE :: string where
  "NEW_CHALLENGE_FILE = ''new_challenge''"

definition RESPONSE_FILE :: string where
  "RESPONSE_FILE = ''response''"

record PowersOfTauCommand =
  powersoftau_path :: string
  num_powers :: "int option"

definition powersoftau_init :: "files \<Rightarrow> string \<Rightarrow> string option \<Rightarrow> int option \<Rightarrow> PowersOfTauCommand res" where
  "powersoftau_init fs default_powersoftau_path path powers =
     (let path = if truthy path then the path else default_powersoftau_path
      in if \<not> file_exists fs path then Inl (PyException (''expected powersoftau path: '' @ path))
         else Inr \<lparr>powersoftau_path = path, num_powers = powers\<rparr>)"

definition pot_exec ::
  "tool_runner \<Rightarrow> PowersOfTauCommand \<Rightarrow> files \<Rightarrow> string \<Rightarrow> string list \<Rightarrow> bytes option \<Rightarrow> files \<times> bool" where
  "pot_exec R p fs cmd args input =
     (case run_tool R fs ([path_join (powersoftau_path p) cmd] @ args @ int_arg ''-n'' (num_powers p)) input of
        (fs', code) \<Rightarrow> (fs', code = 0))"

definition pot_begin where
  "pot_begin R p fs = pot_exec R p fs ''new'' [] None"

definition pot_verify_contribution where
  "pot_verify_contribution R p fs = pot_exec R p fs ''verify_transform'' [] None"

text \<open>
  The transcript is opened for appending, and so created, before the program runs; a failure of
  the program raises \<open>CalledProcessError\<close> after its output was appended.
\<close>

definition append_response_to_transcript ::
  "tool_runner \<Rightarrow> files \<Rightarrow> string \<Rightarrow> string \<Rightarrow> files \<times> unit res" where
  "append_response_to_transcript R fs response transcript_file =
     (let old = (case fs transcript_file of None \<Rightarrow> [] | Some c \<Rightarrow> c);
          fs = fs(transcript_file \<mapsto> old)
      in case run_output R fs [''dd'', ''if='' @ response, ''bs=64'', ''skip=1''] of
           (out, code) \<Rightarrow>
             (fs(transcript_file \<mapsto> old @ out), if code = 0 then Inr () else Inl (PyException ''CalledProcessError'')))"

definition pot_contribute ::
  "tool_runner \<Rightarrow> PowersOfTauCommand \<Rightarrow> files \<Rightarrow> string option \<Rightarrow> bool \<Rightarrow> files \<times> bool res" where
  "pot_contribute R p fs digest_file skip_user_input =
     (if \<not> file_exists fs CHALLENGE_FILE then (fs, Inl AssertionError)
      else case pot_exec R p fs ''compute'' (opt_arg ''--digest'' digest_file)
                  (if skip_user_input then Some (encode_ascii (''any data'' @ [CHR 0x0A])) else None) of
             (fs', ok) \<Rightarrow> (fs', if ok then assertR (file_exists fs' RESPONSE_FILE) (Inr True) else Inr False))"

definition pot_verify_transcript where
  "pot_verify_transcript R p fs num_rounds = pot_exec R p fs ''verify'' [''--rounds'', str_int num_rounds] None"

section \<open>The Lagrange tool\<close>

record PowersOfTauProcessCommand =
  pot_process_tool :: string
  pot_process_dry_run :: bool

definition pot_process_init :: "files \<Rightarrow> string \<Rightarrow> string option \<Rightarrow> bool \<Rightarrow> PowersOfTauProcessCommand res" where
  "pot_process_init fs default_tool tool dry_run =
     (let tool = if truthy tool then the tool else default_tool
      in assertR (file_exists fs tool) (Inr \<lparr>pot_process_tool = tool, pot_process_dry_run = dry_run\<rparr>))"

definition pot_process_exec :: "tool_runner \<Rightarrow> PowersOfTauProcessCommand \<Rightarrow> files \<Rightarrow> string list \<Rightarrow> files \<times> bool" where
  "pot_process_exec R p fs args =
     (if pot_process_dry_run p then (fs, True)
      else case run_tool R fs (pot_process_tool p # args) None of (fs', code) \<Rightarrow> (fs', code = 0))"

definition compute_lagrange where
  "compute_lagrange R p fs pot_file pot_degree lagrange_output_file lagrange_degree =
     (let degree = (case lagrange_degree of None \<Rightarrow> pot_degree | Some n \<Rightarrow> if n = 0 then pot_degree else n)
      in pot_process_exec R p fs
           [''--out'', lagrange_output_file, ''--lagrange-degree'', str_int degree, pot_file, str_int pot_degree])"

section \<open>Documented behaviour of the tools\<close>

text \<open>
  A tool deletes no file, and a file it creates is one it is given or one of the fixed names of
  the powers of tau programs. \<open>dd\<close> copies the file without its first block of 64 bytes.
\<close>

definition tool_laws :: "tool_runner \<Rightarrow> bool" where
  "tool_laws R \<longleftrightarrow>
     (\<forall>fs args input f. fs f \<noteq> None \<longrightarrow> fst (run_tool R fs args input) f \<noteq> None)
     \<and> (\<forall>fs args input f. fs f = None \<and> f \<notin> set args \<and> f \<notin> {CHALLENGE_FILE, NEW_CHALLENGE_FILE, RESPONSE_FILE} \<longrightarrow>
          fst (run_tool R fs args input) f = None)
     \<and> (\<forall>fs response c. fs response = Some c \<longrightarrow>
          run_output R fs [''dd'', ''if='' @ response, ''bs=64'', ''skip=1''] = (drop 64 c, 0))"

lemma rename_file_ok [simp]:
  "fs a = Some c \<Longrightarrow> rename_file fs a b = Inr ((fs(a := None))(b \<mapsto> c))"
  by (simp add: rename_file_def)

lemma mpc_exec_keeps: "tool_laws R \<Longrightarrow> fs f \<noteq> None \<Longrightarrow> fst (mpc_exec R m fs args) f \<noteq> None"
  by (auto simp: mpc_exec_def tool_laws_def split: prod.splits) (metis fst_conv option.discI)

lemma pot_exec_keeps: "tool_laws R \<Longrightarrow> fs f \<noteq> None \<Longrightarrow> fst (pot_exec R p fs cmd args i) f \<noteq> None"
  by (auto simp: pot_exec_def tool_laws_def split: prod.splits) (metis fst_conv option.discI)

lemma mpc_exec_creates:
  "tool_laws R \<Longrightarrow> fs f = None \<Longrightarrow> f \<notin> set (mpc_tool m # args) \<Longrightarrow>
   f \<notin> {CHALLENGE_FILE, NEW_CHALLENGE_FILE, RESPONSE_FILE} \<Longrightarrow> fst (mpc_exec R m fs args) f = None"
  unfolding mpc_exec_def tool_laws_def by (auto split: prod.splits) (metis fst_conv set_ConsD)

end
