(* ===== verification/Contribution_Handlers.thy ===== *)
theory Contribution_Handlers
  imports Mpc_Commands Server_Configuration
begin

text \<open>
  \<open>mpc/coordinator/icontributionhandler.py\<close> and its three implementations
  (\<open>null_contribution_handler.py\<close>, \<open>phase1_contribution_handler.py\<close>,
  \<open>phase2_contribution_handler.py\<close>). The abstract class is the record \<open>handler_ops\<close> of its
  methods; what the server may rely on is the locale \<open>contribution_handler\<close>, interpreted on each
  implementation. A method works on the handler and the files of the server directory, and
  keeps what it changed before an exception.
\<close>

record 'h handler_ops =
  h_challenge :: "'h \<Rightarrow> files \<Rightarrow> int \<Rightarrow> string res"
  h_process :: "'h \<Rightarrow> files \<Rightarrow> int \<Rightarrow> string \<Rightarrow> ('h \<times> files) \<times> bool res"
  h_completed :: "'h \<Rightarrow> files \<Rightarrow> ('h \<times> files) \<times> unit res"

definition UPLOAD_FILE :: string where
  "UPLOAD_FILE = ''upload.raw''"

section \<open>The contract\<close>

text \<open>
  The invariant is indexed by the number of turns that are over. While the MPC runs it gives a
  challenge file that exists; it holds after every outcome of \<open>process_contribution\<close>, for the
  next turn when the contribution was accepted; turns may pass without a contribution; and
  the upload file is free for the server to use.
\<close>

locale contribution_handler =
  fixes ops :: "'h handler_ops"
    and hinv :: "'h \<Rightarrow> files \<Rightarrow> int \<Rightarrow> bool"
  assumes challenge_exists: "hinv h fs i \<Longrightarrow> \<exists>f c. h_challenge ops h fs i = Inr f \<and> fs f = Some c"
    and process_inv: "hinv h fs i \<Longrightarrow> h_process ops h fs i (path_join dir UPLOAD_FILE) = ((h', fs'), r) \<Longrightarrow> 0 \<le> i \<Longrightarrow>
      hinv h' fs' (if r = Inr True then i + 1 else i)"
    and turn_passes: "hinv h fs i \<Longrightarrow> 0 \<le> i \<Longrightarrow> hinv h fs (i + 1)"
    and upload_free: "hinv h fs i \<Longrightarrow> hinv h (fs(path_join dir UPLOAD_FILE := x)) i"

section \<open>Null handler\<close>

definition CONTRIBUTION_FILE_NAME :: string where
  "CONTRIBUTION_FILE_NAME = ''contrib''"

definition FINAL_FILE_NAME :: string where
  "FINAL_FILE_NAME = ''final-upload''"

definition null_challenge_file :: "unit \<Rightarrow> files \<Rightarrow> int \<Rightarrow> string res" where
  "null_challenge_file h fs next_contributor_idx = Inr CONTRIBUTION_FILE_NAME"

definition null_process :: "unit \<Rightarrow> files \<Rightarrow> int \<Rightarrow> string \<Rightarrow> (unit \<times> files) \<times> bool res" where
  "null_process h fs contribution_idx file_name =
     (case rename_file fs file_name CONTRIBUTION_FILE_NAME of
        Inl e \<Rightarrow> ((h, fs), Inl e)
      | Inr fs' \<Rightarrow> ((h, fs'), Inr True))"

definition null_completed :: "unit \<Rightarrow> files \<Rightarrow> (unit \<times> files) \<times> unit res" where
  "null_completed h fs =
     (if file_exists fs FINAL_FILE_NAME then ((h, fs), Inl AssertionError)
      else if file_exists fs CONTRIBUTION_FILE_NAME then
        (case rename_file fs CONTRIBUTION_FILE_NAME FINAL_FILE_NAME of
           Inl e \<Rightarrow> ((h, fs), Inl e)
         | Inr fs' \<Rightarrow> ((h, fs'), Inr ()))
      else ((h, fs), Inr ()))"

definition NullContributionHandler :: "unit handler_ops" where
  "NullContributionHandler =
     \<lparr>h_challenge = null_challenge_file, h_process = null_process, h_completed = null_completed\<rparr>"

section \<open>Phase 1\<close>

definition PHASE1_STATE_FILE :: string where
  "PHASE1_STATE_FILE = ''phase1_state.json''"

definition TRANSCRIPT_FILE :: string where
  "TRANSCRIPT_FILE = ''transcript''"

definition FINAL_OUTPUT :: string where
  "FINAL_OUTPUT = ''final_output.bin''"

definition FINAL_TRANSCRIPT :: string where
  "FINAL_TRANSCRIPT = ''final_transcript.bin''"

record Phase1ServerConfig =
  p1_server_configuration :: Configuration
  p1_powersoftau_path :: "string option"
  p1_num_powers :: "int option"

definition j_opt_int :: "int option \<Rightarrow> json" where
  "j_opt_int x = (case x of None \<Rightarrow> JNull | Some n \<Rightarrow> JInt n)"

definition opt_int :: "json \<Rightarrow> int option res" where
  "opt_int j = (case j of JNull \<Rightarrow> Inr None | JInt n \<Rightarrow> Inr (Some n) | _ \<Rightarrow> Inl TypeError)"

definition phase1_config_to_json_dict :: "number_text \<Rightarrow> Phase1ServerConfig \<Rightarrow> json" where
  "phase1_config_to_json_dict T c =
     JObj [(''server'', configuration_to_json_dict T (p1_server_configuration c)),
           (''powersoftau_path'', j_opt_str (p1_powersoftau_path c)),
           (''num_powers'', j_opt_int (p1_num_powers c))]"

definition phase1_config_from_json_dict ::
  "number_text \<Rightarrow> string set \<Rightarrow> json \<Rightarrow> string option \<Rightarrow> Phase1ServerConfig res" where
  "phase1_config_from_json_dict T paths j config_path =
     bindR (bindR (jget j ''server'') (\<lambda>s. configuration_from_json_dict T paths s config_path)) (\<lambda>c.
     bindR (bindR (jget_default j ''powersoftau_path'' JNull) opt_str) (\<lambda>path.
     bindR (bindR (jget_default j ''num_powers'' JNull) opt_int) (\<lambda>n.
       Inr \<lparr>p1_server_configuration = c, p1_powersoftau_path = path, p1_num_powers = n\<rparr>)))"

text \<open>
  \<open>_Phase1State\<close> is the number of valid contributions. The handler holds it, the document saved
  in \<open>PHASE1_STATE_FILE\<close>, and the tools it runs.
\<close>

record Phase1Handler =
  p1_runner :: tool_runner
  p1_powersoftau :: PowersOfTauCommand
  num_valid_contributions :: int
  p1_saved :: "json option"

definition phase1_state_to_json_dict :: "int \<Rightarrow> json" where
  "phase1_state_to_json_dict n = JObj [(''num_valid_contributions'', JInt n)]"

definition phase1_state_from_json_dict :: "json \<Rightarrow> int res" where
  "phase1_state_from_json_dict j = jget_int j ''num_valid_contributions''"

definition on_valid_contribution :: "Phase1Handler \<Rightarrow> Phase1Handler" where
  "on_valid_contribution h = h\<lparr>num_valid_contributions := num_valid_contributions h + 1\<rparr>"

definition phase1_save_state :: "Phase1Handler \<Rightarrow> Phase1Handler" where
  "phase1_save_state h = h\<lparr>p1_saved := Some (phase1_state_to_json_dict (num_valid_contributions h))\<rparr>"

definition phase1_init ::
  "tool_runner \<Rightarrow> string \<Rightarrow> Phase1ServerConfig \<Rightarrow> json option \<Rightarrow> files \<Rightarrow> files \<times> Phase1Handler res" where
  "phase1_init R default_path config saved fs =
     bindS (fs, powersoftau_init fs default_path (p1_powersoftau_path config) (p1_num_powers config)) (\<lambda>fs pot.
     bindS (fs, case saved of None \<Rightarrow> Inr 0 | Some j \<Rightarrow> phase1_state_from_json_dict j) (\<lambda>fs n.
     let h = \<lparr>p1_runner = R, p1_powersoftau = pot, num_valid_contributions = n, p1_saved = saved\<rparr>
     in bindS (if \<not> file_exists fs CHALLENGE_FILE then
                 if file_exists fs NEW_CHALLENGE_FILE \<or> file_exists fs TRANSCRIPT_FILE then (fs, Inl AssertionError)
                 else (fst (pot_begin R pot fs), Inr ())
               else (fs, Inr ())) (\<lambda>fs _.
          (fs, assertR (file_exists fs CHALLENGE_FILE) (Inr h)))))"

definition phase1_challenge_file :: "Phase1Handler \<Rightarrow> files \<Rightarrow> int \<Rightarrow> string res" where
  "phase1_challenge_file h fs contributor_idx = Inr CHALLENGE_FILE"

definition phase1_process :: "Phase1Handler \<Rightarrow> files \<Rightarrow> int \<Rightarrow> string \<Rightarrow> (Phase1Handler \<times> files) \<times> bool res" where
  "phase1_process h fs contribution_idx file_name =
     (case rename_file fs file_name RESPONSE_FILE of
        Inl e \<Rightarrow> ((h, fs), Inl e)
      | Inr fs \<Rightarrow>
          (case pot_verify_contribution (p1_runner h) (p1_powersoftau h) fs of
             (fs, contribution_valid) \<Rightarrow>
               if contribution_valid then
                 if \<not> file_exists fs NEW_CHALLENGE_FILE
                 then ((h, fs), Inl (PyException ''unknown error creating new challenge''))
                 else (case append_response_to_transcript (p1_runner h) fs RESPONSE_FILE TRANSCRIPT_FILE of
                         (fs, Inl e) \<Rightarrow> ((h, fs), Inl e)
                       | (fs, Inr _) \<Rightarrow>
                           let h = phase1_save_state (on_valid_contribution h)
                           in case rename_file fs NEW_CHALLENGE_FILE CHALLENGE_FILE of
                                Inl e \<Rightarrow> ((h, fs), Inl e)
                              | Inr fs \<Rightarrow> ((h, fs), Inr True))
               else ((h, fs), Inr False)))"

definition phase1_completed :: "Phase1Handler \<Rightarrow> files \<Rightarrow> (Phase1Handler \<times> files) \<times> unit res" where
  "phase1_completed h fs =
     (if \<not> file_exists fs TRANSCRIPT_FILE then ((h, fs), Inl (PyException ''no contributions made''))
      else case pot_verify_transcript (p1_runner h) (p1_powersoftau h) fs (num_valid_contributions h) of
             (fs, mpc_valid) \<Rightarrow>
               if \<not> mpc_valid then ((h, fs), Inl (PyException ''error in MPC transcript''))
               else (case rename_file fs CHALLENGE_FILE FINAL_OUTPUT of
                       Inl e \<Rightarrow> ((h, fs), Inl e)
                     | Inr fs \<Rightarrow>
                         (case rename_file fs TRANSCRIPT_FILE FINAL_TRANSCRIPT of
                            Inl e \<Rightarrow> ((h, fs), Inl e)
                          | Inr fs \<Rightarrow> ((h, fs), Inr ()))))"

definition Phase1ContributionHandler :: "Phase1Handler handler_ops" where
  "Phase1ContributionHandler =
     \<lparr>h_challenge = phase1_challenge_file, h_process = phase1_process, h_completed = phase1_completed\<rparr>"

section \<open>Phase 2\<close>

definition CHALLENGE_0_FILE :: string where
  "CHALLENGE_0_FILE = ''challenge_0.bin''"

definition NEXT_CHALLENGE_FILE :: string where
  "NEXT_CHALLENGE_FILE = ''next_challenge.bin''"

record Phase2ServerConfig =
  p2_server_configuration :: Configuration
  p2_mpc_tool :: "string option"

definition phase2_config_to_json_dict :: "number_text \<Rightarrow> Phase2ServerConfig \<Rightarrow> json" where
  "phase2_config_to_json_dict T c =
     JObj [(''server'', configuration_to_json_dict T (p2_server_configuration c)),
           (''mpc_tool'', j_opt_str (p2_mpc_tool c))]"

definition phase2_config_from_json_dict ::
  "number_text \<Rightarrow> string set \<Rightarrow> json \<Rightarrow> string option \<Rightarrow> Phase2ServerConfig res" where
  "phase2_config_from_json_dict T paths j config_path =
     bindR (bindR (jget j ''server'') (\<lambda>s. configuration_from_json_dict T paths s config_path)) (\<lambda>c.
     bindR (bindR (jget_default j ''mpc_tool'' JNull) opt_str) (\<lambda>tool.
       Inr \<lparr>p2_server_configuration = c, p2_mpc_tool = tool\<rparr>))"

record Phase2Handler =
  p2_runner :: tool_runner
  p2_mpc :: MPCCommand

definition phase2_init :: "tool_runner \<Rightarrow> string \<Rightarrow> Phase2ServerConfig \<Rightarrow> files \<Rightarrow> Phase2Handler res" where
  "phase2_init R default_tool config fs =
     (if \<not> file_exists fs CHALLENGE_0_FILE
      then Inl (PyException (''no '' @ CHALLENGE_0_FILE @ '' found in server dir''))
      else if \<not> file_exists fs NEXT_CHALLENGE_FILE \<and> file_exists fs TRANSCRIPT_FILE
      then Inl (PyException (''unexpected '' @ TRANSCRIPT_FILE @ '' in server dir''))
      else bindR (mpc_command_init fs default_tool (p2_mpc_tool config) False) (\<lambda>m.
             Inr \<lparr>p2_runner = R, p2_mpc = m\<rparr>))"

definition phase2_challenge_file :: "Phase2Handler \<Rightarrow> files \<Rightarrow> int \<Rightarrow> string res" where
  "phase2_challenge_file h fs contributor_idx =
     (if file_exists fs NEXT_CHALLENGE_FILE then
        if contributor_idx = 0
        then Inl (PyException (''unexpected '' @ NEXT_CHALLENGE_FILE @ '' for 0-th contributor''))
        else Inr NEXT_CHALLENGE_FILE
      else Inr CHALLENGE_0_FILE)"

definition phase2_process :: "Phase2Handler \<Rightarrow> files \<Rightarrow> int \<Rightarrow> string \<Rightarrow> (Phase2Handler \<times> files) \<times> bool res" where
  "phase2_process h fs contribution_idx file_name =
     (case phase2_challenge_file h fs contribution_idx of
        Inl e \<Rightarrow> ((h, fs), Inl e)
      | Inr orig_challenge \<Rightarrow>
          (case phase2_verify_contribution (p2_runner h) (p2_mpc h) fs orig_challenge file_name
                  (Some NEW_CHALLENGE_FILE) (Some TRANSCRIPT_FILE) of
             (fs, contribution_valid) \<Rightarrow>
               if contribution_valid then
                 if \<not> file_exists fs NEW_CHALLENGE_FILE
                 then ((h, fs), Inl (PyException ''unknown error creating new challenge''))
                 else (case rename_file fs NEW_CHALLENGE_FILE NEXT_CHALLENGE_FILE of
                         Inl e \<Rightarrow> ((h, fs), Inl e)
                       | Inr fs \<Rightarrow> ((h, fs), Inr True))
               else ((h, fs), Inr False)))"

definition phase2_completed :: "Phase2Handler \<Rightarrow> files \<Rightarrow> (Phase2Handler \<times> files) \<times> unit res" where
  "phase2_completed h fs =
     (if \<not> file_exists fs NEXT_CHALLENGE_FILE then ((h, fs), Inl (PyException ''no contributions made''))
      else case phase2_verify_transcript (p2_runner h) (p2_mpc h) fs CHALLENGE_0_FILE NEXT_CHALLENGE_FILE TRANSCRIPT_FILE None of
             (fs, mpc_valid) \<Rightarrow>
               if \<not> mpc_valid then ((h, fs), Inl (PyException ''error in MPC transcript''))
               else (case rename_file fs NEXT_CHALLENGE_FILE FINAL_OUTPUT of
                       Inl e \<Rightarrow> ((h, fs), Inl e)
                     | Inr fs \<Rightarrow>
                         (case rename_file fs TRANSCRIPT_FILE FINAL_TRANSCRIPT of
                            Inl e \<Rightarrow> ((h, fs), Inl e)
                          | Inr fs \<Rightarrow> ((h, fs), Inr ()))))"

definition Phase2ContributionHandler :: "Phase2Handler handler_ops" where
  "Phase2ContributionHandler =
     \<lparr>h_challenge = phase2_challenge_file, h_process = phase2_process, h_completed = phase2_completed\<rparr>"

section \<open>The handlers satisfy the contract\<close>

lemma last_upload: "last (path_join dir UPLOAD_FILE) = CHR ''w''"
  by (simp add: path_join_def UPLOAD_FILE_def)

lemma upload_neq:
  "path_join dir UPLOAD_FILE \<noteq> CONTRIBUTION_FILE_NAME" "path_join dir UPLOAD_FILE \<noteq> CHALLENGE_FILE"
  "path_join dir UPLOAD_FILE \<noteq> RESPONSE_FILE" "path_join dir UPLOAD_FILE \<noteq> NEW_CHALLENGE_FILE"
  "path_join dir UPLOAD_FILE \<noteq> CHALLENGE_0_FILE" "path_join dir UPLOAD_FILE \<noteq> NEXT_CHALLENGE_FILE"
  "path_join dir UPLOAD_FILE \<noteq> TRANSCRIPT_FILE"
  using last_upload [of dir]
  by (auto simp: CONTRIBUTION_FILE_NAME_def CHALLENGE_FILE_def RESPONSE_FILE_def NEW_CHALLENGE_FILE_def
      CHALLENGE_0_FILE_def NEXT_CHALLENGE_FILE_def TRANSCRIPT_FILE_def)

lemmas file_name_defs = CHALLENGE_FILE_def RESPONSE_FILE_def NEW_CHALLENGE_FILE_def CHALLENGE_0_FILE_def
  NEXT_CHALLENGE_FILE_def TRANSCRIPT_FILE_def FINAL_OUTPUT_def FINAL_TRANSCRIPT_def

definition null_inv :: "unit \<Rightarrow> files \<Rightarrow> int \<Rightarrow> bool" where
  "null_inv h fs i \<longleftrightarrow> fs CONTRIBUTION_FILE_NAME \<noteq> None"

interpretation null: contribution_handler NullContributionHandler null_inv
proof
  fix h :: unit and fs i dir h' fs' r x
  show "\<exists>f c. h_challenge NullContributionHandler h fs i = Inr f \<and> fs f = Some c" if "null_inv h fs i"
    using that by (auto simp: NullContributionHandler_def null_challenge_file_def null_inv_def)
  show "null_inv h' fs' (if r = Inr True then i + 1 else i)"
    if "null_inv h fs i" "h_process NullContributionHandler h fs i (path_join dir UPLOAD_FILE) = ((h', fs'), r)"
    using that by (auto simp: NullContributionHandler_def null_process_def null_inv_def rename_file_def split: option.splits)
  show "null_inv h fs (i + 1)" if "null_inv h fs i"
    using that by (simp add: null_inv_def)
  show "null_inv h (fs(path_join dir UPLOAD_FILE := x)) i" if "null_inv h fs i"
    using that upload_neq [of dir] by (simp add: null_inv_def)
qed

definition phase1_inv :: "Phase1Handler \<Rightarrow> files \<Rightarrow> int \<Rightarrow> bool" where
  "phase1_inv h fs i \<longleftrightarrow> tool_laws (p1_runner h) \<and> fs CHALLENGE_FILE \<noteq> None"

lemma append_response_keeps:
  "append_response_to_transcript R fs a t = (fs', r) \<Longrightarrow> fs f \<noteq> None \<Longrightarrow> fs' f \<noteq> None"
  by (auto simp: append_response_to_transcript_def Let_def split: prod.splits option.splits if_splits)

lemma phase1_process_inv:
  assumes "phase1_inv h fs i" "phase1_process h fs i f = ((h', fs'), r)" "f \<noteq> CHALLENGE_FILE"
  shows "phase1_inv h' fs' k"
proof (cases "rename_file fs f RESPONSE_FILE")
  case (Inr fs1)
  then have c1: "fs1 CHALLENGE_FILE \<noteq> None"
    using assms(1,3) by (auto simp: rename_file_def phase1_inv_def RESPONSE_FILE_def CHALLENGE_FILE_def split: option.splits)
  obtain fs2 ok where v: "pot_verify_contribution (p1_runner h) (p1_powersoftau h) fs1 = (fs2, ok)" by fastforce
  have c2: "fs2 CHALLENGE_FILE \<noteq> None"
    using pot_exec_keeps [of "p1_runner h" fs1 CHALLENGE_FILE] c1 v assms(1)
    by (metis fst_conv phase1_inv_def pot_verify_contribution_def)
  obtain fs3 a where a: "append_response_to_transcript (p1_runner h) fs2 RESPONSE_FILE TRANSCRIPT_FILE = (fs3, a)" by fastforce
  note c3 = append_response_keeps [OF a c2]
  show ?thesis
    using assms(1,2) Inr v a c2 c3
    by (auto simp: phase1_process_def phase1_inv_def Let_def phase1_save_state_def on_valid_contribution_def rename_file_def
        split: if_splits sum.splits option.splits)
qed (use assms in \<open>auto simp: phase1_process_def phase1_inv_def\<close>)

interpretation phase1: contribution_handler Phase1ContributionHandler phase1_inv
proof
  fix h fs i dir h' fs' r x
  show "\<exists>f c. h_challenge Phase1ContributionHandler h fs i = Inr f \<and> fs f = Some c" if "phase1_inv h fs i"
    using that by (auto simp: Phase1ContributionHandler_def phase1_challenge_file_def phase1_inv_def)
  show "phase1_inv h' fs' (if r = Inr True then i + 1 else i)"
    if "phase1_inv h fs i" "h_process Phase1ContributionHandler h fs i (path_join dir UPLOAD_FILE) = ((h', fs'), r)"
    using phase1_process_inv [OF that(1) _ upload_neq(2)] that(2) by (simp add: Phase1ContributionHandler_def)
  show "phase1_inv h fs (i + 1)" if "phase1_inv h fs i"
    using that by (simp add: phase1_inv_def)
  show "phase1_inv h (fs(path_join dir UPLOAD_FILE := x)) i" if "phase1_inv h fs i"
    using that upload_neq [of dir] by (simp add: phase1_inv_def)
qed

definition phase2_inv :: "Phase2Handler \<Rightarrow> files \<Rightarrow> int \<Rightarrow> bool" where
  "phase2_inv h fs i \<longleftrightarrow> tool_laws (p2_runner h) \<and> mpc_tool (p2_mpc h) \<noteq> NEXT_CHALLENGE_FILE
     \<and> fs CHALLENGE_0_FILE \<noteq> None \<and> (fs NEXT_CHALLENGE_FILE \<noteq> None \<longrightarrow> 0 < i)"

lemma phase2_process_inv:
  assumes "phase2_inv h fs i" "phase2_process h fs i f = ((h', fs'), r)" "f \<noteq> NEXT_CHALLENGE_FILE" "0 \<le> i"
  shows "phase2_inv h' fs' (if r = Inr True then i + 1 else i)"
proof (cases "phase2_challenge_file h fs i")
  case (Inr orig)
  obtain fs1 ok where v: "phase2_verify_contribution (p2_runner h) (p2_mpc h) fs orig f (Some NEW_CHALLENGE_FILE) (Some TRANSCRIPT_FILE) = (fs1, ok)"
    by fastforce
  have c0: "fs1 CHALLENGE_0_FILE \<noteq> None"
    using mpc_exec_keeps [of "p2_runner h" fs CHALLENGE_0_FILE] v assms(1)
    by (metis fst_conv phase2_inv_def phase2_verify_contribution_def)
  have nx: "fs1 NEXT_CHALLENGE_FILE = None" if "fs NEXT_CHALLENGE_FILE = None"
  proof -
    have "orig = CHALLENGE_0_FILE"
      using that Inr by (simp add: phase2_challenge_file_def file_exists_def)
    then have "fst (phase2_verify_contribution (p2_runner h) (p2_mpc h) fs orig f (Some NEW_CHALLENGE_FILE) (Some TRANSCRIPT_FILE))
        NEXT_CHALLENGE_FILE = None"
      unfolding phase2_verify_contribution_def using that assms(1,3)
      by (intro mpc_exec_creates) (auto simp: phase2_inv_def opt_arg_def truthy_def file_name_defs split: if_splits)
    with v show ?thesis by simp
  qed
  have inv1: "phase2_inv h fs1 i"
    using assms(1) c0 nx by (auto simp: phase2_inv_def)
  moreover have "phase2_inv h (fs1(NEW_CHALLENGE_FILE := None, NEXT_CHALLENGE_FILE \<mapsto> c)) (i + 1)" for c
    using inv1 assms(4) by (auto simp: phase2_inv_def file_name_defs)
  ultimately show ?thesis
    using assms(2) Inr v
    by (auto simp: phase2_process_def rename_file_def file_exists_def split: if_splits option.splits)
qed (use assms in \<open>auto simp: phase2_process_def\<close>)

interpretation phase2: contribution_handler Phase2ContributionHandler phase2_inv
proof
  fix h fs i dir h' fs' r x
  show "\<exists>f c. h_challenge Phase2ContributionHandler h fs i = Inr f \<and> fs f = Some c" if "phase2_inv h fs i"
    using that by (auto simp: Phase2ContributionHandler_def phase2_challenge_file_def phase2_inv_def file_exists_def)
  show "phase2_inv h' fs' (if r = Inr True then i + 1 else i)"
    if "phase2_inv h fs i" "h_process Phase2ContributionHandler h fs i (path_join dir UPLOAD_FILE) = ((h', fs'), r)" "0 \<le> i"
    using phase2_process_inv [OF that(1) _ upload_neq(6) that(3)] that(2) by (simp add: Phase2ContributionHandler_def)
  show "phase2_inv h fs (i + 1)" if "phase2_inv h fs i" "0 \<le> i"
    using that by (auto simp: phase2_inv_def)
  show "phase2_inv h (fs(path_join dir UPLOAD_FILE := x)) i" if "phase2_inv h fs i"
    using that upload_neq [of dir] by (simp add: phase2_inv_def)
qed

section \<open>The phase 1 transcript\<close>

text \<open>
  \<open>verify_transform\<close> reads the challenge and the response and writes the new challenge.
\<close>

definition verify_transform_law :: "tool_runner \<Rightarrow> PowersOfTauCommand \<Rightarrow> bool" where
  "verify_transform_law R p \<longleftrightarrow> (\<forall>fs f. f \<noteq> NEW_CHALLENGE_FILE \<longrightarrow> fst (pot_verify_contribution R p fs) f = fs f)"

definition transcript_of :: "files \<Rightarrow> bytes" where
  "transcript_of fs = (case fs TRANSCRIPT_FILE of None \<Rightarrow> [] | Some c \<Rightarrow> c)"

text \<open>
  A run over uploads: each is put into the upload file, processed, and the file removed if it is
  still there. The accepted ones are returned.
\<close>

fun phase1_run :: "Phase1Handler \<Rightarrow> files \<Rightarrow> string \<Rightarrow> bytes list \<Rightarrow> Phase1Handler \<times> files \<times> bytes list" where
  "phase1_run h fs upload [] = (h, fs, [])"
| "phase1_run h fs upload (c # cs) =
     (case phase1_process h (fs(upload \<mapsto> c)) 0 upload of
        ((h', fs'), r) \<Rightarrow>
          (case phase1_run h' (remove_file fs' upload) upload cs of
             (h'', fs'', acc) \<Rightarrow> (h'', fs'', if r = Inr True then c # acc else acc)))"

lemma phase1_process_step:
  assumes "tool_laws (p1_runner h)" "verify_transform_law (p1_runner h) (p1_powersoftau h)"
    and "upload \<notin> {RESPONSE_FILE, TRANSCRIPT_FILE}" "phase1_process h (fs(upload \<mapsto> c)) i upload = ((h', fs'), r)"
  shows "p1_runner h' = p1_runner h \<and> p1_powersoftau h' = p1_powersoftau h
    \<and> (if r = Inr True
       then transcript_of fs' = transcript_of fs @ drop 64 c \<and> num_valid_contributions h' = num_valid_contributions h + 1
         \<and> p1_saved h' = Some (phase1_state_to_json_dict (num_valid_contributions h'))
       else transcript_of fs' = transcript_of fs \<and> h' = h)"
proof -
  let ?fs1 = "(fs(upload \<mapsto> c, upload := None))(RESPONSE_FILE \<mapsto> c)"
  obtain fs2 ok where v: "pot_verify_contribution (p1_runner h) (p1_powersoftau h) ?fs1 = (fs2, ok)" by fastforce
  have same: "fs2 f = ?fs1 f" if "f \<noteq> NEW_CHALLENGE_FILE" for f
    using assms(2) v that unfolding verify_transform_law_def by (metis fst_conv)
  have resp: "fs2 RESPONSE_FILE = Some c" and tr: "fs2 TRANSCRIPT_FILE = fs TRANSCRIPT_FILE"
    using same [of RESPONSE_FILE] same [of TRANSCRIPT_FILE] assms(3) by (auto simp: file_name_defs)
  have r0: "rename_file (fs(upload \<mapsto> c)) upload RESPONSE_FILE = Inr ?fs1"
    by (simp add: rename_file_def)
  let ?fs3 = "fs2(TRANSCRIPT_FILE \<mapsto> transcript_of fs)"
  have "?fs3 RESPONSE_FILE = Some c"
    using resp by (simp add: file_name_defs)
  then have "run_output (p1_runner h) ?fs3 [''dd'', ''if='' @ RESPONSE_FILE, ''bs=64'', ''skip=1''] = (drop 64 c, 0)"
    using assms(1) unfolding tool_laws_def by blast
  then have app: "append_response_to_transcript (p1_runner h) fs2 RESPONSE_FILE TRANSCRIPT_FILE =
      (fs2(TRANSCRIPT_FILE \<mapsto> transcript_of fs @ drop 64 c), Inr ())"
    by (simp add: append_response_to_transcript_def tr transcript_of_def)
  let ?fs4 = "fs2(TRANSCRIPT_FILE \<mapsto> transcript_of fs @ drop 64 c)"
  have run: "phase1_process h (fs(upload \<mapsto> c)) i upload =
      (if \<not> ok then ((h, fs2), Inr False)
       else if fs2 NEW_CHALLENGE_FILE = None then ((h, fs2), Inl (PyException ''unknown error creating new challenge''))
       else ((phase1_save_state (on_valid_contribution h),
              ?fs4(NEW_CHALLENGE_FILE := None, CHALLENGE_FILE \<mapsto> the (fs2 NEW_CHALLENGE_FILE))), Inr True))"
    unfolding phase1_process_def r0 sum.case v prod.case app file_exists_def
    by (auto simp: rename_file_def file_name_defs)
  have tr2: "transcript_of fs2 = transcript_of fs"
    "transcript_of (?fs4(NEW_CHALLENGE_FILE := None, CHALLENGE_FILE \<mapsto> x)) = transcript_of fs @ drop 64 c" for x
    using tr by (simp_all add: transcript_of_def file_name_defs)
  show ?thesis
    using assms(4) tr2 unfolding run by (auto simp: phase1_save_state_def on_valid_contribution_def split: if_splits)
qed

definition example_runner :: tool_runner where
  "example_runner =
     \<lparr>run_tool = (\<lambda>fs args input. (fs(NEW_CHALLENGE_FILE \<mapsto> [1]), 0)),
      run_output = (\<lambda>fs args. case args of [_, f, _, _] \<Rightarrow> (drop 64 (the (fs (drop 3 f))), 0) | _ \<Rightarrow> ([], 1))\<rparr>"

definition example_phase1 :: Phase1Handler where
  "example_phase1 = \<lparr>p1_runner = example_runner, p1_powersoftau = \<lparr>powersoftau_path = ''pot'', num_powers = None\<rparr>,
     num_valid_contributions = 0, p1_saved = None\<rparr>"

lemma example_runner_laws: "tool_laws example_runner" "verify_transform_law example_runner p"
  by (auto simp: tool_laws_def example_runner_def verify_transform_law_def pot_verify_contribution_def pot_exec_def)

section \<open>Properties\<close>

text \<open>
  C26. Whatever uploads the phase 1 handler processes, the transcript is extended by exactly the
  accepted responses, each without its leading 64 bytes and in their order, the counter by
  their number, and the saved state carries the counter: what the final verification of the
  transcript is run on.
\<close>

theorem phase1_transcript:
  assumes "tool_laws (p1_runner h)" "verify_transform_law (p1_runner h) (p1_powersoftau h)"
    and "upload \<notin> {RESPONSE_FILE, TRANSCRIPT_FILE}" "phase1_run h fs upload cs = (h', fs', acc)"
  shows "transcript_of fs' = transcript_of fs @ concat (map (drop 64) acc)
    \<and> num_valid_contributions h' = num_valid_contributions h + int (length acc)
    \<and> (if acc = [] then h' = h else p1_saved h' = Some (phase1_state_to_json_dict (num_valid_contributions h')))"
  using assms
proof (induction cs arbitrary: h fs acc)
  case (Cons c cs)
  obtain h1 fs1 r where p: "phase1_process h (fs(upload \<mapsto> c)) 0 upload = ((h1, fs1), r)"
    by (metis surj_pair)
  obtain acc1 where q: "phase1_run h1 (remove_file fs1 upload) upload cs = (h', fs', acc1)"
      "acc = (if r = Inr True then c # acc1 else acc1)"
    using Cons.prems(4) p by (auto split: prod.splits)
  note st = phase1_process_step [OF Cons.prems(1-3) p]
  have "transcript_of (remove_file fs1 upload) = transcript_of fs1"
    using Cons.prems(3) by (auto simp: transcript_of_def remove_file_def)
  then show ?case
    using Cons.IH [OF _ _ Cons.prems(3) q(1)] Cons.prems(1,2) st q(2) by (auto split: if_splits)
qed simp

theorem phase1_transcript_witness:
  "transcript_of (fst (snd (phase1_run example_phase1 Map.empty UPLOAD_FILE [replicate 66 7, replicate 65 8]))) =
      transcript_of Map.empty @ concat (map (drop 64) (snd (snd (phase1_run example_phase1 Map.empty UPLOAD_FILE [replicate 66 7, replicate 65 8]))))
   \<and> num_valid_contributions (fst (phase1_run example_phase1 Map.empty UPLOAD_FILE [replicate 66 7, replicate 65 8])) = 2"
proof -
  obtain h fs acc where run: "phase1_run example_phase1 Map.empty UPLOAD_FILE [replicate 66 7, replicate 65 8] = (h, fs, acc)"
    by (metis surj_pair)
  then have "length acc = 2"
    by (auto simp: phase1_process_def example_phase1_def example_runner_def pot_verify_contribution_def pot_exec_def
        append_response_to_transcript_def file_exists_def rename_file_def Let_def phase1_save_state_def on_valid_contribution_def
        UPLOAD_FILE_def file_name_defs split: prod.splits)
  with phase1_transcript [OF _ _ _ run] example_runner_laws run show ?thesis
    by (simp add: example_phase1_def UPLOAD_FILE_def file_name_defs)
qed

end
