(* ===== verification/Contributors.thy ===== *)
theory Contributors
  imports Mpc_Crypto Py_Json
begin

text \<open>
  \<open>mpc/coordinator/contributor_list.py\<close>: the contributors of an MPC with their keys and the
  evidence that they hold them. A \<open>ContributorList\<close> is the list of its contributors;
  \<open>__getitem__\<close> is \<open>py_index\<close> and \<open>__len__\<close> the length.
\<close>

record 'vk Contributor =
  contributor_email :: string
  verification_key :: 'vk
  key_evidence :: bytes

definition contributor_to_json_dict :: "('sk, 'vk) ecdsa_lib \<Rightarrow> 'vk Contributor \<Rightarrow> json" where
  "contributor_to_json_dict E c =
     JObj [(''email'', JStr (contributor_email c)),
           (''verification_key'', JStr (export_verification_key E (verification_key c))),
           (''key_evidence'', JStr (export_signature (key_evidence c)))]"

definition contributor_from_json_dict :: "('sk, 'vk) ecdsa_lib \<Rightarrow> json \<Rightarrow> 'vk Contributor res" where
  "contributor_from_json_dict E j =
     bindR (jget_str j ''email'') (\<lambda>email.
     bindR (bindR (jget_str j ''verification_key'') (import_verification_key E)) (\<lambda>vk.
     bindR (bindR (jget_str j ''key_evidence'') import_signature) (\<lambda>evidence.
       Inr \<lparr>contributor_email = email, verification_key = vk, key_evidence = evidence\<rparr>)))"

type_synonym 'vk ContributorList = "'vk Contributor list"

fun ensure_validity :: "('sk, 'vk) ecdsa_lib \<Rightarrow> sha512_fn \<Rightarrow> 'vk ContributorList \<Rightarrow> unit res" where
  "ensure_validity E H [] = Inr ()"
| "ensure_validity E H (c # cs) =
     (if \<not> check_key_evidence E H (verification_key c) (key_evidence c)
      then Inl (PyException (''Key for '' @ contributor_email c @ '' has invalid evidence''))
      else ensure_validity E H cs)"

text \<open>\<open>list.index\<close>, with \<open>None\<close> for its \<open>ValueError\<close>.\<close>

fun list_index :: "'a list \<Rightarrow> 'a \<Rightarrow> int option" where
  "list_index [] x = None"
| "list_index (y # ys) x = (if y = x then Some 0 else map_option (\<lambda>i. i + 1) (list_index ys x))"

definition get_contributor_index :: "('sk, 'vk) ecdsa_lib \<Rightarrow> 'vk ContributorList \<Rightarrow> 'vk \<Rightarrow> int option" where
  "get_contributor_index E cs vk =
     (let key = export_verification_key E vk
      in list_index (map (\<lambda>c. export_verification_key E (verification_key c)) cs) key)"

definition contributor_list_to_json_dict :: "('sk, 'vk) ecdsa_lib \<Rightarrow> 'vk ContributorList \<Rightarrow> json" where
  "contributor_list_to_json_dict E cs = JObj [(''contributors'', JList (map (contributor_to_json_dict E) cs))]"

definition contributor_list_from_json_dict :: "('sk, 'vk) ecdsa_lib \<Rightarrow> json \<Rightarrow> 'vk ContributorList res" where
  "contributor_list_from_json_dict E j =
     bindR (bindR (jget j ''contributors'') j_list) (mapR (contributor_from_json_dict E))"

section \<open>Lemmas\<close>

lemma contributor_json [simp]:
  "ecdsa_laws E \<Longrightarrow> contributor_from_json_dict E (contributor_to_json_dict E c) = Inr c"
  by (simp add: contributor_from_json_dict_def contributor_to_json_dict_def json_get_defs)

lemma contributor_list_json [simp]:
  "ecdsa_laws E \<Longrightarrow> contributor_list_from_json_dict E (contributor_list_to_json_dict E cs) = Inr cs"
  by (simp add: contributor_list_from_json_dict_def contributor_list_to_json_dict_def)

lemma ensure_validity_iff:
  "ensure_validity E H cs = Inr () \<longleftrightarrow> (\<forall>c \<in> set cs. check_key_evidence E H (verification_key c) (key_evidence c))"
  by (induction cs) auto

lemma list_index_Some:
  "list_index ys x = Some i \<longleftrightarrow> 0 \<le> i \<and> nat i < length ys \<and> ys ! nat i = x \<and> (\<forall>k < nat i. ys ! k \<noteq> x)"
proof (induction ys arbitrary: i)
  case (Cons y ys)
  show ?case
  proof (cases "y = x")
    case True
    then show ?thesis
      by (auto simp: nth_Cons' dest: spec [of _ 0])
  next
    case False
    have "list_index (y # ys) x = Some i \<longleftrightarrow> list_index ys x = Some (i - 1)"
      using False by auto
    also have "\<dots> \<longleftrightarrow> 0 \<le> i - 1 \<and> nat (i - 1) < length ys \<and> ys ! nat (i - 1) = x \<and> (\<forall>k < nat (i - 1). ys ! k \<noteq> x)"
      by (rule Cons.IH)
    also have "\<dots> \<longleftrightarrow> 0 \<le> i \<and> nat i < length (y # ys) \<and> (y # ys) ! nat i = x \<and> (\<forall>k < nat i. (y # ys) ! k \<noteq> x)"
    proof (cases "0 < i")
      case True
      then have "nat i = Suc (nat (i - 1))" by simp
      with True False show ?thesis
        by (auto simp: less_Suc_eq_0_disj)
    qed (use False in \<open>auto simp: nth_Cons'\<close>)
    finally show ?thesis .
  qed
qed simp

lemma list_index_None: "list_index ys x = None \<longleftrightarrow> x \<notin> set ys"
  by (induction ys) auto

end
