(* ===== verification/Server_State.thy ===== *)
theory Server_State
  imports Server_Configuration Contributors
begin

text \<open>
  \<open>mpc/coordinator/server_state.py\<close>: whose turn it is and until when. Times are doubles.
\<close>

record ServerState =
  next_contributor_index :: int
  num_contributors :: int
  next_contributor_deadline :: rat

definition server_state_init :: "int \<Rightarrow> int \<Rightarrow> rat \<Rightarrow> ServerState res" where
  "server_state_init idx num deadline =
     assertR (num \<noteq> 0)
       (Inr \<lparr>next_contributor_index = idx, num_contributors = num, next_contributor_deadline = deadline\<rparr>)"

definition have_all_contributions :: "ServerState \<Rightarrow> bool" where
  "have_all_contributions st \<longleftrightarrow> num_contributors st \<le> next_contributor_index st"

definition next_contributor :: "ServerState \<Rightarrow> rat \<Rightarrow> ServerState" where
  "next_contributor st next_deadline =
     (let st = st\<lparr>next_contributor_index := next_contributor_index st + 1\<rparr>
      in if have_all_contributions st then st\<lparr>next_contributor_deadline := 0\<rparr>
         else st\<lparr>next_contributor_deadline := next_deadline\<rparr>)"

definition received_contribution :: "ServerState \<Rightarrow> rat \<Rightarrow> ServerState res" where
  "received_contribution st next_deadline =
     assertR (\<not> have_all_contributions st) (Inr (next_contributor st next_deadline))"

text \<open>\<open>update\<close> returns the state next to its result.\<close>

definition update_deadline :: "ServerState \<Rightarrow> rat \<Rightarrow> rat \<Rightarrow> ServerState \<times> bool" where
  "update_deadline st now interval =
     (if next_contributor_deadline st \<le> 0 \<or> now < next_contributor_deadline st then (st, False)
      else (next_contributor st (float_add now interval), True))"

definition server_state_to_json_dict :: "number_text \<Rightarrow> ServerState \<Rightarrow> json" where
  "server_state_to_json_dict T st =
     JObj [(''next_contributor_index'', JInt (next_contributor_index st)),
           (''num_contributors'', JInt (num_contributors st)),
           (''next_contributor_deadline'', JStr (format_float T (next_contributor_deadline st)))]"

definition server_state_from_json_dict :: "number_text \<Rightarrow> json \<Rightarrow> ServerState res" where
  "server_state_from_json_dict T j =
     bindR (jget_int j ''next_contributor_index'') (\<lambda>idx.
     bindR (jget_int j ''num_contributors'') (\<lambda>num.
     bindR (bindR (jget_str j ''next_contributor_deadline'') (parse_float T)) (\<lambda>deadline.
       server_state_init idx num deadline)))"

definition initial_server_state :: "Configuration \<Rightarrow> 'vk ContributorList \<Rightarrow> ServerState res" where
  "initial_server_state config contributors =
     assertR (start_time_utc config \<noteq> 0)
       (assertR (contribution_interval config \<noteq> 0)
         (assertR (length contributors \<noteq> 0)
           (server_state_init 0 (int (length contributors))
              (float_add (start_time_utc config) (contribution_interval config)))))"

section \<open>Invariant\<close>

text \<open>
  The turns: an index within the contributors, complete exactly when it has passed the last one,
  and a deadline exactly while it is not.
\<close>

definition state_ok :: "ServerState \<Rightarrow> bool" where
  "state_ok st \<longleftrightarrow>
     0 \<le> next_contributor_index st \<and> next_contributor_index st \<le> num_contributors st \<and> 0 < num_contributors st
     \<and> (if next_contributor_index st = num_contributors st then next_contributor_deadline st = 0
         else 0 < next_contributor_deadline st)"

lemma state_ok_all: "state_ok st \<Longrightarrow> have_all_contributions st \<longleftrightarrow> next_contributor_index st = num_contributors st"
  by (auto simp: state_ok_def have_all_contributions_def)

lemma next_contributor_ok:
  "state_ok st \<Longrightarrow> \<not> have_all_contributions st \<Longrightarrow> 0 < d \<Longrightarrow> state_ok (next_contributor st d)"
  by (auto simp: state_ok_def next_contributor_def have_all_contributions_def Let_def)

lemma next_contributor_sel [simp]:
  "next_contributor_index (next_contributor st d) = next_contributor_index st + 1"
  "num_contributors (next_contributor st d) = num_contributors st"
  by (simp_all add: next_contributor_def Let_def)

lemma update_deadline_ok:
  assumes "state_ok st" "is_double now" "0 < now" "0 \<le> interval"
  shows "state_ok (fst (update_deadline st now interval))"
proof (cases "next_contributor_deadline st \<le> 0 \<or> now < next_contributor_deadline st")
  case False
  then have "\<not> have_all_contributions st"
    using assms(1) by (auto simp: state_ok_def have_all_contributions_def)
  moreover have "0 < float_add now interval"
    using float_add_ge [OF assms(2-4)] assms(3) by simp
  ultimately show ?thesis
    using assms(1) False by (auto simp: update_deadline_def next_contributor_ok)
qed (use assms(1) in \<open>auto simp: update_deadline_def\<close>)

lemma update_deadline_cases:
  obtains (same) "update_deadline st now interval = (st, False)"
  | (passed) "update_deadline st now interval = (next_contributor st (float_add now interval), True)"
      "0 < next_contributor_deadline st" "next_contributor_deadline st \<le> now"
  by (cases "next_contributor_deadline st \<le> 0 \<or> now < next_contributor_deadline st")
    (auto simp: update_deadline_def not_less not_le)

lemma initial_server_state_ok:
  assumes "initial_server_state config contributors = Inr st"
    and "is_double (start_time_utc config)" "0 < start_time_utc config" "0 < contribution_interval config"
  shows "state_ok st \<and> next_contributor_index st = 0 \<and> num_contributors st = int (length contributors)"
  using assms float_add_ge [OF assms(2,3), of "contribution_interval config"]
  by (auto simp: initial_server_state_def server_state_init_def assertR_def state_ok_def split: if_splits)

lemma server_state_json [simp]:
  "number_text_laws T \<Longrightarrow> is_double (next_contributor_deadline st) \<Longrightarrow> num_contributors st \<noteq> 0 \<Longrightarrow>
   server_state_from_json_dict T (server_state_to_json_dict T st) = Inr st"
  by (simp add: server_state_from_json_dict_def server_state_to_json_dict_def json_get_defs number_text_laws_def
      server_state_init_def)

end
