(* ===== verification/Coordinator_Server.thy ===== *)
theory Coordinator_Server
  imports Contribution_Handlers Server_State
begin

text \<open>
  \<open>mpc/coordinator/server.py\<close>: the coordinator of an MPC. The web server has one worker thread, so
  requests are one step each; the interval thread ticks under the same lock. The thread that
  processes a contribution takes no lock: it is two steps, the call of the handler and the
  update of the state, and ticks can come before, between and after them. Sending mail is the
  list of messages; failures to send are caught by the code. The server directory has the
  files of the handler and the upload, the state file is kept as its document.
\<close>

definition STATE_FILE :: string where
  "STATE_FILE = ''server_state.json''"

definition SEND_CHUNK_SIZE :: nat where
  "SEND_CHUNK_SIZE = 4096"

text \<open>What the server calls: signatures, hash, number texts and the handler.\<close>

record ('h, 'sk, 'vk) server_env =
  se_ecdsa :: "('sk, 'vk) ecdsa_lib"
  se_sha512 :: sha512_fn
  se_text :: number_text
  se_ops :: "'h handler_ops"

text \<open>The processing thread: not running, launched, or back from the handler with its outcome.\<close>

datatype processing = Idle | Launched | Processed "bool res"

record ('h, 'vk) Server =
  srv_handler :: 'h
  srv_config :: Configuration
  srv_contributors :: "'vk ContributorList"
  srv_upload_file :: string
  srv_state :: ServerState
  srv_state_file :: "json option"
  srv_processing :: processing
  handler_finalized :: bool
  srv_files :: files
  srv_mails :: "(string \<times> string \<times> string) list"

datatype response = Text string int | Document json int | Chunks "bytes list option" int

section \<open>State changes\<close>

definition write_state_file :: "('h, 'sk, 'vk) server_env \<Rightarrow> ('h, 'vk) Server \<Rightarrow> ('h, 'vk) Server" where
  "write_state_file env s = s\<lparr>srv_state_file := Some (server_state_to_json_dict (se_text env) (srv_state s))\<rparr>"

definition finalize_handler_once ::
  "('h, 'sk, 'vk) server_env \<Rightarrow> ('h, 'vk) Server \<Rightarrow> ('h, 'vk) Server \<times> unit res" where
  "finalize_handler_once env s =
     (if \<not> handler_finalized s \<and> have_all_contributions (srv_state s) then
        (case h_completed (se_ops env) (srv_handler s) (srv_files s) of
           ((h, fs), r) \<Rightarrow> (s\<lparr>handler_finalized := True, srv_handler := h, srv_files := fs\<rparr>, r))
      else (s, Inr ()))"

definition notify_next_contributor ::
  "('h, 'sk, 'vk) server_env \<Rightarrow> ('h, 'vk) Server \<Rightarrow> ('h, 'vk) Server \<times> unit res" where
  "notify_next_contributor env s =
     (if have_all_contributions (srv_state s) \<or> \<not> truthy (email_server (srv_config s)) then (s, Inr ())
      else let idx = next_contributor_index (srv_state s)
           in bindS (s, py_index (srv_contributors s) idx) (\<lambda>s contributor.
                (s\<lparr>srv_mails := srv_mails s @
                    [(contributor_email contributor,
                      ''[MPC] Your timeslot has begun ('' @ str_int (idx + 1) @ ''/'' @ str_int (num_contributors (srv_state s)) @ '')'',
                      ''Please contribute to the MPC using your key: '' @
                        export_verification_key (se_ecdsa env) (verification_key contributor))]\<rparr>, Inr ())))"

definition on_next_contributor ::
  "('h, 'sk, 'vk) server_env \<Rightarrow> ('h, 'vk) Server \<Rightarrow> ('h, 'vk) Server \<times> unit res" where
  "on_next_contributor env s =
     bindS (finalize_handler_once env s) (\<lambda>s _. notify_next_contributor env (write_state_file env s))"

definition update_state ::
  "('h, 'sk, 'vk) server_env \<Rightarrow> ('h, 'vk) Server \<Rightarrow> rat \<Rightarrow> ('h, 'vk) Server \<times> unit res" where
  "update_state env s now =
     (case update_deadline (srv_state s) now (contribution_interval (srv_config s)) of
        (st, changed) \<Rightarrow>
          let s = s\<lparr>srv_state := st\<rparr> in if changed then on_next_contributor env s else (s, Inr ()))"

definition on_contribution ::
  "('h, 'sk, 'vk) server_env \<Rightarrow> ('h, 'vk) Server \<Rightarrow> rat \<Rightarrow> ('h, 'vk) Server \<times> unit res" where
  "on_contribution env s now =
     (let next_deadline = float_add now (contribution_interval (srv_config s))
      in bindS (s, received_contribution (srv_state s) next_deadline) (\<lambda>s st.
           on_next_contributor env (s\<lparr>srv_state := st\<rparr>)))"

text \<open>
  The constructor. \<open>state_file\<close> is what is found under \<open>STATE_FILE\<close> in the working directory; the
  state is written to the server directory. Starting the threads is left out.
\<close>

definition server_init ::
  "('h, 'sk, 'vk) server_env \<Rightarrow> 'h \<Rightarrow> Configuration \<Rightarrow> string \<Rightarrow> json res \<Rightarrow> json option \<Rightarrow> files \<Rightarrow> ('h, 'vk) Server res" where
  "server_init env handler config server_dir contributors_doc state_file fs =
     bindR (bindR contributors_doc (contributor_list_from_json_dict (se_ecdsa env))) (\<lambda>contributors.
     bindR (ensure_validity (se_ecdsa env) (se_sha512 env) contributors) (\<lambda>_.
     let mk = (\<lambda>st. \<lparr>srv_handler = handler, srv_config = config, srv_contributors = contributors,
                 srv_upload_file = path_join server_dir UPLOAD_FILE, srv_state = st, srv_state_file = None,
                 srv_processing = Idle, handler_finalized = False, srv_files = fs, srv_mails = []\<rparr>)
     in bindR (case state_file of
                 Some doc \<Rightarrow> bindR (server_state_from_json_dict (se_text env) doc) (\<lambda>st. Inr (mk st))
               | None \<Rightarrow> bindR (initial_server_state config contributors) (\<lambda>st.
                           case notify_next_contributor env (write_state_file env (mk st)) of
                             (s, r) \<Rightarrow> bindR r (\<lambda>_. Inr s))) (\<lambda>s.
          Inr (s\<lparr>handler_finalized := have_all_contributions (srv_state s)\<rparr>))))"

section \<open>Requests\<close>

definition contributors_request where
  "contributors_request env s =
     (s, Inr (Document (contributor_list_to_json_dict (se_ecdsa env) (srv_contributors s)) 200))"

definition state_request where
  "state_request env s = (s, Inr (Document (server_state_to_json_dict (se_text env) (srv_state s)) 200))"

function file_chunks :: "bytes \<Rightarrow> bytes list" where
  "file_chunks rest =
     (let buf = take SEND_CHUNK_SIZE rest
      in if buf \<noteq> [] then buf # file_chunks (drop SEND_CHUNK_SIZE rest) else [])"
  by pat_completeness auto
termination
  by (relation "measure length") (auto simp: SEND_CHUNK_SIZE_def)

declare file_chunks.simps [simp del]

text \<open>The file is opened when the response is sent; \<open>Chunks None\<close> is a file that is not there.\<close>

definition challenge_request ::
  "('h, 'sk, 'vk) server_env \<Rightarrow> rat \<Rightarrow> ('h, 'vk) Server \<Rightarrow> ('h, 'vk) Server \<times> response res" where
  "challenge_request env now s =
     bindS (update_state env s now) (\<lambda>s _.
       if have_all_contributions (srv_state s) then (s, Inr (Text ''MPC is complete. No remaining challenges'' 405))
       else bindS (s, h_challenge (se_ops env) (srv_handler s) (srv_files s) (next_contributor_index (srv_state s))) (\<lambda>s f.
              (s, Inr (Chunks (map_option file_chunks (srv_files s f)) 200))))"

text \<open>\<open>s.split(sep)\<close> for a separator of at least one character.\<close>

function py_split :: "string \<Rightarrow> string \<Rightarrow> string list" where
  "py_split sep [] = [[]]"
| "py_split sep (c # cs) =
     (if startswith (c # cs) sep then [] # py_split sep (drop (length sep - 1) cs)
      else case py_split sep cs of [] \<Rightarrow> [[c]] | y # ys \<Rightarrow> (c # y) # ys)"
  by pat_completeness auto
termination
  by (relation "measure (\<lambda>(sep, s). length s)") auto

definition find_boundary :: "string \<Rightarrow> string" where
  "find_boundary content_type =
     (case find (\<lambda>v. startswith v ''boundary='') (py_split ''; '' content_type) of
        None \<Rightarrow> []
      | Some v \<Rightarrow> drop (length ''boundary='') v)"

record mpc_request =
  req_headers :: "(string \<times> string) list"
  req_stream :: stream

definition require_header :: "mpc_request \<Rightarrow> string \<Rightarrow> unit res" where
  "require_header req name =
     (if map_of (req_headers req) name = None then Inl (PyException (''no '' @ name @ '' header'')) else Inr ())"

definition header_of :: "mpc_request \<Rightarrow> string \<Rightarrow> string" where
  "header_of req name = the (map_of (req_headers req) name)"

text \<open>The checks before the state is looked at: content length, digest, key, signature, boundary.\<close>

definition parse_contribute :: "mpc_request \<Rightarrow> (int \<times> bytes \<times> string \<times> bytes \<times> string) res" where
  "parse_contribute req =
     bindR (mapR (require_header req)
       [''Content-Length'', ''Content-Type'', ''X-MPC-Digest'', ''X-MPC-Public-Key'', ''X-MPC-Signature'']) (\<lambda>_.
     bindR (py_int_str (header_of req ''Content-Length'') 10) (\<lambda>content_length.
     bindR (import_digest (header_of req ''X-MPC-Digest'')) (\<lambda>digest.
     bindR (import_signature (header_of req ''X-MPC-Signature'')) (\<lambda>sig.
       let boundary = find_boundary (header_of req ''Content-Type'')
       in if boundary = [] then Inl (PyException ''content-type contains no boundary'')
          else Inr (content_length, digest, header_of req ''X-MPC-Public-Key'', sig, boundary)))))"

definition contribute_request ::
  "('h, 'sk, 'vk) server_env \<Rightarrow> rat \<Rightarrow> mpc_request \<Rightarrow> ('h, 'vk) Server \<Rightarrow> ('h, 'vk) Server \<times> response res" where
  "contribute_request env now req s =
     bindS (s, parse_contribute req) (\<lambda>s (content_length, digest, pub_key_str, sig, boundary).
     bindS (update_state env s now) (\<lambda>s _.
       if have_all_contributions (srv_state s) then (s, Inr (Text ''MPC complete. No contributions accepted.'' 405))
       else let contributor_idx = next_contributor_index (srv_state s) in
         bindS (s, py_index (srv_contributors s) contributor_idx) (\<lambda>s contributor.
           if export_verification_key (se_ecdsa env) (verification_key contributor) \<noteq> pub_key_str
           then (s, Inr (Text (''Contributor key mismatch (contributor '' @ str_int contributor_idx @ '')'') 403))
           else if \<not> mpc_verify (se_ecdsa env) sig (verification_key contributor) digest
           then (s, Inr (Text (''Signature check failed (contributor '' @ str_int contributor_idx @ '')'') 403))
           else case handle_upload_request (se_sha512 env) (remove_file (srv_files s) (srv_upload_file s)) content_length boundary digest
                       (req_stream req) (srv_upload_file s) of
                  (fs, r) \<Rightarrow> bindS (s\<lparr>srv_files := fs\<rparr>, r) (\<lambda>s _.
                    (s\<lparr>srv_processing := Launched\<rparr>, Inr (Text ''OK'' 200))))))"

definition with_state_lock ::
  "(('h, 'vk) Server \<Rightarrow> ('h, 'vk) Server \<times> response res) \<Rightarrow> ('h, 'vk) Server \<Rightarrow> ('h, 'vk) Server \<times> response" where
  "with_state_lock callback s =
     (if srv_processing s \<noteq> Idle then (s, Text ''Processing contribution. Retry later.'' 503)
      else case callback s of
             (s, Inr resp) \<Rightarrow> (s, resp)
           | (s, Inl ex) \<Rightarrow> (s, Text ''error: {ex}'' 400))"

section \<open>Threads\<close>

text \<open>
  The tick that \<open>_run\<close> gives to the interval thread (the method \<open>_tick\<close>, which ignores ticks during
  processing, is not used), and the two steps of \<open>_process_contribution\<close>.
\<close>

definition run_tick :: "('h, 'sk, 'vk) server_env \<Rightarrow> rat \<Rightarrow> ('h, 'vk) Server \<Rightarrow> ('h, 'vk) Server \<times> unit res" where
  "run_tick env now s = update_state env s now"

definition method_tick :: "('h, 'sk, 'vk) server_env \<Rightarrow> rat \<Rightarrow> ('h, 'vk) Server \<Rightarrow> ('h, 'vk) Server \<times> unit res" where
  "method_tick env now s = (if srv_processing s \<noteq> Idle then (s, Inr ()) else update_state env s now)"

definition process_call :: "('h, 'sk, 'vk) server_env \<Rightarrow> ('h, 'vk) Server \<Rightarrow> ('h, 'vk) Server" where
  "process_call env s =
     (case h_process (se_ops env) (srv_handler s) (srv_files s) (next_contributor_index (srv_state s)) (srv_upload_file s) of
        ((h, fs), r) \<Rightarrow> s\<lparr>srv_handler := h, srv_files := fs, srv_processing := Processed r\<rparr>)"

definition process_finish :: "('h, 'sk, 'vk) server_env \<Rightarrow> rat \<Rightarrow> bool res \<Rightarrow> ('h, 'vk) Server \<Rightarrow> ('h, 'vk) Server" where
  "process_finish env now r s =
     (let s = (if r = Inr True then fst (on_contribution env s now) else s)
      in s\<lparr>srv_files := remove_file (srv_files s) (srv_upload_file s), srv_processing := Idle\<rparr>)"

section \<open>Steps\<close>

datatype mpc_call = GetContributors | GetState | GetChallenge | Contribute mpc_request

definition serve ::
  "('h, 'sk, 'vk) server_env \<Rightarrow> rat \<Rightarrow> mpc_call \<Rightarrow> ('h, 'vk) Server \<Rightarrow> ('h, 'vk) Server \<times> response" where
  "serve env now call =
     with_state_lock (case call of
       GetContributors \<Rightarrow> contributors_request env
     | GetState \<Rightarrow> state_request env
     | GetChallenge \<Rightarrow> challenge_request env now
     | Contribute req \<Rightarrow> contribute_request env now req)"

definition clock :: "rat \<Rightarrow> bool" where
  "clock now \<longleftrightarrow> is_double now \<and> 0 < now"

inductive server_step :: "('h, 'sk, 'vk) server_env \<Rightarrow> ('h, 'vk) Server \<Rightarrow> ('h, 'vk) Server \<Rightarrow> bool" for env where
  Request: "clock now \<Longrightarrow> server_step env s (fst (serve env now call s))"
| Tick: "clock now \<Longrightarrow> server_step env s (fst (run_tick env now s))"
| Call: "srv_processing s = Launched \<Longrightarrow> server_step env s (process_call env s)"
| Finish: "clock now \<Longrightarrow> srv_processing s = Processed r \<Longrightarrow> server_step env s (process_finish env now r s)"

inductive reachable :: "('h, 'sk, 'vk) server_env \<Rightarrow> ('h, 'vk) Server \<Rightarrow> ('h, 'vk) Server \<Rightarrow> bool" for env s0 where
  Start: "reachable env s0 s0"
| Step: "reachable env s0 s \<Longrightarrow> server_step env s s' \<Longrightarrow> reachable env s0 s'"

inductive_cases server_stepE: "server_step env s s'"

section \<open>What the operations change\<close>

definition same_setup :: "('h, 'vk) Server \<Rightarrow> ('h, 'vk) Server \<Rightarrow> bool" where
  "same_setup s s' \<longleftrightarrow>
     srv_config s' = srv_config s \<and> srv_contributors s' = srv_contributors s \<and> srv_upload_file s' = srv_upload_file s"

lemma same_setup_refl [simp]: "same_setup s s"
  by (simp add: same_setup_def)

lemma on_next_contributor_effect:
  assumes "on_next_contributor env s = (s', r)" "handler_finalized s \<longrightarrow> have_all_contributions (srv_state s)"
  shows "same_setup s s' \<and> srv_state s' = srv_state s \<and> srv_processing s' = srv_processing s
    \<and> handler_finalized s' = have_all_contributions (srv_state s)
    \<and> (\<not> have_all_contributions (srv_state s) \<longrightarrow> srv_handler s' = srv_handler s \<and> srv_files s' = srv_files s)"
  using assms
  by (auto simp: on_next_contributor_def finalize_handler_once_def notify_next_contributor_def write_state_file_def
      bindS_def same_setup_def Let_def split: prod.splits sum.splits if_splits)

text \<open>
  The invariant of the server, for an invariant of its handler. While an accepted contribution
  has not been recorded, the handler is one turn ahead of the state.
\<close>

definition handler_turn :: "('h, 'vk) Server \<Rightarrow> int" where
  "handler_turn s = next_contributor_index (srv_state s) + (if srv_processing s = Processed (Inr True) then 1 else 0)"

definition server_inv :: "('h \<Rightarrow> files \<Rightarrow> int \<Rightarrow> bool) \<Rightarrow> ('h, 'vk) Server \<Rightarrow> bool" where
  "server_inv hinv s \<longleftrightarrow>
     state_ok (srv_state s) \<and> num_contributors (srv_state s) = int (length (srv_contributors s))
     \<and> 0 \<le> contribution_interval (srv_config s) \<and> (\<exists>dir. srv_upload_file s = path_join dir UPLOAD_FILE)
     \<and> handler_finalized s = have_all_contributions (srv_state s)
     \<and> (have_all_contributions (srv_state s) \<or> hinv (srv_handler s) (srv_files s) (handler_turn s))"

text \<open>Advancing the state to the next contributor, with everything that follows from it.\<close>

lemma advance_inv:
  assumes "server_inv hinv s" "\<not> have_all_contributions (srv_state s)" "0 < d"
    and "hinv (srv_handler s) (srv_files s) (next_contributor_index (srv_state s) + 1 + k)"
    and "on_next_contributor env (s\<lparr>srv_state := next_contributor (srv_state s) d\<rparr>) = (s', r)"
  shows "same_setup s s' \<and> srv_state s' = next_contributor (srv_state s) d \<and> srv_processing s' = srv_processing s
    \<and> state_ok (srv_state s') \<and> handler_finalized s' = have_all_contributions (srv_state s')
    \<and> (have_all_contributions (srv_state s') \<or> srv_handler s' = srv_handler s \<and> srv_files s' = srv_files s
        \<and> hinv (srv_handler s') (srv_files s') (next_contributor_index (srv_state s') + k))"
  using on_next_contributor_effect [OF assms(5)] next_contributor_ok [of "srv_state s" d] assms(1-4)
  by (auto simp: server_inv_def same_setup_def)

lemma handle_upload_files:
  "handle_upload_request H fs n b d st f = (fs', r) \<Longrightarrow> fs' = fs \<or> (\<exists>c. fs' = fs(f \<mapsto> c))"
  by (auto simp: handle_upload_request_def read_to_file_def Let_def split: sum.splits prod.splits)

context contribution_handler
begin

lemma update_state_inv:
  assumes "server_inv hinv s" "clock now" "update_state env s now = (s', r)"
  shows "server_inv hinv s' \<and> same_setup s s' \<and> srv_processing s' = srv_processing s"
proof (cases rule: update_deadline_cases [of "srv_state s" now "contribution_interval (srv_config s)"])
  case same
  with assms show ?thesis
    by (auto simp: update_state_def)
next
  case passed
  let ?d = "float_add now (contribution_interval (srv_config s))"
  have d: "0 < ?d"
    using float_add_ge [of now "contribution_interval (srv_config s)"] assms(1,2) by (auto simp: clock_def server_inv_def)
  have open_mpc: "\<not> have_all_contributions (srv_state s)"
    using assms(1) passed(2) by (auto simp: server_inv_def state_ok_def have_all_contributions_def split: if_splits)
  let ?k = "if srv_processing s = Processed (Inr True) then 1 else 0"
  have nx: "on_next_contributor env (s\<lparr>srv_state := next_contributor (srv_state s) ?d\<rparr>) = (s', r)"
    using passed(1) assms(3) by (simp add: update_state_def)
  have idx: "0 \<le> handler_turn s"
    using assms(1) by (auto simp: server_inv_def state_ok_def handler_turn_def)
  have "hinv (srv_handler s) (srv_files s) (handler_turn s + 1)"
    using assms(1) open_mpc turn_passes [OF _ idx] by (auto simp: server_inv_def)
  then have "hinv (srv_handler s) (srv_files s) (next_contributor_index (srv_state s) + 1 + ?k)"
    by (simp add: handler_turn_def algebra_simps)
  from advance_inv [OF assms(1) open_mpc d this nx]
  have "same_setup s s' \<and> srv_state s' = next_contributor (srv_state s) ?d \<and> srv_processing s' = srv_processing s
      \<and> state_ok (srv_state s') \<and> handler_finalized s' = have_all_contributions (srv_state s')
      \<and> (have_all_contributions (srv_state s') \<or> hinv (srv_handler s') (srv_files s') (handler_turn s'))"
    unfolding handler_turn_def by metis
  with assms(1) show ?thesis
    by (auto simp: server_inv_def same_setup_def)
qed

lemma upload_steps_inv:
  assumes "server_inv hinv s" "handle_upload_request H (remove_file (srv_files s) (srv_upload_file s)) n b d st (srv_upload_file s) = (fs, r)"
    and "srv_processing s = Idle" "p \<in> {Idle, Launched}"
  shows "server_inv hinv (s\<lparr>srv_files := fs, srv_processing := p\<rparr>)"
proof -
  obtain dir where dir: "srv_upload_file s = path_join dir UPLOAD_FILE"
    using assms(1) by (auto simp: server_inv_def)
  obtain x where "fs = (srv_files s)(srv_upload_file s := x)"
    using handle_upload_files [OF assms(2)] unfolding remove_file_def by (metis fun_upd_upd)
  then show ?thesis
    using assms(1,3,4) upload_free dir by (auto simp: server_inv_def handler_turn_def)
qed

lemma contribute_request_inv:
  assumes "server_inv hinv s" "clock now" "srv_processing s = Idle"
  shows "server_inv hinv (fst (contribute_request env now req s))"
proof (cases "parse_contribute req")
  case (Inr x)
  obtain n digest key sig b where x: "x = (n, digest, key, sig, b)" by (cases x)
  obtain s1 r1 where u: "update_state env s now = (s1, r1)" by fastforce
  note i1 = update_state_inv [OF assms(1,2) u]
  obtain fs r2 where h: "handle_upload_request (se_sha512 env) (remove_file (srv_files s1) (srv_upload_file s1)) n b digest
      (req_stream req) (srv_upload_file s1) = (fs, r2)" by fastforce
  have up: "server_inv hinv (s1\<lparr>srv_files := fs, srv_processing := p\<rparr>)" if "p \<in> {Idle, Launched}" for p
    using upload_steps_inv [OF _ h _ that] i1 assms(3) by simp
  have idle: "s1\<lparr>srv_files := fs\<rparr> = s1\<lparr>srv_files := fs, srv_processing := Idle\<rparr>"
    using i1 assms(3) by simp
  have "server_inv hinv (s1\<lparr>srv_files := fs\<rparr>)"
    by (subst idle) (rule up, simp)
  with i1 up [of Launched] show ?thesis
    unfolding contribute_request_def Inr x
    by (auto simp: bindS_def u h Let_def split: sum.splits)
qed (use assms in \<open>simp add: contribute_request_def bindS_def\<close>)

lemma challenge_request_inv:
  assumes "server_inv hinv s" "clock now"
  shows "server_inv hinv (fst (challenge_request env now s))"
proof -
  obtain s1 r1 where u: "update_state env s now = (s1, r1)" by fastforce
  show ?thesis
    using update_state_inv [OF assms u] by (auto simp: challenge_request_def bindS_def u split: sum.splits)
qed

lemma serve_inv: "server_inv hinv s \<Longrightarrow> clock now \<Longrightarrow> server_inv hinv (fst (serve env now call s))"
  using challenge_request_inv [of s now env] contribute_request_inv [of s now env]
  by (auto simp: serve_def with_state_lock_def contributors_request_def state_request_def
      split: mpc_call.splits prod.splits sum.splits) (metis fst_conv)+

lemma process_call_inv:
  assumes "server_inv hinv s" "se_ops env = ops" "srv_processing s = Launched"
  shows "server_inv hinv (process_call env s)"
proof -
  obtain dir where dir: "srv_upload_file s = path_join dir UPLOAD_FILE"
    using assms(1) by (auto simp: server_inv_def)
  let ?i = "next_contributor_index (srv_state s)"
  obtain h fs r where p: "h_process ops (srv_handler s) (srv_files s) ?i (path_join dir UPLOAD_FILE) = ((h, fs), r)"
    by (metis surj_pair)
  have "hinv h fs (if r = Inr True then ?i + 1 else ?i)" if "\<not> have_all_contributions (srv_state s)"
    using process_inv [OF _ p] assms(1,3) that by (auto simp: server_inv_def state_ok_def handler_turn_def)
  with assms show ?thesis
    by (auto simp: process_call_def dir p server_inv_def handler_turn_def)
qed

lemma on_contribution_inv:
  assumes "server_inv hinv s" "clock now" "srv_processing s = Processed (Inr True)"
  shows "server_inv hinv ((fst (on_contribution env s now))\<lparr>srv_processing := Idle\<rparr>)"
proof (cases "have_all_contributions (srv_state s)")
  case True
  with assms show ?thesis
    by (auto simp: on_contribution_def received_contribution_def bindS_def server_inv_def)
next
  case False
  let ?d = "float_add now (contribution_interval (srv_config s))"
  have d: "0 < ?d"
    using float_add_ge [of now "contribution_interval (srv_config s)"] assms(1,2) by (auto simp: clock_def server_inv_def)
  obtain s' r where nx: "on_next_contributor env (s\<lparr>srv_state := next_contributor (srv_state s) ?d\<rparr>) = (s', r)" by fastforce
  have "hinv (srv_handler s) (srv_files s) (next_contributor_index (srv_state s) + 1 + 0)"
    using assms(1,3) False by (simp add: server_inv_def handler_turn_def)
  from advance_inv [OF assms(1) False d this nx] show ?thesis
    using assms(1) False nx
    by (auto simp: on_contribution_def received_contribution_def bindS_def server_inv_def same_setup_def handler_turn_def)
qed

lemma process_finish_inv:
  assumes "server_inv hinv s" "clock now" "srv_processing s = Processed r"
  shows "server_inv hinv (process_finish env now r s)"
proof -
  let ?s = "(if r = Inr True then fst (on_contribution env s now) else s)\<lparr>srv_processing := Idle\<rparr>"
  have i: "server_inv hinv ?s"
    using on_contribution_inv [of s now env] assms by (auto simp: server_inv_def handler_turn_def)
  then obtain dir where dir: "srv_upload_file ?s = path_join dir UPLOAD_FILE"
    by (auto simp: server_inv_def)
  have "process_finish env now r s = ?s\<lparr>srv_files := (srv_files ?s)(path_join dir UPLOAD_FILE := None)\<rparr>"
    using dir by (simp add: process_finish_def Let_def remove_file_def)
  moreover have "server_inv hinv (?s\<lparr>srv_files := (srv_files ?s)(path_join dir UPLOAD_FILE := None)\<rparr>)"
    using i upload_free by (auto simp: server_inv_def handler_turn_def)
  ultimately show ?thesis by simp
qed

lemma server_step_inv:
  assumes "server_step env s s'" "server_inv hinv s" "se_ops env = ops"
  shows "server_inv hinv s'"
  using assms
proof cases
  case (Tick now)
  then show ?thesis
    using update_state_inv [OF assms(2), of now env] by (metis fst_conv run_tick_def surj_pair)
next
  case Call
  then show ?thesis
    using process_call_inv assms(2,3) by simp
qed (use assms serve_inv process_finish_inv in auto)

lemma reachable_inv:
  "reachable env s0 s \<Longrightarrow> server_inv hinv s0 \<Longrightarrow> se_ops env = ops \<Longrightarrow> server_inv hinv s"
  by (induction rule: reachable.induct) (auto intro: server_step_inv)

text \<open>Whoever asks for the challenge of a running MPC is sent a file that exists.\<close>

lemma challenge_served:
  assumes "server_inv hinv s" "se_ops env = ops" "srv_processing s = Idle"
    and "clock now" "now < next_contributor_deadline (srv_state s)"
  shows "\<exists>f content. h_challenge ops (srv_handler s) (srv_files s) (next_contributor_index (srv_state s)) = Inr f
    \<and> srv_files s f = Some content \<and> serve env now GetChallenge s = (s, Chunks (Some (file_chunks content)) 200)"
proof -
  have open_mpc: "\<not> have_all_contributions (srv_state s)"
      and same: "update_deadline (srv_state s) now (contribution_interval (srv_config s)) = (srv_state s, False)"
    using assms(1,4,5)
    by (auto simp: server_inv_def state_ok_def have_all_contributions_def update_deadline_def clock_def split: if_splits)
  then have "hinv (srv_handler s) (srv_files s) (next_contributor_index (srv_state s))"
    using assms(1,3) by (auto simp: server_inv_def handler_turn_def)
  from challenge_exists [OF this] obtain f c where
    f: "h_challenge ops (srv_handler s) (srv_files s) (next_contributor_index (srv_state s)) = Inr f" "srv_files s f = Some c"
    by blast
  moreover have "serve env now GetChallenge s = (s, Chunks (Some (file_chunks c)) 200)"
    using f assms(2,3) open_mpc by (simp add: serve_def with_state_lock_def challenge_request_def update_state_def same bindS_def)
  ultimately show ?thesis by blast
qed

end

section \<open>Lemmas on runs\<close>

lemma file_chunks_concat: "concat (file_chunks bs) = bs"
proof (induction bs rule: file_chunks.induct)
  case (1 bs)
  show ?case
  proof (cases "bs = []")
    case False
    then have "take SEND_CHUNK_SIZE bs \<noteq> []"
      by (simp add: SEND_CHUNK_SIZE_def)
    with "1.IH" [OF refl this] show ?thesis
      by (subst file_chunks.simps) (simp add: Let_def)
  qed (subst file_chunks.simps, simp)
qed

lemma server_init_inv:
  assumes "server_init env h config dir doc None fs = Inr s0" "hinv h fs 0"
    and "is_double (start_time_utc config)" "0 < start_time_utc config" "0 < contribution_interval config"
  shows "server_inv hinv s0 \<and> next_contributor_index (srv_state s0) = 0 \<and> srv_processing s0 = Idle
    \<and> (\<forall>c \<in> set (srv_contributors s0). check_key_evidence (se_ecdsa env) (se_sha512 env) (verification_key c) (key_evidence c))"
proof -
  obtain cs st where cs: "ensure_validity (se_ecdsa env) (se_sha512 env) cs = Inr ()" "initial_server_state config cs = Inr st"
      and s0: "srv_state s0 = st" "srv_contributors s0 = cs" "srv_handler s0 = h" "srv_files s0 = fs" "srv_config s0 = config"
        "srv_upload_file s0 = path_join dir UPLOAD_FILE" "srv_processing s0 = Idle" "handler_finalized s0 = have_all_contributions st"
    using assms(1)
    by (auto simp: server_init_def bindR_eq_Inr Let_def notify_next_contributor_def write_state_file_def bindS_def
        split: prod.splits if_splits sum.splits)
  from initial_server_state_ok [OF cs(2) assms(3-5)] show ?thesis
    using cs(1) s0 assms(2,5) by (auto simp: server_inv_def handler_turn_def ensure_validity_iff)
qed

text \<open>Ticks, each of which finds the deadline passed.\<close>

definition run_ticks :: "('h, 'sk, 'vk) server_env \<Rightarrow> ('h, 'vk) Server \<Rightarrow> rat list \<Rightarrow> ('h, 'vk) Server" where
  "run_ticks env = foldl (\<lambda>s t. fst (run_tick env t s))"

fun late_ticks :: "rat \<Rightarrow> rat \<Rightarrow> rat list \<Rightarrow> bool" where
  "late_ticks deadline interval [] = True"
| "late_ticks deadline interval (t # ts) \<longleftrightarrow> clock t \<and> deadline \<le> t \<and> late_ticks (float_add t interval) interval ts"

lemma update_state_state:
  assumes "handler_finalized s = have_all_contributions (srv_state s)" "state_ok (srv_state s)"
  shows "srv_state (fst (update_state env s now)) = fst (update_deadline (srv_state s) now (contribution_interval (srv_config s)))
    \<and> srv_config (fst (update_state env s now)) = srv_config s \<and> srv_processing (fst (update_state env s now)) = srv_processing s
    \<and> srv_contributors (fst (update_state env s now)) = srv_contributors s
    \<and> handler_finalized (fst (update_state env s now)) = have_all_contributions (srv_state (fst (update_state env s now)))"
proof (cases rule: update_deadline_cases [of "srv_state s" now "contribution_interval (srv_config s)"])
  case passed
  let ?s = "s\<lparr>srv_state := next_contributor (srv_state s) (float_add now (contribution_interval (srv_config s)))\<rparr>"
  obtain s' r where nx: "on_next_contributor env ?s = (s', r)" by fastforce
  have "\<not> handler_finalized s"
    using assms passed(2) by (auto simp: state_ok_def have_all_contributions_def split: if_splits)
  with on_next_contributor_effect [OF nx] passed(1) nx show ?thesis
    by (simp add: update_state_def same_setup_def)
qed (use assms(1) in \<open>simp add: update_state_def\<close>)

lemma late_ticks_complete:
  assumes "state_ok (srv_state s)" "handler_finalized s = have_all_contributions (srv_state s)"
    and "0 \<le> contribution_interval (srv_config s)"
    and "late_ticks (next_contributor_deadline (srv_state s)) (contribution_interval (srv_config s)) ts"
  shows "next_contributor_index (srv_state (run_ticks env s ts)) =
      min (num_contributors (srv_state s)) (next_contributor_index (srv_state s) + int (length ts))
    \<and> num_contributors (srv_state (run_ticks env s ts)) = num_contributors (srv_state s)
    \<and> handler_finalized (run_ticks env s ts) = have_all_contributions (srv_state (run_ticks env s ts))"
  using assms
proof (induction ts arbitrary: s)
  case Nil
  then show ?case by (auto simp: run_ticks_def state_ok_def)
next
  case (Cons t ts)
  let ?s = "fst (run_tick env t s)" and ?i = "contribution_interval (srv_config s)"
  have t: "is_double t" "0 < t" "next_contributor_deadline (srv_state s) \<le> t" "late_ticks (float_add t ?i) ?i ts"
    using Cons.prems(4) by (simp_all add: clock_def)
  have step: "srv_state ?s = fst (update_deadline (srv_state s) t ?i)" "srv_config ?s = srv_config s"
      "handler_finalized ?s = have_all_contributions (srv_state ?s)"
    using update_state_state [OF Cons.prems(2,1), of env t] by (simp_all add: run_tick_def)
  have ok: "state_ok (srv_state ?s)"
    unfolding step(1) using update_deadline_ok [OF Cons.prems(1) t(1,2) Cons.prems(3)] .
  have adv: "next_contributor_index (srv_state ?s) = min (num_contributors (srv_state s)) (next_contributor_index (srv_state s) + 1)"
      "num_contributors (srv_state ?s) = num_contributors (srv_state s)"
      "have_all_contributions (srv_state ?s) \<or> next_contributor_deadline (srv_state ?s) = float_add t ?i"
    unfolding step(1) using Cons.prems(1) t(3)
    by (auto simp: update_deadline_def state_ok_def next_contributor_def have_all_contributions_def Let_def split: if_splits)
  have "late_ticks (next_contributor_deadline (srv_state ?s)) ?i ts"
  proof (cases "have_all_contributions (srv_state ?s)")
    case True
    then have "next_contributor_deadline (srv_state ?s) = 0"
      using ok by (auto simp: state_ok_def have_all_contributions_def split: if_splits)
    then show ?thesis
      using t(4) by (cases ts) (auto simp: clock_def)
  qed (use adv(3) t(4) in simp)
  then have "late_ticks (next_contributor_deadline (srv_state ?s)) (contribution_interval (srv_config ?s)) ts"
    by (simp add: step(2))
  from Cons.IH [OF ok step(3) _ this] Cons.prems(3) adv(1,2) step(2) show ?case
    by (auto simp: run_ticks_def)
qed

end
