(* ===== verification/Coordinator_Client.thy ===== *)
theory Coordinator_Client
  imports Coordinator_Server
begin

text \<open>
  \<open>mpc/coordinator/client.py\<close> and \<open>contribute.py\<close>: a contributor of an MPC. The n-th GET request to
  a URL has the n-th answer of a sequence, so that polling loops may run forever: they are
  \<open>None\<close> then. \<open>requests.post\<close> is a function from the headers and the file to the request that the
  server sees, and \<open>send\<close> the server's answer to it. Console output and sleeping are left out.
\<close>

record http_response =
  status_code :: int
  resp_document :: json
  resp_content :: bytes

definition raise_for_status :: "http_response \<Rightarrow> unit res" where
  "raise_for_status resp =
     (if 400 \<le> status_code resp \<and> status_code resp < 600 then Inl (PyException ''HTTPError'') else Inr ())"

text \<open>The retry loop the three GET requests share.\<close>

partial_function (option) get_retry :: "(nat \<Rightarrow> http_response) \<Rightarrow> nat \<Rightarrow> (http_response \<times> nat) option" where
  "get_retry answers n =
     (if status_code (answers n) = 503 then get_retry answers (n + 1) else Some (answers n, n + 1))"

text \<open>Each operation also returns the number of requests made so far.\<close>

definition get_contributors ::
  "('sk, 'vk) ecdsa_lib \<Rightarrow> (nat \<Rightarrow> http_response) \<Rightarrow> nat \<Rightarrow> ('vk ContributorList res \<times> nat) option" where
  "get_contributors E answers n =
     map_option (\<lambda>(resp, n). (bindR (raise_for_status resp) (\<lambda>_. contributor_list_from_json_dict E (resp_document resp)), n))
       (get_retry answers n)"

definition get_state :: "number_text \<Rightarrow> (nat \<Rightarrow> http_response) \<Rightarrow> nat \<Rightarrow> (ServerState res \<times> nat) option" where
  "get_state T answers n =
     map_option (\<lambda>(resp, n). (bindR (raise_for_status resp) (\<lambda>_. server_state_from_json_dict T (resp_document resp)), n))
       (get_retry answers n)"

definition get_challenge ::
  "(nat \<Rightarrow> http_response) \<Rightarrow> nat \<Rightarrow> files \<Rightarrow> string \<Rightarrow> (files \<times> unit res) option" where
  "get_challenge answers n fs challenge_file =
     map_option (\<lambda>(resp, _).
         case raise_for_status resp of
           Inl e \<Rightarrow> (fs, Inl e)
         | Inr _ \<Rightarrow> (fs(challenge_file \<mapsto> resp_content resp), Inr ()))
       (get_retry answers n)"

definition push_headers ::
  "('sk, 'vk) ecdsa_lib \<Rightarrow> bytes \<Rightarrow> 'vk \<Rightarrow> bytes \<Rightarrow> (string \<times> string) list res" where
  "push_headers E response_digest vk signature =
     bindR (export_digest response_digest) (\<lambda>d.
       Inr [(''X-MPC-Digest'', d), (''X-MPC-Public-Key'', export_verification_key E vk),
            (''X-MPC-Signature'', export_signature signature)])"

type_synonym post_fn = "(string \<times> string) list \<Rightarrow> bytes \<Rightarrow> mpc_request"

definition push_contribution ::
  "('sk, 'vk) ecdsa_lib \<Rightarrow> post_fn \<Rightarrow> (mpc_request \<Rightarrow> http_response) \<Rightarrow> bytes option \<Rightarrow> bytes \<Rightarrow> 'vk \<Rightarrow> bytes \<Rightarrow> unit res" where
  "push_contribution E post send response_file response_digest vk signature =
     bindR (push_headers E response_digest vk signature) (\<lambda>headers.
       case response_file of
         None \<Rightarrow> Inl FileNotFoundError
       | Some content \<Rightarrow> raise_for_status (send (post headers content)))"

section \<open>The client object\<close>

text \<open>
  How the certificate of the server is checked: not at all, against a file, or as by default. A
  network answers the n-th GET request to a URL, and a post.
\<close>

datatype verify_mode = NoVerify | VerifyPath "string option"

record Client =
  base_url :: string
  client_verify :: verify_mode

record network =
  net_get :: "string \<Rightarrow> verify_mode \<Rightarrow> nat \<Rightarrow> http_response"
  net_post :: "string \<Rightarrow> verify_mode \<Rightarrow> mpc_request \<Rightarrow> http_response"

definition client_init :: "files \<Rightarrow> string \<Rightarrow> string option \<Rightarrow> bool \<Rightarrow> Client res" where
  "client_init fs url cert_path insecure =
     assertR (\<not> truthy cert_path \<or> file_exists fs (the cert_path))
       (Inr \<lparr>base_url = url, client_verify = (if insecure then NoVerify else VerifyPath cert_path)\<rparr>)"

definition client_get :: "network \<Rightarrow> Client \<Rightarrow> string \<Rightarrow> nat \<Rightarrow> http_response" where
  "client_get net c path = net_get net (path_join (base_url c) path) (client_verify c)"

definition client_send :: "network \<Rightarrow> Client \<Rightarrow> mpc_request \<Rightarrow> http_response" where
  "client_send net c = net_post net (path_join (base_url c) ''contribute'') (client_verify c)"

section \<open>Contributing\<close>

definition upload_response' ::
  "('sk, 'vk) ecdsa_lib \<Rightarrow> sha512_fn \<Rightarrow> int \<Rightarrow> post_fn \<Rightarrow> (mpc_request \<Rightarrow> http_response) \<Rightarrow> bytes option \<Rightarrow> 'sk \<Rightarrow> unit res" where
  "upload_response' E H nonce post send response_file sk =
     bindR (compute_file_digest H response_file) (\<lambda>digest.
       push_contribution E post send response_file digest (get_verification_key' E sk) (mpc_sign E nonce sk digest))"

definition open_key :: "('sk, 'vk) ecdsa_lib \<Rightarrow> files \<Rightarrow> string \<Rightarrow> 'sk res" where
  "open_key E fs key_file =
     (case fs key_file of None \<Rightarrow> Inl FileNotFoundError | Some key_b \<Rightarrow> import_signing_key E key_b)"

definition upload_response ::
  "('sk, 'vk) ecdsa_lib \<Rightarrow> sha512_fn \<Rightarrow> int \<Rightarrow> post_fn \<Rightarrow> (mpc_request \<Rightarrow> http_response) \<Rightarrow> files \<Rightarrow> string \<Rightarrow> string \<Rightarrow> unit res" where
  "upload_response E H nonce post send fs response_file key_file =
     bindR (open_key E fs key_file) (upload_response' E H nonce post send (fs response_file))"

partial_function (option) wait_loop ::
  "number_text \<Rightarrow> (nat \<Rightarrow> http_response) \<Rightarrow> int option \<Rightarrow> nat \<Rightarrow> (unit res \<times> nat) option" where
  "wait_loop T answers our_idx n =
     Option.bind (get_state T answers n) (\<lambda>(r, n).
       case r of
         Inl e \<Rightarrow> Some (Inl e, n)
       | Inr st \<Rightarrow>
           (case our_idx of
              None \<Rightarrow> Some (Inl (PyException ''contributor is not in the server list''), n)
            | Some i \<Rightarrow>
                if i < next_contributor_index st then Some (Inl (PyException ''contributor turn has passed''), n)
                else if i = next_contributor_index st then Some (Inr (), n)
                else wait_loop T answers our_idx n))"

definition wait_for_turn ::
  "('sk, 'vk) ecdsa_lib \<Rightarrow> number_text \<Rightarrow> (nat \<Rightarrow> http_response) \<Rightarrow> (nat \<Rightarrow> http_response) \<Rightarrow> 'vk \<Rightarrow> unit res option" where
  "wait_for_turn E T contributors_answers state_answers vk =
     Option.bind (get_contributors E contributors_answers 0) (\<lambda>(r, _).
       case r of
         Inl e \<Rightarrow> Some (Inl e)
       | Inr contributors \<Rightarrow>
           map_option fst (wait_loop T state_answers (get_contributor_index E contributors vk) 0))"

text \<open>
  \<open>contribute\<close>, with the files of the contributor. The callback makes the response from the files and
  returns its name. A \<open>RequestException\<close> is printed and raised again.
\<close>

definition contribute ::
  "('sk, 'vk) ecdsa_lib \<Rightarrow> sha512_fn \<Rightarrow> number_text \<Rightarrow> int \<Rightarrow> post_fn \<Rightarrow> network \<Rightarrow> (files \<Rightarrow> files \<times> string res) \<Rightarrow>
   files \<Rightarrow> string \<Rightarrow> string \<Rightarrow> string \<Rightarrow> int \<Rightarrow> string option \<Rightarrow> bool \<Rightarrow> (files \<times> unit res) option" where
  "contribute E H T nonce post net contribute_cb fs url key_file challenge_file wait_interval server_certificate insecure =
     (case bindR (open_key E fs key_file) (\<lambda>sk.
             bindR (client_init fs url server_certificate insecure) (\<lambda>client. Inr (sk, client))) of
        Inl e \<Rightarrow> Some (fs, Inl e)
      | Inr (sk, client) \<Rightarrow>
          Option.bind
            (if wait_interval \<noteq> 0
             then wait_for_turn E T (client_get net client ''contributors'') (client_get net client ''state'') (get_verification_key' E sk)
             else Some (Inr ())) (\<lambda>turn.
          case turn of
            Inl e \<Rightarrow> Some (fs, Inl e)
          | Inr _ \<Rightarrow>
              map_option (\<lambda>x. bindS x (\<lambda>fs _. bindS (contribute_cb fs) (\<lambda>fs response_file.
                  (fs, upload_response' E H nonce post (client_send net client) (fs response_file) sk))))
                (get_challenge (client_get net client ''challenge'') 0 fs challenge_file)))"

section \<open>Lemmas\<close>

lemma get_retry_ok:
  assumes "n \<le> k" "\<forall>j. n \<le> j \<and> j < k \<longrightarrow> status_code (answers j) = 503" "status_code (answers k) \<noteq> 503"
  shows "get_retry answers n = Some (answers k, k + 1)"
  using assms
proof (induction "k - n" arbitrary: n)
  case 0
  then show ?case
    by (subst get_retry.simps) simp
next
  case (Suc m)
  then have "get_retry answers (n + 1) = Some (answers k, k + 1)"
    by (intro Suc.hyps(1)) auto
  with Suc show ?case
    by (subst get_retry.simps) simp
qed

text \<open>
  What \<open>requests\<close> documents of a post with one file: the given headers, a multipart content type
  with an ASCII boundary, the content length, and the body of one part, in any pieces.
\<close>

definition multipart_request ::
  "(string \<times> string) list \<Rightarrow> bytes \<Rightarrow> mpc_request \<Rightarrow> string \<Rightarrow> bytes list \<Rightarrow> bool" where
  "multipart_request headers content req boundary hs \<longleftrightarrow>
     boundary \<noteq> [] \<and> ascii boundary \<and> CHR '';'' \<notin> set boundary \<and> (\<forall>l \<in> set hs. header_line l)
     \<and> concat (req_stream req) = concat hs @ [13, 10] @ content @ utf8_encode (final_boundary boundary)
     \<and> map_of (req_headers req) ''Content-Type'' = Some (''multipart/form-data; boundary='' @ boundary)
     \<and> map_of (req_headers req) ''Content-Length'' = Some (str_int (int (length (concat (req_stream req)))))
     \<and> (\<forall>k \<in> {''X-MPC-Digest'', ''X-MPC-Public-Key'', ''X-MPC-Signature''}.
          map_of (req_headers req) k = map_of headers k)"

definition multipart_law :: "post_fn \<Rightarrow> bool" where
  "multipart_law post \<longleftrightarrow> (\<forall>headers content. \<exists>boundary hs. multipart_request headers content (post headers content) boundary hs)"

lemma py_split_no_sep: "CHR '';'' \<notin> set s \<Longrightarrow> py_split ''; '' s = [s]"
  by (induction s) (auto simp: startswith_def)

lemma find_boundary_multipart:
  assumes "CHR '';'' \<notin> set boundary"
  shows "find_boundary (''multipart/form-data; boundary='' @ boundary) = boundary"
proof -
  have "py_split ''; '' (''multipart/form-data; boundary='' @ boundary) = [''multipart/form-data'', ''boundary='' @ boundary]"
    using py_split_no_sep [of "''boundary='' @ boundary"] assms by (simp add: startswith_def)
  then show ?thesis
    by (simp add: find_boundary_def startswith_def)
qed

lemma parse_contribute_ok:
  assumes "multipart_request headers content req boundary hs" "length d = 64" "push_headers E d vk sig = Inr headers"
  shows "parse_contribute req = Inr (int (length (concat (req_stream req))), d, export_verification_key E vk, sig, boundary)"
proof -
  have hd: "export_digest d = Inr (bytes_hex d)" "import_digest (bytes_hex d) = Inr d"
    using assms(2) digest_roundtrip [OF assms(2)] by (simp_all add: export_digest_def HASH_BYTE_LENGTH_def)
  have "map_of (req_headers req) ''X-MPC-Digest'' = Some (bytes_hex d)"
      "map_of (req_headers req) ''X-MPC-Public-Key'' = Some (export_verification_key E vk)"
      "map_of (req_headers req) ''X-MPC-Signature'' = Some (export_signature sig)"
    using assms(1,3) hd(1) by (auto simp: push_headers_def multipart_request_def)
  moreover have "map_of (req_headers req) ''Content-Type'' = Some (''multipart/form-data; boundary='' @ boundary)"
      "map_of (req_headers req) ''Content-Length'' = Some (str_int (int (length (concat (req_stream req)))))"
      "boundary \<noteq> []" "CHR '';'' \<notin> set boundary"
    using assms(1) by (simp_all add: multipart_request_def)
  ultimately show ?thesis
    using hd(2) find_boundary_multipart [of boundary]
    by (simp add: parse_contribute_def require_header_def header_of_def py_int_str_int)
qed

end
