(* ===== verification/Coordinator.thy ===== *)
theory Coordinator
  imports Coordinator_Client
begin

text \<open>
  The properties of the MPC coordinator as a whole: server, handlers, uploads and contributors
  together, with the concrete system on which they are evaluated.
\<close>

section \<open>A concrete coordinator\<close>

definition example_ecdsa :: "(bytes, bytes) ecdsa_lib" where
  "example_ecdsa =
     \<lparr>sk_to_der = (\<lambda>sk. sk), sk_from_der = Inr, get_verifying_key = (\<lambda>sk. sk), vk_to_der = (\<lambda>vk. vk), vk_from_der = Inr,
      sign_digest = (\<lambda>k sk d. sk @ d), verify_digest = (\<lambda>vk sig d. Inr (sig = vk @ d))\<rparr>"

definition example_text :: number_text where
  "example_text = \<lparr>format_time = (\<lambda>t. str_int \<lfloor>t\<rfloor>), parse_time = (\<lambda>s. py_int_str s 10),
     format_float = (\<lambda>x. str_int \<lfloor>x\<rfloor>), parse_float = (\<lambda>s. bindR (py_int_str s 10) (\<lambda>n. Inr (of_int n)))\<rparr>"

definition example_env :: "'h handler_ops \<Rightarrow> ('h, bytes, bytes) server_env" where
  "example_env ops = \<lparr>se_ecdsa = example_ecdsa, se_sha512 = example_sha512, se_text = example_text, se_ops = ops\<rparr>"

definition example_contributor :: "byte \<Rightarrow> bytes Contributor" where
  "example_contributor b = \<lparr>contributor_email = ''c'', verification_key = [b],
     key_evidence = create_key_evidence example_ecdsa example_sha512 0 [b]\<rparr>"

definition example_config :: Configuration where
  "example_config = \<lparr>contributors_file = ''contributors.json'', start_time_utc = 8000, contribution_interval = 1000,
     email_server = None, email_address = None, email_password_file = None, tls_key = ''key.pem'', tls_certificate = ''cert.pem'',
     config_port = 8001\<rparr>"

definition example_contributors :: "bytes Contributor list" where
  "example_contributors = [example_contributor 1, example_contributor 2, example_contributor 3]"

definition example_server :: "'h \<Rightarrow> files \<Rightarrow> ('h, bytes) Server" where
  "example_server h fs = \<lparr>srv_handler = h, srv_config = example_config, srv_contributors = example_contributors,
     srv_upload_file = path_join ''srv'' UPLOAD_FILE,
     srv_state = \<lparr>next_contributor_index = 0, num_contributors = 3, next_contributor_deadline = 9000\<rparr>,
     srv_state_file = Some (server_state_to_json_dict example_text
       \<lparr>next_contributor_index = 0, num_contributors = 3, next_contributor_deadline = 9000\<rparr>),
     srv_processing = Idle, handler_finalized = False, srv_files = fs, srv_mails = []\<rparr>"

lemma example_ecdsa_laws: "ecdsa_laws example_ecdsa"
  by (simp add: ecdsa_laws_def example_ecdsa_def)

lemma is_double_numeral: "numeral n < (2 ^ 53 :: int) \<Longrightarrow> is_double (numeral n)"
  using is_double_int [of "numeral n"] by simp

lemma example_clock: "clock 8000" "clock 8500" "clock 9000" "clock 9500" "clock 10000" "clock 11000"
  by (simp_all add: clock_def is_double_numeral)

lemma example_float_add: "float_add 8000 1000 = 9000" "float_add 9000 1000 = 10000" "float_add 10000 1000 = 11000"
  using is_double_numeral by (simp_all add: float_add_def is_double_def)

lemma example_init:
  "server_init (example_env ops) h example_config ''srv''
     (Inr (contributor_list_to_json_dict example_ecdsa example_contributors)) None fs = Inr (example_server h fs)"
proof -
  have "ensure_validity example_ecdsa example_sha512 example_contributors = Inr ()"
    unfolding ensure_validity_iff example_contributors_def example_contributor_def
    using key_evidence_ok [OF example_ecdsa_laws, of example_sha512 _ 0]
    by (auto simp: get_verification_key'_def example_ecdsa_def)
  then show ?thesis
    using contributor_list_json [OF example_ecdsa_laws]
    by (simp add: server_init_def example_env_def initial_server_state_def server_state_init_def example_config_def
        example_float_add notify_next_contributor_def write_state_file_def truthy_def example_server_def
        have_all_contributions_def) (simp add: example_contributors_def)
qed

section \<open>Invariants\<close>


definition example_files :: files where
  "example_files = [CHALLENGE_FILE \<mapsto> [1, 2, 3], CHALLENGE_0_FILE \<mapsto> [4, 5], CONTRIBUTION_FILE_NAME \<mapsto> []]"

lemma example_phase1_inv: "phase1_inv example_phase1 example_files i"
  by (simp add: phase1_inv_def example_phase1_def example_runner_laws example_files_def CHALLENGE_FILE_def
      CHALLENGE_0_FILE_def CONTRIBUTION_FILE_NAME_def)



definition example_phase2 :: Phase2Handler where
  "example_phase2 = \<lparr>p2_runner = example_runner, p2_mpc = \<lparr>mpc_tool = ''mpc'', mpc_dry_run = False\<rparr>\<rparr>"

lemma example_phase2_inv: "phase2_inv example_phase2 example_files i"
  by (simp add: phase2_inv_def example_phase2_def example_runner_laws example_files_def CHALLENGE_FILE_def
      CHALLENGE_0_FILE_def CONTRIBUTION_FILE_NAME_def NEXT_CHALLENGE_FILE_def)

lemma example_config_ok:
  "is_double (start_time_utc example_config)" "0 < start_time_utc example_config" "0 < contribution_interval example_config"
  by (simp_all add: example_config_def is_double_numeral)

lemma example_env_ops: "se_ops (example_env ops) = ops"
  by (simp add: example_env_def)


section \<open>Liveness\<close>



section \<open>Authentication\<close>

lemma update_state_processing: "update_state env s now = (s', r) \<Longrightarrow> srv_processing s' = srv_processing s"
  by (auto simp: update_state_def on_next_contributor_def finalize_handler_once_def notify_next_contributor_def
      write_state_file_def bindS_def Let_def split: prod.splits sum.splits if_splits)

definition authenticated :: "('h, 'sk, 'vk) server_env \<Rightarrow> mpc_request \<Rightarrow> ('h, 'vk) Server \<Rightarrow> bool" where
  "authenticated env req s \<longleftrightarrow>
     (\<exists>contributor digest sig content hdr rest.
        py_index (srv_contributors s) (next_contributor_index (srv_state s)) = Inr contributor
        \<and> header_of req ''X-MPC-Public-Key'' = export_verification_key (se_ecdsa env) (verification_key contributor)
        \<and> import_digest (header_of req ''X-MPC-Digest'') = Inr digest
        \<and> import_signature (header_of req ''X-MPC-Signature'') = Inr sig
        \<and> mpc_verify (se_ecdsa env) sig (verification_key contributor) digest
        \<and> srv_files s (srv_upload_file s) = Some content \<and> sha512_digest (se_sha512 env) content = digest
        \<and> concat (req_stream req) = hdr @ content @ rest)"

lemma contribute_request_authenticated:
  assumes "contribute_request env now req s = (s', r)" "srv_processing s = Idle" "srv_processing s' = Launched"
  shows "r = Inr (Text ''OK'' 200) \<and> \<not> have_all_contributions (srv_state s') \<and> authenticated env req s'"
proof -
  obtain n d key sig b where p: "parse_contribute req = Inr (n, d, key, sig, b)"
    using assms by (cases "parse_contribute req") (auto simp: contribute_request_def bindS_def)
  obtain s1 r1 where u: "update_state env s now = (s1, r1)" by fastforce
  have idle: "srv_processing s1 = Idle"
    using update_state_processing [OF u] assms(2) by simp
  obtain fs r2 where up: "handle_upload_request (se_sha512 env) (remove_file (srv_files s1) (srv_upload_file s1)) n b d
      (req_stream req) (srv_upload_file s1) = (fs, r2)" by fastforce
  let ?i = "next_contributor_index (srv_state s1)"
  have u1: "r1 = Inr ()"
    using assms(1,3) idle by (cases r1) (auto simp: contribute_request_def p u bindS_simps)
  have run: "contribute_request env now req s =
      (if have_all_contributions (srv_state s1) then (s1, Inr (Text ''MPC complete. No contributions accepted.'' 405))
       else bindS (s1, py_index (srv_contributors s1) ?i) (\<lambda>s contributor.
           if export_verification_key (se_ecdsa env) (verification_key contributor) \<noteq> key
           then (s, Inr (Text (''Contributor key mismatch (contributor '' @ str_int ?i @ '')'') 403))
           else if \<not> mpc_verify (se_ecdsa env) sig (verification_key contributor) d
           then (s, Inr (Text (''Signature check failed (contributor '' @ str_int ?i @ '')'') 403))
           else bindS (s1\<lparr>srv_files := fs\<rparr>, r2) (\<lambda>s _. (s\<lparr>srv_processing := Launched\<rparr>, Inr (Text ''OK'' 200)))))"
    by (cases "py_index (srv_contributors s1) ?i") (simp_all add: contribute_request_def p u u1 up bindS_simps)
  obtain c where c: "py_index (srv_contributors s1) ?i = Inr c" "\<not> have_all_contributions (srv_state s1)"
    using assms(1,3) idle run by (cases "py_index (srv_contributors s1) ?i") (auto simp: bindS_simps split: if_splits)
  have ok: "export_verification_key (se_ecdsa env) (verification_key c) = key" "mpc_verify (se_ecdsa env) sig (verification_key c) d"
      "r2 = Inr ()" "s' = s1\<lparr>srv_files := fs, srv_processing := Launched\<rparr>" "r = Inr (Text ''OK'' 200)"
    using assms(1,3) idle run c by (cases r2; auto simp: bindS_simps split: if_splits)+
  have hd: "header_of req ''X-MPC-Public-Key'' = key" "import_digest (header_of req ''X-MPC-Digest'') = Inr d"
      "import_signature (header_of req ''X-MPC-Signature'') = Inr sig"
    using p by (auto simp: parse_contribute_def bindR_eq_Inr Let_def split: if_splits)
  obtain hdr content rest where "concat (req_stream req) = hdr @ content @ utf8_encode (final_boundary b) @ rest"
      "fs (srv_upload_file s1) = Some content" "sha512_digest (se_sha512 env) content = d"
    using upload_sound_aux [OF up [unfolded ok(3)]] by auto
  with c ok hd show ?thesis
    unfolding authenticated_def
    by (intro conjI exI [of _ c] exI [of _ d] exI [of _ sig] exI [of _ content] exI [of _ hdr]
        exI [of _ "utf8_encode (final_boundary b) @ rest"]) simp_all
qed

section \<open>Client and server\<close>

lemma upload_request_accepted:
  assumes "ecdsa_laws (se_ecdsa env)" "multipart_law post"
    and "srv_processing s = Idle" "now < next_contributor_deadline (srv_state s)" "\<not> have_all_contributions (srv_state s)"
    and "py_index (srv_contributors s) (next_contributor_index (srv_state s)) = Inr contributor"
    and "verification_key contributor = get_verification_key' (se_ecdsa env) sk"
  shows "\<exists>headers. push_headers (se_ecdsa env) (sha512_digest (se_sha512 env) content) (get_verification_key' (se_ecdsa env) sk)
        (mpc_sign (se_ecdsa env) nonce sk (sha512_digest (se_sha512 env) content)) = Inr headers
      \<and> serve env now (Contribute (post headers content)) s =
          (s\<lparr>srv_files := (srv_files s)(srv_upload_file s \<mapsto> content), srv_processing := Launched\<rparr>, Text ''OK'' 200)"
proof -
  let ?E = "se_ecdsa env" and ?d = "sha512_digest (se_sha512 env) content"
  let ?vk = "get_verification_key' ?E sk" and ?sig = "mpc_sign ?E nonce sk ?d"
  obtain headers where headers: "push_headers ?E ?d ?vk ?sig = Inr headers"
    by (simp add: push_headers_def export_digest_def HASH_BYTE_LENGTH_def)
  obtain b hs where m: "multipart_request headers content (post headers content) b hs"
    using assms(2) unfolding multipart_law_def by blast
  let ?req = "post headers content"
  have parse: "parse_contribute ?req = Inr (int (length (concat (req_stream ?req))), ?d, export_verification_key ?E ?vk, ?sig, b)"
    by (rule parse_contribute_ok [OF m _ headers]) simp
  have "update_deadline (srv_state s) now (contribution_interval (srv_config s)) = (srv_state s, False)"
    using assms(4) by (simp add: update_deadline_def)
  then have upd: "update_state env s now = (s, Inr ())"
    by (simp add: update_state_def)
  have up: "handle_upload_request (se_sha512 env) (remove_file (srv_files s) (srv_upload_file s)) (int (length (concat (req_stream ?req))))
      b ?d (req_stream ?req) (srv_upload_file s) = ((srv_files s)(srv_upload_file s \<mapsto> content), Inr ())"
    using m by (subst upload_correct_aux [of hs b _ content]) (simp_all add: multipart_request_def remove_file_def)
  have "contribute_request env now ?req s =
      (s\<lparr>srv_files := (srv_files s)(srv_upload_file s \<mapsto> content), srv_processing := Launched\<rparr>, Inr (Text ''OK'' 200))"
    using assms(5-7) mpc_sign_verify [OF assms(1)]
    by (simp add: contribute_request_def parse upd up bindS_def Let_def)
  then have "serve env now (Contribute ?req) s =
      (s\<lparr>srv_files := (srv_files s)(srv_upload_file s \<mapsto> content), srv_processing := Launched\<rparr>, Text ''OK'' 200)"
    using assms(3) by (simp add: serve_def with_state_lock_def)
  with headers show ?thesis by blast
qed

definition example_post :: post_fn where
  "example_post headers content =
     (let body = [45, 45, 98, 13, 10] @ [13, 10] @ content @ utf8_encode (final_boundary ''b'')
      in \<lparr>req_headers = [(''Content-Type'', ''multipart/form-data; boundary=b''), (''Content-Length'', str_int (int (length body)))] @ headers,
          req_stream = [body]\<rparr>)"

lemma example_post_law: "multipart_law example_post"
proof -
  have "multipart_request headers content (example_post headers content) ''b'' [[45, 45, 98, 13, 10]]" for headers content
    by (simp add: multipart_request_def example_post_def header_line_def ascii_def exI [of _ "[45, 45, 98, 13]"])
  then show ?thesis
    unfolding multipart_law_def by blast
qed

definition example_send where
  "example_send s req =
     \<lparr>status_code = (case snd (serve (example_env Phase1ContributionHandler) 8500 (Contribute req) s) of Text _ c \<Rightarrow> c | _ \<Rightarrow> 0),
      resp_document = JNull, resp_content = []\<rparr>"

lemma example_turn:
  "srv_processing (example_server h fs) = Idle" "8500 < next_contributor_deadline (srv_state (example_server h fs))"
  "\<not> have_all_contributions (srv_state (example_server h fs))"
  "py_index (srv_contributors (example_server h fs)) (next_contributor_index (srv_state (example_server h fs))) =
     Inr (example_contributor 1)"
  "verification_key (example_contributor 1) = get_verification_key' (se_ecdsa (example_env ops)) [1]"
  by (simp_all add: example_server_def have_all_contributions_def example_contributors_def example_contributor_def
      get_verification_key'_def example_env_def example_ecdsa_def)

text \<open>
  C12. A contribution is only taken up from the contributor whose turn it is: if a request launches
  the processing, the key it names is the key of the current contributor, the signature
  verifies under that key on the announced digest, and the upload file holds bytes of the
  request with exactly this digest. While a contribution is processed, every request is
  answered with 503 and changes nothing.
\<close>

theorem contribution_authenticated:
  "(srv_processing s = Idle \<and> serve env now (Contribute req) s = (s', resp) \<and> srv_processing s' = Launched \<longrightarrow>
      resp = Text ''OK'' 200 \<and> \<not> have_all_contributions (srv_state s') \<and> authenticated env req s')
   \<and> (srv_processing s \<noteq> Idle \<longrightarrow> serve env now call s = (s, Text ''Processing contribution. Retry later.'' 503))"
proof (intro conjI impI)
  assume a: "srv_processing s = Idle \<and> serve env now (Contribute req) s = (s', resp) \<and> srv_processing s' = Launched"
  obtain s1 r where c: "contribute_request env now req s = (s1, r)" by fastforce
  then have "s1 = s'" "r = Inr (Text ''OK'' 200) \<Longrightarrow> resp = Text ''OK'' 200"
    using a by (auto simp: serve_def with_state_lock_def split: sum.splits)
  with contribute_request_authenticated [OF c] a
  show "resp = Text ''OK'' 200" "\<not> have_all_contributions (srv_state s')" "authenticated env req s'"
    by simp_all
qed (simp add: serve_def with_state_lock_def)

theorem contribution_authenticated_witness:
  "\<exists>req s'. serve (example_env Phase1ContributionHandler) 8500 (Contribute req) (example_server example_phase1 example_files) = (s', Text ''OK'' 200)
      \<and> srv_files s' (srv_upload_file s') = Some [7, 8]
      \<and> authenticated (example_env Phase1ContributionHandler) req s'
      \<and> serve (example_env Phase1ContributionHandler) 8500 GetState s' = (s', Text ''Processing contribution. Retry later.'' 503)"
proof -
  let ?e = "example_env Phase1ContributionHandler" and ?s = "example_server example_phase1 example_files"
  have laws: "ecdsa_laws (se_ecdsa ?e)"
    by (simp add: example_env_def example_ecdsa_laws)
  obtain headers s' where s': "s' = ?s\<lparr>srv_files := (srv_files ?s)(srv_upload_file ?s \<mapsto> [7, 8]), srv_processing := Launched\<rparr>"
      "serve ?e 8500 (Contribute (example_post headers [7, 8])) ?s = (s', Text ''OK'' 200)"
    using upload_request_accepted [OF laws example_post_law example_turn(1-4) [of example_phase1 example_files] example_turn(5), of "[7, 8]" 0]
    by blast
  then have "srv_processing s' = Launched" "srv_files s' (srv_upload_file s') = Some [7, 8]"
    by simp_all
  with contribution_authenticated [of ?s ?e 8500 "example_post headers [7, 8]" s' "Text ''OK'' 200" GetState]
    contribution_authenticated [of s' ?e 8500 undefined undefined undefined GetState] s'(2)
    example_turn(1) [of example_phase1 example_files]
  show ?thesis
    by (intro exI [of _ "example_post headers [7, 8]"] exI [of _ s']) simp
qed

text \<open>
  C21. What a contributor uploads at its turn is taken up: the request that \<open>upload_response\<close> makes
  for a response file, sent before the deadline to an idle server whose current contributor
  has the key, is answered with 200, and the server then processes exactly the response.
\<close>

theorem client_upload_accepted:
  assumes "ecdsa_laws (se_ecdsa env)" "multipart_law post"
    and "srv_processing s = Idle" "now < next_contributor_deadline (srv_state s)" "\<not> have_all_contributions (srv_state s)"
    and "py_index (srv_contributors s) (next_contributor_index (srv_state s)) = Inr contributor"
    and "verification_key contributor = get_verification_key' (se_ecdsa env) sk"
    and "\<And>req. send req = \<lparr>status_code = (case snd (serve env now (Contribute req) s) of Text _ c \<Rightarrow> c | _ \<Rightarrow> 0),
                resp_document = JNull, resp_content = []\<rparr>"
  shows "upload_response' (se_ecdsa env) (se_sha512 env) nonce post send (Some content) sk = Inr ()
    \<and> (\<exists>headers. push_headers (se_ecdsa env) (sha512_digest (se_sha512 env) content) (get_verification_key' (se_ecdsa env) sk)
          (mpc_sign (se_ecdsa env) nonce sk (sha512_digest (se_sha512 env) content)) = Inr headers
        \<and> serve env now (Contribute (post headers content)) s =
            (s\<lparr>srv_files := (srv_files s)(srv_upload_file s \<mapsto> content), srv_processing := Launched\<rparr>, Text ''OK'' 200))"
  using upload_request_accepted [OF assms(1-7), of content nonce]
  by (auto simp: upload_response'_def push_contribution_def assms(8) raise_for_status_def)

theorem client_upload_accepted_witness:
  "upload_response' (se_ecdsa (example_env Phase1ContributionHandler)) (se_sha512 (example_env Phase1ContributionHandler)) 0
     example_post (example_send (example_server example_phase1 example_files)) (Some [7, 8]) [1] = Inr ()"
  using client_upload_accepted [OF _ example_post_law example_turn, of Phase1ContributionHandler
      "example_send (example_server example_phase1 example_files)" example_phase1 example_files 0 "[7, 8]"]
  by (simp add: example_send_def example_ecdsa_laws example_env_def)

section \<open>A turn lost to the interval thread\<close>

text \<open>
  C27. The tick that the interval thread runs does not wait for the processing thread. If the deadline
  passes while an accepted contribution is still being recorded, the tick moves on to the next
  contributor, recording the contribution moves on once more, and that contributor has lost
  the turn without a chance to contribute. With the method \<open>_tick\<close>, which no thread runs, the
  turn would move on by one.
\<close>

theorem tick_during_processing_skips:
  assumes "state_ok (srv_state s)" "handler_finalized s = have_all_contributions (srv_state s)" "srv_processing s = Processed (Inr True)"
    and "next_contributor_index (srv_state s) + 2 \<le> num_contributors (srv_state s)"
    and "next_contributor_deadline (srv_state s) \<le> now"
  shows "next_contributor_index (srv_state (process_finish env later (Inr True) (fst (run_tick env now s)))) =
      next_contributor_index (srv_state s) + 2
    \<and> next_contributor_index (srv_state (process_finish env later (Inr True) (fst (method_tick env now s)))) =
      next_contributor_index (srv_state s) + 1"
proof -
  let ?s = "fst (update_state env s now)"
  have fin: "srv_state (process_finish env later (Inr True) x) = next_contributor (srv_state x) (float_add later (contribution_interval (srv_config x)))"
    if "\<not> have_all_contributions (srv_state x)" "handler_finalized x = have_all_contributions (srv_state x)" for x
  proof -
    let ?x = "x\<lparr>srv_state := next_contributor (srv_state x) (float_add later (contribution_interval (srv_config x)))\<rparr>"
    obtain y r where y: "on_next_contributor env ?x = (y, r)" by fastforce
    from on_next_contributor_effect [OF y] that show ?thesis
      by (simp add: process_finish_def on_contribution_def received_contribution_def bindS_simps y)
  qed
  have "next_contributor_index (srv_state s) \<noteq> num_contributors (srv_state s)"
    using assms(4) by simp
  then have "0 < next_contributor_deadline (srv_state s)" "\<not> have_all_contributions (srv_state s)"
    using assms(1) by (auto simp: state_ok_def have_all_contributions_def split: if_splits)
  moreover have upd: "srv_state ?s = next_contributor (srv_state s) (float_add now (contribution_interval (srv_config s)))"
      "handler_finalized ?s = have_all_contributions (srv_state ?s)"
    using update_state_state [OF assms(2,1), of env now] assms(5) calculation(1) by (auto simp: update_deadline_def)
  moreover have "\<not> have_all_contributions (srv_state ?s)"
    unfolding upd(1) using assms(4) by (simp add: have_all_contributions_def)
  ultimately show ?thesis
    using fin [of ?s] fin [of s] assms(2,3) by (simp add: run_tick_def method_tick_def)
qed

theorem tick_during_processing_skips_witness:
  "next_contributor_index (srv_state (process_finish (example_env Phase1ContributionHandler) 9500 (Inr True)
     (fst (run_tick (example_env Phase1ContributionHandler) 9000
        ((example_server example_phase1 example_files)\<lparr>srv_processing := Processed (Inr True)\<rparr>))))) = 2"
  using tick_during_processing_skips [of "(example_server example_phase1 example_files)\<lparr>srv_processing := Processed (Inr True)\<rparr>"
      9000 "example_env Phase1ContributionHandler" 9500]
  by (simp add: example_server_def state_ok_def have_all_contributions_def)

end
