(* ===== verification/Py_Csv.thy ===== *)
theory Py_Csv
  imports Prelude
begin

text \<open>
  What the MPC scripts use of the module \<open>csv\<close>: \<open>DictReader\<close> on a text file in the default
  dialect. The reader is the state machine of the module on the text with newlines translated;
  fields below the size limit of the module and texts without NUL are assumed. A
  row is a dictionary from the column names of the first line to cells; \<open>None\<close> is the cell of
  a column that the row is too short for.
\<close>

text \<open>\<open>cr\<close>: the last character was a carriage return, already written as a newline.\<close>

fun translate_newlines :: "bool \<Rightarrow> string \<Rightarrow> string" where
  "translate_newlines cr [] = []"
| "translate_newlines cr (c # s) =
     (if c = CHR 0x0D then CHR 0x0A # translate_newlines True s
      else if c = CHR 0x0A \<and> cr then translate_newlines False s
      else c # translate_newlines False s)"

definition universal_newlines :: "string \<Rightarrow> string" where
  "universal_newlines s = translate_newlines False s"

datatype csv_state = StartRecord | StartField | InField | InQuoted | QuoteInQuoted

text \<open>\<open>fs\<close> are the finished fields of the record, \<open>f\<close> is the current one.\<close>

fun csv_records :: "csv_state \<Rightarrow> string list \<Rightarrow> string \<Rightarrow> string \<Rightarrow> string list list" where
  "csv_records StartRecord fs f [] = []"
| "csv_records StartField fs f [] = [fs @ [f]]"
| "csv_records InField fs f [] = [fs @ [f]]"
| "csv_records InQuoted fs f [] = [fs @ [f]]"
| "csv_records QuoteInQuoted fs f [] = [fs @ [f]]"
| "csv_records StartRecord fs f (c # s) =
     (if c = CHR 0x0A then [] # csv_records StartRecord [] [] s
      else if c = CHR 0x22 then csv_records InQuoted [] [] s
      else if c = CHR '','' then csv_records StartField [[]] [] s
      else csv_records InField [] [c] s)"
| "csv_records StartField fs f (c # s) =
     (if c = CHR 0x0A then (fs @ [f]) # csv_records StartRecord [] [] s
      else if c = CHR 0x22 then csv_records InQuoted fs f s
      else if c = CHR '','' then csv_records StartField (fs @ [f]) [] s
      else csv_records InField fs (f @ [c]) s)"
| "csv_records InField fs f (c # s) =
     (if c = CHR 0x0A then (fs @ [f]) # csv_records StartRecord [] [] s
      else if c = CHR '','' then csv_records StartField (fs @ [f]) [] s
      else csv_records InField fs (f @ [c]) s)"
| "csv_records InQuoted fs f (c # s) =
     (if c = CHR 0x22 then csv_records QuoteInQuoted fs f s else csv_records InQuoted fs (f @ [c]) s)"
| "csv_records QuoteInQuoted fs f (c # s) =
     (if c = CHR 0x22 then csv_records InQuoted fs (f @ [c]) s
      else if c = CHR 0x0A then (fs @ [f]) # csv_records StartRecord [] [] s
      else if c = CHR '','' then csv_records StartField (fs @ [f]) [] s
      else csv_records InField fs (f @ [c]) s)"

type_synonym csv_row = "string \<rightharpoonup> string option"

definition csv_row_of :: "string list \<Rightarrow> string list \<Rightarrow> csv_row" where
  "csv_row_of fieldnames row =
     map_of (rev (zip fieldnames (map Some row @ replicate (length fieldnames - length row) None)))"

definition DictReader :: "string \<Rightarrow> csv_row list" where
  "DictReader text =
     (case csv_records StartRecord [] [] (universal_newlines text) of
        [] \<Rightarrow> []
      | fieldnames # rows \<Rightarrow> map (csv_row_of fieldnames) (filter (\<lambda>row. row \<noteq> []) rows))"

section \<open>Reading what a form writes\<close>

text \<open>A text that may stand in a cell without quotes, and the text of rows of such cells.\<close>

definition plain_cell :: "string \<Rightarrow> bool" where
  "plain_cell s \<longleftrightarrow> (\<forall>c \<in> set s. c \<notin> {CHR 0x0A, CHR 0x0D, CHR 0x22, CHR '',''})"

fun csv_line :: "string list \<Rightarrow> string" where
  "csv_line [] = []"
| "csv_line [x] = x"
| "csv_line (x # y # xs) = x @ CHR '','' # csv_line (y # xs)"

definition csv_text :: "string list list \<Rightarrow> string" where
  "csv_text rows = concat (map (\<lambda>row. csv_line row @ [CHR 0x0A]) rows)"

lemma universal_newlines_id: "CHR 0x0D \<notin> set s \<Longrightarrow> universal_newlines s = s"
  by (induction s) (auto simp: universal_newlines_def)

lemma csv_in_field:
  "\<forall>c \<in> set s. c \<notin> {CHR 0x0A, CHR 0x0D, CHR 0x22, CHR '',''} \<Longrightarrow>
   csv_records InField fs f (s @ t) = csv_records InField fs (f @ s) t"
  by (induction s arbitrary: f) auto

lemma csv_start_cell:
  assumes "plain_cell s" "c \<in> {CHR 0x0A, CHR '',''}"
  shows "csv_records StartField fs [] (s @ c # t) = csv_records InField fs s (c # t)"
  using assms csv_in_field [of "tl s" fs "[hd s]" "c # t"] by (cases s) (auto simp: plain_cell_def)

lemma csv_line_fields:
  assumes "\<forall>x \<in> set (y # xs). plain_cell x"
  shows "csv_records StartField fs [] (csv_line (y # xs) @ CHR 0x0A # t) = (fs @ y # xs) # csv_records StartRecord [] [] t"
  using assms by (induction xs arbitrary: fs y) (simp_all add: csv_start_cell)

text \<open>A line of one empty cell is a blank line; every other line starts a record with its first cell.\<close>

lemma csv_start_record:
  "csv_line row \<noteq> [] \<Longrightarrow> hd (csv_line row) \<noteq> CHR 0x0A \<Longrightarrow>
   csv_records StartRecord [] [] (csv_line row @ t) = csv_records StartField [] [] (csv_line row @ t)"
  by (cases "csv_line row") auto

lemma csv_line_record:
  assumes "\<forall>x \<in> set row. plain_cell x" "row \<noteq> []" "row \<noteq> [[]]"
  shows "csv_records StartRecord [] [] (csv_line row @ CHR 0x0A # t) = row # csv_records StartRecord [] [] t"
proof -
  have "csv_line row \<noteq> []" "hd (csv_line row) \<noteq> CHR 0x0A"
    using assms by (cases row rule: csv_line.cases; auto simp: plain_cell_def hd_append)+
  then show ?thesis
    using csv_start_record [of row "CHR 0x0A # t"] csv_line_fields [of _ _ "[]" t] assms(1,2) by (cases row) auto
qed

lemma csv_text_records:
  assumes "\<forall>row \<in> set rows. row \<noteq> [] \<and> row \<noteq> [[]] \<and> (\<forall>x \<in> set row. plain_cell x)"
  shows "csv_records StartRecord [] [] (csv_text rows) = rows"
  using assms by (induction rows) (simp_all add: csv_text_def csv_line_record)

lemma set_csv_line: "set (csv_line row) \<subseteq> insert CHR '','' (\<Union>x \<in> set row. set x)"
  by (induction row rule: csv_line.induct) auto

lemma csv_text_no_cr:
  assumes "\<forall>row \<in> set rows. \<forall>x \<in> set row. plain_cell x"
  shows "CHR 0x0D \<notin> set (csv_text rows)"
proof
  assume "CHR 0x0D \<in> set (csv_text rows)"
  then obtain row where "row \<in> set rows" "CHR 0x0D \<in> set (csv_line row)"
    by (auto simp: csv_text_def split: if_splits)
  with set_csv_line [of row] assms show False
    by (fastforce simp: plain_cell_def)
qed

lemma DictReader_csv_text:
  assumes "\<forall>row \<in> set (fieldnames # rows). row \<noteq> [] \<and> row \<noteq> [[]] \<and> (\<forall>x \<in> set row. plain_cell x)"
  shows "DictReader (csv_text (fieldnames # rows)) = map (csv_row_of fieldnames) rows"
proof -
  have "universal_newlines (csv_text (fieldnames # rows)) = csv_text (fieldnames # rows)"
    using assms by (intro universal_newlines_id csv_text_no_cr) blast
  moreover have "filter (\<lambda>row. row \<noteq> []) rows = rows"
    using assms by (auto intro: filter_True)
  ultimately show ?thesis
    using csv_text_records [OF assms] by (simp add: DictReader_def)
qed

lemma csv_row_of_column:
  assumes "distinct fieldnames" "length row = length fieldnames" "i < length fieldnames"
  shows "csv_row_of fieldnames row (fieldnames ! i) = Some (Some (row ! i))"
proof -
  have "map_of (rev (zip fieldnames (map Some row))) = map_of (zip fieldnames (map Some row))"
    using assms by (subst map_of_inject_set) (simp_all flip: rev_map)
  then show ?thesis
    using assms by (simp add: csv_row_of_def map_of_zip_nth)
qed

end
