(* ===== verification/Mpc_Scripts.thy ===== *)
theory Mpc_Scripts
  imports Coordinator Py_Csv
begin

text \<open>
  The scripts of \<open>mpc/commands\<close>: keys and their public information, the list of contributors from a
  form, the preparation of phase 2, contributing, and starting the servers. Files with JSON
  documents are a map \<open>docs\<close> from their names to the documents, all others a map to their bytes. The
  default paths of the tools are arguments. What a script prints is its result.
\<close>

definition DEFAULT_CONFIG_FILE :: string where
  "DEFAULT_CONFIG_FILE = ''server_config.json''"

definition LAGRANGE_FILE :: string where
  "LAGRANGE_FILE = ''lagrange.bin''"

definition LINEAR_COMBINATION_FILE :: string where
  "LINEAR_COMBINATION_FILE = ''linear_combination.bin''"

definition RESPONSE_DIGEST_FILE :: string where
  "RESPONSE_DIGEST_FILE = ''response.bin.digest''"

type_synonym documents = "string \<rightharpoonup> json"

definition read_document :: "documents \<Rightarrow> string \<Rightarrow> json res" where
  "read_document docs name = (case docs name of None \<Rightarrow> Inl FileNotFoundError | Some j \<Rightarrow> Inr j)"

section \<open>Keys\<close>

text \<open>\<open>if name: open(name, "w").write(s)\<close>.\<close>

definition write_optional :: "files \<Rightarrow> string option \<Rightarrow> string \<Rightarrow> files" where
  "write_optional fs name s = (if truthy name then fs(the name \<mapsto> encode_ascii s) else fs)"

definition public_key_information ::
  "('sk, 'vk) ecdsa_lib \<Rightarrow> sha512_fn \<Rightarrow> int \<Rightarrow> files \<Rightarrow> 'sk \<Rightarrow> string option \<Rightarrow> string option \<Rightarrow> files \<times> (string \<times> string) res" where
  "public_key_information E H nonce fs key public_key_file evidence_file =
     (if truthy public_key_file \<and> file_exists fs (the public_key_file)
      then (fs, Inl (PyException ''public key file already exists''))
      else if truthy evidence_file \<and> file_exists fs (the evidence_file)
      then (fs, Inl (PyException ''evidence file already exists''))
      else let pub_key_str = export_verification_key E (get_verification_key' E key);
               evidence_str = export_signature (create_key_evidence E H nonce key)
           in (write_optional (write_optional fs public_key_file pub_key_str) evidence_file evidence_str,
               Inr (pub_key_str, evidence_str)))"

text \<open>\<open>signing_key\<close> is the key that the package generates.\<close>

definition generate_key ::
  "('sk, 'vk) ecdsa_lib \<Rightarrow> sha512_fn \<Rightarrow> int \<Rightarrow> 'sk \<Rightarrow> files \<Rightarrow> string \<Rightarrow> string option \<Rightarrow> string option \<Rightarrow> files \<times> (string \<times> string) res" where
  "generate_key E H nonce signing_key fs key_file public_key_file evidence_file =
     (if file_exists fs key_file then (fs, Inl (ClickException (''key file '' @ key_file @ '' already exists'')))
      else bindS (public_key_information E H nonce fs signing_key public_key_file evidence_file) (\<lambda>fs printed.
             (fs(key_file \<mapsto> export_signing_key E signing_key), Inr printed)))"

definition public_key_cmd ::
  "('sk, 'vk) ecdsa_lib \<Rightarrow> sha512_fn \<Rightarrow> int \<Rightarrow> files \<Rightarrow> string \<Rightarrow> string option \<Rightarrow> string option \<Rightarrow> files \<times> (string \<times> string) res" where
  "public_key_cmd E H nonce fs key_file public_key_file evidence_file =
     bindS (fs, open_key E fs key_file) (\<lambda>fs key. public_key_information E H nonce fs key public_key_file evidence_file)"

definition sign_contribution :: "('sk, 'vk) ecdsa_lib \<Rightarrow> int \<Rightarrow> files \<Rightarrow> string \<Rightarrow> string \<Rightarrow> string res" where
  "sign_contribution E nonce fs key_file digest_hex =
     bindR (import_digest digest_hex) (\<lambda>digest.
     bindR (open_key E fs key_file) (\<lambda>signing_key.
       Inr (export_signature (mpc_sign E nonce signing_key digest))))"

section \<open>Contributors from a form\<close>

definition DEFAULT_EMAIL_FIELD_NAME :: string where
  "DEFAULT_EMAIL_FIELD_NAME = ''Email''"

definition DEFAULT_KEY_FIELD_NAME :: string where
  "DEFAULT_KEY_FIELD_NAME = ''Contributor Verification Key''"

definition DEFAULT_EVIDENCE_FIELD_NAME :: string where
  "DEFAULT_EVIDENCE_FIELD_NAME = ''Key Evidence''"

text \<open>
  \<open>str(ex)\<close>; the messages of the interpreter are the argument. A cell that a short row does not
  have is \<open>None\<close>: as an email it is kept, as a key or as evidence \<open>bytes.fromhex\<close> raises.
\<close>

definition str_exception :: "(py_error \<Rightarrow> string) \<Rightarrow> py_error \<Rightarrow> string" where
  "str_exception text e = (case e of PyException s \<Rightarrow> s | ClickException s \<Rightarrow> s | _ \<Rightarrow> text e)"

definition row_cell :: "csv_row \<Rightarrow> string \<Rightarrow> string option res" where
  "row_cell row field = (case row field of None \<Rightarrow> Inl KeyError | Some cell \<Rightarrow> Inr cell)"

definition text_cell :: "csv_row \<Rightarrow> string \<Rightarrow> string res" where
  "text_cell row field = bindR (row_cell row field) (\<lambda>cell. case cell of None \<Rightarrow> Inl TypeError | Some s \<Rightarrow> Inr s)"

definition row_to_contributor ::
  "('sk, 'vk) ecdsa_lib \<Rightarrow> sha512_fn \<Rightarrow> (py_error \<Rightarrow> string) \<Rightarrow> string \<Rightarrow> string \<Rightarrow> string \<Rightarrow> csv_row \<Rightarrow>
   (string option \<times> 'vk \<times> bytes) res" where
  "row_to_contributor E H text email_field key_field evidence_field row =
     bindR (row_cell row email_field) (\<lambda>email.
       case bindR (bindR (text_cell row key_field) (import_verification_key E)) (\<lambda>key.
            bindR (bindR (text_cell row evidence_field) import_signature) (\<lambda>evidence.
              if \<not> check_key_evidence E H key evidence then Inl (ClickException ''invalid key evidence'')
              else Inr (key, evidence))) of
         Inl ex \<Rightarrow> Inl (ClickException (''contributor '' @ (case email of None \<Rightarrow> ''None'' | Some s \<Rightarrow> s) @ '': '' @ str_exception text ex))
       | Inr (key, evidence) \<Rightarrow> Inr (email, key, evidence))"

definition read_contributors_from_csv ::
  "('sk, 'vk) ecdsa_lib \<Rightarrow> sha512_fn \<Rightarrow> (py_error \<Rightarrow> string) \<Rightarrow> string option \<Rightarrow> string \<Rightarrow> string \<Rightarrow> string \<Rightarrow>
   (string option \<times> 'vk \<times> bytes) list res" where
  "read_contributors_from_csv E H text csv_file email_field key_field evidence_field =
     (case csv_file of
        None \<Rightarrow> Inl FileNotFoundError
      | Some content \<Rightarrow> mapR (row_to_contributor E H text email_field key_field evidence_field) (DictReader content))"

text \<open>\<open>ContributorList.to_json\<close> of these contributors, where an email may be \<open>None\<close>.\<close>

definition csv_contributors_json :: "('sk, 'vk) ecdsa_lib \<Rightarrow> (string option \<times> 'vk \<times> bytes) list \<Rightarrow> json" where
  "csv_contributors_json E cs =
     JObj [(''contributors'', JList (map (\<lambda>(email, key, evidence).
        JObj [(''email'', j_opt_str email), (''verification_key'', JStr (export_verification_key E key)),
              (''key_evidence'', JStr (export_signature evidence))]) cs))]"

definition contributors_from_csv ::
  "('sk, 'vk) ecdsa_lib \<Rightarrow> sha512_fn \<Rightarrow> (py_error \<Rightarrow> string) \<Rightarrow> documents \<Rightarrow> string option \<Rightarrow> string \<Rightarrow> string \<Rightarrow> string \<Rightarrow> string \<Rightarrow>
   documents \<times> unit res" where
  "contributors_from_csv E H text docs csv_file output_contributors email_field key_field evidence_field =
     bindS (docs, read_contributors_from_csv E H text csv_file email_field key_field evidence_field) (\<lambda>docs contributors.
       (docs(output_contributors \<mapsto> csv_contributors_json E contributors), Inr ()))"

section \<open>Phase 2 and the key pair\<close>

definition or_raise :: "files \<times> bool \<Rightarrow> string \<Rightarrow> files \<times> unit res" where
  "or_raise x msg = (case x of (fs, ok) \<Rightarrow> (fs, if ok then Inr () else Inl (PyException msg)))"

text \<open>The three results that \<open>phase2_prepare\<close> makes unless they exist.\<close>

definition prepare_lagrange ::
  "tool_runner \<Rightarrow> string \<Rightarrow> string option \<Rightarrow> bool \<Rightarrow> string \<Rightarrow> int \<Rightarrow> int option \<Rightarrow> files \<Rightarrow> files \<times> unit res" where
  "prepare_lagrange R default_pot_tool pot_tool dry_run pot_file pot_degree lagrange_degree fs =
     (if \<not> file_exists fs LAGRANGE_FILE then
        bindS (fs, pot_process_init fs default_pot_tool pot_tool dry_run) (\<lambda>fs pot_process.
          or_raise (compute_lagrange R pot_process fs pot_file pot_degree LAGRANGE_FILE lagrange_degree) ''Lagrange computation failed'')
      else (fs, Inr ()))"

definition prepare_linear_combination :: "tool_runner \<Rightarrow> MPCCommand \<Rightarrow> string \<Rightarrow> int \<Rightarrow> files \<Rightarrow> files \<times> unit res" where
  "prepare_linear_combination R mpc pot_file pot_degree fs =
     (if \<not> file_exists fs LINEAR_COMBINATION_FILE then
        or_raise (linear_combination R mpc fs pot_file LAGRANGE_FILE LINEAR_COMBINATION_FILE (Some pot_degree)) ''linear combination failed''
      else (fs, Inr ()))"

definition prepare_challenge_0 :: "tool_runner \<Rightarrow> MPCCommand \<Rightarrow> files \<Rightarrow> files \<times> unit res" where
  "prepare_challenge_0 R mpc fs =
     (if \<not> file_exists fs CHALLENGE_0_FILE then
        or_raise (phase2_begin R mpc fs LINEAR_COMBINATION_FILE CHALLENGE_0_FILE) ''failed computing challenge 0''
      else (fs, Inr ()))"

definition require_degree :: "Phase1ServerConfig \<Rightarrow> int res" where
  "require_degree c =
     (case p1_num_powers c of
        Some n \<Rightarrow> if n = 0 then Inl (PyException ''powersoftau degree must be specified in config file'') else Inr n
      | None \<Rightarrow> Inl (PyException ''powersoftau degree must be specified in config file''))"

definition phase2_prepare ::
  "tool_runner \<Rightarrow> number_text \<Rightarrow> string \<Rightarrow> string \<Rightarrow> documents \<Rightarrow> files \<Rightarrow> string \<Rightarrow> int option \<Rightarrow> string option \<Rightarrow> string option \<Rightarrow> bool \<Rightarrow>
   files \<times> unit res" where
  "phase2_prepare R T default_pot_tool default_mpc docs fs phase1_dir lagrange_degree pot_tool tool dry_run =
     (let pot_file = path_join phase1_dir FINAL_OUTPUT;
          phase1_config_file = path_join phase1_dir DEFAULT_CONFIG_FILE
      in if \<not> file_exists fs pot_file then (fs, Inl (PyException (''No powersoftau file: '' @ pot_file)))
         else bindS (fs, bindR (read_document docs phase1_config_file) (\<lambda>j.
                           phase1_config_from_json_dict T (dom fs) j (Some phase1_config_file))) (\<lambda>fs phase1_config.
              bindS (fs, require_degree phase1_config) (\<lambda>fs pot_degree.
              bindS (prepare_lagrange R default_pot_tool pot_tool dry_run pot_file pot_degree lagrange_degree fs) (\<lambda>fs _.
              bindS (fs, mpc_command_init fs default_mpc tool dry_run) (\<lambda>fs mpc.
              bindS (prepare_linear_combination R mpc pot_file pot_degree fs) (\<lambda>fs _.
                prepare_challenge_0 R mpc fs))))))"

definition create_keypair_script ::
  "tool_runner \<Rightarrow> number_text \<Rightarrow> string \<Rightarrow> documents \<Rightarrow> files \<Rightarrow> string \<Rightarrow> string \<Rightarrow> string option \<Rightarrow> files \<times> unit res" where
  "create_keypair_script R T default_mpc docs fs phase1_dir keypair_out_file tool =
     (if file_exists fs keypair_out_file then (fs, Inl (PyException (''keypair file already exists: '' @ keypair_out_file)))
      else let phase1_config_file = path_join phase1_dir DEFAULT_CONFIG_FILE;
               pot_file = path_join phase1_dir FINAL_OUTPUT
           in bindS (fs, bindR (read_document docs phase1_config_file) (\<lambda>j.
                           phase1_config_from_json_dict T (dom fs) j (Some phase1_config_file))) (\<lambda>fs phase1_config.
              bindS (fs, mpc_command_init fs default_mpc tool False) (\<lambda>fs mpc.
                or_raise (create_keypair R mpc fs pot_file LINEAR_COMBINATION_FILE FINAL_OUTPUT keypair_out_file (p1_num_powers phase1_config))
                  ''create_keypair command failed'')))"

section \<open>Contributing\<close>

definition phase1_contribute_cb ::
  "tool_runner \<Rightarrow> string \<Rightarrow> string option \<Rightarrow> int option \<Rightarrow> string \<Rightarrow> bool \<Rightarrow> files \<Rightarrow> files \<times> string res" where
  "phase1_contribute_cb R default_path pot_path powers response_digest skip_user_input fs =
     bindS (fs, powersoftau_init fs default_path pot_path powers) (\<lambda>fs pot.
     bindS (pot_contribute R pot fs (Some response_digest) skip_user_input) (\<lambda>fs contribution_success.
       (fs, if \<not> contribution_success then Inl (ClickException ''failed to generate response'')
            else if \<not> file_exists fs RESPONSE_FILE then Inl (ClickException ''response file not created'')
            else Inr RESPONSE_FILE)))"

definition phase1_contribute where
  "phase1_contribute E H T nonce post net R default_path fs url key_file wait_interval pot_path response_digest powers
       skip_user_input server_certificate insecure =
     contribute E H T nonce post net (phase1_contribute_cb R default_path pot_path powers response_digest skip_user_input)
       fs url key_file CHALLENGE_FILE wait_interval server_certificate insecure"

definition phase2_contribute_cb ::
  "tool_runner \<Rightarrow> string \<Rightarrow> string option \<Rightarrow> string \<Rightarrow> string \<Rightarrow> string \<Rightarrow> bool \<Rightarrow> files \<Rightarrow> files \<times> string res" where
  "phase2_contribute_cb R default_mpc tool challenge response response_digest skip_user_input fs =
     bindS (fs, mpc_command_init fs default_mpc tool False) (\<lambda>fs mpc.
       case phase2_contribute R mpc fs challenge response (Some response_digest) skip_user_input of
         (fs, contribution_success) \<Rightarrow>
           (fs, if \<not> contribution_success then Inl (ClickException ''failed to generate response'') else Inr response))"

definition phase2_contribute_script where
  "phase2_contribute_script E H T nonce post net R default_mpc fs url key_file wait_interval challenge response response_digest
       tool skip_user_input server_certificate insecure =
     contribute E H T nonce post net (phase2_contribute_cb R default_mpc tool challenge response response_digest skip_user_input)
       fs url key_file challenge wait_interval server_certificate insecure"

definition get_challenge_script :: "network \<Rightarrow> files \<Rightarrow> string \<Rightarrow> string \<Rightarrow> string option \<Rightarrow> bool \<Rightarrow> (files \<times> unit res) option" where
  "get_challenge_script net fs url challenge_file server_certificate insecure =
     (case client_init fs url server_certificate insecure of
        Inl e \<Rightarrow> Some (fs, Inl e)
      | Inr client \<Rightarrow> get_challenge (client_get net client ''challenge'') 0 fs challenge_file)"

definition upload_contribution ::
  "('sk, 'vk) ecdsa_lib \<Rightarrow> sha512_fn \<Rightarrow> int \<Rightarrow> post_fn \<Rightarrow> network \<Rightarrow> files \<Rightarrow> string \<Rightarrow> string \<Rightarrow> string \<Rightarrow> string option \<Rightarrow> bool \<Rightarrow> unit res" where
  "upload_contribution E H nonce post net fs url key_file response_file server_certificate insecure =
     bindR (client_init fs url server_certificate insecure) (\<lambda>client.
       upload_response E H nonce post (client_send net client) fs response_file key_file)"

section \<open>Starting the servers\<close>

text \<open>The scripts up to the constructed server; they then sleep until they are interrupted.\<close>

definition override_phase1 :: "string option \<Rightarrow> int option \<Rightarrow> Phase1ServerConfig \<Rightarrow> Phase1ServerConfig" where
  "override_phase1 pot_path powers c =
     (let c = (if truthy pot_path then c\<lparr>p1_powersoftau_path := pot_path\<rparr> else c)
      in case powers of None \<Rightarrow> c | Some n \<Rightarrow> if n = 0 then c else c\<lparr>p1_num_powers := Some n\<rparr>)"

definition phase1_server ::
  "(Phase1Handler, 'sk, 'vk) server_env \<Rightarrow> tool_runner \<Rightarrow> string \<Rightarrow> documents \<Rightarrow> files \<Rightarrow> string \<Rightarrow> string \<Rightarrow> string option \<Rightarrow> int option \<Rightarrow>
   files \<times> (Phase1Handler, 'vk) Server res" where
  "phase1_server env R default_path docs fs path config pot_path powers =
     bindS (fs, bindR (read_document docs config) (\<lambda>j. phase1_config_from_json_dict (se_text env) (dom fs) j None)) (\<lambda>fs c.
       let c = override_phase1 pot_path powers c
       in bindS (phase1_init R default_path c (docs PHASE1_STATE_FILE) fs) (\<lambda>fs handler.
            (fs, server_init env handler (p1_server_configuration c) path
                   (read_document docs (contributors_file (p1_server_configuration c))) (docs STATE_FILE) fs)))"

definition phase2_server ::
  "(Phase2Handler, 'sk, 'vk) server_env \<Rightarrow> tool_runner \<Rightarrow> string \<Rightarrow> documents \<Rightarrow> files \<Rightarrow> string \<Rightarrow> string \<Rightarrow> string option \<Rightarrow>
   (Phase2Handler, 'vk) Server res" where
  "phase2_server env R default_mpc docs fs path config tool =
     bindR (bindR (read_document docs config) (\<lambda>j. phase2_config_from_json_dict (se_text env) (dom fs) j None)) (\<lambda>c.
       let c = (if truthy tool then c\<lparr>p2_mpc_tool := tool\<rparr> else c)
       in bindR (phase2_init R default_mpc c fs) (\<lambda>handler.
            server_init env handler (p2_server_configuration c) path
              (read_document docs (contributors_file (p2_server_configuration c))) (docs STATE_FILE) fs))"

section \<open>Lemmas on keys and contributors\<close>

lemma public_key_information_prints:
  "public_key_information E H nonce fs key pkf evf = (fs', Inr (pub, evi)) \<Longrightarrow>
   pub = export_verification_key E (get_verification_key' E key) \<and> evi = export_signature (create_key_evidence E H nonce key)"
  by (auto simp: public_key_information_def Let_def split: if_splits)

lemma generate_key_prints:
  assumes "generate_key E H nonce key fs key_file pkf evf = (fs', Inr (pub, evi))"
  shows "pub = export_verification_key E (get_verification_key' E key)" "evi = export_signature (create_key_evidence E H nonce key)"
    and "fs' key_file = Some (export_signing_key E key)"
  using assms public_key_information_prints [of E H nonce fs key pkf evf]
  by (auto simp: generate_key_def bindS_def prod_eq_iff split: if_splits sum.splits)

text \<open>A row with an email, read as a contributor.\<close>

definition csv_contributor :: "string \<times> 'vk \<times> bytes \<Rightarrow> 'vk Contributor" where
  "csv_contributor c = (case c of (email, key, evidence) \<Rightarrow>
     \<lparr>contributor_email = email, verification_key = key, key_evidence = evidence\<rparr>)"

lemma csv_contributors_json_emails:
  "csv_contributors_json E (map (\<lambda>(email, c). (Some email, c)) cs) = contributor_list_to_json_dict E (map csv_contributor cs)"
  by (auto simp: csv_contributors_json_def contributor_list_to_json_dict_def contributor_to_json_dict_def csv_contributor_def j_opt_str_def)

lemma row_to_contributor_ok:
  assumes "row_to_contributor E H text ef kf vf row = Inr (email, key, evidence)"
  shows "row ef = Some email" "check_key_evidence E H key evidence"
  using assms by (auto simp: row_to_contributor_def bindR_eq_Inr row_cell_def split: option.splits sum.splits if_splits)

lemma row_to_contributor_published:
  assumes "ecdsa_laws E" "row ef = Some (Some email)"
    "row kf = Some (Some (export_verification_key E (get_verification_key' E sk)))"
    "row vf = Some (Some (export_signature (create_key_evidence E H nonce sk)))"
  shows "row_to_contributor E H text ef kf vf row = Inr (Some email, get_verification_key' E sk, create_key_evidence E H nonce sk)"
  using assms by (simp add: row_to_contributor_def row_cell_def text_cell_def key_evidence_ok)

lemma rows_to_contributors_valid:
  "mapR (row_to_contributor E H text ef kf vf) rows = Inr (map (\<lambda>(email, c). (Some email, c)) ds) \<Longrightarrow>
   ensure_validity E H (map csv_contributor ds) = Inr ()"
proof (induction rows arbitrary: ds)
  case (Cons row rows)
  then obtain email key evidence ds' where d: "ds = (email, key, evidence) # ds'"
      "row_to_contributor E H text ef kf vf row = Inr (Some email, key, evidence)"
      "mapR (row_to_contributor E H text ef kf vf) rows = Inr (map (\<lambda>(email, c). (Some email, c)) ds')"
    by (auto simp: bindR_eq_Inr Cons_eq_map_conv)
  then show ?case
    using Cons.IH [OF d(3)] row_to_contributor_ok(2) [OF d(2)] by (simp add: csv_contributor_def [of "(email, key, evidence)"])
qed simp

lemma rows_to_contributors_emails:
  assumes "mapR (row_to_contributor E H text ef kf vf) rows = Inr cs" "\<forall>row \<in> set rows. row ef \<noteq> Some None"
  shows "\<exists>ds. cs = map (\<lambda>(email, c). (Some email, c)) ds"
  using assms
proof (induction rows arbitrary: cs)
  case (Cons row rows)
  then obtain email c cs' where c: "row_to_contributor E H text ef kf vf row = Inr (email, c)" "cs = (email, c) # cs'"
      "mapR (row_to_contributor E H text ef kf vf) rows = Inr cs'"
    by (auto simp: bindR_eq_Inr)
  then obtain ds where "cs' = map (\<lambda>(email, c). (Some email, c)) ds"
    using Cons.IH Cons.prems(2) by auto
  moreover obtain e where "email = Some e"
    using row_to_contributor_ok(1) [of E H "text" ef kf vf row email "fst c" "snd c"] c(1) Cons.prems(2) by auto
  ultimately show ?case
    using c(2) by (intro exI [of _ "(e, c) # ds"]) simp
qed simp

lemma row_to_contributor_error:
  assumes "row_to_contributor E H text ef kf vf row = Inl e" "row ef \<noteq> Some None"
  shows "e = KeyError \<or> (\<exists>email msg. row ef = Some (Some email) \<and> e = ClickException (''contributor '' @ email @ '': '' @ msg))"
  using assms by (cases "row ef") (auto simp: row_to_contributor_def row_cell_def split: sum.splits)

lemma plain_hex [simp]: "plain_cell (bytes_hex bs)"
  using bytes_hex_not_in [of "CHR 0x0A" bs] bytes_hex_not_in [of "CHR 0x0D" bs] bytes_hex_not_in [of "CHR 0x22" bs]
    bytes_hex_not_in [of "CHR '',''" bs] by (auto simp: plain_cell_def)

text \<open>The rows of the form: each person publishes an email and what \<open>generate_key\<close> printed.\<close>

definition publishes :: "('sk, 'vk) ecdsa_lib \<Rightarrow> sha512_fn \<Rightarrow> string \<times> 'sk \<Rightarrow> string list \<Rightarrow> bool" where
  "publishes E H person row \<longleftrightarrow>
     (\<exists>nonce fs key_file pkf evf fs' pub evi.
        generate_key E H nonce (snd person) fs key_file pkf evf = (fs', Inr (pub, evi)) \<and> row = [fst person, pub, evi])"

abbreviation form_fields :: "string list" where
  "form_fields \<equiv> [DEFAULT_EMAIL_FIELD_NAME, DEFAULT_KEY_FIELD_NAME, DEFAULT_EVIDENCE_FIELD_NAME]"

lemmas form_field_defs = DEFAULT_EMAIL_FIELD_NAME_def DEFAULT_KEY_FIELD_NAME_def DEFAULT_EVIDENCE_FIELD_NAME_def

lemma publishes_row:
  assumes "publishes E H person row" "ecdsa_laws E" "plain_cell (fst person)"
  shows "\<exists>evidence. row_to_contributor E H text DEFAULT_EMAIL_FIELD_NAME DEFAULT_KEY_FIELD_NAME DEFAULT_EVIDENCE_FIELD_NAME
        (csv_row_of form_fields row) = Inr (Some (fst person), get_verification_key' E (snd person), evidence)"
    and "row \<noteq> []" "row \<noteq> [[]]" "\<forall>x \<in> set row. plain_cell x"
proof -
  obtain nonce where row: "row = [fst person, export_verification_key E (get_verification_key' E (snd person)),
      export_signature (create_key_evidence E H nonce (snd person))]"
    using assms(1) generate_key_prints by (fastforce simp: publishes_def)
  have cells: "csv_row_of form_fields row (form_fields ! i) = Some (Some (row ! i))" if "i < 3" for i
    using csv_row_of_column [of form_fields row i] that row by (simp add: form_field_defs)
  show "\<exists>evidence. row_to_contributor E H text DEFAULT_EMAIL_FIELD_NAME DEFAULT_KEY_FIELD_NAME DEFAULT_EVIDENCE_FIELD_NAME
        (csv_row_of form_fields row) = Inr (Some (fst person), get_verification_key' E (snd person), evidence)"
    using row_to_contributor_published [OF assms(2), of "csv_row_of form_fields row"] cells [of 0] cells [of 1] cells [of 2] row by auto
  show "row \<noteq> []" "row \<noteq> [[]]" "\<forall>x \<in> set row. plain_cell x"
    using row assms(3) by (auto simp: export_verification_key_def export_signature_def)
qed

lemma publishes_rows:
  assumes "list_all2 (publishes E H) people rows" "ecdsa_laws E" "\<forall>p \<in> set people. plain_cell (fst p)"
  shows "\<exists>ds. mapR (row_to_contributor E H text DEFAULT_EMAIL_FIELD_NAME DEFAULT_KEY_FIELD_NAME DEFAULT_EVIDENCE_FIELD_NAME)
        (map (csv_row_of form_fields) rows) = Inr (map (\<lambda>(email, c). (Some email, c)) ds)
      \<and> map (\<lambda>d. (fst d, fst (snd d))) ds = map (\<lambda>p. (fst p, get_verification_key' E (snd p))) people"
    and "\<forall>row \<in> set rows. row \<noteq> [] \<and> row \<noteq> [[]] \<and> (\<forall>x \<in> set row. plain_cell x)"
  using assms
proof (induction rule: list_all2_induct)
  case (Cons p people row rows)
  {
    case 1
    then obtain ds where ds: "mapR (row_to_contributor E H text DEFAULT_EMAIL_FIELD_NAME DEFAULT_KEY_FIELD_NAME DEFAULT_EVIDENCE_FIELD_NAME)
          (map (csv_row_of form_fields) rows) = Inr (map (\<lambda>(email, c). (Some email, c)) ds)"
        "map (\<lambda>d. (fst d, fst (snd d))) ds = map (\<lambda>p. (fst p, get_verification_key' E (snd p))) people"
      using Cons.IH(1) by auto
    obtain evidence where "row_to_contributor E H text DEFAULT_EMAIL_FIELD_NAME DEFAULT_KEY_FIELD_NAME DEFAULT_EVIDENCE_FIELD_NAME
        (csv_row_of form_fields row) = Inr (Some (fst p), get_verification_key' E (snd p), evidence)"
      using publishes_row(1) [OF Cons.hyps(1)] 1 by auto
    with ds show ?case
      by (intro exI [of _ "(fst p, get_verification_key' E (snd p), evidence) # ds"]) simp
  next
    case 2
    then show ?case
      using publishes_row(2-4) [OF Cons.hyps(1) 2(1)] Cons.IH(2) by (metis list.set_intros set_ConsD)
  }
qed simp_all

section \<open>Lemmas on the preparation of phase 2\<close>

text \<open>
  What the documentation of the tools says of their output: a tool that reports success has
  written the file it was asked for.
\<close>

definition output_file :: "string list \<Rightarrow> string \<Rightarrow> bool" where
  "output_file args f \<longleftrightarrow>
     (\<exists>t rest. args = t # ''--out'' # f # rest) \<or> (\<exists>t rest. args = t # ''linear-combination'' # rest @ [f])
     \<or> (\<exists>t a. args = [t, ''phase2-begin'', a, f])"

definition output_law :: "tool_runner \<Rightarrow> bool" where
  "output_law R \<longleftrightarrow>
     (\<forall>fs args f. output_file args f \<and> snd (run_tool R fs args None) = 0 \<longrightarrow> fst (run_tool R fs args None) f \<noteq> None)"

lemma or_raise_ok [simp]: "or_raise x msg = (fs, Inr ()) \<longleftrightarrow> x = (fs, True)"
  by (cases x) (auto simp: or_raise_def)

lemma mpc_exec_output:
  "output_law R \<Longrightarrow> output_file (Mpc_Commands.mpc_tool m # args) f \<Longrightarrow> \<not> mpc_dry_run m \<Longrightarrow> mpc_exec R m fs args = (fs', True) \<Longrightarrow> fs' f \<noteq> None"
  unfolding mpc_exec_def output_law_def by (auto split: prod.splits) (metis fst_conv option.discI snd_conv)

lemma pot_process_exec_output:
  "output_law R \<Longrightarrow> output_file (pot_process_tool p # args) f \<Longrightarrow> \<not> pot_process_dry_run p \<Longrightarrow>
   pot_process_exec R p fs args = (fs', True) \<Longrightarrow> fs' f \<noteq> None"
  unfolding pot_process_exec_def output_law_def by (auto split: prod.splits) (metis fst_conv option.discI snd_conv)

lemma pot_process_exec_keeps:
  "tool_laws R \<Longrightarrow> fs f \<noteq> None \<Longrightarrow> fst (pot_process_exec R p fs args) f \<noteq> None"
  by (auto simp: pot_process_exec_def tool_laws_def split: prod.splits) (metis fst_conv option.discI)

lemma bindR_mono: "bindR x f = Inr c \<Longrightarrow> (\<And>y. f y = Inr c \<Longrightarrow> g y = Inr c) \<Longrightarrow> bindR x g = Inr c"
  by (cases x) auto

lemma configuration_init_mono:
  "configuration_init paths a b c d e p s f g = Inr cfg \<Longrightarrow> paths \<subseteq> paths' \<Longrightarrow> configuration_init paths' a b c d e p s f g = Inr cfg"
  by (auto simp: configuration_init_def split: if_splits)

lemma configuration_paths_mono:
  "configuration_from_json_dict T paths j config_path = Inr c \<Longrightarrow> paths \<subseteq> paths' \<Longrightarrow>
   configuration_from_json_dict T paths' j config_path = Inr c"
  unfolding configuration_from_json_dict_def Let_def by (elim bindR_mono configuration_init_mono)

lemma phase1_config_paths_mono:
  assumes "phase1_config_from_json_dict T paths j config_path = Inr c" "paths \<subseteq> paths'"
  shows "phase1_config_from_json_dict T paths' j config_path = Inr c"
  using assms configuration_paths_mono [OF _ assms(2)]
  by (auto simp: phase1_config_from_json_dict_def bindR_eq_Inr)

text \<open>A step that succeeds leaves its result and deletes nothing; once the result exists it does nothing.\<close>

definition makes :: "string \<Rightarrow> (files \<Rightarrow> files \<times> unit res) \<Rightarrow> bool" where
  "makes f step \<longleftrightarrow>
     (\<forall>fs fs'. step fs = (fs', Inr ()) \<longrightarrow> f \<in> dom fs' \<and> dom fs \<subseteq> dom fs') \<and> (\<forall>fs. f \<in> dom fs \<longrightarrow> step fs = (fs, Inr ()))"

lemma mpc_exec_dom: "tool_laws R \<Longrightarrow> mpc_exec R m fs args = (fs', ok) \<Longrightarrow> dom fs \<subseteq> dom fs'"
  using mpc_exec_keeps [of R fs _ m args] by (force simp: dom_def)

lemma pot_process_exec_dom: "tool_laws R \<Longrightarrow> pot_process_exec R p fs args = (fs', ok) \<Longrightarrow> dom fs \<subseteq> dom fs'"
  using pot_process_exec_keeps [of R fs _ p args] by (force simp: dom_def)

lemma prepare_lagrange_makes:
  assumes "tool_laws R" "output_law R"
  shows "makes LAGRANGE_FILE (prepare_lagrange R dp pt False pot_file degree ld)"
proof -
  have "LAGRANGE_FILE \<in> dom fs' \<and> dom fs \<subseteq> dom fs'"
    if run: "compute_lagrange R p fs pot_file degree LAGRANGE_FILE ld = (fs', True)" and "\<not> pot_process_dry_run p" for fs fs' p
  proof -
    have "output_file (pot_process_tool p # ''--out'' # LAGRANGE_FILE # rest) LAGRANGE_FILE" for rest
      by (simp add: output_file_def)
    then show ?thesis
      using pot_process_exec_output [OF assms(2) _ that(2)] pot_process_exec_dom [OF assms(1)] run
      unfolding compute_lagrange_def Let_def by blast
  qed
  then show ?thesis
    by (auto simp: makes_def prepare_lagrange_def file_exists_def bindS_def pot_process_init_def assertR_def Let_def
        split: if_splits sum.splits)
qed

lemma prepare_linear_combination_makes:
  assumes "tool_laws R" "output_law R" "\<not> mpc_dry_run m"
  shows "makes LINEAR_COMBINATION_FILE (prepare_linear_combination R m pot_file degree)"
proof -
  have "LINEAR_COMBINATION_FILE \<in> dom fs' \<and> dom fs \<subseteq> dom fs'"
    if run: "linear_combination R m fs pot_file LAGRANGE_FILE LINEAR_COMBINATION_FILE (Some degree) = (fs', True)" for fs fs'
  proof -
    have "output_file (Mpc_Commands.mpc_tool m # [''linear-combination''] @ int_arg ''--pot-degree'' (Some degree) @
        [pot_file, LAGRANGE_FILE, LINEAR_COMBINATION_FILE]) LINEAR_COMBINATION_FILE"
      unfolding output_file_def
      by (intro disjI2 disjI1 exI [of _ "Mpc_Commands.mpc_tool m"] exI [of _ "int_arg ''--pot-degree'' (Some degree) @ [pot_file, LAGRANGE_FILE]"]) simp
    then show ?thesis
      using mpc_exec_output [OF assms(2) _ assms(3)] mpc_exec_dom [OF assms(1)] run unfolding linear_combination_def by blast
  qed
  then show ?thesis
    by (auto simp: makes_def prepare_linear_combination_def file_exists_def split: if_splits)
qed

lemma prepare_challenge_0_makes:
  assumes "tool_laws R" "output_law R" "\<not> mpc_dry_run m"
  shows "makes CHALLENGE_0_FILE (prepare_challenge_0 R m)"
proof -
  have "CHALLENGE_0_FILE \<in> dom fs' \<and> dom fs \<subseteq> dom fs'"
    if run: "phase2_begin R m fs LINEAR_COMBINATION_FILE CHALLENGE_0_FILE = (fs', True)" for fs fs'
  proof -
    have "output_file (Mpc_Commands.mpc_tool m # [''phase2-begin'', LINEAR_COMBINATION_FILE, CHALLENGE_0_FILE]) CHALLENGE_0_FILE"
      by (simp add: output_file_def)
    then show ?thesis
      using mpc_exec_output [OF assms(2) _ assms(3)] mpc_exec_dom [OF assms(1)] run unfolding phase2_begin_def by blast
  qed
  then show ?thesis
    by (auto simp: makes_def prepare_challenge_0_def file_exists_def split: if_splits)
qed

lemma phase2_prepare_steps:
  assumes "tool_laws R" "output_law R" "phase2_prepare R T dp dm docs fs dir ld pt tool False = (fs', Inr ())"
  shows "dom fs \<union> {LAGRANGE_FILE, LINEAR_COMBINATION_FILE, CHALLENGE_0_FILE} \<subseteq> dom fs'"
    and "\<exists>m. mpc_command_init fs' dm tool False = Inr m"
    and "phase2_prepare R T dp dm docs fs' dir ld pt tool False = (fs', Inr ())"
proof -
  let ?pot = "path_join dir FINAL_OUTPUT" and ?cfg = "path_join dir DEFAULT_CONFIG_FILE"
  obtain c j degree fs1 m fs2 where pot: "?pot \<in> dom fs" and doc: "read_document docs ?cfg = Inr j"
    and c: "phase1_config_from_json_dict T (dom fs) j (Some ?cfg) = Inr c" and d: "require_degree c = Inr degree"
    and l: "prepare_lagrange R dp pt False ?pot degree ld fs = (fs1, Inr ())" and m: "mpc_command_init fs1 dm tool False = Inr m"
    and lc: "prepare_linear_combination R m ?pot degree fs1 = (fs2, Inr ())" and ch: "prepare_challenge_0 R m fs2 = (fs', Inr ())"
    using assms(3) unfolding phase2_prepare_def Let_def file_exists_def
    by (auto simp: bindS_eq_Inr bindR_eq_Inr split: if_splits) (meson domI)
  have dry: "\<not> mpc_dry_run m"
    using m by (auto simp: mpc_command_init_def assertR_def Let_def split: if_splits)
  note makes = prepare_lagrange_makes [OF assms(1,2), of dp pt ?pot degree ld]
    prepare_linear_combination_makes [OF assms(1,2) dry, of ?pot degree] prepare_challenge_0_makes [OF assms(1,2) dry]
  have grows: "dom fs \<subseteq> dom fs1" "dom fs1 \<subseteq> dom fs2" "dom fs2 \<subseteq> dom fs'"
      "LAGRANGE_FILE \<in> dom fs1" "LINEAR_COMBINATION_FILE \<in> dom fs2" "CHALLENGE_0_FILE \<in> dom fs'"
    using makes l lc ch by (simp_all add: makes_def)
  then show all: "dom fs \<union> {LAGRANGE_FILE, LINEAR_COMBINATION_FILE, CHALLENGE_0_FILE} \<subseteq> dom fs'"
    by blast
  have m': "mpc_command_init fs' dm tool False = Inr m"
    using m subsetD [OF grows(2)] subsetD [OF grows(3)]
    by (fastforce simp: mpc_command_init_def assertR_def file_exists_def Let_def split: if_splits)
  then show "\<exists>m. mpc_command_init fs' dm tool False = Inr m" by simp
  have "prepare_lagrange R dp pt False ?pot degree ld fs' = (fs', Inr ())"
      "prepare_linear_combination R m ?pot degree fs' = (fs', Inr ())" "prepare_challenge_0 R m fs' = (fs', Inr ())"
    using makes all by (simp_all add: makes_def)
  moreover have "phase1_config_from_json_dict T (dom fs') j (Some ?cfg) = Inr c"
    using phase1_config_paths_mono [OF c] all by blast
  moreover have "file_exists fs' ?pot"
    using pot all by (auto simp: file_exists_def)
  ultimately show "phase2_prepare R T dp dm docs fs' dir ld pt tool False = (fs', Inr ())"
    using doc d m' by (simp add: phase2_prepare_def bindS_simps)
qed

text \<open>What the script writes from a form in which people published their keys.\<close>

lemma published_contributors:
  assumes "ecdsa_laws E" "list_all2 (publishes E H) people rows" "\<forall>p \<in> set people. plain_cell (fst p)"
  shows "\<exists>cs. contributors_from_csv E H text docs (Some (csv_text (form_fields # rows))) out
         DEFAULT_EMAIL_FIELD_NAME DEFAULT_KEY_FIELD_NAME DEFAULT_EVIDENCE_FIELD_NAME =
       (docs(out \<mapsto> contributor_list_to_json_dict E cs), Inr ())
     \<and> map (\<lambda>c. (contributor_email c, verification_key c)) cs = map (\<lambda>p. (fst p, get_verification_key' E (snd p))) people
     \<and> contributor_list_from_json_dict E (contributor_list_to_json_dict E cs) = Inr cs \<and> ensure_validity E H cs = Inr ()"
proof -
  let ?rows = "map (csv_row_of form_fields) rows"
  obtain ds where ds: "mapR (row_to_contributor E H text DEFAULT_EMAIL_FIELD_NAME DEFAULT_KEY_FIELD_NAME DEFAULT_EVIDENCE_FIELD_NAME)
        ?rows = Inr (map (\<lambda>(email, c). (Some email, c)) ds)"
      "map (\<lambda>d. (fst d, fst (snd d))) ds = map (\<lambda>p. (fst p, get_verification_key' E (snd p))) people"
    using publishes_rows(1) [OF assms(2,1,3)] by blast
  have "DictReader (csv_text (form_fields # rows)) = ?rows"
    using publishes_rows(2) [OF assms(2,1,3)] by (intro DictReader_csv_text) (auto simp: form_field_defs plain_cell_def)
  moreover have "ensure_validity E H (map csv_contributor ds) = Inr ()"
    by (rule rows_to_contributors_valid [OF ds(1)])
  moreover have "map (\<lambda>c. (contributor_email c, verification_key c)) (map csv_contributor ds) = map (\<lambda>d. (fst d, fst (snd d))) ds"
    by (auto simp: csv_contributor_def)
  ultimately show ?thesis
    using ds assms(1) by (intro exI [of _ "map csv_contributor ds"])
      (simp add: contributors_from_csv_def read_contributors_from_csv_def bindS_simps csv_contributors_json_emails)
qed

text \<open>A server without saved state starts with the turn of the first contributor.\<close>

lemma server_init_fresh:
  assumes "ecdsa_laws (se_ecdsa env)" "ensure_validity (se_ecdsa env) (se_sha512 env) cs = Inr ()" "cs \<noteq> []"
    and "start_time_utc config \<noteq> 0" "contribution_interval config \<noteq> 0"
  shows "\<exists>s. server_init env h config dir (Inr (contributor_list_to_json_dict (se_ecdsa env) cs)) None fs = Inr s
    \<and> srv_contributors s = cs \<and> srv_handler s = h \<and> srv_processing s = Idle \<and> \<not> handler_finalized s
    \<and> next_contributor_index (srv_state s) = 0 \<and> num_contributors (srv_state s) = int (length cs)"
  using assms by (simp add: server_init_def initial_server_state_def server_state_init_def assertR_def notify_next_contributor_def
      write_state_file_def have_all_contributions_def bindS_simps py_index_def py_pos_def Let_def)

text \<open>A runner whose tools write every file they are given, and the document of a configuration.\<close>

definition writing_runner :: tool_runner where
  "writing_runner =
     \<lparr>run_tool = (\<lambda>fs args input. (\<lambda>f. if f \<in> set args then Some [] else fs f, 0)),
      run_output = (\<lambda>fs args. case args of [_, f, _, _] \<Rightarrow> (drop 64 (the (fs (drop 3 f))), 0) | _ \<Rightarrow> ([], 1))\<rparr>"

lemma writing_runner_laws: "tool_laws writing_runner" "output_law writing_runner"
  by (auto simp: tool_laws_def output_law_def output_file_def writing_runner_def)

definition example_phase1_document :: json where
  "example_phase1_document =
     JObj [(''server'', JObj [(''contributors_file'', JStr ''contributors.json''), (''start_time_utc'', JStr (str_int 8000)),
             (''contribution_interval'', JStr (str_int 1000)), (''tls_key'', JStr ''key.pem''), (''tls_certificate'', JStr ''cert.pem''),
             (''port'', JStr (str_int 8001))]),
           (''num_powers'', JInt 4)]"

section \<open>Properties\<close>

text \<open>
  C17. Keys from \<open>generate_key\<close>, published in the form, are accepted: the list of contributors is
  written, and the phase 1 server that is started with it has the people with their emails and
  verification keys in their order, and the first of them has the turn.
\<close>

theorem published_keys_accepted:
  assumes "ecdsa_laws (se_ecdsa env)" "list_all2 (publishes (se_ecdsa env) (se_sha512 env)) people rows"
      "\<forall>p \<in> set people. plain_cell (fst p)" "people \<noteq> []"
    and config: "docs config = Some j" "phase1_config_from_json_dict (se_text env) (dom fs) j None = Inr c"
      "start_time_utc (p1_server_configuration c) \<noteq> 0" "contribution_interval (p1_server_configuration c) \<noteq> 0"
    and free: "contributors_file (p1_server_configuration c) \<notin> {config, PHASE1_STATE_FILE, STATE_FILE}"
      "docs PHASE1_STATE_FILE = None" "docs STATE_FILE = None"
    and handler: "phase1_init R default_path c None fs = (fs', Inr h)"
  shows "\<exists>docs'. contributors_from_csv (se_ecdsa env) (se_sha512 env) text docs (Some (csv_text (form_fields # rows)))
         (contributors_file (p1_server_configuration c)) DEFAULT_EMAIL_FIELD_NAME DEFAULT_KEY_FIELD_NAME DEFAULT_EVIDENCE_FIELD_NAME =
       (docs', Inr ())
     \<and> (\<exists>s. phase1_server env R default_path docs' fs path config None None = (fs', Inr s)
       \<and> map (\<lambda>c. (contributor_email c, verification_key c)) (srv_contributors s) =
           map (\<lambda>p. (fst p, get_verification_key' (se_ecdsa env) (snd p))) people
       \<and> srv_processing s = Idle \<and> next_contributor_index (srv_state s) = 0 \<and> num_contributors (srv_state s) = int (length people))"
proof -
  let ?out = "contributors_file (p1_server_configuration c)"
  obtain cs where cs: "contributors_from_csv (se_ecdsa env) (se_sha512 env) text docs (Some (csv_text (form_fields # rows))) ?out
        DEFAULT_EMAIL_FIELD_NAME DEFAULT_KEY_FIELD_NAME DEFAULT_EVIDENCE_FIELD_NAME =
        (docs(?out \<mapsto> contributor_list_to_json_dict (se_ecdsa env) cs), Inr ())"
      "map (\<lambda>c. (contributor_email c, verification_key c)) cs = map (\<lambda>p. (fst p, get_verification_key' (se_ecdsa env) (snd p))) people"
      "ensure_validity (se_ecdsa env) (se_sha512 env) cs = Inr ()"
    using published_contributors [OF assms(1-3), of "text" docs ?out] by blast
  then have len: "length cs = length people" "cs \<noteq> []"
    using map_eq_imp_length_eq [OF cs(2)] assms(4) by auto
  obtain s where s: "server_init env h (p1_server_configuration c) path (Inr (contributor_list_to_json_dict (se_ecdsa env) cs)) None fs' = Inr s"
      "srv_contributors s = cs" "srv_processing s = Idle" "next_contributor_index (srv_state s) = 0"
      "num_contributors (srv_state s) = int (length cs)"
    using server_init_fresh [OF assms(1) cs(3) len(2) config(3,4)] by blast
  have "config \<noteq> ?out" "PHASE1_STATE_FILE \<noteq> ?out" "STATE_FILE \<noteq> ?out"
    using free(1) by auto
  then have "phase1_server env R default_path (docs(?out \<mapsto> contributor_list_to_json_dict (se_ecdsa env) cs)) fs path config None None = (fs', Inr s)"
    using config(1,2) free(2,3) handler s(1)
    by (simp add: phase1_server_def read_document_def bindS_simps override_phase1_def truthy_def)
  with cs s len(1) show ?thesis
    by (intro exI [of _ "docs(?out \<mapsto> contributor_list_to_json_dict (se_ecdsa env) cs)"] conjI exI [of _ s]) simp_all
qed

theorem published_keys_accepted_witness:
  "\<exists>docs'. contributors_from_csv example_ecdsa example_sha512 (\<lambda>_. []) [''server_config.json'' \<mapsto> example_phase1_document]
         (Some (csv_text [form_fields, [''bob'', export_verification_key example_ecdsa [1],
                            export_signature (create_key_evidence example_ecdsa example_sha512 0 [1])]]))
         ''contributors.json'' DEFAULT_EMAIL_FIELD_NAME DEFAULT_KEY_FIELD_NAME DEFAULT_EVIDENCE_FIELD_NAME = (docs', Inr ())
     \<and> (\<exists>s. phase1_server (example_env Phase1ContributionHandler) example_runner ''pot'' docs' [''pot'' \<mapsto> [], CHALLENGE_FILE \<mapsto> []]
            ''.'' ''server_config.json'' None None = ([''pot'' \<mapsto> [], CHALLENGE_FILE \<mapsto> []], Inr s)
       \<and> map (\<lambda>c. (contributor_email c, verification_key c)) (srv_contributors s) = [(''bob'', [1])]
       \<and> srv_processing s = Idle \<and> next_contributor_index (srv_state s) = 0 \<and> num_contributors (srv_state s) = 1)"
proof -
  let ?E = "example_env Phase1ContributionHandler" and ?fs = "[''pot'' \<mapsto> [], CHALLENGE_FILE \<mapsto> []] :: files"
    and ?row = "[''bob'', export_verification_key example_ecdsa [1], export_signature (create_key_evidence example_ecdsa example_sha512 0 [1])]"
  have "generate_key example_ecdsa example_sha512 0 [1] Map.empty ''key'' None None = ([''key'' \<mapsto> [1]], Inr (?row ! 1, ?row ! 2))"
    by (simp add: generate_key_def public_key_information_def file_exists_def truthy_def write_optional_def bindS_simps
        get_verification_key'_def export_signing_key_def) (simp add: example_ecdsa_def)
  then have pub: "list_all2 (publishes (se_ecdsa ?E) (se_sha512 ?E)) [(''bob'', [1])] [?row]"
    by (simp add: publishes_def example_env_def) blast
  have "\<exists>c. phase1_config_from_json_dict example_text (dom ?fs) example_phase1_document None = Inr c
      \<and> start_time_utc (p1_server_configuration c) = 8000 \<and> contribution_interval (p1_server_configuration c) = 1000
      \<and> contributors_file (p1_server_configuration c) = ''contributors.json'' \<and> p1_powersoftau_path c = None"
    by (simp add: phase1_config_from_json_dict_def example_phase1_document_def configuration_from_json_dict_def json_get_defs
        jget_default_def example_text_def py_int_str_int j_to_int_def opt_str_def opt_int_def configuration_init_def truthy_def is_double_numeral [unfolded is_double_def])
  then obtain c where c: "phase1_config_from_json_dict (se_text ?E) (dom ?fs) example_phase1_document None = Inr c"
      "start_time_utc (p1_server_configuration c) = 8000" "contribution_interval (p1_server_configuration c) = 1000"
      "contributors_file (p1_server_configuration c) = ''contributors.json''" "p1_powersoftau_path c = None"
    by (auto simp: example_env_def)
  have "\<exists>h. phase1_init example_runner ''pot'' c None ?fs = (?fs, Inr h)"
    using c(5) by (simp add: phase1_init_def powersoftau_init_def truthy_def file_exists_def bindS_simps assertR_def Let_def)
  then obtain h where h: "phase1_init example_runner ''pot'' c None ?fs = (?fs, Inr h)" by blast
  have "ecdsa_laws (se_ecdsa ?E)"
    by (simp add: example_env_def example_ecdsa_laws)
  from published_keys_accepted [OF this pub _ _ _ c(1) _ _ _ _ _ h, of "[''server_config.json'' \<mapsto> example_phase1_document]" "''server_config.json''"
      "\<lambda>_. []" "''.''"] c(2-4)
  show ?thesis
    by (simp add: plain_cell_def get_verification_key'_def example_env_def PHASE1_STATE_FILE_def STATE_FILE_def) (simp add: example_ecdsa_def)
qed





end
