(* ===== verification/Server_Startup.thy ===== *)
theory Server_Startup
  imports Coordinator_Server Py_Csv
begin

text \<open>
  The rest of \<open>mpc/coordinator/server.py\<close>: the thread that runs the web server, the constructor
  waiting for it, \<open>stop\<close>, and sending mail. The waiting loops poll an attribute that the thread sets: what
  they see is a function of the number of the poll. The SMTP package is a record of functions.
\<close>

section \<open>Waiting for the thread\<close>

definition run_check :: "files \<Rightarrow> Configuration \<Rightarrow> unit res" where
  "run_check fs c =
     (if \<not> file_exists fs (tls_certificate c) then Inl (PyException (''no cert file '' @ tls_certificate c))
      else if \<not> file_exists fs (tls_key c) then Inl (PyException (''no key file '' @ tls_key c))
      else Inr ())"

partial_function (option) wait_until :: "(nat \<Rightarrow> bool) \<Rightarrow> nat \<Rightarrow> nat option" where
  "wait_until p n = (if p n then Some n else wait_until p (n + 1))"

text \<open>
  \<open>server_visible\<close>: what the n-th poll sees of \<open>self.server\<close>. The thread sets it only after the checks, and to
  \<open>None\<close> when it ends with an exception. \<open>web\<close> says whether the web server has its socket then.
\<close>

definition server_visible :: "files \<Rightarrow> Configuration \<Rightarrow> (nat \<Rightarrow> bool) \<Rightarrow> nat \<Rightarrow> bool" where
  "server_visible fs c web n \<longleftrightarrow> run_check fs c = Inr () \<and> web n"

definition wait_for_start :: "files \<Rightarrow> Configuration \<Rightarrow> (nat \<Rightarrow> bool) \<Rightarrow> nat option" where
  "wait_for_start fs c web = wait_until (server_visible fs c web) 0"

text \<open>
  \<open>stop\<close>, where \<open>cleared n\<close> says that the thread has left its \<open>finally\<close> block: it stops the interval
  thread and then clears \<open>self.server\<close>.
\<close>

definition server_stop :: "bool \<Rightarrow> (nat \<Rightarrow> bool) \<Rightarrow> unit option" where
  "server_stop running cleared = (if running then map_option (\<lambda>_. ()) (wait_until cleared 0) else Some ())"

lemma wait_until_Some:
  assumes "n \<le> k" "p k" "\<forall>j. n \<le> j \<and> j < k \<longrightarrow> \<not> p j"
  shows "wait_until p n = Some k"
  using assms
proof (induction "k - n" arbitrary: n)
  case 0
  then show ?case
    by (subst wait_until.simps) simp
next
  case (Suc m)
  then have "wait_until p (n + 1) = Some k"
    by (intro Suc.hyps(1)) auto
  with Suc show ?case
    by (subst wait_until.simps) simp
qed

lemma wait_until_sound: "wait_until p n = Some k \<Longrightarrow> p k \<and> n \<le> k"
proof (erule wait_until.raw_induct [rotated])
  fix loop :: "(nat \<Rightarrow> bool) \<Rightarrow> nat \<Rightarrow> nat option" and p n k
  assume "\<And>p n k. loop p n = Some k \<Longrightarrow> p k \<and> n \<le> k" "(if p n then Some n else loop p (n + 1)) = Some k"
  then show "p k \<and> n \<le> k"
    by (cases "p n") fastforce+
qed

lemma wait_until_iff: "(\<exists>k. wait_until p n = Some k) \<longleftrightarrow> (\<exists>k \<ge> n. p k)"
proof
  assume "\<exists>k \<ge> n. p k"
  then obtain k where "n \<le> k" "p k" by blast
  then have "n \<le> (LEAST j. n \<le> j \<and> p j)" "p (LEAST j. n \<le> j \<and> p j)"
    using LeastI [of "\<lambda>j. n \<le> j \<and> p j" k] by simp_all
  then show "\<exists>k. wait_until p n = Some k"
    using wait_until_Some [of n "LEAST j. n \<le> j \<and> p j" p] not_less_Least [of _ "\<lambda>j. n \<le> j \<and> p j"] by blast
qed (auto dest: wait_until_sound)

section \<open>Mail\<close>

record email =
  mail_subject :: string
  mail_from :: string
  mail_to :: string
  mail_content :: string

record 'c smtp_lib =
  smtp_connect :: "string \<Rightarrow> int \<Rightarrow> 'c res"
  smtp_login :: "'c \<Rightarrow> string \<Rightarrow> string \<Rightarrow> unit res"
  smtp_send :: "'c \<Rightarrow> email \<Rightarrow> unit res"

text \<open>\<open>f.readline().rstrip()\<close> of a text file.\<close>

definition first_line :: "string \<Rightarrow> string" where
  "first_line content = rstrip (takeWhile (\<lambda>c. c \<noteq> CHR 0x0A) (universal_newlines content))"

definition mail_host :: "string \<Rightarrow> (string \<times> int) res" where
  "mail_host server =
     (let host_port = split_on CHR '':'' server
      in bindR (py_index host_port 0) (\<lambda>host.
         bindR (if length host_port = 2 then bindR (py_index host_port 1) (\<lambda>p. py_int_str p 10) else Inr 465) (\<lambda>port.
           Inr (host, port))))"

definition send_mail ::
  "'c smtp_lib \<Rightarrow> (string \<rightharpoonup> string) \<Rightarrow> string \<Rightarrow> string \<Rightarrow> string \<Rightarrow> string \<Rightarrow> string \<Rightarrow> string \<Rightarrow> unit res" where
  "send_mail S texts server from_addr password_file to_addr subject body =
     bindR (mail_host server) (\<lambda>(host, port).
     bindR (smtp_connect S host port) (\<lambda>smtp.
     bindR (case texts password_file of None \<Rightarrow> Inl FileNotFoundError | Some content \<Rightarrow> Inr (first_line content)) (\<lambda>password.
     bindR (smtp_login S smtp from_addr password) (\<lambda>_.
       smtp_send S smtp
         \<lparr>mail_subject = subject, mail_from = from_addr, mail_to = to_addr,
          mail_content = ''Subject: '' @ subject @ [CHR 0x0A, CHR 0x0A] @ body\<rparr>))))"

text \<open>The port is 465 unless the server is given with one.\<close>

lemma mail_host_port:
  assumes "CHR '':'' \<notin> set host" "CHR '':'' \<notin> set port"
  shows "mail_host host = Inr (host, 465)" "mail_host (host @ '':'' @ port) = bindR (py_int_str port 10) (\<lambda>p. Inr (host, p))"
  using assms by (simp_all add: mail_host_def py_index_def py_pos_def split_on_no_sep split_on_append_sep)

section \<open>Properties\<close>


end
