(* ===== verification/Interval.thy ===== *)
theory Interval
  imports Prelude
begin

text \<open>
  \<open>mpc/coordinator/interval.py\<close>: the thread that runs a callback periodically, and \<open>stop\<close>. The
  condition variable has a re-entrant lock: its owner can acquire it again, and \<open>wait\<close> gives
  it up completely and takes it back with the same depth. A state has the program counter of
  the interval thread and of the thread that calls \<open>stop\<close>; each step is one operation of one
  of them.
\<close>

datatype interval_pc =
    While_Running
  | Callback
  | Acquire
  | Inner_While
  | Check_Deadline
  | Waiting nat
  | Reacquire nat
  | Thread_Done

datatype stop_pc = Not_Called | Stop_Acquire | Stop_Notify | Stop_Release | Stop_Join | Stop_Done

datatype lock_owner = By_Interval nat | By_Stop | Free

record interval_state =
  running :: bool
  lock :: lock_owner
  thread_pc :: interval_pc
  stop_pc :: stop_pc

definition interval_init :: interval_state where
  "interval_init = \<lparr>running = True, lock = Free, thread_pc = While_Running, stop_pc = Not_Called\<rparr>"

definition lock_depth :: "lock_owner \<Rightarrow> nat" where
  "lock_depth l = (case l of By_Interval n \<Rightarrow> n | _ \<Rightarrow> 0)"

inductive interval_step :: "interval_state \<Rightarrow> interval_state \<Rightarrow> bool" where
  enter: "thread_pc s = While_Running \<Longrightarrow> running s \<Longrightarrow> interval_step s (s\<lparr>thread_pc := Callback\<rparr>)"
| leave: "thread_pc s = While_Running \<Longrightarrow> \<not> running s \<Longrightarrow> interval_step s (s\<lparr>thread_pc := Thread_Done\<rparr>)"
| callback: "thread_pc s = Callback \<Longrightarrow> interval_step s (s\<lparr>thread_pc := Acquire\<rparr>)"
| acquire: "thread_pc s = Acquire \<Longrightarrow> lock s \<noteq> By_Stop \<Longrightarrow>
    interval_step s (s\<lparr>lock := By_Interval (lock_depth (lock s) + 1), thread_pc := Inner_While\<rparr>)"
| inner: "thread_pc s = Inner_While \<Longrightarrow>
    interval_step s (s\<lparr>thread_pc := if running s then Check_Deadline else While_Running\<rparr>)"
| deadline: "thread_pc s = Check_Deadline \<Longrightarrow> interval_step s (s\<lparr>thread_pc := While_Running\<rparr>)"
| wait: "thread_pc s = Check_Deadline \<Longrightarrow>
    interval_step s (s\<lparr>lock := Free, thread_pc := Waiting (lock_depth (lock s))\<rparr>)"
| timeout: "thread_pc s = Waiting n \<Longrightarrow> interval_step s (s\<lparr>thread_pc := Reacquire n\<rparr>)"
| reacquire: "thread_pc s = Reacquire n \<Longrightarrow> lock s = Free \<Longrightarrow>
    interval_step s (s\<lparr>lock := By_Interval n, thread_pc := Inner_While\<rparr>)"
| stop_flag: "stop_pc s = Not_Called \<Longrightarrow> interval_step s (s\<lparr>running := False, stop_pc := Stop_Acquire\<rparr>)"
| stop_acquire: "stop_pc s = Stop_Acquire \<Longrightarrow> lock s = Free \<Longrightarrow> interval_step s (s\<lparr>lock := By_Stop, stop_pc := Stop_Notify\<rparr>)"
| stop_notify: "stop_pc s = Stop_Notify \<Longrightarrow>
    interval_step s (s\<lparr>thread_pc := (case thread_pc s of Waiting n \<Rightarrow> Reacquire n | pc \<Rightarrow> pc), stop_pc := Stop_Release\<rparr>)"
| stop_release: "stop_pc s = Stop_Release \<Longrightarrow> interval_step s (s\<lparr>lock := Free, stop_pc := Stop_Join\<rparr>)"
| stop_join: "stop_pc s = Stop_Join \<Longrightarrow> thread_pc s = Thread_Done \<Longrightarrow> interval_step s (s\<lparr>stop_pc := Stop_Done\<rparr>)"

inductive_cases interval_stepE: "interval_step s s'"

section \<open>Lemmas\<close>

text \<open>Who has the lock: \<open>stop\<close> between its acquire and release, the interval thread while it looks at the deadline.\<close>

definition interval_inv :: "interval_state \<Rightarrow> bool" where
  "interval_inv s \<longleftrightarrow>
     (lock s = By_Stop \<longleftrightarrow> stop_pc s \<in> {Stop_Notify, Stop_Release})
     \<and> (thread_pc s \<in> {Inner_While, Check_Deadline} \<longrightarrow> (\<exists>m. lock s = By_Interval m))
     \<and> (\<forall>n. thread_pc s \<in> {Waiting n, Reacquire n} \<longrightarrow> (\<forall>m. lock s \<noteq> By_Interval m))"

lemma interval_init_inv: "interval_inv interval_init"
  by (simp add: interval_inv_def interval_init_def)

lemma interval_step_inv: "interval_step s s' \<Longrightarrow> interval_inv s \<Longrightarrow> interval_inv s'"
  by (erule interval_stepE) (auto simp: interval_inv_def split: interval_pc.splits)

lemma interval_reachable_inv: "interval_step\<^sup>*\<^sup>* interval_init s \<Longrightarrow> interval_inv s"
  by (induction rule: rtranclp_induct) (auto simp: interval_init_inv intro: interval_step_inv)

lemma interval_stuck:
  assumes "interval_inv s" "\<nexists>s'. interval_step s s'"
  shows "thread_pc s = Thread_Done \<and> (stop_pc s = Stop_Done \<or> stop_pc s = Stop_Acquire \<and> (\<exists>n. lock s = By_Interval n))"
proof -
  have no: "\<not> interval_step s s'" for s'
    using assms(2) by blast
  have blocked: "stop_pc s \<noteq> Not_Called" "stop_pc s = Stop_Acquire \<Longrightarrow> lock s \<noteq> Free" "stop_pc s \<noteq> Stop_Notify"
      "stop_pc s \<noteq> Stop_Release" "stop_pc s = Stop_Join \<Longrightarrow> thread_pc s \<noteq> Thread_Done"
      "thread_pc s \<noteq> While_Running" "thread_pc s \<noteq> Callback" "thread_pc s = Acquire \<Longrightarrow> lock s = By_Stop"
      "thread_pc s \<noteq> Inner_While" "thread_pc s \<noteq> Check_Deadline" "thread_pc s \<noteq> Waiting n"
      "thread_pc s = Reacquire n \<Longrightarrow> lock s \<noteq> Free" for n
    using no interval_step.intros by metis+
  then have "lock s \<noteq> By_Stop"
    using assms(1) by (auto simp: interval_inv_def)
  with blocked assms(1) have "thread_pc s = Thread_Done"
    by (cases "thread_pc s"; cases "lock s") (auto simp: interval_inv_def)
  with blocked assms(1) \<open>lock s \<noteq> By_Stop\<close> show ?thesis
    by (cases "stop_pc s"; cases "lock s") (auto simp: interval_inv_def)
qed

definition at :: "bool \<Rightarrow> lock_owner \<Rightarrow> interval_pc \<Rightarrow> stop_pc \<Rightarrow> interval_state" where
  "at r l t p = \<lparr>running = r, lock = l, thread_pc = t, stop_pc = p\<rparr>"

lemma at_steps:
  "interval_step (at True l While_Running p) (at True l Callback p)"
  "interval_step (at False l While_Running p) (at False l Thread_Done p)"
  "interval_step (at r l Callback p) (at r l Acquire p)"
  "l \<noteq> By_Stop \<Longrightarrow> interval_step (at r l Acquire p) (at r (By_Interval (lock_depth l + 1)) Inner_While p)"
  "interval_step (at True l Inner_While p) (at True l Check_Deadline p)"
  "interval_step (at False l Inner_While p) (at False l While_Running p)"
  "interval_step (at r l Check_Deadline p) (at r l While_Running p)"
  "interval_step (at r l t Not_Called) (at False l t Stop_Acquire)"
  "interval_step (at r Free t Stop_Acquire) (at r By_Stop t Stop_Notify)"
  "interval_step (at r l Callback Stop_Notify) (at r l Callback Stop_Release)"
  "interval_step (at r l t Stop_Release) (at r Free t Stop_Join)"
  "interval_step (at r l Thread_Done Stop_Join) (at r l Thread_Done Stop_Done)"
  using enter [of "at True l While_Running p"] leave [of "at False l While_Running p"] callback [of "at r l Callback p"]
    acquire [of "at r l Acquire p"] inner [of "at True l Inner_While p"] inner [of "at False l Inner_While p"]
    deadline [of "at r l Check_Deadline p"] stop_flag [of "at r l t Not_Called"] stop_acquire [of "at r Free t Stop_Acquire"]
    stop_notify [of "at r l Callback Stop_Notify"] stop_release [of "at r l t Stop_Release"] stop_join [of "at r l Thread_Done Stop_Join"]
  by (simp_all add: at_def)

lemma at_acquire:
  "interval_step (at r Free Acquire p) (at r (By_Interval 1) Inner_While p)"
  "interval_step (at r (By_Interval 1) Acquire p) (at r (By_Interval 2) Inner_While p)"
  using at_steps(4) [of Free r p] at_steps(4) [of "By_Interval 1" r p] by (simp_all add: lock_depth_def numeral_2_eq_2)

lemma path_steps: "successively R (x # xs) \<Longrightarrow> R\<^sup>*\<^sup>* x (last (x # xs))"
  by (induction xs arbitrary: x) (auto intro: converse_rtranclp_into_rtranclp)

lemma interval_init_at: "interval_init = at True Free While_Running Not_Called"
  by (simp add: interval_init_def at_def)

text \<open>The lock is free during the first callback, and has depth 1 during the second.\<close>

lemma stop_during_first_callback: "interval_step\<^sup>*\<^sup>* interval_init (at False (By_Interval 1) Thread_Done Stop_Done)"
  using path_steps [of interval_step "at True Free While_Running Not_Called"
      "[at True Free Callback Not_Called, at False Free Callback Stop_Acquire, at False By_Stop Callback Stop_Notify,
        at False By_Stop Callback Stop_Release, at False Free Callback Stop_Join, at False Free Acquire Stop_Join,
        at False (By_Interval 1) Inner_While Stop_Join, at False (By_Interval 1) While_Running Stop_Join,
        at False (By_Interval 1) Thread_Done Stop_Join, at False (By_Interval 1) Thread_Done Stop_Done]"]
  by (simp add: interval_init_at at_steps at_acquire [simplified])

lemma stop_during_second_callback: "interval_step\<^sup>*\<^sup>* interval_init (at False (By_Interval 2) Thread_Done Stop_Acquire)"
  using path_steps [of interval_step "at True Free While_Running Not_Called"
      "[at True Free Callback Not_Called, at True Free Acquire Not_Called, at True (By_Interval 1) Inner_While Not_Called,
        at True (By_Interval 1) Check_Deadline Not_Called, at True (By_Interval 1) While_Running Not_Called,
        at True (By_Interval 1) Callback Not_Called, at False (By_Interval 1) Callback Stop_Acquire,
        at False (By_Interval 1) Acquire Stop_Acquire, at False (By_Interval 2) Inner_While Stop_Acquire,
        at False (By_Interval 2) While_Running Stop_Acquire, at False (By_Interval 2) Thread_Done Stop_Acquire]"]
  by (simp add: interval_init_at at_steps at_acquire [simplified])

lemma second_callback_stuck: "\<not> interval_step (at False (By_Interval 2) Thread_Done Stop_Acquire) s'"
  by (auto simp: at_def elim!: interval_stepE)

section \<open>Properties\<close>

text \<open>
  C28. Stopping the interval thread has exactly two outcomes: when nothing more can happen, the
  thread has ended and either \<open>stop\<close> has returned, or \<open>stop\<close> waits for the lock that the ended
  thread still has. The second happens, when \<open>stop\<close> is called during a callback after the
  first one: the thread acquires the lock in every round and never releases it.
\<close>

theorem interval_stop_outcomes:
  "(\<forall>s. interval_step\<^sup>*\<^sup>* interval_init s \<and> \<not> (\<exists>s'. interval_step s s') \<longrightarrow>
      thread_pc s = Thread_Done \<and> (stop_pc s = Stop_Done \<or> stop_pc s = Stop_Acquire \<and> (\<exists>n. lock s = By_Interval n)))
   \<and> (\<exists>s. interval_step\<^sup>*\<^sup>* interval_init s \<and> stop_pc s = Stop_Done)
   \<and> (\<exists>s. interval_step\<^sup>*\<^sup>* interval_init s \<and> stop_pc s = Stop_Acquire \<and> \<not> (\<exists>s'. interval_step s s'))"
proof (intro conjI allI impI)
  fix s
  assume "interval_step\<^sup>*\<^sup>* interval_init s \<and> \<not> (\<exists>s'. interval_step s s')"
  then have "thread_pc s = Thread_Done \<and> (stop_pc s = Stop_Done \<or> stop_pc s = Stop_Acquire \<and> (\<exists>n. lock s = By_Interval n))"
    using interval_stuck [OF interval_reachable_inv] by blast
  then show "thread_pc s = Thread_Done" "stop_pc s = Stop_Done \<or> stop_pc s = Stop_Acquire \<and> (\<exists>n. lock s = By_Interval n)"
    by blast+
next
  show "\<exists>s. interval_step\<^sup>*\<^sup>* interval_init s \<and> stop_pc s = Stop_Done"
    using stop_during_first_callback by (metis at_def interval_state.select_convs(4))
  show "\<exists>s. interval_step\<^sup>*\<^sup>* interval_init s \<and> stop_pc s = Stop_Acquire \<and> \<not> (\<exists>s'. interval_step s s')"
    using stop_during_second_callback second_callback_stuck by (metis at_def interval_state.select_convs(4))
qed

theorem interval_stop_outcomes_witness:
  "thread_pc (at False (By_Interval 2) Thread_Done Stop_Acquire) = Thread_Done
   \<and> (\<exists>n. lock (at False (By_Interval 2) Thread_Done Stop_Acquire) = By_Interval n)"
  using interval_stop_outcomes [THEN conjunct1, rule_format, of "at False (By_Interval 2) Thread_Done Stop_Acquire"]
    stop_during_second_callback second_callback_stuck by (simp add: at_def)

end
