(* ===== verification/R1cs_Analyser.thy ===== *)
theory R1cs_Analyser
  imports Py_Json
begin

text \<open>
  \<open>debug/analyzer/parse_r1cs.py\<close>: which constraints of an exported constraint system use a wire. The
  document is read as it is; an annotation that is not found has the index \<open>None\<close>, which is
  \<open>JNull\<close>. Indices are texts or numbers, compared as Python compares them. The regular expression engine is the
  argument \<open>search\<close>: whether a pattern matches somewhere in a text.
\<close>

definition json_eq :: "json \<Rightarrow> json \<Rightarrow> bool" where
  "json_eq a b =
     (case (a, b) of
        (JBool x, JInt n) \<Rightarrow> of_bool x = n
      | (JInt n, JBool x) \<Rightarrow> of_bool x = n
      | _ \<Rightarrow> a = b)"

fun get_index :: "json list \<Rightarrow> string \<Rightarrow> json res" where
  "get_index [] annotation = Inr JNull"
| "get_index (v # vs) annotation =
     bindR (jget v ''annotation'') (\<lambda>a. if json_eq a (JStr annotation) then jget v ''index'' else get_index vs annotation)"

text \<open>\<open>True\<close>, or \<open>None\<close> at the end of the loop, which counts as false.\<close>

fun is_in_lin_comb :: "json list \<Rightarrow> json \<Rightarrow> bool res" where
  "is_in_lin_comb [] annotation_index = Inr False"
| "is_in_lin_comb (t # ts) annotation_index =
     bindR (jget t ''index'') (\<lambda>i. if json_eq i annotation_index then Inr True else is_in_lin_comb ts annotation_index)"

definition lin_comb :: "json \<Rightarrow> string \<Rightarrow> json list res" where
  "lin_comb c name = bindR (jget c ''linear_combination'') (\<lambda>l. bindR (jget l name) j_list)"

fun get_constraints :: "json list \<Rightarrow> json \<Rightarrow> json list res" where
  "get_constraints [] annotation_index = Inr []"
| "get_constraints (c # cs) annotation_index =
     bindR (lin_comb c ''A'') (\<lambda>lin_com_a.
     bindR (lin_comb c ''B'') (\<lambda>lin_com_b.
     bindR (lin_comb c ''C'') (\<lambda>lin_com_c.
     bindR (is_in_lin_comb lin_com_a annotation_index) (\<lambda>found_in_a.
     bindR (is_in_lin_comb lin_com_b annotation_index) (\<lambda>found_in_b.
     bindR (is_in_lin_comb lin_com_c annotation_index) (\<lambda>found_in_c.
     bindR (if found_in_a \<or> found_in_b \<or> found_in_c
            then bindR (jget c ''constraint_id'') (\<lambda>i. Inr [i]) else Inr []) (\<lambda>constraint_id.
     bindR (get_constraints cs annotation_index) (\<lambda>constraints_id.
       Inr (constraint_id @ constraints_id)))))))))"

fun get_constraints_from_annotation_pattern :: "(string \<Rightarrow> string \<Rightarrow> bool) \<Rightarrow> json list \<Rightarrow> string \<Rightarrow> json list res" where
  "get_constraints_from_annotation_pattern search [] annotation_pattern = Inr []"
| "get_constraints_from_annotation_pattern search (c # cs) annotation_pattern =
     bindR (jget_str c ''constraint_annotation'') (\<lambda>constraint_annotation.
     bindR (if search annotation_pattern constraint_annotation
            then bindR (jget c ''constraint_id'') (\<lambda>i. Inr [i]) else Inr []) (\<lambda>constraint_id.
     bindR (get_constraints_from_annotation_pattern search cs annotation_pattern) (\<lambda>constraints_id.
       Inr (constraint_id @ constraints_id))))"

text \<open>
  The script: the two numbers it prints for variables and constraints, the index of the annotation,
  and the two lists of constraints.
\<close>

definition parse_r1cs :: "(string \<Rightarrow> string \<Rightarrow> bool) \<Rightarrow> json \<Rightarrow> ((json \<times> json) \<times> json \<times> json list \<times> json list) res" where
  "parse_r1cs search r1cs_obj =
     bindR (jget r1cs_obj ''num_variables'') (\<lambda>r1cs_variables_nb.
     bindR (jget r1cs_obj ''num_constraints'') (\<lambda>r1cs_constraints_nb.
     bindR (bindR (jget r1cs_obj ''variables_annotations'') j_list) (\<lambda>variables_annotations_set.
     bindR (bindR (jget r1cs_obj ''constraints'') j_list) (\<lambda>constraints_set.
     bindR (get_index variables_annotations_set ''joinsplit_gadget phi bits_31'') (\<lambda>annotation_index.
     bindR (get_constraints constraints_set annotation_index) (\<lambda>constraints_using_annotation.
     bindR (get_constraints_from_annotation_pattern search constraints_set ''rho'') (\<lambda>res.
       Inr ((r1cs_variables_nb, r1cs_variables_nb), annotation_index, constraints_using_annotation, res))))))))"

section \<open>The exported system\<close>

text \<open>A constraint system as it is exported, and its document.\<close>

record r1cs_constraint =
  constraint_id :: string
  constraint_annotation :: string
  lin_a :: "(string \<times> string) list"
  lin_b :: "(string \<times> string) list"
  lin_c :: "(string \<times> string) list"

definition term_json :: "string \<times> string \<Rightarrow> json" where
  "term_json t = JObj [(''index'', JStr (fst t)), (''value'', JStr (snd t))]"

definition constraint_json :: "r1cs_constraint \<Rightarrow> json" where
  "constraint_json c =
     JObj [(''constraint_id'', JStr (constraint_id c)), (''constraint_annotation'', JStr (constraint_annotation c)),
           (''linear_combination'',
            JObj [(''A'', JList (map term_json (lin_a c))), (''B'', JList (map term_json (lin_b c))), (''C'', JList (map term_json (lin_c c)))])]"

definition variable_json :: "string \<times> string \<Rightarrow> json" where
  "variable_json v = JObj [(''index'', JStr (fst v)), (''annotation'', JStr (snd v))]"

text \<open>The reference: a wire is used by a constraint if it has a term in one of the combinations.\<close>

definition uses_wire :: "string option \<Rightarrow> r1cs_constraint \<Rightarrow> bool" where
  "uses_wire w c \<longleftrightarrow> (\<exists>i. w = Some i \<and> i \<in> fst ` (set (lin_a c) \<union> set (lin_b c) \<union> set (lin_c c)))"

definition index_json :: "string option \<Rightarrow> json" where
  "index_json w = (case w of None \<Rightarrow> JNull | Some i \<Rightarrow> JStr i)"

lemma get_index_first:
  "get_index (map variable_json vs) annotation = Inr (index_json (map_of (map (\<lambda>v. (snd v, fst v)) vs) annotation))"
  by (induction vs) (auto simp: variable_json_def json_eq_def index_json_def)

lemma is_in_lin_comb_iff:
  "is_in_lin_comb (map term_json ts) (index_json w) = Inr (\<exists>i. w = Some i \<and> i \<in> fst ` set ts)"
  by (induction ts) (auto simp: term_json_def json_eq_def index_json_def split: option.splits)

lemma get_constraints_filter:
  "get_constraints (map constraint_json cs) (index_json w) = Inr (map (\<lambda>c. JStr (constraint_id c)) (filter (uses_wire w) cs))"
proof (induction cs)
  case (Cons c cs)
  have "lin_comb (constraint_json c) ''A'' = Inr (map term_json (lin_a c))"
      "lin_comb (constraint_json c) ''B'' = Inr (map term_json (lin_b c))"
      "lin_comb (constraint_json c) ''C'' = Inr (map term_json (lin_c c))"
      "jget (constraint_json c) ''constraint_id'' = Inr (JStr (constraint_id c))"
    by (simp_all add: lin_comb_def constraint_json_def)
  with Cons.IH show ?case
    by (auto simp: is_in_lin_comb_iff uses_wire_def)
qed simp

lemma pattern_filter:
  "get_constraints_from_annotation_pattern search (map constraint_json cs) p =
   Inr (map (\<lambda>c. JStr (constraint_id c)) (filter (\<lambda>c. search p (constraint_annotation c)) cs))"
  by (induction cs) (auto simp: constraint_json_def json_get_defs)

section \<open>Properties\<close>

text \<open>
  C30. On an exported system the script finds exactly the constraints that have a term with the wire
  of the first variable with the annotation, in their order, and those whose annotation
  matches; without such a variable it finds none. The number printed for the constraints is
  that of the variables.
\<close>

theorem analyser_finds_uses:
  "parse_r1cs search
     (JObj [(''num_variables'', JInt nv), (''num_constraints'', JInt nc),
            (''variables_annotations'', JList (map variable_json vs)), (''constraints'', JList (map constraint_json cs))]) =
   (let w = map_of (map (\<lambda>v. (snd v, fst v)) vs) ''joinsplit_gadget phi bits_31''
    in Inr ((JInt nv, JInt nv), index_json w, map (\<lambda>c. JStr (constraint_id c)) (filter (uses_wire w) cs),
            map (\<lambda>c. JStr (constraint_id c)) (filter (\<lambda>c. search ''rho'' (constraint_annotation c)) cs)))"
  by (simp add: parse_r1cs_def get_index_first get_constraints_filter pattern_filter Let_def)

end
