(* ===== verification/Spec2Isabelle.thy ===== *)
theory Spec2Isabelle
  imports Payment Scenario Timer Cli_Commands Cli_Helpers Mpc_Scripts Server_Startup Interval R1cs_Analyser
begin

text \<open>
  A verification development of Zeth: the client of a mixer contract on Ethereum, and the
  coordinator of the multi-party computation (MPC) that makes the parameters of its proofs.

  \<^bold>\<open>The program.\<close> The client (\<open>client/zeth\<close>) lets its user hold notes that a mixer contract keeps as
  commitments in a Merkle tree. A mix call spends up to two notes and makes two new ones: the
  client looks the notes up in the \<^emph>\<open>wallet\<close>, builds the inputs of a proof from the
  \<^emph>\<open>Merkle tree\<close>, the \<^emph>\<open>ownership keys\<close> and the new notes, has the \<^emph>\<open>prover\<close> service make the
  proof, \<^emph>\<open>encrypts\<close> the notes for their receivers, \<^emph>\<open>signs\<close> everything with a one-time key and
  sends the transaction through \<^emph>\<open>web3\<close>. To \<^emph>\<open>sync\<close>, a wallet reads the events of the mixer in
  batches, appends their commitments to its tree, tries to decrypt each ciphertext and marks
  the notes spent whose nullifiers appear. The MPC package (\<open>mpc/coordinator\<close>) has a web \<^emph>\<open>server\<close>
  that gives every contributor a turn with a deadline, checks signatures and digests of
  uploads and hands them to one of three \<^emph>\<open>contribution handlers\<close>, which run external tools, and
  a \<^emph>\<open>client\<close> for the contributors; the \<^emph>\<open>scripts\<close> of \<open>mpc/commands\<close> make keys and lists of contributors and start both.

  \<^bold>\<open>Conventions.\<close> The models are functions with the names of the source. An exception is
  a value of \<open>py_error\<close>; \<open>'a res\<close> is an outcome. Code that changes state returns the state next to the outcome
  (\<open>bindS\<close>), since an exception does not undo what was done before it. Python integers are \<open>int\<close>,
  bytes are lists of \<open>8 word\<close>, digests \<open>256 word\<close> and \<open>512 word\<close>, texts are \<open>string\<close>, JSON
  values \<open>json\<close>. Floats are kept where the code computes with them: \<open>int(a / b)\<close> rounds to a double
  before it truncates (\<open>Py_Float\<close>), and times are doubles (\<open>Py_Double\<close>). Third-party
  packages (web3, eth_abi, cryptography, py_ecc, ecdsa, Keccak) are records of functions; what a
  theorem needs of them is a named predicate with their documented behaviour
  (\<open>enc_lib_laws\<close>, \<open>ecdsa_laws\<close>, \<open>to_wei_law\<close>, \<open>getLogs_law\<close>, \<open>tool_laws\<close>, \<open>output_law\<close>), which a concrete instance
  satisfies. Random values are arguments.

  \<^bold>\<open>The theories, and the files they model.\<close>

  \<^item> \<open>Prelude\<close>, \<open>Py_Text\<close>, \<open>Py_Float\<close>, \<open>Py_Double\<close>, \<open>Py_Json\<close>, \<open>Py_Csv\<close>: what the sources use of Python:
    outcomes, indexing, generators, big-endian bytes, \<open>int(s, base)\<close>, hexadecimal text,
    division, doubles, dictionaries, CSV files.
  \<^item> \<open>Utils\<close> (\<open>core/constants.py\<close>, \<open>core/utils.py\<close>): Ether amounts and Zeth units, 256-bit words of a hexadecimal
    string, message serialisation. Lemmas: round trips, and the unit from which the float division loses value.
  \<^item> \<open>Merkle_Tree\<close> (\<open>core/merkle_tree.py\<close>): the state is the layers with their pending leaves, the
    operations \<open>insert\<close>, \<open>recompute_root\<close>, paths, JSON and the persistent tree. \<open>tree_of\<close> is the
    abstraction: any sequence of operations refines a tree computed from scratch, paths
    authenticate leaves, and overfull trees raise. The locale \<open>ITreeHash\<close> is the interface to the hash.
  \<^item> \<open>Mimc\<close> (\<open>core/mimc.py\<close>, \<open>core/input_hasher.py\<close>): permutation, round constants and input hasher; it
    interprets \<open>ITreeHash\<close> with the hashes of both pairings.
  \<^item> \<open>Zeth_Note\<close> (\<open>core/proto_utils.py\<close>, \<open>core/ownership.py\<close>), \<open>Encryption\<close> (\<open>core/encryption.py\<close>,
    \<open>core/zeth_address.py\<close>), \<open>Signing\<close> (\<open>core/signing.py\<close>), \<open>Pairing\<close> (\<open>core/pairing.py\<close>): encodings with
    their round trips; decryption returns the note or refuses a changed ciphertext; signatures verify, and are malleable.
  \<^item> \<open>Zksnark\<close> (\<open>core/zksnark.py\<close>): both proof systems; the locale \<open>snark_provider\<close> states what the
    client needs of a provider and is interpreted with each.
  \<^item> \<open>Contracts\<close> (\<open>core/contracts.py\<close>), \<open>Prover_Client\<close> (\<open>core/prover_client.py\<close>), \<open>Mixer_Client\<close>
    (\<open>core/mixer_client.py\<close>): transactions and batched event queries, the cached configuration, and mix calls from their description to
    the signed parameters and back from events to notes. Lemmas: batching equals one pass over
    the blocks, calls are padded to two inputs and outputs, the signature verifies on the digest, notes are
    delivered to their receivers.
  \<^item> \<open>Mix_Call\<close>: a call of well-formed inputs is always built, up to the signature. \<open>Payment\<close>: the call, the event
    of the mixer (\<open>mixer_emits\<close>) and the sync of a wallet together: outputs arrive and inputs are spent.
  \<^item> \<open>Scenario\<close> (\<open>test_commands/scenario.py\<close>, \<open>mock.py\<close>): the honest calls and the attacks of the test scenarios, against a mixer
    that checks signature and \<open>h_sig\<close> (\<open>mixer_checks\<close>). \<open>Timer\<close> (\<open>core/timer.py\<close>).
  \<^item> \<open>Wallet\<close> (\<open>core/wallet.py\<close>), \<open>Sync\<close> (\<open>do_sync\<close> of \<open>cli/utils.py\<close>): \<open>wallet_rel\<close> relates a wallet to its lists of unspent and
    spent notes; finding, receiving, spending and a whole sync refine the operations on these lists.
  \<^item> \<open>Cli_Utils\<close> (\<open>cli/utils.py\<close>, \<open>cli/constants.py\<close>), \<open>Cli_Commands\<close> (the commands of \<open>cli\<close>), \<open>Cli_Helpers\<close> (the commands of
    \<open>helper\<close> and the test token): files of addresses, keys and descriptions, and the commands on them. Lemmas: what
    is written is read back; a mix goes on exactly if the values balance.
  \<^item> \<open>Mpc_Crypto\<close>, \<open>Contributors\<close>, \<open>Server_Configuration\<close>, \<open>Server_State\<close>, \<open>Upload_Utils\<close>, \<open>Mpc_Commands\<close>
    (the files of \<open>mpc/coordinator\<close> with these names, and \<open>powersoftau_command.py\<close>,
    \<open>powersoftau_process_command.py\<close>): keys and signatures, turns and deadlines, uploads that arrive in pieces, command lines.
  \<^item> \<open>Contribution_Handlers\<close> (\<open>icontributionhandler.py\<close> and its implementations): the locale
    \<open>contribution_handler\<close> is the contract between server and handler, interpreted three times;
    the transcript of phase 1 has exactly the accepted responses.
  \<^item> \<open>Coordinator_Server\<close> (\<open>server.py\<close>): the handlers of the requests and \<open>server_step\<close>, the interleaving of requests, ticks and
    the processing thread. \<open>Coordinator_Client\<close> (\<open>client.py\<close>, \<open>contribute.py\<close>). \<open>Coordinator\<close>: the
    invariant of every reachable state, authentication, completion, and that uploads of the client are accepted.
    \<open>Server_Startup\<close> (\<open>server.py\<close>): the thread of the web server, the waiting for it, and mail; waiting ends exactly if the thread gets there.
  \<^item> \<open>Mpc_Scripts\<close> (\<open>mpc/commands\<close>): keys, the form of the contributors, the preparation of phase 2, contributing and starting servers.
    Lemmas: generated keys pass the form and the check of the server, and a prepared directory is one the handler starts in.
  \<^item> \<open>Interval\<close> (\<open>interval.py\<close>): the interval thread and \<open>stop\<close> as steps on a re-entrant lock.
  \<^item> \<open>R1cs_Analyser\<close> (\<open>debug/analyzer/parse_r1cs.py\<close>): the search for constraints, equal to a filter over the exported system.

  \<^bold>\<open>Termination.\<close> Loops over data are structurally recursive or have a measure; there is no
  fuel. Four loops need not end and are partial functions with \<open>None\<close> for not returning: the
  batched event query (it ends for every batch size that is not negative, and is shown not to
  for a negative one), the two polling loops of the contributor, which depend on the
  server's answers, and the loops that wait for the server thread. The steps of server and interval thread are inductive relations.

  \<^bold>\<open>Bounds.\<close> The value in a note has 64 bits, amounts are below \<open>2 ^ 256\<close> Wei as in \<open>Web3.toWei\<close>,
  units convert exactly below \<open>2 ^ 53\<close>, and the tree has \<open>2 ^ 32\<close> leaves. Theorems that need such a bound state it.

  \<^bold>\<open>Simplifications.\<close> Characters are the 256 of \<open>char\<close>. Files are maps from the names
  used to contents, so that two spellings of a path are two files, and the cache file of the prover
  configuration is kept apart from the others. Glob patterns have \<open>*\<close> and \<open>?\<close>. Infinite and not-a-number doubles are not
  represented. The web server handles one request at a time, as configured in \<open>server.py\<close>. Console output is left out, except for the
  values printed, and the server keeps its mails as messages.

  \<^bold>\<open>Not modelled.\<close> \<open>libzeth\<close>, the prover server, the MPC tools and the contracts are C++ and Solidity: their
  answers are arguments here. The entry points of the tests (\<open>test_ether_mixing.py\<close>, \<open>test_erc_token_mixing.py\<close>, \<open>test_mimc_contract.py\<close>) run the scenarios in
  turn against a live node. What is left of the modelled files are wrappers of package functions (\<open>eth_abi\<close>, \<open>eth_keys\<close>,
  \<open>solcx\<close>, \<open>web3\<close>), the text forms of JSON documents, console output, logging and package metadata.
\<close>

end
